(* ===== verification/Go_Prelude.thy ===== *)
theory Go_Prelude
  imports Main "HOL-Library.AList" "HOL-Library.Char_ord" "HOL-Library.List_Lexorder"
begin

text \<open>
  The part of Go and of its standard library that the program uses, and the lemmas every component
  shares.  It holds three groups of definitions.

  \<^item> Programs: a Go function with effects is a function from the world it runs in to an outcome and the
    world it leaves.  The outcome is a value, an error, a panic, or \<open>Blocked\<close> for a call that never
    returns.  Effects made before an error stay in the world, as they do in Go.
  \<^item> The packages \<open>strings\<close>, \<open>strconv\<close> and \<open>fmt\<close> on byte strings.  Case folding and white space are those of
    the ASCII bytes.
  \<^item> The package \<open>path/filepath\<close> of the Unix builds.
\<close>

named_theorems prog_defs \<open>definitions of the program combinators\<close>
named_theorems frame_rules \<open>calls that leave a given file alone\<close>

section \<open>Programs with outcomes\<close>

datatype ('e, 'a) result = Ok 'a | Err 'e | Panic string | Blocked

type_synonym ('w, 'e, 'a) prog = "'w \<Rightarrow> ('e, 'a) result \<times> 'w"

definition ret :: "'a \<Rightarrow> ('w, 'e, 'a) prog" where
  "ret x = (\<lambda>w. (Ok x, w))"

definition throw :: "'e \<Rightarrow> ('w, 'e, 'a) prog" where
  "throw e = (\<lambda>w. (Err e, w))"

definition panic :: "string \<Rightarrow> ('w, 'e, 'a) prog" where
  "panic s = (\<lambda>w. (Panic s, w))"

definition blocked :: "('w, 'e, 'a) prog" where
  "blocked = (\<lambda>w. (Blocked, w))"

text \<open>Sequencing: \<open>x, err := m(); if err != nil { return err }; f(x)\<close>.\<close>

definition bindP :: "('w, 'e, 'a) prog \<Rightarrow> ('a \<Rightarrow> ('w, 'e, 'b) prog) \<Rightarrow> ('w, 'e, 'b) prog" where
  "bindP m f = (\<lambda>w. case m w of
       (Ok x, w') \<Rightarrow> f x w'
     | (Err e, w') \<Rightarrow> (Err e, w')
     | (Panic s, w') \<Rightarrow> (Panic s, w')
     | (Blocked, w') \<Rightarrow> (Blocked, w'))"

text \<open>\<open>x, err := m()\<close> with both results kept: the error is a value of the sum.\<close>

definition tryP :: "('w, 'e, 'a) prog \<Rightarrow> ('w, 'e, 'e + 'a) prog" where
  "tryP m = (\<lambda>w. case m w of
       (Ok x, w') \<Rightarrow> (Ok (Inr x), w')
     | (Err e, w') \<Rightarrow> (Ok (Inl e), w')
     | (Panic s, w') \<Rightarrow> (Panic s, w')
     | (Blocked, w') \<Rightarrow> (Blocked, w'))"

text \<open>\<open>if err := m(); err != nil { return h(err) }\<close>: the error is rewritten, usually wrapped.\<close>

definition wrapErr :: "('e \<Rightarrow> 'f) \<Rightarrow> ('w, 'e, 'a) prog \<Rightarrow> ('w, 'f, 'a) prog" where
  "wrapErr h m = (\<lambda>w. case m w of
       (Ok x, w') \<Rightarrow> (Ok x, w')
     | (Err e, w') \<Rightarrow> (Err (h e), w')
     | (Panic s, w') \<Rightarrow> (Panic s, w')
     | (Blocked, w') \<Rightarrow> (Blocked, w'))"

text \<open>\<open>defer d()\<close>: the cleanup runs on every way out, and its own outcome is dropped.\<close>

definition deferP :: "('w \<Rightarrow> 'w) \<Rightarrow> ('w, 'e, 'a) prog \<Rightarrow> ('w, 'e, 'a) prog" where
  "deferP d m = (\<lambda>w. case m w of (r, w') \<Rightarrow> (r, if r = Blocked then w' else d w'))"

definition getW :: "('w, 'e, 'w) prog" where
  "getW = (\<lambda>w. (Ok w, w))"

definition modifyW :: "('w \<Rightarrow> 'w) \<Rightarrow> ('w, 'e, unit) prog" where
  "modifyW f = (\<lambda>w. (Ok (), f w))"

text \<open>\<open>for _, x := range xs { ... }\<close> whose body may return early with an error.\<close>

fun forEach :: "'a list \<Rightarrow> ('a \<Rightarrow> ('w, 'e, unit) prog) \<Rightarrow> ('w, 'e, unit) prog" where
  "forEach [] f = ret ()"
| "forEach (x # xs) f = bindP (f x) (\<lambda>_. forEach xs f)"

lemmas prog_basic [prog_defs] =
  ret_def throw_def panic_def blocked_def bindP_def tryP_def wrapErr_def deferP_def getW_def modifyW_def

lemma ret_apply: "ret x w = (Ok x, w)"
  by (simp add: ret_def)

lemma throw_apply: "throw e w = (Err e, w)"
  by (simp add: throw_def)

lemma bindP_ret [simp]: "bindP (ret x) f = f x"
  by (simp add: prog_defs)

lemma bindP_ret_right [simp]: "bindP m ret = m"
  by (auto simp: prog_defs fun_eq_iff split: prod.splits result.splits)

lemma bindP_assoc: "bindP (bindP m f) g = bindP m (\<lambda>x. bindP (f x) g)"
  by (auto simp: prog_defs fun_eq_iff split: prod.splits result.splits)

lemma bindP_throw [simp]: "bindP (throw e) f = throw e"
  by (simp add: prog_defs)

lemma bindP_Ok: "m w = (Ok x, w') \<Longrightarrow> bindP m f w = f x w'"
  by (simp add: bindP_def)

lemma bindP_Err: "m w = (Err e, w') \<Longrightarrow> bindP m f w = (Err e, w')"
  by (simp add: bindP_def)

lemma bindP_Panic: "m w = (Panic e, w') \<Longrightarrow> bindP m f w = (Panic e, w')"
  by (simp add: bindP_def)

lemma bindP_OkE:
  assumes "bindP m f w = (Ok y, w')"
  obtains x w1 where "m w = (Ok x, w1)" "f x w1 = (Ok y, w')"
  using assms by (auto simp: bindP_def split: prod.splits result.splits)

lemma tryP_cases:
  "tryP m w = (case m w of
       (Ok x, w') \<Rightarrow> (Ok (Inr x), w') | (Err e, w') \<Rightarrow> (Ok (Inl e), w')
     | (Panic s, w') \<Rightarrow> (Panic s, w') | (Blocked, w') \<Rightarrow> (Blocked, w'))"
  by (simp add: tryP_def)

lemma forEach_append: "forEach (xs @ ys) f = bindP (forEach xs f) (\<lambda>_. forEach ys f)"
  by (induction xs) (simp_all add: bindP_assoc)

text \<open>A run that ends with a value.\<close>

fun isOk :: "('e, 'a) result \<Rightarrow> bool" where
  "isOk (Ok x) = True"
| "isOk r = False"

lemma isOkE: "isOk (fst p) \<Longrightarrow> (\<And>x w. p = (Ok x, w) \<Longrightarrow> thesis) \<Longrightarrow> thesis"
  by (cases p; cases "fst p") auto

section \<open>The package strings\<close>

definition HasPrefix :: "string \<Rightarrow> string \<Rightarrow> bool" where
  "HasPrefix s p \<longleftrightarrow> take (length p) s = p"

text \<open>The text before and after the first occurrence of a separator (\<open>strings.Index\<close> and the slices).\<close>

fun cutAt :: "string \<Rightarrow> string \<Rightarrow> (string \<times> string) option" where
  "cutAt sep [] = (if sep = [] then Some ([], []) else None)"
| "cutAt sep (c # cs) =
     (if HasPrefix (c # cs) sep then Some ([], drop (length sep) (c # cs))
      else map_option (\<lambda>(a, b). (c # a, b)) (cutAt sep cs))"

definition Index :: "string \<Rightarrow> string \<Rightarrow> nat option" where
  "Index s sub = map_option (\<lambda>(a, b). length a) (cutAt sub s)"

definition Contains :: "string \<Rightarrow> string \<Rightarrow> bool" where
  "Contains s sub \<longleftrightarrow> cutAt sub s \<noteq> None"

lemma cutAt_Some: "cutAt sep s = Some (a, b) \<Longrightarrow> s = a @ sep @ b"
proof (induction s arbitrary: a b)
  case Nil
  then show ?case by (auto split: if_splits)
next
  case (Cons c cs)
  show ?case
  proof (cases "HasPrefix (c # cs) sep")
    case True
    with Cons.prems show ?thesis
      by (metis HasPrefix_def Pair_inject append_Nil append_take_drop_id cutAt.simps(2) option.inject)
  next
    case False
    with Cons show ?thesis by auto
  qed
qed

lemma cutAt_length: "cutAt sep s = Some (a, b) \<Longrightarrow> sep \<noteq> [] \<Longrightarrow> length b < length s"
  by (auto dest: cutAt_Some)

lemma HasPrefix_append [simp]: "HasPrefix (p @ s) p"
  by (simp add: HasPrefix_def)

lemma HasPrefix_iff: "HasPrefix s p \<longleftrightarrow> (\<exists>t. s = p @ t)"
  by (metis HasPrefix_append HasPrefix_def append_take_drop_id)

lemma Contains_iff: "Contains s sub \<longleftrightarrow> (\<exists>a b. s = a @ sub @ b)"
proof
  assume "Contains s sub"
  then show "\<exists>a b. s = a @ sub @ b"
    by (auto simp: Contains_def dest: cutAt_Some)
next
  assume "\<exists>a b. s = a @ sub @ b"
  then obtain a b where "s = a @ sub @ b" by blast
  then show "Contains s sub"
  proof (induction a arbitrary: s)
    case Nil
    then have "HasPrefix s sub" by simp
    then show ?case
      by (cases s) (auto simp: Contains_def HasPrefix_def)
  next
    case (Cons c a)
    then show ?case by (auto simp: Contains_def)
  qed
qed

lemma cutAt_single: "cutAt [c] s = (if c \<in> set s then Some (takeWhile (\<lambda>x. x \<noteq> c) s, tl (dropWhile (\<lambda>x. x \<noteq> c) s)) else None)"
  by (induction s) (auto simp: HasPrefix_def)

function Split :: "string \<Rightarrow> string \<Rightarrow> string list" where
  "Split s sep =
     (if sep = [] then map (\<lambda>c. [c]) s
      else case cutAt sep s of None \<Rightarrow> [s] | Some (a, b) \<Rightarrow> a # Split b sep)"
  by pat_completeness auto
termination
  by (relation "measure (\<lambda>(s, sep). length s)") (auto dest: cutAt_length)

declare Split.simps [simp del]

text \<open>\<open>strings.SplitN(s, sep, 2)\<close>.\<close>

definition SplitN2 :: "string \<Rightarrow> string \<Rightarrow> string list" where
  "SplitN2 s sep = (case cutAt sep s of None \<Rightarrow> [s] | Some (a, b) \<Rightarrow> [a, b])"

fun Join :: "string list \<Rightarrow> string \<Rightarrow> string" where
  "Join [] sep = []"
| "Join [x] sep = x"
| "Join (x # y # xs) sep = x @ sep @ Join (y # xs) sep"

lemma Split_not_Nil: "sep \<noteq> [] \<Longrightarrow> Split s sep \<noteq> []"
  by (subst Split.simps) (auto split: option.splits)

lemma Join_Cons: "xs \<noteq> [] \<Longrightarrow> Join (x # xs) sep = x @ sep @ Join xs sep"
  by (cases xs) auto

lemma Join_Split: "sep \<noteq> [] \<Longrightarrow> Join (Split s sep) sep = s"
proof (induction s sep rule: Split.induct)
  case (1 s sep)
  show ?case
  proof (cases "cutAt sep s")
    case None
    then show ?thesis using 1 by (subst Split.simps) simp
  next
    case (Some p)
    obtain a b where p: "p = (a, b)" by force
    have "Join (Split b sep) sep = b" using 1 Some p by simp
    moreover have "s = a @ sep @ b" using Some p by (auto dest: cutAt_Some)
    ultimately show ?thesis
      using Some p "1.prems" Split_not_Nil [of sep b]
      by (subst Split.simps) (simp add: Join_Cons)
  qed
qed

lemma Split_none: "sep \<noteq> [] \<Longrightarrow> \<not> Contains s sep \<Longrightarrow> Split s sep = [s]"
  by (subst Split.simps) (auto simp: Contains_def split: option.splits)

lemma takeWhile_until: "c \<notin> set a \<Longrightarrow> takeWhile (\<lambda>x. x \<noteq> c) (a @ c # b) = a"
  by (induction a) auto

lemma dropWhile_until: "c \<notin> set a \<Longrightarrow> dropWhile (\<lambda>x. x \<noteq> c) (a @ c # b) = c # b"
  by (induction a) auto

lemma cutAt_until: "c \<notin> set a \<Longrightarrow> cutAt [c] (a @ c # b) = Some (a, b)"
  by (simp add: cutAt_single takeWhile_until dropWhile_until)

lemma Split_single_step:
  "c \<notin> set a \<Longrightarrow> Split (a @ c # b) [c] = a # Split b [c]"
  by (subst Split.simps) (simp add: cutAt_until)

lemma Split_single_none: "c \<notin> set s \<Longrightarrow> Split s [c] = [s]"
  by (subst Split.simps) (simp add: cutAt_single)

lemma SplitN2_single:
  "c \<notin> set a \<Longrightarrow> SplitN2 (a @ c # b) [c] = [a, b]"
  by (simp add: SplitN2_def cutAt_until)

definition isSpace :: "char \<Rightarrow> bool" where
  "isSpace c \<longleftrightarrow> c \<in> {CHR 0x09, CHR 0x0A, CHR 0x0B, CHR 0x0C, CHR 0x0D, CHR '' ''}"

definition TrimLeftF :: "(char \<Rightarrow> bool) \<Rightarrow> string \<Rightarrow> string" where
  "TrimLeftF p s = dropWhile p s"

definition TrimF :: "(char \<Rightarrow> bool) \<Rightarrow> string \<Rightarrow> string" where
  "TrimF p s = rev (dropWhile p (rev (dropWhile p s)))"

definition TrimSpace :: "string \<Rightarrow> string" where
  "TrimSpace s = TrimF isSpace s"

lemma TrimF_id:
  assumes "s \<noteq> [] \<Longrightarrow> \<not> p (hd s)" and "s \<noteq> [] \<Longrightarrow> \<not> p (last s)"
  shows "TrimF p s = s"
proof -
  have "dropWhile p s = s" using assms(1) by (cases s) auto
  moreover have "dropWhile p (rev s) = rev s" using assms(2) by (cases s rule: rev_cases) auto
  ultimately show ?thesis by (simp add: TrimF_def)
qed

definition toLowerC :: "char \<Rightarrow> char" where
  "toLowerC c = (if 65 \<le> (of_char c :: nat) \<and> (of_char c :: nat) \<le> 90
                 then char_of ((of_char c :: nat) + 32) else c)"

definition ToLower :: "string \<Rightarrow> string" where
  "ToLower s = map toLowerC s"

definition EqualFold :: "string \<Rightarrow> string \<Rightarrow> bool" where
  "EqualFold s t \<longleftrightarrow> ToLower s = ToLower t"

lemma toLowerC_idem [simp]: "toLowerC (toLowerC c) = toLowerC c"
proof (cases "65 \<le> (of_char c :: nat) \<and> (of_char c :: nat) \<le> 90")
  case True
  then have "of_char (toLowerC c) = (of_char c :: nat) + 32"
    by (auto simp: toLowerC_def)
  with True show ?thesis by (simp add: toLowerC_def)
next
  case False
  then show ?thesis by (auto simp: toLowerC_def)
qed

lemma ToLower_idem [simp]: "ToLower (ToLower s) = ToLower s"
  by (simp add: ToLower_def o_def)

lemma length_ToLower [simp]: "length (ToLower s) = length s"
  by (simp add: ToLower_def)

lemma EqualFold_refl [simp]: "EqualFold s s"
  by (simp add: EqualFold_def)

text \<open>\<open>strings.Replace(s, c, "", -1)\<close> for a one-byte \<open>c\<close>.\<close>

definition deleteAll :: "char \<Rightarrow> string \<Rightarrow> string" where
  "deleteAll c s = filter (\<lambda>x. x \<noteq> c) s"

text \<open>The lines a \<open>bufio.Scanner\<close> yields: the last one is dropped when it is empty, and one trailing
  carriage return is removed.\<close>

definition dropCR :: "string \<Rightarrow> string" where
  "dropCR s = (if s \<noteq> [] \<and> last s = CHR 0x0D then butlast s else s)"

definition scanLines :: "string \<Rightarrow> string list" where
  "scanLines s = (let ls = Split s [CHR 0x0A] in
                  map dropCR (if last ls = [] then butlast ls else ls))"

abbreviation nl :: string where
  "nl \<equiv> [CHR 0x0A]"

abbreviation dq :: string where
  "dq \<equiv> [CHR 0x22]"

section \<open>The packages strconv and fmt\<close>

definition digitC :: "nat \<Rightarrow> char" where
  "digitC d = char_of (48 + d)"

definition isDigit :: "char \<Rightarrow> bool" where
  "isDigit c \<longleftrightarrow> 48 \<le> (of_char c :: nat) \<and> (of_char c :: nat) \<le> 57"

definition digitVal :: "char \<Rightarrow> nat" where
  "digitVal c = of_char c - 48"

fun natDec :: "nat \<Rightarrow> string" where
  "natDec n = (if n < 10 then [digitC n] else natDec (n div 10) @ [digitC (n mod 10)])"

declare natDec.simps [simp del]

text \<open>\<open>strconv.Itoa\<close> and the verb \<open>%d\<close>.\<close>

definition Itoa :: "int \<Rightarrow> string" where
  "Itoa i = (if i < 0 then CHR ''-'' # natDec (nat (- i)) else natDec (nat i))"

fun decVal :: "nat \<Rightarrow> string \<Rightarrow> nat option" where
  "decVal acc [] = Some acc"
| "decVal acc (c # cs) = (if isDigit c then decVal (10 * acc + digitVal c) cs else None)"

definition parseDigits :: "string \<Rightarrow> nat option" where
  "parseDigits s = (if s = [] then None else decVal 0 s)"

definition maxInt64 :: int where
  "maxInt64 = 9223372036854775807"

definition minInt64 :: int where
  "minInt64 = - 9223372036854775808"

definition inInt64 :: "int \<Rightarrow> bool" where
  "inInt64 i \<longleftrightarrow> minInt64 \<le> i \<and> i \<le> maxInt64"

text \<open>\<open>strconv.Atoi\<close> and \<open>strconv.ParseInt(s, 10, 64)\<close>: an optional sign, decimal digits, and the range of
  a 64-bit integer.\<close>

definition Atoi :: "string \<Rightarrow> int option" where
  "Atoi s =
     (let v = (case s of
                 [] \<Rightarrow> None
               | c # cs \<Rightarrow>
                   (if c = CHR ''-'' then map_option (\<lambda>n. - int n) (parseDigits cs)
                    else if c = CHR ''+'' then map_option int (parseDigits cs)
                    else map_option int (parseDigits s)))
      in case v of None \<Rightarrow> None | Some i \<Rightarrow> if inInt64 i then Some i else None)"

lemma isDigit_digitC: "d < 10 \<Longrightarrow> isDigit (digitC d)"
  by (simp add: isDigit_def digitC_def)

lemma digitVal_digitC: "d < 10 \<Longrightarrow> digitVal (digitC d) = d"
  by (simp add: digitVal_def digitC_def)

lemma decVal_append: "decVal acc (xs @ ys) = (case decVal acc xs of None \<Rightarrow> None | Some v \<Rightarrow> decVal v ys)"
  by (induction xs arbitrary: acc) auto

lemma natDec_digits: "\<forall>c \<in> set (natDec n). isDigit c"
proof (induction n rule: natDec.induct)
  case (1 n)
  then show ?case
    by (subst natDec.simps) (auto simp: isDigit_digitC)
qed

lemma natDec_not_Nil [simp]: "natDec n \<noteq> []"
  by (subst natDec.simps) simp

lemma decVal_natDec: "decVal 0 (natDec n) = Some n"
proof (induction n rule: natDec.induct)
  case (1 n)
  show ?case
  proof (cases "n < 10")
    case True
    then show ?thesis
      by (subst natDec.simps) (simp add: isDigit_digitC digitVal_digitC)
  next
    case False
    with 1 have IH: "decVal 0 (natDec (n div 10)) = Some (n div 10)" by blast
    from False have "natDec n = natDec (n div 10) @ [digitC (n mod 10)]"
      by (subst natDec.simps) simp
    then show ?thesis
      by (simp add: decVal_append IH isDigit_digitC digitVal_digitC)
  qed
qed

lemma parseDigits_natDec [simp]: "parseDigits (natDec n) = Some n"
  by (simp add: parseDigits_def decVal_natDec)

lemma Atoi_Itoa: "inInt64 i \<Longrightarrow> Atoi (Itoa i) = Some i"
proof (cases "i < 0")
  case True
  then show "inInt64 i \<Longrightarrow> Atoi (Itoa i) = Some i"
    by (simp add: Atoi_def Itoa_def)
next
  case False
  obtain c cs where cs: "natDec (nat i) = c # cs"
    by (meson natDec_not_Nil neq_Nil_conv)
  then have "isDigit c" using natDec_digits [of "nat i"] by simp
  then have "c \<noteq> CHR ''-''" "c \<noteq> CHR ''+''" by (auto simp: isDigit_def)
  moreover have "parseDigits (c # cs) = Some (nat i)" using cs by (metis parseDigits_natDec)
  ultimately show "inInt64 i \<Longrightarrow> Atoi (Itoa i) = Some i"
    using False by (simp add: Atoi_def Itoa_def cs)
qed

text \<open>The verb \<open>%q\<close> on printable text: quotes around it, and a backslash before quotes and backslashes.\<close>

definition quoteC :: "char \<Rightarrow> string" where
  "quoteC c = (if c = CHR 0x22 \<or> c = CHR 0x5C then [CHR 0x5C, c]
               else if c = CHR 0x0A then [CHR 0x5C, CHR ''n'']
               else if c = CHR 0x0D then [CHR 0x5C, CHR ''r'']
               else if c = CHR 0x09 then [CHR 0x5C, CHR ''t'']
               else [c])"

definition Quote :: "string \<Rightarrow> string" where
  "Quote s = dq @ concat (map quoteC s) @ dq"

section \<open>The package path/filepath\<close>

abbreviation slash :: string where
  "slash \<equiv> ''/''"

text \<open>The lexical processing of \<open>filepath.Clean\<close>: the reversed list of kept elements is the first argument.\<close>

fun cleanElems :: "bool \<Rightarrow> string list \<Rightarrow> string list \<Rightarrow> string list" where
  "cleanElems rooted acc [] = rev acc"
| "cleanElems rooted acc (x # xs) =
     (if x = [] \<or> x = ''.'' then cleanElems rooted acc xs
      else if x = ''..'' then
        (case acc of
           [] \<Rightarrow> cleanElems rooted (if rooted then [] else [''..'']) xs
         | y # ys \<Rightarrow> cleanElems rooted (if y = ''..'' then x # acc else ys) xs)
      else cleanElems rooted (x # acc) xs)"

definition Clean :: "string \<Rightarrow> string" where
  "Clean p =
     (if p = [] then ''.''
      else let rooted = (hd p = CHR ''/'');
               out = Join (cleanElems rooted [] (Split p slash)) slash
           in if rooted then slash @ out else if out = [] then ''.'' else out)"

text \<open>\<open>filepath.Join\<close> skips leading empty elements.\<close>

definition pathJoin :: "string list \<Rightarrow> string" where
  "pathJoin xs = (case dropWhile (\<lambda>x. x = []) xs of [] \<Rightarrow> [] | ys \<Rightarrow> Clean (Join ys slash))"

definition uptoLastSlash :: "string \<Rightarrow> string" where
  "uptoLastSlash p = rev (dropWhile (\<lambda>c. c \<noteq> CHR ''/'') (rev p))"

definition pathDir :: "string \<Rightarrow> string" where
  "pathDir p = Clean (uptoLastSlash p)"

definition pathBase :: "string \<Rightarrow> string" where
  "pathBase p =
     (if p = [] then ''.''
      else let q = rev (dropWhile (\<lambda>c. c = CHR ''/'') (rev p))
           in if q = [] then slash else rev (takeWhile (\<lambda>c. c \<noteq> CHR ''/'') (rev q)))"

text \<open>A name that is one path element: not empty, no slash, and not a dot name.\<close>

definition plainElem :: "string \<Rightarrow> bool" where
  "plainElem x \<longleftrightarrow> x \<noteq> [] \<and> CHR ''/'' \<notin> set x \<and> x \<noteq> ''.'' \<and> x \<noteq> ''..''"

lemma Split_append_elem:
  "CHR ''/'' \<notin> set x \<Longrightarrow> Split (p @ slash @ x) slash = Split p slash @ [x]"
proof (induction "length p" arbitrary: p rule: less_induct)
  case less
  show ?case
  proof (cases "CHR ''/'' \<in> set p")
    case False
    then show ?thesis
      using less.prems by (simp add: Split_single_step Split_single_none)
  next
    case True
    then obtain a b where p: "p = a @ CHR ''/'' # b" and a: "CHR ''/'' \<notin> set a"
      by (meson split_list_first)
    have "Split (b @ slash @ x) slash = Split b slash @ [x]"
      using less p by simp
    then show ?thesis by (simp add: p Split_single_step [OF a])
  qed
qed

lemma cleanElems_append:
  "plainElem x \<Longrightarrow> cleanElems r acc (xs @ [x]) = cleanElems r acc xs @ [x]"
  by (induction r acc xs rule: cleanElems.induct) (auto simp: plainElem_def split: list.splits)

text \<open>Joining one more plain element onto a path appends it, whatever the path is.\<close>

lemma Join_snoc: "xs \<noteq> [] \<Longrightarrow> Join (xs @ [x]) sep = Join xs sep @ sep @ x"
proof (induction xs)
  case (Cons a xs)
  then show ?case by (cases xs) (auto simp: Join_Cons)
qed simp

lemma Join_snoc_not_Nil: "x \<noteq> [] \<Longrightarrow> Join (xs @ [x]) sep \<noteq> []"
  by (cases xs) (simp_all add: Join_snoc flip: append_Cons)

lemma Clean_append_elem:
  assumes x: "plainElem x" and y: "plainElem y" and p: "p \<noteq> []"
  shows "Clean (p @ slash @ y @ slash @ x) = Clean (p @ slash @ y) @ slash @ x"
proof -
  have ns: "CHR ''/'' \<notin> set x" "CHR ''/'' \<notin> set y" using x y by (auto simp: plainElem_def)
  let ?r = "hd p = CHR ''/''"
  let ?E = "cleanElems ?r [] (Split (p @ slash @ y) slash)"
  have E: "?E = cleanElems ?r [] (Split p slash) @ [y]"
    by (simp only: Split_append_elem [OF ns(2)] cleanElems_append [OF y])
  have "Split ((p @ slash @ y) @ slash @ x) slash = Split (p @ slash @ y) slash @ [x]"
    by (rule Split_append_elem [OF ns(1)])
  then have E2: "cleanElems ?r [] (Split (p @ slash @ y @ slash @ x) slash) = ?E @ [x]"
    using cleanElems_append [OF x, of ?r "[]" "Split (p @ slash @ y) slash"] by simp
  have "Join (?E @ [x]) slash = Join ?E slash @ slash @ x"
    by (rule Join_snoc) (simp only: E, simp)
  moreover have "Join ?E slash \<noteq> []"
    unfolding E using y by (intro Join_snoc_not_Nil) (simp add: plainElem_def)
  ultimately show ?thesis
    using p E2 by (cases "hd p = CHR ''/''") (simp_all add: Clean_def Let_def)
qed

lemma natDec_inj: "natDec m = natDec n \<Longrightarrow> m = n"
  by (metis decVal_natDec option.inject)

end
