(* ===== verification/Core_Types.thy ===== *)
theory Core_Types
  imports Go_Prelude
begin

text \<open>
  The vocabulary of the program: machine states (\<open>libmachine/state\<close>), the errors the packages return and
  their messages (\<open>libmachine/mcnerror\<close> and the sentinel values of the other packages), driver flags
  (\<open>libmachine/mcnflag\<close>), the action enumerations of the provisioners, the option records that are stored
  with a machine (\<open>libmachine/auth\<close>, \<open>libmachine/engine\<close>) and the format versions.
\<close>

section \<open>Machine states\<close>

datatype state = StNone | Running | Paused | Saved | Stopped | Stopping | Starting | StError | StTimeout

definition states :: "string list" where
  "states = [[], ''Running'', ''Paused'', ''Saved'', ''Stopped'', ''Stopping'', ''Starting'', ''Error'',
             ''Timeout'']"

fun stateCode :: "state \<Rightarrow> int" where
  "stateCode StNone = 0"
| "stateCode Running = 1"
| "stateCode Paused = 2"
| "stateCode Saved = 3"
| "stateCode Stopped = 4"
| "stateCode Stopping = 5"
| "stateCode Starting = 6"
| "stateCode StError = 7"
| "stateCode StTimeout = 8"

text \<open>\<open>State.String\<close>: the type is an integer, so the table is guarded on both sides.\<close>

definition stateString :: "int \<Rightarrow> string" where
  "stateString s = (if 0 \<le> s \<and> s < int (length states) then states ! nat s else [])"

definition State_String :: "state \<Rightarrow> string" where
  "State_String s = stateString (stateCode s)"

instantiation state :: linorder
begin

definition less_eq_state :: "state \<Rightarrow> state \<Rightarrow> bool" where
  "less_eq_state a b \<longleftrightarrow> stateCode a \<le> stateCode b"

definition less_state :: "state \<Rightarrow> state \<Rightarrow> bool" where
  "less_state a b \<longleftrightarrow> stateCode a < stateCode b"

instance
proof
  fix x y z :: state
  show "x < y \<longleftrightarrow> x \<le> y \<and> \<not> y \<le> x"
    by (auto simp: less_eq_state_def less_state_def)
  show "x \<le> x" by (simp add: less_eq_state_def)
  show "x \<le> y \<Longrightarrow> y \<le> z \<Longrightarrow> x \<le> z" by (simp add: less_eq_state_def)
  show "x \<le> y \<Longrightarrow> y \<le> x \<Longrightarrow> x = y"
    unfolding less_eq_state_def by (cases x; cases y; simp)
  show "x \<le> y \<or> y \<le> x" by (auto simp: less_eq_state_def)
qed

end

section \<open>Errors\<close>

text \<open>
  Error values the program tells apart by type or by identity have a constructor of their own; every other
  error made with \<open>errors.New\<close> or \<open>fmt.Errorf\<close> is an \<open>ErrorString\<close>.  \<open>OsNotExist\<close> is the class of errors for
  which \<open>os.IsNotExist\<close> holds.
\<close>

datatype gerror =
    ErrorString string
  | OsNotExist string
  | OsErr string
  | ErrHostDoesNotExist string
  | ErrHostAlreadyExists string
  | ErrDuringPreCreate gerror
  | ErrHostAlreadyInState string state
  | NotSupported string
  | NotLoadable string
  | ErrPluginBinaryNotFound string string
  | ErrDaemonAvailable gerror
  | ErrMachineNotExist
  | ExecNotFound

type_synonym ('w, 'a) io = "('w, gerror, 'a) prog"

fun Error :: "gerror \<Rightarrow> string" where
  "Error (ErrorString s) = s"
| "Error (OsNotExist p) = ''open '' @ p @ '': no such file or directory''"
| "Error (OsErr s) = s"
| "Error (ErrHostDoesNotExist n) = ''Podman machine '' @ Quote n @ '' does not exist. Use '' @ Quote ''podman-machine ls''
     @ '' to list machines. Use '' @ Quote ''podman-machine create'' @ '' to add a new one.''"
| "Error (ErrHostAlreadyExists n) = ''Podman machine '' @ Quote n @ '' already exists''"
| "Error (ErrDuringPreCreate c) = ''Error with pre-create check: '' @ Quote (Error c)"
| "Error (ErrHostAlreadyInState n s) = ''Machine '' @ Quote n @ '' is already '' @ ToLower (State_String s) @ ''.''"
| "Error (NotSupported d) = ''Driver '' @ Quote d @ '' not supported on this platform.''"
| "Error (NotLoadable d) = ''Driver '' @ Quote d @ '' not found. Do you have the plugin binary accessible in your PATH?''"
| "Error (ErrPluginBinaryNotFound d p) = ''Driver '' @ Quote d @ '' not found. Do you have the plugin binary '' @ Quote p @ '' accessible in your PATH?''"
| "Error (ErrDaemonAvailable e) = ''Unable to verify the Podman daemon is listening: '' @ Error e"
| "Error ErrMachineNotExist = ''machine does not exist''"
| "Error ExecNotFound = ''executable file not found in $PATH''"

definition errorf :: "string \<Rightarrow> gerror \<Rightarrow> gerror" where
  "errorf msg e = ErrorString (msg @ Error e)"

fun isNotExist :: "gerror \<Rightarrow> bool" where
  "isNotExist (OsNotExist p) = True"
| "isNotExist e = False"

definition ErrInvalidHostname :: gerror where
  "ErrInvalidHostname = ErrorString ''Invalid hostname specified. Allowed hostname chars are: 0-9a-zA-Z . -''"

definition ErrHostIsNotRunning :: gerror where
  "ErrHostIsNotRunning = ErrorString ''Host is not running''"

definition MultiError_Error :: "gerror list \<Rightarrow> string" where
  "MultiError_Error es = foldl (\<lambda>agg e. agg @ Error e @ nl) [] es"

section \<open>Driver flags\<close>

text \<open>\<open>Name\<close>, \<open>Usage\<close>, \<open>EnvVar\<close> and, for all but booleans, the default \<open>Value\<close>.\<close>

datatype mcnflag =
    StringFlag string string string string
  | StringSliceFlag string string string "string list"
  | IntFlag string string string int
  | BoolFlag string string string

text \<open>The values an \<open>interface{}\<close> holds where flags are passed around.\<close>

datatype flagval = VString string | VSlice "string list" | VInt int | VBool bool | VNil

fun Flag_String :: "mcnflag \<Rightarrow> string" where
  "Flag_String (StringFlag n u e v) = n"
| "Flag_String (StringSliceFlag n u e vs) = n"
| "Flag_String (IntFlag n u e i) = n"
| "Flag_String (BoolFlag n u e) = n"

fun Flag_Default :: "mcnflag \<Rightarrow> flagval" where
  "Flag_Default (StringFlag n u e v) = VString v"
| "Flag_Default (StringSliceFlag n u e vs) = VSlice vs"
| "Flag_Default (IntFlag n u e i) = VInt i"
| "Flag_Default (BoolFlag n u e) = VNil"

text \<open>\<open>drivers.DriverOptions\<close>: the four typed getters.\<close>

record driverOptions =
  optString :: "string \<Rightarrow> string"
  optStringSlice :: "string \<Rightarrow> string list"
  optInt :: "string \<Rightarrow> int"
  optBool :: "string \<Rightarrow> bool"

section \<open>Actions of the provisioners\<close>

datatype packageAction = PkgInstall | PkgRemove | PkgUpgrade | PkgPurge

fun PackageAction_String :: "packageAction \<Rightarrow> string" where
  "PackageAction_String PkgInstall = ''install''"
| "PackageAction_String PkgRemove = ''remove''"
| "PackageAction_String PkgUpgrade = ''upgrade''"
| "PackageAction_String PkgPurge = ''purge''"

datatype serviceAction = SvcRestart | SvcStart | SvcStop | SvcEnable | SvcDisable | SvcDaemonReload

fun ServiceAction_String :: "serviceAction \<Rightarrow> string" where
  "ServiceAction_String SvcRestart = ''restart''"
| "ServiceAction_String SvcStart = ''start''"
| "ServiceAction_String SvcStop = ''stop''"
| "ServiceAction_String SvcEnable = ''enable''"
| "ServiceAction_String SvcDisable = ''disable''"
| "ServiceAction_String SvcDaemonReload = ''daemon-reload''"

section \<open>Stored options\<close>

record authOptions =
  CertDir :: string
  CaCertPath :: string
  CaPrivateKeyPath :: string
  CaCertRemotePath :: string
  ServerCertPath :: string
  ServerKeyPath :: string
  ClientKeyPath :: string
  ServerCertRemotePath :: string
  ServerKeyRemotePath :: string
  ClientCertPath :: string
  ServerCertSANs :: "string list"
  auth_StorePath :: string

record engineOptions =
  ArbitraryFlags :: "string list"
  DNS :: "string list"
  GraphDir :: string
  engine_Env :: "string list"
  Ipv6 :: bool
  InsecureRegistry :: "string list"
  Labels :: "string list"
  LogLevel :: string
  StorageDriver :: string
  SelinuxEnabled :: bool
  TLSVerify :: bool
  RegistryMirror :: "string list"
  InstallURL :: string

definition zeroAuthOptions :: authOptions where
  "zeroAuthOptions = \<lparr>CertDir = [], CaCertPath = [], CaPrivateKeyPath = [], CaCertRemotePath = [], ServerCertPath = [],
     ServerKeyPath = [], ClientKeyPath = [], ServerCertRemotePath = [], ServerKeyRemotePath = [], ClientCertPath = [],
     ServerCertSANs = [], auth_StorePath = []\<rparr>"

definition zeroEngineOptions :: engineOptions where
  "zeroEngineOptions = \<lparr>ArbitraryFlags = [], DNS = [], GraphDir = [], engine_Env = [], Ipv6 = False, InsecureRegistry = [],
     Labels = [], LogLevel = [], StorageDriver = [], SelinuxEnabled = False, TLSVerify = False, RegistryMirror = [],
     InstallURL = []\<rparr>"

definition APIVersion :: int where
  "APIVersion = 1"

definition ConfigVersion :: int where
  "ConfigVersion = 3"

section \<open>Lemmas\<close>

text \<open>The printed state determines the state: the \<open>ls\<close> filter on states compares printed forms.\<close>

lemma State_String_inj: "State_String s = State_String t \<Longrightarrow> s = t"
  by (cases s; cases t) (simp_all add: State_String_def stateString_def states_def)

lemma isNotExist_iff: "isNotExist e \<longleftrightarrow> (\<exists>p. e = OsNotExist p)"
  by (cases e) auto

end
