(* ===== verification/Os_Model.thy ===== *)
theory Os_Model
  imports Core_Types
begin

text \<open>
  The operating system as the program sees it: a file tree, the environment, standard output and a supply
  of random numbers, with the calls of \<open>os\<close> and \<open>io/ioutil\<close> that the program makes.

  Any call may fail for a reason outside the model (permissions, a full disk).  The field \<open>faults\<close> says for
  each of the next calls whether it fails; it is part of the state, so a theorem about all states speaks of
  every pattern of failures.  The record is extensible: the components that talk to outside services keep
  the state of those services in the extension.
\<close>

datatype node = Dir | File nat string

record os_world =
  fs :: "(string \<times> node) list"
  faults :: "string option list"
  environ :: "(string \<times> string) list"
  stdout :: "string list"
  randoms :: "nat list"

section \<open>The calls\<close>

definition osCall :: "('v os_world_scheme, 'a) io \<Rightarrow> ('v os_world_scheme, 'a) io" where
  "osCall m = (\<lambda>w. case faults w of
       [] \<Rightarrow> m w
     | None # fl \<Rightarrow> m (w\<lparr>faults := fl\<rparr>)
     | Some s # fl \<Rightarrow> (Err (OsErr s), w\<lparr>faults := fl\<rparr>))"

definition lookupFs :: "'v os_world_scheme \<Rightarrow> string \<Rightarrow> node option" where
  "lookupFs w p = map_of (fs w) p"

definition putNode :: "string \<Rightarrow> node \<Rightarrow> 'v os_world_scheme \<Rightarrow> 'v os_world_scheme" where
  "putNode p n w = w\<lparr>fs := AList.update p n (fs w)\<rparr>"

definition delNode :: "string \<Rightarrow> 'v os_world_scheme \<Rightarrow> 'v os_world_scheme" where
  "delNode p w = w\<lparr>fs := AList.delete p (fs w)\<rparr>"

text \<open>The directory that holds the last element of a path.\<close>

definition parentOf :: "string \<Rightarrow> string" where
  "parentOf p = (let q = uptoLastSlash p in
                 if q = [] then ''.'' else if butlast q = [] then slash else butlast q)"

definition isDirAt :: "'v os_world_scheme \<Rightarrow> string \<Rightarrow> bool" where
  "isDirAt w p \<longleftrightarrow> p = slash \<or> p = ''.'' \<or> lookupFs w p = Some Dir"

definition osStat :: "string \<Rightarrow> ('v os_world_scheme, node) io" where
  "osStat p = osCall (\<lambda>w. case lookupFs w p of
       None \<Rightarrow> (Err (OsNotExist p), w) | Some n \<Rightarrow> (Ok n, w))"

definition readFile :: "string \<Rightarrow> ('v os_world_scheme, string) io" where
  "readFile p = osCall (\<lambda>w. case lookupFs w p of
       None \<Rightarrow> (Err (OsNotExist p), w)
     | Some Dir \<Rightarrow> (Err (OsErr ''is a directory''), w)
     | Some (File m s) \<Rightarrow> (Ok s, w))"

text \<open>Opening for writing: a new file gets the permission bits, an existing one is emptied and keeps its own.\<close>

definition openTrunc :: "string \<Rightarrow> nat \<Rightarrow> ('v os_world_scheme, unit) io" where
  "openTrunc p perm = osCall (\<lambda>w. case lookupFs w p of
       Some Dir \<Rightarrow> (Err (OsErr ''is a directory''), w)
     | Some (File m s) \<Rightarrow> (Ok (), putNode p (File m []) w)
     | None \<Rightarrow> (if isDirAt w (parentOf p) then (Ok (), putNode p (File perm []) w)
                else (Err (OsNotExist p), w)))"

definition writeData :: "string \<Rightarrow> string \<Rightarrow> ('v os_world_scheme, unit) io" where
  "writeData p d = osCall (\<lambda>w. case lookupFs w p of
       Some (File m s) \<Rightarrow> (Ok (), putNode p (File m d) w)
     | _ \<Rightarrow> (Err (OsErr ''bad file descriptor''), w))"

text \<open>\<open>ioutil.WriteFile\<close>: it opens and then writes, so a failed write leaves the file empty.\<close>

definition writeFile :: "string \<Rightarrow> string \<Rightarrow> nat \<Rightarrow> ('v os_world_scheme, unit) io" where
  "writeFile p d perm = bindP (openTrunc p perm) (\<lambda>_. writeData p d)"

definition isUnder :: "string \<Rightarrow> string \<Rightarrow> bool" where
  "isUnder d p \<longleftrightarrow> HasPrefix p (d @ slash)"

definition osRemove :: "string \<Rightarrow> ('v os_world_scheme, unit) io" where
  "osRemove p = osCall (\<lambda>w. case lookupFs w p of
       None \<Rightarrow> (Err (OsNotExist p), w)
     | Some Dir \<Rightarrow> (if \<exists>(q, n) \<in> set (fs w). isUnder p q then (Err (OsErr ''directory not empty''), w)
                    else (Ok (), delNode p w))
     | Some (File m s) \<Rightarrow> (Ok (), delNode p w))"

text \<open>\<open>os.Rename\<close> of a file onto a path that is not a directory.\<close>

definition osRename :: "string \<Rightarrow> string \<Rightarrow> ('v os_world_scheme, unit) io" where
  "osRename p q = osCall (\<lambda>w. case lookupFs w p of
       Some (File m s) \<Rightarrow>
         (if lookupFs w q = Some Dir \<or> \<not> isDirAt w (parentOf q) then (Err (OsErr ''rename''), w)
          else (Ok (), putNode q (File m s) (delNode p w)))
     | Some Dir \<Rightarrow> (Err (OsErr ''rename''), w)
     | None \<Rightarrow> (Err (OsNotExist p), w))"

definition osMkdir :: "string \<Rightarrow> ('v os_world_scheme, unit) io" where
  "osMkdir p = osCall (\<lambda>w. if lookupFs w p \<noteq> None then (Err (OsErr ''file exists''), w)
       else if isDirAt w (parentOf p) then (Ok (), putNode p Dir w) else (Err (OsNotExist p), w))"

text \<open>The path and all the directories above it, outermost first.\<close>

definition ancestors :: "string \<Rightarrow> string list" where
  "ancestors p = filter (\<lambda>q. q \<noteq> []) (map (\<lambda>n. Join (take n (Split p slash)) slash) [1 ..< Suc (length (Split p slash))])"

fun mkdirs :: "string list \<Rightarrow> 'v os_world_scheme \<Rightarrow> (gerror, unit) result \<times> 'v os_world_scheme" where
  "mkdirs [] w = (Ok (), w)"
| "mkdirs (d # ds) w = (case lookupFs w d of
       None \<Rightarrow> mkdirs ds (putNode d Dir w)
     | Some Dir \<Rightarrow> mkdirs ds w
     | Some (File m s) \<Rightarrow> (Err (OsErr ''not a directory''), w))"

definition osMkdirAll :: "string \<Rightarrow> ('v os_world_scheme, unit) io" where
  "osMkdirAll p = osCall (mkdirs (ancestors p))"

definition osRemoveAll :: "string \<Rightarrow> ('v os_world_scheme, unit) io" where
  "osRemoveAll p = osCall (\<lambda>w. (Ok (), w\<lparr>fs := filter (\<lambda>(q, n). q \<noteq> p \<and> \<not> isUnder p q) (fs w)\<rparr>))"

text \<open>\<open>ioutil.ReadDir\<close>: the entries directly below a directory, sorted by name.\<close>

definition childName :: "string \<Rightarrow> string \<Rightarrow> string option" where
  "childName d p = (let x = drop (length d + 1) p in
     if isUnder d p \<and> x \<noteq> [] \<and> CHR ''/'' \<notin> set x then Some x else None)"

definition childEntries :: "string \<Rightarrow> 'v os_world_scheme \<Rightarrow> (string \<times> node) list" where
  "childEntries d w = [(the (childName d p), n). (p, n) \<leftarrow> fs w, childName d p \<noteq> None]"

definition osReadDir :: "string \<Rightarrow> ('v os_world_scheme, (string \<times> node) list) io" where
  "osReadDir d = osCall (\<lambda>w. if isDirAt w d then (Ok (sort_key fst (childEntries d w)), w)
       else if lookupFs w d = None then (Err (OsNotExist d), w)
       else (Err (OsErr ''not a directory''), w))"

text \<open>
  \<open>ioutil.TempFile\<close> tries random names until one is free: the numbers of the supply first and, when they are
  used up, the least number that is free.
\<close>

fun tempFrom :: "string \<Rightarrow> nat list \<Rightarrow> 'v os_world_scheme \<Rightarrow> (gerror, string) result \<times> 'v os_world_scheme" where
  "tempFrom pre [] w = (case find (\<lambda>r. lookupFs w (pre @ natDec r) = None) [0 ..< Suc (length (fs w))] of
       None \<Rightarrow> (Err (OsErr ''file exists''), w\<lparr>randoms := []\<rparr>)
     | Some r \<Rightarrow> (Ok (pre @ natDec r), putNode (pre @ natDec r) (File 384 []) (w\<lparr>randoms := []\<rparr>)))"
| "tempFrom pre (r # rs) w =
     (if lookupFs w (pre @ natDec r) = None
      then (Ok (pre @ natDec r), putNode (pre @ natDec r) (File 384 []) (w\<lparr>randoms := rs\<rparr>))
      else tempFrom pre rs w)"

definition osTempFile :: "string \<Rightarrow> string \<Rightarrow> ('v os_world_scheme, string) io" where
  "osTempFile dir pre = osCall (\<lambda>w.
     if isDirAt w dir then tempFrom (pathJoin [dir, pre]) (randoms w) w else (Err (OsNotExist dir), w))"

definition osChmod :: "string \<Rightarrow> nat \<Rightarrow> ('v os_world_scheme, unit) io" where
  "osChmod p perm = osCall (\<lambda>w. case lookupFs w p of
       Some (File m s) \<Rightarrow> (Ok (), putNode p (File perm s) w)
     | Some Dir \<Rightarrow> (Ok (), w)
     | None \<Rightarrow> (Err (OsNotExist p), w))"

definition Getenv :: "'v os_world_scheme \<Rightarrow> string \<Rightarrow> string" where
  "Getenv w k = (case map_of (environ w) k of None \<Rightarrow> [] | Some v \<Rightarrow> v)"

definition Println :: "string \<Rightarrow> ('v os_world_scheme, unit) io" where
  "Println s = modifyW (\<lambda>w. w\<lparr>stdout := stdout w @ [s]\<rparr>)"

section \<open>Lemmas\<close>

lemma lookupFs_putNode [simp]: "lookupFs (putNode p n w) q = (if q = p then Some n else lookupFs w q)"
  by (simp add: lookupFs_def putNode_def update_conv')

lemma lookupFs_delNode [simp]: "lookupFs (delNode p w) q = (if q = p then None else lookupFs w q)"
  by (simp add: lookupFs_def delNode_def delete_conv')

lemma lookupFs_update_other [simp]:
  "lookupFs (w\<lparr>faults := fl\<rparr>) p = lookupFs w p"
  "lookupFs (w\<lparr>randoms := rl\<rparr>) p = lookupFs w p"
  "lookupFs (w\<lparr>stdout := sl\<rparr>) p = lookupFs w p"
  by (simp_all add: lookupFs_def)

lemma putNode_select [simp]:
  "faults (putNode p n w) = faults w" "randoms (putNode p n w) = randoms w"
  "environ (putNode p n w) = environ w" "stdout (putNode p n w) = stdout w"
  "os_world.more (putNode p n w) = os_world.more w"
  by (simp_all add: putNode_def)

lemma delNode_select [simp]:
  "faults (delNode p w) = faults w" "randoms (delNode p w) = randoms w"
  "environ (delNode p w) = environ w" "stdout (delNode p w) = stdout w"
  "os_world.more (delNode p w) = os_world.more w"
  by (simp_all add: delNode_def)

text \<open>With no pending failure a call is its body.\<close>

lemma osCall_nofault [simp]: "faults w = [] \<Longrightarrow> osCall m w = m w"
  by (simp add: osCall_def)

text \<open>Every call either fails without an effect on the files or does what its body does.\<close>

lemma osCall_cases:
  obtains (fault) s fl where "osCall m w = (Err (OsErr s), w\<lparr>faults := fl\<rparr>)"
  | (run) fl where "osCall m w = m (w\<lparr>faults := fl\<rparr>)"
proof (cases "faults w")
  case Nil
  then have "w\<lparr>faults := []\<rparr> = w" by (cases w) simp
  with Nil have "osCall m w = m (w\<lparr>faults := []\<rparr>)" by (metis osCall_nofault)
  then show thesis by (rule run)
next
  case (Cons f fl)
  then show thesis
    by (cases f) (auto simp: osCall_def intro: that)
qed

lemma writeFile_nofault_new:
  "faults w = [] \<Longrightarrow> lookupFs w p = None \<Longrightarrow> isDirAt w (parentOf p) \<Longrightarrow>
   writeFile p d perm w = (Ok (), putNode p (File perm d) (putNode p (File perm []) w))"
  by (simp add: writeFile_def openTrunc_def writeData_def bindP_def)

lemma readFile_nofault: "faults w = [] \<Longrightarrow> lookupFs w p = Some (File m s) \<Longrightarrow> readFile p w = (Ok s, w)"
  by (simp add: readFile_def)

lemma readFile_Ok: "readFile p w = (Ok s, w') \<Longrightarrow> lookupFs w' = lookupFs w \<and> (\<exists>m. lookupFs w p = Some (File m s))"
  unfolding readFile_def
  by (auto simp: osCall_def fun_eq_iff split: list.splits option.splits node.splits)

text \<open>There is always a free name: the files are finitely many.\<close>

lemma free_number: "\<exists>r \<in> set [0 ..< Suc (length (fs w))]. lookupFs w (pre @ natDec r) = None"
proof (rule ccontr)
  let ?f = "\<lambda>r. pre @ natDec r" and ?N = "set [0 ..< Suc (length (fs w))]"
  assume "\<not> ?thesis"
  then have "\<forall>r \<in> ?N. ?f r \<in> fst ` set (fs w)" by (auto simp: lookupFs_def map_of_eq_None_iff)
  then have "card (?f ` ?N) \<le> card (fst ` set (fs w))" by (intro card_mono) auto
  also have "\<dots> \<le> length (fs w)" using card_image_le [of "set (fs w)" fst] card_length [of "fs w"] by simp
  finally have "card (?f ` ?N) \<le> length (fs w)" .
  moreover have "card (?f ` ?N) = Suc (length (fs w))"
    by (subst card_image) (auto intro!: inj_onI dest: natDec_inj)
  ultimately show False by simp
qed

lemma tempFrom_Ok:
  "\<exists>r rs. tempFrom pre l w = (Ok (pre @ natDec r), putNode (pre @ natDec r) (File 384 []) (w\<lparr>randoms := rs\<rparr>)) \<and>
          lookupFs w (pre @ natDec r) = None"
proof (induction l)
  case Nil
  have "find (\<lambda>r. lookupFs w (pre @ natDec r) = None) [0 ..< Suc (length (fs w))] \<noteq> None"
    using free_number [of w pre] by (metis (mono_tags) find_None_iff)
  then obtain r where r: "find (\<lambda>r. lookupFs w (pre @ natDec r) = None) [0 ..< Suc (length (fs w))] = Some r" by blast
  then have "lookupFs w (pre @ natDec r) = None" by (auto simp: find_Some_iff)
  with r show ?case by (simp only: tempFrom.simps option.case) blast
qed auto

lemma fs_world_eqI:
  assumes "lookupFs w p = n"
  shows "map_of (fs w) p = n"
  using assms by (simp add: lookupFs_def)

text \<open>A world with the given files in which no call is going to fail.\<close>

definition plainWorld :: "(string \<times> node) list \<Rightarrow> 'v \<Rightarrow> 'v os_world_scheme" where
  "plainWorld l v = \<lparr>fs = l, faults = [], environ = [], stdout = [], randoms = [], \<dots> = v\<rparr>"

lemma plainWorld_select [simp]:
  "faults (plainWorld l v) = []" "randoms (plainWorld l v) = []" "fs (plainWorld l v) = l"
  "lookupFs (plainWorld l v) p = map_of l p" "os_world.more (plainWorld l v) = v"
  by (simp_all add: plainWorld_def lookupFs_def)

section \<open>Frames\<close>

text \<open>A program that, on every outcome, leaves the file at \<open>q\<close> as it was.\<close>

definition keepsFile :: "string \<Rightarrow> ('v os_world_scheme, 'a) io \<Rightarrow> bool" where
  "keepsFile q m \<longleftrightarrow> (\<forall>w. lookupFs (snd (m w)) q = lookupFs w q)"

lemma keepsFileD: "keepsFile q m \<Longrightarrow> m w = (r, w') \<Longrightarrow> lookupFs w' q = lookupFs w q"
  unfolding keepsFile_def by (metis snd_conv)

lemma keepsFile_bindP [frame_rules]: "keepsFile q m \<Longrightarrow> (\<And>x. keepsFile q (f x)) \<Longrightarrow> keepsFile q (bindP m f)"
  unfolding keepsFile_def bindP_def by (auto split: prod.splits result.splits) (metis snd_conv)+

lemma keepsFile_wrapErr [frame_rules]: "keepsFile q m \<Longrightarrow> keepsFile q (wrapErr h m)"
  unfolding keepsFile_def wrapErr_def by (auto split: prod.splits result.splits) (metis snd_conv)+

lemma keepsFile_tryP [frame_rules]: "keepsFile q m \<Longrightarrow> keepsFile q (tryP m)"
  unfolding keepsFile_def tryP_def by (auto split: prod.splits result.splits) (metis snd_conv)+

lemma keepsFile_ret [frame_rules]: "keepsFile q (ret x)" "keepsFile q (throw e)" "keepsFile q (panic s)"
  by (simp_all add: keepsFile_def prog_defs)

lemma keepsFile_osCall: "keepsFile q m \<Longrightarrow> keepsFile q (osCall m)"
  unfolding keepsFile_def osCall_def by (auto split: list.splits option.splits)

lemma keepsFile_read [frame_rules]: "keepsFile q (osStat p)" "keepsFile q (readFile p)"
  unfolding osStat_def readFile_def
  by (rule keepsFile_osCall, simp add: keepsFile_def split: option.splits node.splits)+

lemma keepsFile_write [frame_rules]:
  assumes "q \<noteq> p"
  shows "keepsFile q (openTrunc p perm)" "keepsFile q (writeData p d)" "keepsFile q (osChmod p perm)" "keepsFile q (osRemove p)"
  unfolding openTrunc_def writeData_def osChmod_def osRemove_def
  by (rule keepsFile_osCall, use assms in \<open>simp add: keepsFile_def split: option.splits node.splits\<close>)+

lemma keepsFile_writeFile [frame_rules]: "q \<noteq> p \<Longrightarrow> keepsFile q (writeFile p d perm)"
  unfolding writeFile_def by (intro frame_rules)

section \<open>Outcomes\<close>

lemma osRename_result:
  assumes "osRename p q w = (r, w')" and "p \<noteq> q" and "lookupFs w p = Some (File m s)"
  shows "(r = Ok () \<and> lookupFs w' q = Some (File m s)) \<or> (\<exists>e. r = Err e \<and> lookupFs w' q = lookupFs w q)"
  using assms unfolding osRename_def
  by (auto simp: osCall_def split: list.splits option.splits node.splits if_splits)

lemma osTempFile_result:
  assumes "osTempFile dir pre w = (r, w')"
  shows "(\<exists>tmp. r = Ok tmp \<and> lookupFs w tmp = None \<and> lookupFs w' tmp = Some (File 384 []) \<and>
            (\<forall>q. q \<noteq> tmp \<longrightarrow> lookupFs w' q = lookupFs w q)) \<or>
         (\<exists>e. r = Err e \<and> (\<forall>q. lookupFs w' q = lookupFs w q))"
proof -
  have "(\<exists>tmp. r' = Ok tmp \<and> lookupFs v tmp = None \<and>
            lookupFs v' tmp = Some (File 384 []) \<and> (\<forall>q. q \<noteq> tmp \<longrightarrow> lookupFs v' q = lookupFs v q))"
    if "tempFrom (pathJoin [dir, pre]) l v = (r', v')" for v v' :: "'a os_world_scheme" and r' l
    using tempFrom_Ok [of "pathJoin [dir, pre]" l v] that by auto
  note T = this
  let ?m = "\<lambda>w. if isDirAt w dir then tempFrom (pathJoin [dir, pre]) (randoms w) w else (Err (OsNotExist dir), w)"
  have a: "osCall ?m w = (r, w')" using assms by (simp add: osTempFile_def)
  show ?thesis
  proof (rule osCall_cases [of ?m w])
    fix fl
    assume "osCall ?m w = ?m (w\<lparr>faults := fl\<rparr>)"
    with a have "?m (w\<lparr>faults := fl\<rparr>) = (r, w')" by simp
    then show ?thesis by (auto split: if_splits dest!: T)
  qed (use a in auto)
qed

end
