(* ===== verification/Mcn_Utils.thy ===== *)
theory Mcn_Utils
  imports Os_Model
begin

text \<open>
  \<open>libmachine/mcnutils/utils.go\<close>: the polling loops every wait of the program goes through, the copy of a
  file with its permissions, and the generator of machine identifiers.

  Time passes while a caller sleeps: the argument \<open>sleep\<close> of the loops is what the rest of the world does
  during a pause of the given number of milliseconds.
\<close>

section \<open>Environment\<close>

definition GetHomeDir :: "string \<Rightarrow> 'v os_world_scheme \<Rightarrow> string" where
  "GetHomeDir goos w = (if goos = ''windows'' then Getenv w ''USERPROFILE'' else Getenv w ''HOME'')"

definition GetUsername :: "string \<Rightarrow> 'v os_world_scheme \<Rightarrow> string" where
  "GetUsername goos w =
     (let osUser = (if goos = ''darwin'' \<or> goos = ''linux'' then Getenv w ''USER''
                    else if goos = ''windows'' then Getenv w ''USERNAME'' else [])
      in if osUser \<noteq> [] then osUser else ''unknown'')"

section \<open>Copying files\<close>

definition osOpen :: "string \<Rightarrow> ('v os_world_scheme, unit) io" where
  "osOpen p = osCall (\<lambda>w. if lookupFs w p = None then (Err (OsNotExist p), w) else (Ok (), w))"

fun nodeMode :: "node \<Rightarrow> nat" where
  "nodeMode Dir = 448"
| "nodeMode (File m s) = m"

definition CopyFile :: "string \<Rightarrow> string \<Rightarrow> ('v os_world_scheme, unit) io" where
  "CopyFile src dst =
     bindP (osOpen src) (\<lambda>_.
     bindP (openTrunc dst 438) (\<lambda>_.
     bindP (readFile src) (\<lambda>content.
     bindP (writeData dst content) (\<lambda>_.
     bindP (osStat src) (\<lambda>fi.
     osChmod dst (nodeMode fi))))))"

section \<open>Polling\<close>

definition retriesExceeded :: "int \<Rightarrow> gerror" where
  "retriesExceeded n = ErrorString (''Maximum number of retries ('' @ Itoa n @ '') exceeded'')"

fun waitLoop :: "(nat \<Rightarrow> 'w \<Rightarrow> 'w) \<Rightarrow> ('w, bool) io \<Rightarrow> nat \<Rightarrow> int \<Rightarrow> nat \<Rightarrow> ('w, unit) io" where
  "waitLoop sleep f 0 maxAttempts interval = throw (retriesExceeded maxAttempts)"
| "waitLoop sleep f (Suc k) maxAttempts interval =
     bindP f (\<lambda>stop. if stop then ret ()
       else bindP (modifyW (sleep interval)) (\<lambda>_. waitLoop sleep f k maxAttempts interval))"

definition WaitForSpecificOrError ::
  "(nat \<Rightarrow> 'w \<Rightarrow> 'w) \<Rightarrow> ('w, bool) io \<Rightarrow> int \<Rightarrow> nat \<Rightarrow> ('w, unit) io" where
  "WaitForSpecificOrError sleep f maxAttempts interval =
     waitLoop sleep f (nat maxAttempts) maxAttempts interval"

text \<open>A check that cannot fail: it observes the world and may leave a trace in it.\<close>

definition liftBool :: "('w \<Rightarrow> bool \<times> 'w) \<Rightarrow> ('w, bool) io" where
  "liftBool f = (\<lambda>w. case f w of (b, w') \<Rightarrow> (Ok b, w'))"

definition WaitForSpecific :: "(nat \<Rightarrow> 'w \<Rightarrow> 'w) \<Rightarrow> ('w, bool) io \<Rightarrow> int \<Rightarrow> nat \<Rightarrow> ('w, unit) io" where
  "WaitForSpecific sleep f maxAttempts interval = WaitForSpecificOrError sleep f maxAttempts interval"

definition WaitFor :: "(nat \<Rightarrow> 'w \<Rightarrow> 'w) \<Rightarrow> ('w, bool) io \<Rightarrow> ('w, unit) io" where
  "WaitFor sleep f = WaitForSpecific sleep f 60 3000"

section \<open>Identifiers\<close>

definition TruncateID :: "string \<Rightarrow> string" where
  "TruncateID s = take (if length s < 12 then length s else 12) s"

definition hexDigit :: "nat \<Rightarrow> char" where
  "hexDigit d = (if d < 10 then digitC d else char_of (87 + d))"

text \<open>\<open>hex.EncodeToString\<close> on a list of byte values.\<close>

definition hexEncode :: "nat list \<Rightarrow> string" where
  "hexEncode bs = concat (map (\<lambda>b. [hexDigit (b div 16), hexDigit (b mod 16)]) bs)"

text \<open>The argument is what the successive reads of 32 random bytes yield; \<open>None\<close> when every one of them is
  rejected and the loop would read again.\<close>

fun GenerateRandomID :: "nat list list \<Rightarrow> string option" where
  "GenerateRandomID [] = None"
| "GenerateRandomID (ident # reads) =
     (let value = hexEncode ident
      in if Atoi (TruncateID value) \<noteq> None then GenerateRandomID reads else Some value)"

section \<open>Lemmas\<close>

text \<open>The world before the \<open>i\<close>-th poll.\<close>

fun pollWorld :: "(nat \<Rightarrow> 'w \<Rightarrow> 'w) \<Rightarrow> ('w \<Rightarrow> bool \<times> 'w) \<Rightarrow> nat \<Rightarrow> nat \<Rightarrow> 'w \<Rightarrow> 'w" where
  "pollWorld sleep f iv 0 w = w"
| "pollWorld sleep f iv (Suc i) w = pollWorld sleep f iv i (sleep iv (snd (f w)))"

lemma waitLoop_step:
  "waitLoop sleep (liftBool f) (Suc k) m iv w =
     (if fst (f w) then (Ok (), snd (f w)) else waitLoop sleep (liftBool f) k m iv (sleep iv (snd (f w))))"
  by (cases "f w") (auto simp: liftBool_def prog_defs)

lemma waitLoop_Ok_iff:
  "waitLoop sleep (liftBool f) n m iv w = (Ok (), w') \<longleftrightarrow>
     (\<exists>i < n. fst (f (pollWorld sleep f iv i w)) \<and> w' = snd (f (pollWorld sleep f iv i w)) \<and>
              (\<forall>j < i. \<not> fst (f (pollWorld sleep f iv j w))))"
proof (induction n arbitrary: w)
  case 0
  then show ?case by (simp add: prog_defs)
next
  case (Suc n)
  show ?case
    unfolding waitLoop_step Ex_less_Suc2
    using Suc.IH [of "sleep iv (snd (f w))"]
    by (cases "fst (f w)") (auto simp: All_less_Suc2)
qed

lemma waitLoop_outcome:
  "fst (waitLoop sleep (liftBool f) n m iv w) \<in> {Ok (), Err (retriesExceeded m)}"
  by (induction n arbitrary: w) (auto simp: waitLoop_step prog_defs simp del: waitLoop.simps(2))

text \<open>If the world stops answering no within the allowed polls, the wait succeeds; the check itself is arbitrary.\<close>

lemma waitLoop_Ok_sound:
  assumes "waitLoop sleep f n m iv w = (Ok (), w')"
  shows "\<exists>v. f v = (Ok True, w')"
  using assms
proof (induction n arbitrary: w)
  case 0
  then show ?case by (simp add: prog_defs)
next
  case (Suc n)
  then show ?case
    by (auto simp: prog_defs split: prod.splits result.splits if_splits)
qed

lemma waitLoop_first:
  assumes "f w = (Ok True, w')" and "0 < n"
  shows "waitLoop sleep f n m iv w = (Ok (), w')"
  using assms by (cases n) (simp_all add: prog_defs)

lemma WaitFor_sound: "WaitFor sleep f w = (Ok (), w') \<Longrightarrow> \<exists>v. f v = (Ok True, w')"
  unfolding WaitFor_def WaitForSpecific_def WaitForSpecificOrError_def by (rule waitLoop_Ok_sound)

lemma WaitFor_first: "f w = (Ok True, w') \<Longrightarrow> WaitFor sleep f w = (Ok (), w')"
  unfolding WaitFor_def WaitForSpecific_def WaitForSpecificOrError_def by (rule waitLoop_first) simp_all

lemma length_hexEncode: "length (hexEncode bs) = 2 * length bs"
  by (induction bs) (auto simp: hexEncode_def)

lemma GenerateRandomID_Some:
  "GenerateRandomID reads = Some v \<Longrightarrow>
     \<exists>ident \<in> set reads. v = hexEncode ident \<and> Atoi (TruncateID v) = None"
  by (induction reads) (auto simp: Let_def split: if_splits)

section \<open>Properties\<close>

text \<open>\<open>WaitFor\<close> succeeds exactly when one of its first 60 polls answers yes; it stops at the first such poll
  and leaves the world as that poll left it.\<close>

theorem WaitFor_iff:
  "WaitFor sleep (liftBool f) w = (Ok (), w') \<longleftrightarrow>
     (\<exists>i < 60. fst (f (pollWorld sleep f 3000 i w)) \<and> w' = snd (f (pollWorld sleep f 3000 i w)) \<and>
               (\<forall>j < i. \<not> fst (f (pollWorld sleep f 3000 j w))))"
  unfolding WaitFor_def WaitForSpecific_def WaitForSpecificOrError_def
  using waitLoop_Ok_iff [of sleep f 60 60 3000 w w'] by simp

theorem WaitFor_iff_witness:
  "WaitFor (\<lambda>iv w. w + 1) (liftBool (\<lambda>w. (2 \<le> w, w))) (0 :: nat) = (Ok (), 2)"
  unfolding WaitFor_iff by (rule exI [of _ 2]) (simp add: numeral_2_eq_2 less_Suc_eq)

text \<open>a wait always returns: its outcome is success or the error that the 60 attempts are used up, never a
  panic or an endless loop, for every check that itself returns.\<close>

theorem WaitFor_returns:
  "fst (WaitFor sleep (liftBool f) w) \<in> {Ok (), Err (retriesExceeded 60)}"
  unfolding WaitFor_def WaitForSpecific_def WaitForSpecificOrError_def by (rule waitLoop_outcome)

text \<open>a generated machine identifier is 64 hexadecimal digits whose first 12 are not a decimal number.\<close>

theorem GenerateRandomID_shape:
  assumes "GenerateRandomID reads = Some v" and "\<forall>ident \<in> set reads. length ident = 32"
  shows "length v = 64 \<and> Atoi (TruncateID v) = None"
proof -
  from GenerateRandomID_Some [OF assms(1)] obtain ident where "ident \<in> set reads" "v = hexEncode ident"
    "Atoi (TruncateID v) = None" by blast
  with assms(2) show ?thesis by (simp add: length_hexEncode)
qed

theorem GenerateRandomID_shape_witness:
  "GenerateRandomID [replicate 32 0, replicate 32 171] = Some (hexEncode (replicate 32 171)) \<and>
   length (hexEncode (replicate 32 171)) = 64"
proof -
  have r: "GenerateRandomID [replicate 32 0, replicate 32 171] = Some (hexEncode (replicate 32 171))" by code_simp
  from GenerateRandomID_shape [OF r] r show ?thesis by simp
qed

end
