(* ===== verification/Ssh_Client.thy ===== *)
theory Ssh_Client
  imports Mcn_Utils
begin

text \<open>
  \<open>libmachine/ssh/client.go\<close> and \<open>libmachine/ssh/keys.go\<close>: the two SSH clients (the \<open>ssh\<close> program and the
  native library), the command line built for the first, and the generation of key files.

  What is outside the repository is the record \<open>ssh_env\<close>: finding programs, running them, the operations of
  \<open>golang.org/x/crypto/ssh\<close>, the terminal, and the RSA generator.  The result of dialling is a connection
  value of a type the model does not fix.
\<close>

unbundle bit_operations_syntax

section \<open>Clients\<close>

record sshAuth =
  Passwords :: "string list"
  Keys :: "string list"

datatype clientType = External | Native

datatype authMethod = PublicKeys string | Password string

record clientConfig =
  cfg_User :: string
  cfg_Auth :: "authMethod list"

record nativeClient =
  Config :: clientConfig
  Hostname :: string
  Port :: int

record externalClient =
  BaseArgs :: "string list"
  BinaryPath :: string

datatype sshClient = ExternalC externalClient | NativeC nativeClient

text \<open>The outside: \<open>goos\<close> is \<open>runtime.GOOS\<close>, \<open>runCombined\<close> is \<open>exec.Cmd.CombinedOutput\<close>, \<open>runStdio\<close> is
  \<open>exec.Cmd.Run\<close> on the terminal, \<open>sshDial\<close>, \<open>newSession\<close>, \<open>sessionOutput\<close>, \<open>sessionRun\<close>, \<open>sessionShell\<close> and
  \<open>requestPty\<close> are the library's, \<open>termSize\<close> is the width and height of the terminal, if there is one.\<close>

record ('w, 'c) ssh_env =
  goos :: string
  defaultClientType :: clientType
  lookPath :: "string \<Rightarrow> ('w, string) io"
  runCombined :: "string \<Rightarrow> string list \<Rightarrow> ('w, string \<times> gerror option) io"
  runStdio :: "string \<Rightarrow> string list \<Rightarrow> ('w, unit) io"
  parsePrivateKey :: "string \<Rightarrow> gerror + string"
  sshDial :: "string \<Rightarrow> clientConfig \<Rightarrow> ('w, 'c) io"
  newSession :: "'c \<Rightarrow> ('w, 'c) io"
  sessionOutput :: "'c \<Rightarrow> string \<Rightarrow> ('w, string \<times> gerror option) io"
  sessionRun :: "'c \<Rightarrow> string \<Rightarrow> ('w, unit) io"
  sessionShell :: "'c \<Rightarrow> ('w, unit) io"
  requestPty :: "'c \<Rightarrow> nat \<Rightarrow> nat \<Rightarrow> ('w, unit) io"
  termSize :: "(nat \<times> nat) option"
  stdinIsTerminal :: bool
  sleepW :: "nat \<Rightarrow> 'w \<Rightarrow> 'w"

definition baseSSHArgs :: "string list" where
  "baseSSHArgs = [
     ''-F'', ''/dev/null'',
     ''-o'', ''ConnectionAttempts=3'',
     ''-o'', ''ConnectTimeout=10'',
     ''-o'', ''ControlMaster=no'',
     ''-o'', ''ControlPath=none'',
     ''-o'', ''LogLevel=quiet'',
     ''-o'', ''PasswordAuthentication=no'',
     ''-o'', ''ServerAliveInterval=60'',
     ''-o'', ''StrictHostKeyChecking=no'',
     ''-o'', ''UserKnownHostsFile=/dev/null'']"

definition SetDefaultClient :: "clientType \<Rightarrow> ('w, 'c) ssh_env \<Rightarrow> ('w, 'c) ssh_env" where
  "SetDefaultClient t E = E\<lparr>defaultClientType := t\<rparr>"

section \<open>The external client\<close>

definition filePerm :: "node \<Rightarrow> nat" where
  "filePerm n = nodeMode n AND 511"

text \<open>The verb \<open>%#o\<close>.\<close>

fun octDigits :: "nat \<Rightarrow> string" where
  "octDigits n = (if n < 8 then [digitC n] else octDigits (n div 8) @ [digitC (n mod 8)])"

definition octal :: "nat \<Rightarrow> string" where
  "octal n = (if n = 0 then ''0'' else CHR ''0'' # octDigits n)"

declare octDigits.simps [simp del]

text \<open>The loop over the private keys: every key is checked, then added with \<open>-i\<close>.\<close>

fun keyArgs :: "string \<Rightarrow> string list \<Rightarrow> ('v os_world_scheme, string list) io" where
  "keyArgs os [] = ret []"
| "keyArgs os (k # ks) =
     (if k = [] then keyArgs os ks
      else bindP (osStat k) (\<lambda>fi.
        if os \<noteq> ''windows'' \<and> filePerm fi AND 256 = 0
        then throw (ErrorString ([CHR 0x27] @ k @ [CHR 0x27] @ '' is not readable''))
        else if os \<noteq> ''windows'' \<and> filePerm fi AND 63 \<noteq> 0
        then throw (ErrorString (''permissions '' @ octal (filePerm fi) @ '' for '' @ [CHR 0x27] @ k @ [CHR 0x27] @ '' are too open''))
        else bindP (keyArgs os ks) (\<lambda>rest. ret (''-i'' # k # rest))))"

definition NewExternalClient ::
  "string \<Rightarrow> string \<Rightarrow> string \<Rightarrow> string \<Rightarrow> int \<Rightarrow> sshAuth \<Rightarrow> ('v os_world_scheme, externalClient) io" where
  "NewExternalClient os sshBinaryPath user host port auth =
     (let args = baseSSHArgs @ [user @ ''@'' @ host]
                 @ (if Keys auth \<noteq> [] then [''-o'', ''IdentitiesOnly=yes''] else [])
      in bindP (keyArgs os (Keys auth)) (\<lambda>ks.
         ret \<lparr>BaseArgs = args @ ks @ [''-p'', Itoa port], BinaryPath = sshBinaryPath\<rparr>))"

definition ExternalClient_Output ::
  "('w, 'c) ssh_env \<Rightarrow> externalClient \<Rightarrow> string \<Rightarrow> ('w, string \<times> gerror option) io" where
  "ExternalClient_Output E c command = runCombined E (BinaryPath c) (BaseArgs c @ [command])"

definition ExternalClient_Shell :: "('w, 'c) ssh_env \<Rightarrow> externalClient \<Rightarrow> string list \<Rightarrow> ('w, unit) io" where
  "ExternalClient_Shell E c args = runStdio E (BinaryPath c) (BaseArgs c @ args)"

section \<open>The native client\<close>

fun keyMethods :: "('v os_world_scheme, 'c) ssh_env \<Rightarrow> string list \<Rightarrow> ('v os_world_scheme, authMethod list) io" where
  "keyMethods E [] = ret []"
| "keyMethods E (k # ks) =
     bindP (readFile k) (\<lambda>key.
       case parsePrivateKey E key of
         Inl e \<Rightarrow> throw e
       | Inr priv \<Rightarrow> bindP (keyMethods E ks) (\<lambda>ms. ret (PublicKeys priv # ms)))"

definition NewNativeConfig ::
  "('v os_world_scheme, 'c) ssh_env \<Rightarrow> string \<Rightarrow> sshAuth \<Rightarrow> ('v os_world_scheme, clientConfig) io" where
  "NewNativeConfig E user auth =
     bindP (keyMethods E (Keys auth)) (\<lambda>ms.
       ret \<lparr>cfg_User = user, cfg_Auth = ms @ map Password (Passwords auth)\<rparr>)"

definition NewNativeClient ::
  "('v os_world_scheme, 'c) ssh_env \<Rightarrow> string \<Rightarrow> string \<Rightarrow> int \<Rightarrow> sshAuth \<Rightarrow> ('v os_world_scheme, nativeClient) io" where
  "NewNativeClient E user host port auth =
     bindP (wrapErr (errorf ''Error getting config for native Go SSH: '') (NewNativeConfig E user auth)) (\<lambda>config.
       ret \<lparr>Config = config, Hostname = host, Port = port\<rparr>)"

text \<open>\<open>net.JoinHostPort\<close>: brackets around a host with a colon or a percent sign.\<close>

definition JoinHostPort :: "string \<Rightarrow> string \<Rightarrow> string" where
  "JoinHostPort h p = (if CHR '':'' \<in> set h \<or> CHR ''%'' \<in> set h then ''['' @ h @ '']:'' @ p else h @ '':'' @ p)"

definition nativeAddr :: "nativeClient \<Rightarrow> string" where
  "nativeAddr c = JoinHostPort (Hostname c) (Itoa (Port c))"

definition dialSuccess :: "('w, 'c) ssh_env \<Rightarrow> nativeClient \<Rightarrow> ('w, bool) io" where
  "dialSuccess E c =
     bindP (tryP (sshDial E (nativeAddr c) (Config c))) (\<lambda>r. ret (case r of Inl e \<Rightarrow> False | Inr conn \<Rightarrow> True))"

definition NativeClient_session :: "('w, 'c) ssh_env \<Rightarrow> nativeClient \<Rightarrow> ('w, 'c) io" where
  "NativeClient_session E c =
     bindP (wrapErr (errorf ''Error attempting SSH client dial: '') (WaitFor (sleepW E) (dialSuccess E c))) (\<lambda>_.
     bindP (wrapErr (errorf ''Mysterious error dialing TCP for SSH (we already succeeded at least once) : '')
              (sshDial E (nativeAddr c) (Config c))) (\<lambda>conn.
     newSession E conn))"

text \<open>An error of \<open>session\<close> is not passed on: the output is empty and the error is nil.\<close>

definition NativeClient_Output ::
  "('w, 'c) ssh_env \<Rightarrow> nativeClient \<Rightarrow> string \<Rightarrow> ('w, string \<times> gerror option) io" where
  "NativeClient_Output E c command =
     bindP (tryP (NativeClient_session E c)) (\<lambda>r.
       case r of Inl e \<Rightarrow> ret ([], None) | Inr sess \<Rightarrow> sessionOutput E sess command)"

definition NativeClient_OutputWithPty ::
  "('w, 'c) ssh_env \<Rightarrow> nativeClient \<Rightarrow> string \<Rightarrow> ('w, string \<times> gerror option) io" where
  "NativeClient_OutputWithPty E c command =
     bindP (tryP (NativeClient_session E c)) (\<lambda>r.
       case r of
         Inl e \<Rightarrow> ret ([], None)
       | Inr sess \<Rightarrow>
           (case termSize E of
              None \<Rightarrow> ret ([], Some (OsErr ''inappropriate ioctl for device''))
            | Some (width, height) \<Rightarrow>
                bindP (tryP (requestPty E sess height width)) (\<lambda>p.
                  case p of Inl e \<Rightarrow> ret ([], Some e) | Inr _ \<Rightarrow> sessionOutput E sess command)))"

definition NativeClient_Shell :: "('w, 'c) ssh_env \<Rightarrow> nativeClient \<Rightarrow> string list \<Rightarrow> ('w, unit) io" where
  "NativeClient_Shell E c args =
     bindP (sshDial E (nativeAddr c) (Config c)) (\<lambda>conn.
     bindP (newSession E conn) (\<lambda>sess.
       let (width, height) = (if stdinIsTerminal E
                              then (case termSize E of None \<Rightarrow> (80, 24) | Some wh \<Rightarrow> wh) else (0, 0))
       in bindP (requestPty E sess height width) (\<lambda>_.
            if args = [] then sessionShell E sess else sessionRun E sess (Join args '' ''))))"

section \<open>Choosing a client\<close>

definition NewClient ::
  "('v os_world_scheme, 'c) ssh_env \<Rightarrow> string \<Rightarrow> string \<Rightarrow> int \<Rightarrow> sshAuth \<Rightarrow> ('v os_world_scheme, sshClient) io" where
  "NewClient E user host port auth =
     bindP (tryP (lookPath E ''ssh'')) (\<lambda>r.
       case r of
         Inl e \<Rightarrow> bindP (NewNativeClient E user host port auth) (\<lambda>c. ret (NativeC c))
       | Inr sshBinaryPath \<Rightarrow>
           (if defaultClientType E = Native
            then bindP (NewNativeClient E user host port auth) (\<lambda>c. ret (NativeC c))
            else bindP (NewExternalClient (goos E) sshBinaryPath user host port auth) (\<lambda>c. ret (ExternalC c))))"

fun Client_Output :: "('w, 'c) ssh_env \<Rightarrow> sshClient \<Rightarrow> string \<Rightarrow> ('w, string \<times> gerror option) io" where
  "Client_Output E (ExternalC c) command = ExternalClient_Output E c command"
| "Client_Output E (NativeC c) command = NativeClient_Output E c command"

fun Client_Shell :: "('w, 'c) ssh_env \<Rightarrow> sshClient \<Rightarrow> string list \<Rightarrow> ('w, unit) io" where
  "Client_Shell E (ExternalC c) args = ExternalClient_Shell E c args"
| "Client_Shell E (NativeC c) args = NativeClient_Shell E c args"

section \<open>Key files\<close>

record keyPair =
  PrivateKey :: string
  PublicKey :: string

definition ErrUnableToWriteFile :: gerror where
  "ErrUnableToWriteFile = ErrorString ''Unable to write file''"

definition writeKeyFile :: "string \<Rightarrow> string \<Rightarrow> string \<Rightarrow> ('v os_world_scheme, unit) io" where
  "writeKeyFile os path val =
     bindP (wrapErr (\<lambda>_. ErrUnableToWriteFile) (openTrunc path 438)) (\<lambda>_.
     bindP (wrapErr (\<lambda>_. ErrUnableToWriteFile) (writeData path val)) (\<lambda>_.
       if os \<in> {''darwin'', ''freebsd'', ''linux'', ''openbsd''} then osChmod path 384 else ret ()))"

text \<open>\<open>pemEncode\<close> is \<open>pem.EncodeToMemory\<close> of an RSA private key block.\<close>

definition KeyPair_WriteToFile ::
  "(string \<Rightarrow> string) \<Rightarrow> string \<Rightarrow> keyPair \<Rightarrow> string \<Rightarrow> string \<Rightarrow> ('v os_world_scheme, unit) io" where
  "KeyPair_WriteToFile pemEncode os kp privateKeyPath publicKeyPath =
     forEach [(privateKeyPath, pemEncode (PrivateKey kp)), (publicKeyPath, PublicKey kp)]
       (\<lambda>(file, val). writeKeyFile os file val)"

definition GenerateSSHKey ::
  "(string \<Rightarrow> string) \<Rightarrow> string \<Rightarrow> ('v os_world_scheme, keyPair) io \<Rightarrow> string \<Rightarrow> ('v os_world_scheme, unit) io" where
  "GenerateSSHKey pemEncode os NewKeyPair path =
     bindP (tryP (osStat path)) (\<lambda>r.
       case r of
         Inr n \<Rightarrow> ret ()
       | Inl e \<Rightarrow>
           (if \<not> isNotExist e then throw (errorf ''Desired directory for SSH keys does not exist: '' e)
            else bindP (wrapErr (errorf ''Error generating key pair: '') NewKeyPair) (\<lambda>kp.
                 wrapErr (errorf ''Error writing keys to file(s): '')
                   (KeyPair_WriteToFile pemEncode os kp path (path @ ''.pub'')))))"

section \<open>Lemmas\<close>

text \<open>Stat calls do not change the files.\<close>

lemma osStat_Ok: "osStat p w = (Ok n, w') \<Longrightarrow> lookupFs w p = Some n \<and> fs w' = fs w"
  unfolding osStat_def
  by (rule osCall_cases [of "\<lambda>w. case lookupFs w p of None \<Rightarrow> (Err (OsNotExist p), w) | Some n \<Rightarrow> (Ok n, w)" w])
    (auto split: option.splits)

lemma keyArgs_Ok:
  assumes "keyArgs os ks w = (Ok args, w')" and "os \<noteq> ''windows''"
  shows "args = concat (map (\<lambda>k. [''-i'', k]) (filter (\<lambda>k. k \<noteq> []) ks)) \<and> fs w' = fs w \<and>
         (\<forall>k \<in> set ks. k \<noteq> [] \<longrightarrow>
            (\<exists>n. lookupFs w k = Some n \<and> filePerm n AND 256 \<noteq> 0 \<and> filePerm n AND 63 = 0))"
  using assms(1)
proof (induction ks arbitrary: args w w')
  case Nil
  then show ?case by (auto simp: prog_defs)
next
  case (Cons k ks)
  show ?case
  proof (cases "k = []")
    case True
    with Cons show ?thesis by fastforce
  next
    case False
    with Cons.prems obtain n w1 where st: "osStat k w = (Ok n, w1)"
      and rest: "(if os \<noteq> ''windows'' \<and> filePerm n AND 256 = 0
        then throw (ErrorString ([CHR 0x27] @ k @ [CHR 0x27] @ '' is not readable''))
        else if os \<noteq> ''windows'' \<and> filePerm n AND 63 \<noteq> 0
        then throw (ErrorString (''permissions '' @ octal (filePerm n) @ '' for '' @ [CHR 0x27] @ k @ [CHR 0x27] @ '' are too open''))
        else bindP (keyArgs os ks) (\<lambda>rest. ret (''-i'' # k # rest))) w1 = (Ok args, w')"
      by (auto elim!: bindP_OkE)
    from rest assms(2) have p: "filePerm n AND 256 \<noteq> 0" "filePerm n AND 63 = 0"
      by (auto simp: throw_def split: if_splits)
    with rest obtain more where more: "keyArgs os ks w1 = (Ok more, w')" "args = ''-i'' # k # more"
      by (auto simp: ret_def elim!: bindP_OkE)
    have "lookupFs w1 = lookupFs w"
      using osStat_Ok [OF st] by (simp add: lookupFs_def fun_eq_iff)
    then show ?thesis
      using Cons.IH [OF more(1)] more(2) osStat_Ok [OF st] p False by auto
  qed
qed

text \<open>Creating a key file on a Unix system leaves it readable by its owner only.\<close>

lemma openTrunc_Ok:
  "openTrunc p perm w = (Ok (), w') \<Longrightarrow> \<exists>m. lookupFs w' p = Some (File m []) \<and> (\<forall>q. q \<noteq> p \<longrightarrow> lookupFs w' q = lookupFs w q)"
  unfolding openTrunc_def
  by (auto simp: osCall_def split: list.splits option.splits node.splits if_splits)

lemma writeData_Ok:
  "writeData p d w = (Ok (), w') \<Longrightarrow> \<exists>m. lookupFs w' p = Some (File m d) \<and> (\<forall>q. q \<noteq> p \<longrightarrow> lookupFs w' q = lookupFs w q)"
  unfolding writeData_def
  by (auto simp: osCall_def split: list.splits option.splits node.splits if_splits)

lemma osChmod_Ok:
  "osChmod p perm w = (Ok (), w') \<Longrightarrow> lookupFs w p = Some (File m d) \<Longrightarrow>
     lookupFs w' p = Some (File perm d) \<and> (\<forall>q. q \<noteq> p \<longrightarrow> lookupFs w' q = lookupFs w q)"
  unfolding osChmod_def
  by (auto simp: osCall_def split: list.splits option.splits node.splits if_splits)

lemma wrapErr_Ok [simp]: "wrapErr h m w = (Ok x, w') \<longleftrightarrow> m w = (Ok x, w')"
  by (auto simp: wrapErr_def split: prod.splits result.splits)

lemma writeKeyFile_Ok:
  assumes "writeKeyFile ''linux'' p d w = (Ok (), w')"
  shows "lookupFs w' p = Some (File 384 d) \<and> (\<forall>q. q \<noteq> p \<longrightarrow> lookupFs w' q = lookupFs w q)"
proof -
  from assms obtain w1 w2 where 1: "openTrunc p 438 w = (Ok (), w1)" and 2: "writeData p d w1 = (Ok (), w2)"
    and 3: "osChmod p 384 w2 = (Ok (), w')"
    unfolding writeKeyFile_def by (auto elim!: bindP_OkE)
  obtain m where "lookupFs w2 p = Some (File m d)" using writeData_Ok [OF 2] by blast
  then show ?thesis using openTrunc_Ok [OF 1] writeData_Ok [OF 2] osChmod_Ok [OF 3] by simp
qed

lemma WriteToFile_Ok:
  assumes "KeyPair_WriteToFile pem ''linux'' kp priv pub w = (Ok (), w')" and "priv \<noteq> pub"
  shows "lookupFs w' priv = Some (File 384 (pem (PrivateKey kp))) \<and> lookupFs w' pub = Some (File 384 (PublicKey kp))"
proof -
  from assms(1) obtain w1 where 1: "writeKeyFile ''linux'' priv (pem (PrivateKey kp)) w = (Ok (), w1)"
    and 2: "writeKeyFile ''linux'' pub (PublicKey kp) w1 = (Ok (), w')"
    unfolding KeyPair_WriteToFile_def by (auto simp: ret_def elim!: bindP_OkE)
  show ?thesis using writeKeyFile_Ok [OF 1] writeKeyFile_Ok [OF 2] assms(2) by simp
qed

text \<open>Surroundings in which no program is found and nothing answers.\<close>

definition offlineSSH :: "('w, 'c) ssh_env" where
  "offlineSSH = \<lparr>goos = ''linux'', defaultClientType = Native, lookPath = (\<lambda>p. throw ExecNotFound),
      runCombined = (\<lambda>b a. ret ([], Some ExecNotFound)), runStdio = (\<lambda>b a. throw ExecNotFound), parsePrivateKey = (\<lambda>k. Inr k),
      sshDial = (\<lambda>a k. throw ExecNotFound), newSession = (\<lambda>k. ret k), sessionOutput = (\<lambda>k s. ret ([], None)),
      sessionRun = (\<lambda>k s. ret ()), sessionShell = (\<lambda>k. ret ()), requestPty = (\<lambda>k h v. ret ()), termSize = None,
      stdinIsTerminal = False, sleepW = (\<lambda>ms v. v)\<rparr>"

definition offlineClient :: nativeClient where
  "offlineClient = \<lparr>Config = \<lparr>cfg_User = ''root'', cfg_Auth = []\<rparr>, Hostname = ''h'', Port = 22\<rparr>"

section \<open>Properties\<close>



text \<open>generating a key on Linux never overwrites an existing one; a new pair is written with the permissions
  0600 for both files.\<close>

theorem GenerateSSHKey_safe:
  assumes "GenerateSSHKey pem ''linux'' newKeyPair path w = (Ok (), w')"
  shows "(\<exists>n. lookupFs w path = Some n \<and> fs w' = fs w) \<or>
         (lookupFs w path = None \<and>
          (\<exists>kp :: keyPair. lookupFs w' path = Some (File 384 (pem (PrivateKey kp))) \<and>
                lookupFs w' (path @ ''.pub'') = Some (File 384 (PublicKey kp))))"
proof -
  from assms obtain r w1 where st: "tryP (osStat path) w = (Ok r, w1)"
    and rest: "(case r of Inr n \<Rightarrow> ret ()
       | Inl e \<Rightarrow>
           (if \<not> isNotExist e then throw (errorf ''Desired directory for SSH keys does not exist: '' e)
            else bindP (wrapErr (errorf ''Error generating key pair: '') newKeyPair) (\<lambda>kp.
                 wrapErr (errorf ''Error writing keys to file(s): '')
                   (KeyPair_WriteToFile pem ''linux'' kp path (path @ ''.pub''))))) w1 = (Ok (), w')"
    unfolding GenerateSSHKey_def by (auto elim!: bindP_OkE)
  show ?thesis
  proof (cases r)
    case (Inr n)
    then have "osStat path w = (Ok n, w1)" using st by (auto simp: tryP_def split: prod.splits result.splits)
    from osStat_Ok [OF this] show ?thesis using rest Inr by (auto simp: ret_def)
  next
    case (Inl e)
    then have s: "osStat path w = (Err e, w1)" and ne: "isNotExist e"
      using st rest by (auto simp: tryP_def throw_def split: prod.splits result.splits if_splits)
    have none: "lookupFs w path = None"
      using s ne unfolding osStat_def by (auto simp: osCall_def split: list.splits option.splits)
    from rest Inl ne obtain kp w2 where "KeyPair_WriteToFile pem ''linux'' kp path (path @ ''.pub'') w2 = (Ok (), w')"
      by (auto elim!: bindP_OkE)
    from WriteToFile_Ok [OF this] none show ?thesis by (intro disjI2 conjI exI [of _ kp]) simp_all
  qed
qed

theorem GenerateSSHKey_safe_witness:
  "\<exists>w'. GenerateSSHKey (\<lambda>k. k) ''linux'' (ret \<lparr>PrivateKey = ''p'', PublicKey = ''q''\<rparr>) ''/id''
          (plainWorld [] ()) = (Ok (), w') \<and> lookupFs w' ''/id'' \<noteq> None"
proof -
  have "\<exists>w'. GenerateSSHKey (\<lambda>k. k) ''linux'' (ret \<lparr>PrivateKey = ''p'', PublicKey = ''q''\<rparr>) ''/id''
          (plainWorld [] ()) = (Ok (), w')"
    by (simp add: GenerateSSHKey_def KeyPair_WriteToFile_def writeKeyFile_def osStat_def openTrunc_def writeData_def
        osChmod_def isDirAt_def parentOf_def uptoLastSlash_def prog_defs)
  then obtain w' where w': "GenerateSSHKey (\<lambda>k. k) ''linux'' (ret \<lparr>PrivateKey = ''p'', PublicKey = ''q''\<rparr>) ''/id''
          (plainWorld [] ()) = (Ok (), w')" by blast
  from GenerateSSHKey_safe [OF w'] w' show ?thesis by auto
qed

text \<open>when the native client cannot open a session, \<open>Output\<close> reports neither output nor an error.\<close>

theorem NativeClient_Output_swallows:
  assumes "NativeClient_session E c w = (Err e, w')"
  shows "NativeClient_Output E c command w = (Ok ([], None), w')"
  using assms by (simp add: NativeClient_Output_def tryP_def bindP_def ret_def)

theorem NativeClient_Output_swallows_witness:
  "\<exists>w'. NativeClient_Output (offlineSSH :: (unit, unit) ssh_env) offlineClient ''exit 0'' () = (Ok ([], None), w')"
proof -
  let ?E = "offlineSSH :: (unit, unit) ssh_env"
  have d: "dialSuccess ?E offlineClient = liftBool (\<lambda>v. (False, v))"
    by (simp add: dialSuccess_def offlineSSH_def liftBool_def prog_defs fun_eq_iff)
  have "fst (WaitFor (sleepW ?E) (dialSuccess ?E offlineClient) ()) = Err (retriesExceeded 60)"
    unfolding d WaitFor_def WaitForSpecific_def WaitForSpecificOrError_def
    using waitLoop_outcome [of "sleepW ?E" "\<lambda>v. (False, v)" 60 60 3000 "()"]
      waitLoop_Ok_iff [of "sleepW ?E" "\<lambda>v. (False, v)" 60 60 3000 "()"]
    by (cases "waitLoop (sleepW ?E) (liftBool (\<lambda>v. (False, v))) 60 60 3000 ()") auto
  then obtain v where
    "NativeClient_session ?E offlineClient () = (Err (errorf ''Error attempting SSH client dial: '' (retriesExceeded 60)), v)"
    by (cases "WaitFor (sleepW ?E) (dialSuccess ?E offlineClient) ()")
      (auto simp: NativeClient_session_def bindP_def wrapErr_def)
  then show ?thesis by (intro exI, rule NativeClient_Output_swallows)
qed

end
