(* ===== verification/Drivers.thy ===== *)
theory Drivers
  imports Ssh_Client
begin

text \<open>
  \<open>libmachine/drivers\<close>: the driver interface, its helpers, the embedded \<open>BaseDriver\<close>, the option reader used
  to validate flags, the serialising wrapper and the drivers that need no hypervisor (\<open>none\<close>, \<open>errdriver\<close>,
  \<open>fakedriver\<close>, the not-supported placeholder and \<open>generic\<close>).

  A driver is a record of its methods over the world \<open>'w\<close>.  A method that returns a value and an error
  returns the pair, because some callers use the value even when there is an error.  The struct behind a
  driver is reached through a lens into the world, so that the same methods serve any world that has it.
\<close>

section \<open>The interface\<close>

text \<open>The part \<open>commands.HostInfo\<close> asks for comes first; \<open>drivers.Driver\<close> extends it.\<close>

record 'w hostInfo =
  GetMachineName :: "('w, string) io"
  GetSSHHostname :: "('w, string \<times> gerror option) io"
  GetSSHPort :: "('w, int \<times> gerror option) io"
  GetSSHUsername :: "('w, string) io"
  GetSSHKeyPath :: "('w, string) io"

record 'w driver = "'w hostInfo" +
  Create :: "('w, unit) io"
  DriverName :: "('w, string) io"
  GetCreateFlags :: "('w, mcnflag list) io"
  GetIP :: "('w, string \<times> gerror option) io"
  GetURL :: "('w, string \<times> gerror option) io"
  GetState :: "('w, state \<times> gerror option) io"
  Kill :: "('w, unit) io"
  PreCreateCheck :: "('w, unit) io"
  Remove :: "('w, unit) io"
  Restart :: "('w, unit) io"
  SetConfigFromFlags :: "driverOptions \<Rightarrow> ('w, unit) io"
  Start :: "('w, unit) io"
  Stop :: "('w, unit) io"

text \<open>\<open>x, err := m(); if err != nil { return err }\<close> on a pair.\<close>

definition orErr :: "('w, 'a \<times> gerror option) io \<Rightarrow> ('w, 'a) io" where
  "orErr m = bindP m (\<lambda>(x, e). case e of None \<Rightarrow> ret x | Some err \<Rightarrow> throw err)"

definition valErr :: "'a \<Rightarrow> gerror \<Rightarrow> ('w, 'a \<times> gerror option) io" where
  "valErr x e = ret (x, Some e)"

definition valOk :: "'a \<Rightarrow> ('w, 'a \<times> gerror option) io" where
  "valOk x = ret (x, None)"

text \<open>The state is compared even when \<open>GetState\<close> reports an error.\<close>

definition MachineInState :: "'w driver \<Rightarrow> state \<Rightarrow> ('w, bool) io" where
  "MachineInState d desiredState =
     bindP (GetState d) (\<lambda>(currentState, err). ret (currentState = desiredState))"

definition MustBeRunning :: "('w, state \<times> gerror option) io \<Rightarrow> ('w, unit) io" where
  "MustBeRunning getState =
     bindP (orErr getState) (\<lambda>s. if s \<noteq> Running then throw ErrHostIsNotRunning else ret ())"

section \<open>SSH through a driver\<close>

definition GetSSHClientFromDriver ::
  "('v os_world_scheme, 'c) ssh_env \<Rightarrow> ('v os_world_scheme, 'm) hostInfo_scheme \<Rightarrow> ('v os_world_scheme, sshClient) io" where
  "GetSSHClientFromDriver E d =
     bindP (orErr (GetSSHHostname d)) (\<lambda>address.
     bindP (orErr (GetSSHPort d)) (\<lambda>port.
     bindP (GetSSHKeyPath d) (\<lambda>k.
     bindP (if k = [] then ret \<lparr>Passwords = [], Keys = []\<rparr>
            else bindP (GetSSHKeyPath d) (\<lambda>key. ret \<lparr>Passwords = [], Keys = [key]\<rparr>)) (\<lambda>auth.
     bindP (GetSSHUsername d) (\<lambda>user.
     NewClient E user address port auth)))))"

definition RunSSHCommandFromDriver ::
  "('v os_world_scheme, 'c) ssh_env \<Rightarrow> ('v os_world_scheme, 'm) hostInfo_scheme \<Rightarrow> string \<Rightarrow> ('v os_world_scheme, string) io" where
  "RunSSHCommandFromDriver E d command =
     bindP (GetSSHClientFromDriver E d) (\<lambda>client.
     bindP (Client_Output E client command) (\<lambda>(output, err).
       case err of
         None \<Rightarrow> ret output
       | Some e \<Rightarrow> throw (ErrorString (''ssh command error:'' @ nl @ ''command : '' @ command @ nl @
                     ''err     : '' @ Error e @ nl @ ''output  : '' @ output))))"

definition sshAvailableFunc ::
  "('v os_world_scheme, 'c) ssh_env \<Rightarrow> ('v os_world_scheme, 'm) hostInfo_scheme \<Rightarrow> ('v os_world_scheme, bool) io" where
  "sshAvailableFunc E d =
     bindP (tryP (RunSSHCommandFromDriver E d ''exit 0'')) (\<lambda>r. ret (case r of Inl e \<Rightarrow> False | Inr out \<Rightarrow> True))"

definition WaitForSSH ::
  "('v os_world_scheme, 'c) ssh_env \<Rightarrow> ('v os_world_scheme, 'm) hostInfo_scheme \<Rightarrow> ('v os_world_scheme, unit) io" where
  "WaitForSSH E d =
     wrapErr (errorf ''Too many retries waiting for SSH to be available.  Last error: '')
       (WaitFor (sleepW E) (sshAvailableFunc E d))"

section \<open>The embedded struct\<close>

record baseDriver =
  IPAddress :: string
  MachineName :: string
  SSHUser :: string
  SSHPort :: int
  SSHKeyPath :: string
  StorePath :: string

definition newBaseDriver :: "string \<Rightarrow> string \<Rightarrow> baseDriver" where
  "newBaseDriver hostName storePath =
     \<lparr>IPAddress = [], MachineName = hostName, SSHUser = [], SSHPort = 0, SSHKeyPath = [], StorePath = storePath\<rparr>"

definition DefaultSSHUser :: string where
  "DefaultSSHUser = ''root''"

definition DefaultSSHPort :: int where
  "DefaultSSHPort = 22"

definition DefaultEngineInstallURL :: string where
  "DefaultEngineInstallURL = ''https://podman.io''"

definition ResolveStorePath :: "baseDriver \<Rightarrow> string \<Rightarrow> string" where
  "ResolveStorePath d file = pathJoin [StorePath d, ''machines'', MachineName d, file]"

definition BaseDriver_DriverName :: string where
  "BaseDriver_DriverName = ''unknown''"

definition BaseDriver_GetIP :: "baseDriver \<Rightarrow> string \<times> gerror option" where
  "BaseDriver_GetIP d =
     (if IPAddress d = [] then ([], Some (ErrorString ''IP address is not set'')) else (IPAddress d, None))"

definition BaseDriver_GetSSHKeyPath :: "baseDriver \<Rightarrow> string \<times> baseDriver" where
  "BaseDriver_GetSSHKeyPath d =
     (let d' = (if SSHKeyPath d = [] then d\<lparr>SSHKeyPath := ResolveStorePath d ''id_rsa''\<rparr> else d)
      in (SSHKeyPath d', d'))"

definition BaseDriver_GetSSHPort :: "baseDriver \<Rightarrow> int \<times> baseDriver" where
  "BaseDriver_GetSSHPort d =
     (let d' = (if SSHPort d = 0 then d\<lparr>SSHPort := DefaultSSHPort\<rparr> else d) in (SSHPort d', d'))"

definition BaseDriver_GetSSHUsername :: "baseDriver \<Rightarrow> string \<times> baseDriver" where
  "BaseDriver_GetSSHUsername d =
     (let d' = (if SSHUser d = [] then d\<lparr>SSHUser := DefaultSSHUser\<rparr> else d) in (SSHUser d', d'))"

definition EngineInstallURLSet :: "string \<Rightarrow> bool" where
  "EngineInstallURLSet url \<longleftrightarrow> url \<noteq> DefaultEngineInstallURL \<and> url \<noteq> []"

definition EngineInstallURLFlagSet :: "driverOptions \<Rightarrow> bool" where
  "EngineInstallURLFlagSet flags = EngineInstallURLSet (optString flags ''engine-install-url'')"

section \<open>Structs in the world\<close>

record ('w, 's) lens =
  lget :: "'w \<Rightarrow> 's"
  lput :: "'s \<Rightarrow> 'w \<Rightarrow> 'w"

text \<open>A method that reads or updates the struct behind a driver.\<close>

definition updater :: "('w, 's) lens \<Rightarrow> ('s \<Rightarrow> 'a \<times> 's) \<Rightarrow> ('w, 'a) io" where
  "updater L f = (\<lambda>w. case f (lget L w) of (x, s) \<Rightarrow> (Ok x, lput L s w))"

definition reader :: "('w, 's) lens \<Rightarrow> ('s \<Rightarrow> 'a) \<Rightarrow> ('w, 'a) io" where
  "reader L f = (\<lambda>w. (Ok (f (lget L w)), w))"

section \<open>Reading options for a check\<close>

record checkDriverOptions =
  FlagsValues :: "string \<rightharpoonup> flagval"
  CreateFlags :: "mcnflag list"
  InvalidFlags :: "string list"

fun isStringFlag :: "mcnflag \<Rightarrow> string option" where
  "isStringFlag (StringFlag n u e v) = Some v"
| "isStringFlag f = None"

fun isSliceFlag :: "mcnflag \<Rightarrow> string list option" where
  "isSliceFlag (StringSliceFlag n u e v) = Some v"
| "isSliceFlag f = None"

fun isIntFlag :: "mcnflag \<Rightarrow> int option" where
  "isIntFlag (IntFlag n u e v) = Some v"
| "isIntFlag f = None"

fun isBoolFlag :: "mcnflag \<Rightarrow> bool" where
  "isBoolFlag (BoolFlag n u e) = True"
| "isBoolFlag f = False"

text \<open>The flag of that name decides; a flag of another type is noted and its zero default is used.\<close>

definition checkGet :: "(mcnflag \<Rightarrow> 'a option) \<Rightarrow> (flagval \<Rightarrow> 'a option) \<Rightarrow> 'a \<Rightarrow> checkDriverOptions \<Rightarrow> string
    \<Rightarrow> 'a \<times> checkDriverOptions" where
  "checkGet asFlag asVal zero c key =
     (case find (\<lambda>flag. Flag_String flag = key) (CreateFlags c) of
        None \<Rightarrow> (zero, c)
      | Some flag \<Rightarrow>
          (let c' = (if asFlag flag = None then c\<lparr>InvalidFlags := InvalidFlags c @ [Flag_String flag]\<rparr> else c);
               dflt = (case asFlag flag of None \<Rightarrow> zero | Some v \<Rightarrow> v)
           in (case Option.bind (FlagsValues c key) asVal of None \<Rightarrow> dflt | Some v \<Rightarrow> v, c')))"

fun valString :: "flagval \<Rightarrow> string option" where
  "valString (VString s) = Some s"
| "valString v = None"

fun valSlice :: "flagval \<Rightarrow> string list option" where
  "valSlice (VSlice s) = Some s"
| "valSlice v = None"

fun valInt :: "flagval \<Rightarrow> int option" where
  "valInt (VInt i) = Some i"
| "valInt v = None"

fun valBool :: "flagval \<Rightarrow> bool option" where
  "valBool (VBool b) = Some b"
| "valBool v = None"

definition CheckDriverOptions_String :: "checkDriverOptions \<Rightarrow> string \<Rightarrow> string \<times> checkDriverOptions" where
  "CheckDriverOptions_String = checkGet isStringFlag valString []"

definition CheckDriverOptions_StringSlice :: "checkDriverOptions \<Rightarrow> string \<Rightarrow> string list \<times> checkDriverOptions" where
  "CheckDriverOptions_StringSlice = checkGet isSliceFlag valSlice []"

definition CheckDriverOptions_Int :: "checkDriverOptions \<Rightarrow> string \<Rightarrow> int \<times> checkDriverOptions" where
  "CheckDriverOptions_Int = checkGet isIntFlag valInt 0"

text \<open>The boolean getter has no early return: every flag of that name is checked.\<close>

definition CheckDriverOptions_Bool :: "checkDriverOptions \<Rightarrow> string \<Rightarrow> bool \<times> checkDriverOptions" where
  "CheckDriverOptions_Bool c key =
     (let bad = map Flag_String (filter (\<lambda>flag. Flag_String flag = key \<and> \<not> isBoolFlag flag) (CreateFlags c))
      in (case Option.bind (FlagsValues c key) valBool of None \<Rightarrow> False | Some b \<Rightarrow> b,
          c\<lparr>InvalidFlags := InvalidFlags c @ bad\<rparr>))"

section \<open>The serialising wrapper\<close>

text \<open>\<open>d.Lock(); defer d.Unlock(); return ...\<close>: \<open>Lock\<close> on a mutex that is held never returns here, and the
  deferred \<open>Unlock\<close> runs on every way out.\<close>

definition withLock :: "('w, bool) lens \<Rightarrow> ('w, 'a) io \<Rightarrow> ('w, 'a) io" where
  "withLock M m = (\<lambda>w. if lget M w then (Blocked, w) else deferP (lput M False) m (lput M True w))"

definition newSerialDriverWithLock :: "'w driver \<Rightarrow> ('w, bool) lens \<Rightarrow> 'w driver" where
  "newSerialDriverWithLock d M = \<lparr>
     GetMachineName = withLock M (GetMachineName d),
     GetSSHHostname = withLock M (GetSSHHostname d),
     GetSSHPort = withLock M (GetSSHPort d),
     GetSSHUsername = withLock M (GetSSHUsername d),
     GetSSHKeyPath = withLock M (GetSSHKeyPath d),
     Create = withLock M (Create d),
     DriverName = withLock M (DriverName d),
     GetCreateFlags = withLock M (GetCreateFlags d),
     GetIP = withLock M (GetIP d),
     GetURL = withLock M (GetURL d),
     GetState = withLock M (GetState d),
     Kill = withLock M (Kill d),
     PreCreateCheck = withLock M (PreCreateCheck d),
     Remove = withLock M (Remove d),
     Restart = withLock M (Restart d),
     SetConfigFromFlags = (\<lambda>opts. withLock M (SetConfigFromFlags d opts)),
     Start = withLock M (Start d),
     Stop = withLock M (Stop d)\<rparr>"

section \<open>The placeholder for unsupported platforms\<close>

record notSupportedDriver =
  ns_Base :: baseDriver
  ns_Name :: string

definition NewDriverNotSupported :: "string \<Rightarrow> string \<Rightarrow> string \<Rightarrow> notSupportedDriver" where
  "NewDriverNotSupported driverName hostName storePath =
     \<lparr>ns_Base = newBaseDriver hostName storePath, ns_Name = driverName\<rparr>"

definition liftBase :: "(baseDriver \<Rightarrow> 'a \<times> baseDriver) \<Rightarrow> notSupportedDriver \<Rightarrow> 'a \<times> notSupportedDriver" where
  "liftBase f d = (case f (ns_Base d) of (x, b) \<Rightarrow> (x, d\<lparr>ns_Base := b\<rparr>))"

definition notSupported :: "('w, notSupportedDriver) lens \<Rightarrow> ('w, 'a) io" where
  "notSupported L = (\<lambda>w. (Err (NotSupported (ns_Name (lget L w))), w))"

definition notSupportedV :: "('w, notSupportedDriver) lens \<Rightarrow> 'a \<Rightarrow> ('w, 'a \<times> gerror option) io" where
  "notSupportedV L x = (\<lambda>w. (Ok (x, Some (NotSupported (ns_Name (lget L w)))), w))"

definition DriverNotSupported :: "('w, notSupportedDriver) lens \<Rightarrow> 'w driver" where
  "DriverNotSupported L = \<lparr>
     GetMachineName = reader L (\<lambda>d. MachineName (ns_Base d)),
     GetSSHHostname = notSupportedV L [],
     GetSSHPort = updater L (liftBase (\<lambda>b. case BaseDriver_GetSSHPort b of (p, b') \<Rightarrow> ((p, None), b'))),
     GetSSHUsername = updater L (liftBase BaseDriver_GetSSHUsername),
     GetSSHKeyPath = updater L (liftBase BaseDriver_GetSSHKeyPath),
     Create = notSupported L,
     DriverName = reader L ns_Name,
     GetCreateFlags = ret [],
     GetIP = reader L (\<lambda>d. BaseDriver_GetIP (ns_Base d)),
     GetURL = notSupportedV L [],
     GetState = notSupportedV L StError,
     Kill = notSupported L,
     PreCreateCheck = notSupported L,
     Remove = notSupported L,
     Restart = notSupported L,
     SetConfigFromFlags = (\<lambda>flags. notSupported L),
     Start = notSupported L,
     Stop = notSupported L\<rparr>"

section \<open>The driver for a missing plugin binary\<close>

definition errDriver :: "string \<Rightarrow> 'w driver" where
  "errDriver name = \<lparr>
     GetMachineName = ret name,
     GetSSHHostname = valErr [] (NotLoadable name),
     GetSSHPort = valErr 0 (NotLoadable name),
     GetSSHUsername = ret [],
     GetSSHKeyPath = ret [],
     Create = throw (NotLoadable name),
     DriverName = ret ''not-found'',
     GetCreateFlags = ret [],
     GetIP = valErr ''1.2.3.4'' (NotLoadable name),
     GetURL = valErr [] (NotLoadable name),
     GetState = valErr StError (NotLoadable name),
     Kill = throw (NotLoadable name),
     PreCreateCheck = throw (NotLoadable name),
     Remove = throw (NotLoadable name),
     Restart = throw (NotLoadable name),
     SetConfigFromFlags = (\<lambda>flags. throw (NotLoadable name)),
     Start = throw (NotLoadable name),
     Stop = throw (NotLoadable name)\<rparr>"

section \<open>The fake driver\<close>

record fakeDriver =
  fk_Base :: baseDriver
  MockState :: state
  MockIP :: string
  MockName :: string
  MockHostname :: string

text \<open>On a timed-out machine \<open>GetIP\<close> waits on an empty \<open>select\<close>, which never returns.\<close>

definition fake_GetIP :: "('w, fakeDriver) lens \<Rightarrow> ('w, string \<times> gerror option) io" where
  "fake_GetIP L = (\<lambda>w. let d = lget L w in
     if MockState d = StError then (Ok ([], Some (ErrorString ''Unable to get ip'')), w)
     else if MockState d = StTimeout then (Blocked, w)
     else if MockState d \<noteq> Running then (Ok ([], Some ErrHostIsNotRunning), w)
     else (Ok (MockIP d, None), w))"

definition tcpURL :: "string \<Rightarrow> string" where
  "tcpURL ip = ''tcp://'' @ ip"

definition fake_GetURL :: "('w, fakeDriver) lens \<Rightarrow> ('w, string \<times> gerror option) io" where
  "fake_GetURL L =
     bindP (fake_GetIP L) (\<lambda>(ip, err).
       case err of
         Some e \<Rightarrow> valErr [] e
       | None \<Rightarrow> if ip = [] then valOk [] else valOk (tcpURL ip))"

definition fake_setState :: "('w, fakeDriver) lens \<Rightarrow> state \<Rightarrow> ('w, unit) io" where
  "fake_setState L s = updater L (\<lambda>d. ((), d\<lparr>MockState := s\<rparr>))"

definition FakeDriver :: "('w, fakeDriver) lens \<Rightarrow> 'w driver" where
  "FakeDriver L = \<lparr>
     GetMachineName = reader L MockName,
     GetSSHHostname = bindP (reader L MockHostname) valOk,
     GetSSHPort = valOk 0,
     GetSSHUsername = ret [],
     GetSSHKeyPath = ret [],
     Create = ret (),
     DriverName = ret ''Driver'',
     GetCreateFlags = ret [],
     GetIP = fake_GetIP L,
     GetURL = fake_GetURL L,
     GetState = bindP (reader L MockState) valOk,
     Kill = fake_setState L Stopped,
     PreCreateCheck = ret (),
     Remove = ret (),
     Restart = fake_setState L Running,
     SetConfigFromFlags = (\<lambda>flags. ret ()),
     Start = fake_setState L Running,
     Stop = fake_setState L Stopped\<rparr>"

section \<open>The driver for machines without a driver\<close>

record noneDriver =
  no_Base :: baseDriver
  URL :: string

definition none_NewDriver :: "string \<Rightarrow> string \<Rightarrow> noneDriver" where
  "none_NewDriver hostName storePath = \<lparr>no_Base = newBaseDriver hostName storePath, URL = []\<rparr>"

text \<open>\<open>parseHost\<close> is the host that \<open>net/url.Parse\<close> finds, or its error.  The URL is stored before it is parsed.\<close>

definition none_SetConfigFromFlags ::
  "(string \<Rightarrow> gerror + string) \<Rightarrow> ('w, noneDriver) lens \<Rightarrow> driverOptions \<Rightarrow> ('w, unit) io" where
  "none_SetConfigFromFlags parseHost L flags = (\<lambda>w.
     let url = optString flags ''url'' in
     if url = [] then (Err (ErrorString ''--url option is required when no driver is selected''), w)
     else let d = (lget L w)\<lparr>URL := url\<rparr> in
       case parseHost url of
         Inl e \<Rightarrow> (Err e, lput L d w)
       | Inr h \<Rightarrow> (Ok (), lput L (d\<lparr>no_Base := (no_Base d)\<lparr>IPAddress := h\<rparr>\<rparr>) w))"

definition NoneDriver :: "(string \<Rightarrow> gerror + string) \<Rightarrow> ('w, noneDriver) lens \<Rightarrow> 'w driver" where
  "NoneDriver parseHost L = \<lparr>
     GetMachineName = reader L (\<lambda>d. MachineName (no_Base d)),
     GetSSHHostname = valOk [],
     GetSSHPort = valOk 0,
     GetSSHUsername = ret [],
     GetSSHKeyPath = ret [],
     Create = ret (),
     DriverName = ret ''none'',
     GetCreateFlags = ret [StringFlag ''url'' ''URL of host when no driver is selected'' [] []],
     GetIP = bindP (reader L (\<lambda>d. IPAddress (no_Base d))) valOk,
     GetURL = bindP (reader L URL) valOk,
     GetState = valOk Running,
     Kill = throw (ErrorString ''hosts without a driver cannot be killed''),
     PreCreateCheck = ret (),
     Remove = ret (),
     Restart = throw (ErrorString ''hosts without a driver cannot be restarted''),
     SetConfigFromFlags = none_SetConfigFromFlags parseHost L,
     Start = throw (ErrorString ''hosts without a driver cannot be started''),
     Stop = throw (ErrorString ''hosts without a driver cannot be stopped'')\<rparr>"

section \<open>Lemmas\<close>

lemma orErr_Ok: "m w = (Ok (x, None), w') \<Longrightarrow> orErr m w = (Ok x, w')"
  by (simp add: orErr_def bindP_def ret_def)

lemma orErr_Err: "m w = (Ok (x, Some e), w') \<Longrightarrow> orErr m w = (Err e, w')"
  by (simp add: orErr_def bindP_def throw_def)

lemma orErr_OkE:
  assumes "orErr m w = (Ok x, w')"
  obtains "m w = (Ok (x, None), w')"
  using assms by (auto simp: orErr_def ret_def throw_def elim!: bindP_OkE split: option.splits)

lemma reader_apply: "reader L f w = (Ok (f (lget L w)), w)"
  by (simp add: reader_def)

text \<open>The laws a struct field in the world obeys.\<close>

locale lens_laws =
  fixes L :: "('w, 's) lens"
  assumes get_put: "lget L (lput L s w) = s"
    and put_get: "lput L (lget L w) w = w"
    and put_put: "lput L s (lput L t w) = lput L s w"
begin

text \<open>A method of the struct reads back what an earlier method wrote.\<close>

lemma method_then_reader:
  "bindP (updater L f) (\<lambda>_. reader L g) w =
     (Ok (g (snd (f (lget L w)))), lput L (snd (f (lget L w))) w)"
  by (cases "f (lget L w)") (simp add: updater_def reader_def bindP_def get_put)

lemma reader_pure: "reader L f w = (Ok (f (lget L w)), w)"
  by (simp add: reader_def)

end

text \<open>A mutex in the world and operations that do not look at it.\<close>

definition ignoresLock :: "('w, bool) lens \<Rightarrow> ('w, 'a) io \<Rightarrow> bool" where
  "ignoresLock M m \<longleftrightarrow> (\<forall>b w. m (lput M b w) = (fst (m w), lput M b (snd (m w))))"

locale lock_in_world = lens_laws M for M :: "('w, bool) lens"
begin

lemma withLock_transparent:
  assumes "ignoresLock M m" and "\<not> lget M w" and "fst (m w) \<noteq> Blocked"
  shows "withLock M m w = m w"
proof -
  have "m (lput M False w) = (fst (m w), lput M False (snd (m w)))"
    and t: "m (lput M True w) = (fst (m w), lput M True (snd (m w)))"
    using assms(1) by (auto simp: ignoresLock_def)
  moreover have "lput M False w = w" using put_get [of w] assms(2) by simp
  ultimately have "lput M False (snd (m w)) = snd (m w)" by (metis prod.collapse snd_conv)
  then show ?thesis
    using assms(2,3) t by (simp add: withLock_def deferP_def put_put)
qed

lemma withLock_releases:
  assumes "withLock M m w = (r, w')" and "r \<noteq> Blocked"
  shows "\<not> lget M w'"
  using assms by (auto simp: withLock_def deferP_def get_put split: prod.splits if_splits)

lemma withLock_held: "lget M w \<Longrightarrow> withLock M m w = (Blocked, w)"
  by (simp add: withLock_def)

end

text \<open>The extension of the operating-system record, and the two halves of a pair.\<close>

definition moreL :: "('v os_world_scheme, 'v) lens" where
  "moreL = \<lparr>lget = os_world.more, lput = (\<lambda>v w. os_world.more_update (\<lambda>_. v) w)\<rparr>"

definition lockL :: "((bool \<times> 's) os_world_scheme, bool) lens" where
  "lockL = \<lparr>lget = (\<lambda>w. fst (os_world.more w)),
             lput = (\<lambda>b w. os_world.more_update (\<lambda>(_, s). (b, s)) w)\<rparr>"

definition structL :: "((bool \<times> 's) os_world_scheme, 's) lens" where
  "structL = \<lparr>lget = (\<lambda>w. snd (os_world.more w)),
               lput = (\<lambda>s w. os_world.more_update (\<lambda>(b, _). (b, s)) w)\<rparr>"

interpretation moreLens: lens_laws moreL
  by unfold_locales (simp_all add: moreL_def)

interpretation structLens: lens_laws structL
  by unfold_locales (auto simp: structL_def split: prod.splits)

interpretation worldLock: lock_in_world lockL
  by unfold_locales (auto simp: lockL_def split: prod.splits)

lemma ignores_structL:
  "ignoresLock lockL (updater structL f)" "ignoresLock lockL (reader structL g)"
  by (auto simp: ignoresLock_def updater_def reader_def structL_def lockL_def split: prod.splits)

lemma ignores_ret: "ignoresLock lockL (ret x)" "ignoresLock lockL (throw e)"
  by (auto simp: ignoresLock_def ret_def throw_def)

lemma ignores_bind:
  assumes "ignoresLock lockL m" and "\<And>x. ignoresLock lockL (f x)"
  shows "ignoresLock lockL (bindP m f)"
proof -
  have "bindP m f (lput lockL b w) = (fst (bindP m f w), lput lockL b (snd (bindP m f w)))" for b w
  proof -
    have m: "m (lput lockL b w) = (fst (m w), lput lockL b (snd (m w)))"
      using assms(1) by (auto simp: ignoresLock_def)
    obtain r v where rv: "m w = (r, v)" by force
    show ?thesis
    proof (cases r)
      case (Ok x)
      have "f x (lput lockL b v) = (fst (f x v), lput lockL b (snd (f x v)))"
        using assms(2) [of x] by (auto simp: ignoresLock_def)
      with m rv Ok show ?thesis by (simp add: bindP_def)
    qed (use m rv in \<open>simp_all add: bindP_def\<close>)
  qed
  then show ?thesis by (simp add: ignoresLock_def)
qed

section \<open>Properties\<close>

text \<open>around an operation that does not look at the mutex, the serialising wrapper changes nothing but the
  moment at which it runs: called with the mutex free it gives the same outcome and the same world, and it leaves
  the mutex free; called while the mutex is held it waits.\<close>

theorem serial_wrapper_transparent:
  fixes d :: "(bool \<times> 's) os_world_scheme driver"
  assumes "op \<in> {Create, Kill, PreCreateCheck, Remove, Restart, Start, Stop}"
    and "ignoresLock lockL (op d)" and "fst (op d w) \<noteq> Blocked"
  shows "(\<not> lget lockL w \<longrightarrow> op (newSerialDriverWithLock d lockL) w = op d w \<and> \<not> lget lockL (snd (op d w))) \<and>
         (lget lockL w \<longrightarrow> op (newSerialDriverWithLock d lockL) w = (Blocked, w))"
proof -
  have op: "op (newSerialDriverWithLock d lockL) = withLock lockL (op d)"
    using assms(1) by (auto simp: newSerialDriverWithLock_def)
  show ?thesis
    using worldLock.withLock_transparent [OF assms(2) _ assms(3)] worldLock.withLock_held [of w "op d"] assms(3)
      worldLock.withLock_releases [of "op d" w "fst (op d w)" "snd (op d w)"]
    unfolding op by auto
qed

theorem serial_wrapper_transparent_witness:
  "Stop (newSerialDriverWithLock (FakeDriver structL) lockL) (plainWorld [] (False, \<lparr>fk_Base = newBaseDriver [] [],
      MockState = Running, MockIP = [], MockName = [], MockHostname = []\<rparr>)) =
   Stop (FakeDriver structL) (plainWorld [] (False, \<lparr>fk_Base = newBaseDriver [] [],
      MockState = Running, MockIP = [], MockName = [], MockHostname = []\<rparr>))"
proof -
  let ?w = "plainWorld [] (False, \<lparr>fk_Base = newBaseDriver [] [], MockState = Running, MockIP = [], MockName = [],
     MockHostname = []\<rparr>)"
  have "ignoresLock lockL (Stop (FakeDriver structL))"
    by (simp add: FakeDriver_def fake_setState_def ignores_structL)
  moreover have "fst (Stop (FakeDriver structL) ?w) \<noteq> Blocked"
    by (simp add: FakeDriver_def fake_setState_def updater_def split: prod.splits)
  ultimately show ?thesis
    using serial_wrapper_transparent [of Stop "FakeDriver structL" ?w] by (simp add: lockL_def)
qed

end
