(* ===== verification/Serial_Lock.thy ===== *)
theory Serial_Lock
  imports Drivers
begin

text \<open>
  Concurrent calls through \<open>SerialDriver\<close> (\<open>libmachine/drivers/serial.go\<close>).  Every method of the wrapper is
  \<open>Lock\<close>, the inner call, \<open>Unlock\<close>.  Here the inner call is a sequence of effects on the shared hypervisor, and
  any number of goroutines interleave their steps.  The field \<open>hist\<close> records the calls in the order in which
  they took the lock.
\<close>

datatype 'w phase = Idle | Waiting "('w \<Rightarrow> 'w) list" | Inside "('w \<Rightarrow> 'w) list"

record 'w serial_sys =
  mutex :: bool
  threads :: "nat \<Rightarrow> 'w phase"
  shared :: 'w
  hist :: "('w \<Rightarrow> 'w) list list"

inductive serial_step :: "'w serial_sys \<Rightarrow> 'w serial_sys \<Rightarrow> bool" where
  call: "threads s i = Idle \<Longrightarrow>
     serial_step s (s\<lparr>threads := (threads s)(i := Waiting op)\<rparr>)"
| lock: "threads s i = Waiting op \<Longrightarrow> \<not> mutex s \<Longrightarrow>
     serial_step s (s\<lparr>mutex := True, threads := (threads s)(i := Inside op), hist := hist s @ [op]\<rparr>)"
| effect: "threads s i = Inside (f # es) \<Longrightarrow>
     serial_step s (s\<lparr>threads := (threads s)(i := Inside es), shared := f (shared s)\<rparr>)"
| unlock: "threads s i = Inside [] \<Longrightarrow>
     serial_step s (s\<lparr>mutex := False, threads := (threads s)(i := Idle)\<rparr>)"

inductive_cases serial_stepE: "serial_step s t"

definition serial_init :: "'w \<Rightarrow> 'w serial_sys" where
  "serial_init w = \<lparr>mutex = False, threads = (\<lambda>_. Idle), shared = w, hist = []\<rparr>"

inductive serial_reach :: "'w \<Rightarrow> 'w serial_sys \<Rightarrow> bool" for w0 where
  start: "serial_reach w0 (serial_init w0)"
| step: "serial_reach w0 s \<Longrightarrow> serial_step s t \<Longrightarrow> serial_reach w0 t"

text \<open>The effects of calls one after the other.\<close>

definition runOps :: "('w \<Rightarrow> 'w) list list \<Rightarrow> 'w \<Rightarrow> 'w" where
  "runOps ops w = fold (\<lambda>f. f) (concat ops) w"

fun remaining :: "'w phase \<Rightarrow> ('w \<Rightarrow> 'w) list option" where
  "remaining (Inside es) = Some es"
| "remaining p = None"

definition serial_inv :: "'w \<Rightarrow> 'w serial_sys \<Rightarrow> bool" where
  "serial_inv w0 s \<longleftrightarrow>
     (if mutex s
      then \<exists>i es. threads s i = Inside es \<and> (\<forall>j. j \<noteq> i \<longrightarrow> remaining (threads s j) = None) \<and>
                  fold (\<lambda>f. f) es (shared s) = runOps (hist s) w0
      else (\<forall>j. remaining (threads s j) = None) \<and> shared s = runOps (hist s) w0)"

lemma runOps_snoc: "runOps (ops @ [op]) w = fold (\<lambda>f. f) op (runOps ops w)"
  by (simp add: runOps_def)

lemma remaining_None_Inside [simp]: "remaining p = None \<Longrightarrow> p \<noteq> Inside es"
  by (cases p) auto

lemma serial_inv_init: "serial_inv w0 (serial_init w0)"
  by (simp add: serial_inv_def serial_init_def runOps_def)

lemma serial_inv_call:
  "serial_inv w0 s \<Longrightarrow> threads s i = Idle \<Longrightarrow> serial_inv w0 (s\<lparr>threads := (threads s)(i := Waiting op)\<rparr>)"
  by (auto simp: serial_inv_def split: if_splits) (metis phase.distinct(3))

lemma serial_inv_lock:
  "serial_inv w0 s \<Longrightarrow> threads s i = Waiting op \<Longrightarrow> \<not> mutex s \<Longrightarrow>
   serial_inv w0 (s\<lparr>mutex := True, threads := (threads s)(i := Inside op), hist := hist s @ [op]\<rparr>)"
  by (auto simp: serial_inv_def runOps_snoc intro!: exI [of _ i])

lemma serial_inv_inside:
  assumes "serial_inv w0 s" and "threads s i = Inside es"
  shows "mutex s \<and> (\<forall>j. j \<noteq> i \<longrightarrow> remaining (threads s j) = None) \<and>
         fold (\<lambda>f. f) es (shared s) = runOps (hist s) w0"
  using assms unfolding serial_inv_def
  by (cases "mutex s") (auto, (metis phase.inject(2) remaining.simps(1) option.distinct(1))+)

lemma serial_inv_effect:
  assumes "serial_inv w0 s" and "threads s i = Inside (f # es)"
  shows "serial_inv w0 (s\<lparr>threads := (threads s)(i := Inside es), shared := f (shared s)\<rparr>)"
  using serial_inv_inside [OF assms] by (auto simp: serial_inv_def intro!: exI [of _ i])

lemma serial_inv_unlock:
  assumes "serial_inv w0 s" and "threads s i = Inside []"
  shows "serial_inv w0 (s\<lparr>mutex := False, threads := (threads s)(i := Idle)\<rparr>)"
  using serial_inv_inside [OF assms] by (auto simp: serial_inv_def)

lemma serial_step_inv: "serial_step s t \<Longrightarrow> serial_inv w0 s \<Longrightarrow> serial_inv w0 t"
  by (induction rule: serial_step.induct)
    (rule serial_inv_call serial_inv_lock serial_inv_effect serial_inv_unlock; assumption)+

lemma serial_reach_inv: "serial_reach w0 s \<Longrightarrow> serial_inv w0 s"
  by (induction rule: serial_reach.induct) (blast intro: serial_inv_init serial_step_inv)+

section \<open>Properties\<close>



end
