(* ===== verification/Generic_Driver.thy ===== *)
theory Generic_Driver
  imports Drivers
begin

text \<open>
  \<open>drivers/generic\<close>: the driver for machines that already run somewhere and are reached over SSH only.
  Creating such a machine imports its key into the store; its state is whether its SSH port answers.
\<close>

section \<open>The driver\<close>

record genericDriver =
  gn_Base :: baseDriver
  SSHKey :: string

definition generic_GetCreateFlags :: "mcnflag list" where
  "generic_GetCreateFlags =
     [StringFlag ''generic-ip-address'' ''IP Address of machine'' ''GENERIC_IP_ADDRESS'' [],
      StringFlag ''generic-ssh-user'' ''SSH user'' ''GENERIC_SSH_USER'' DefaultSSHUser,
      StringFlag ''generic-ssh-key'' ''SSH private key path (if not provided, default SSH key will be used)''
        ''GENERIC_SSH_KEY'' [],
      IntFlag ''generic-ssh-port'' ''SSH port'' ''GENERIC_SSH_PORT'' DefaultSSHPort]"

definition generic_NewDriver :: "string \<Rightarrow> string \<Rightarrow> genericDriver" where
  "generic_NewDriver hostName storePath = \<lparr>gn_Base = newBaseDriver hostName storePath, SSHKey = []\<rparr>"

definition gnBase :: "(baseDriver \<Rightarrow> 'a \<times> baseDriver) \<Rightarrow> genericDriver \<Rightarrow> 'a \<times> genericDriver" where
  "gnBase f d = (case f (gn_Base d) of (x, b) \<Rightarrow> (x, d\<lparr>gn_Base := b\<rparr>))"

text \<open>All four options are stored before the address is checked.\<close>

definition generic_SetConfigFromFlags :: "('w, genericDriver) lens \<Rightarrow> driverOptions \<Rightarrow> ('w, unit) io" where
  "generic_SetConfigFromFlags L flags = (\<lambda>w.
     let d = lget L w;
         d' = d\<lparr>gn_Base := (gn_Base d)\<lparr>IPAddress := optString flags ''generic-ip-address'',
                  SSHUser := optString flags ''generic-ssh-user'', SSHPort := optInt flags ''generic-ssh-port''\<rparr>,
                SSHKey := optString flags ''generic-ssh-key''\<rparr>
     in (if IPAddress (gn_Base d') = []
         then Err (ErrorString ''generic driver requires the --generic-ip-address option'') else Ok (),
         lput L d' w))"

text \<open>Any stat error but a missing file is ignored.\<close>

definition generic_PreCreateCheck :: "('v os_world_scheme, genericDriver) lens \<Rightarrow> ('v os_world_scheme, unit) io" where
  "generic_PreCreateCheck L =
     bindP (reader L SSHKey) (\<lambda>key.
       if key = [] then ret ()
       else bindP (tryP (osStat key)) (\<lambda>r.
         case r of
           Inr n \<Rightarrow> ret ()
         | Inl e \<Rightarrow> if isNotExist e then throw (ErrorString (''SSH key does not exist: '' @ Quote key)) else ret ()))"

definition copySSHKey :: "string \<Rightarrow> string \<Rightarrow> ('v os_world_scheme, unit) io" where
  "copySSHKey src dst =
     bindP (wrapErr (errorf ''unable to copy ssh key: '') (CopyFile src dst)) (\<lambda>_.
     wrapErr (errorf ''unable to set permissions on the ssh key: '') (osChmod dst 384))"

definition generic_Create :: "('v os_world_scheme, genericDriver) lens \<Rightarrow> ('v os_world_scheme, unit) io" where
  "generic_Create L =
     bindP (reader L (\<lambda>d. d)) (\<lambda>d.
       if SSHKey d = [] then ret ()
       else let dst = ResolveStorePath (gn_Base d) (pathBase (SSHKey d))
         in bindP (updater L (\<lambda>d. ((), d\<lparr>gn_Base := (gn_Base d)\<lparr>SSHKeyPath := dst\<rparr>\<rparr>))) (\<lambda>_.
            bindP (copySSHKey (SSHKey d) dst) (\<lambda>_.
            bindP (tryP (copySSHKey (SSHKey d @ ''.pub'') (dst @ ''.pub''))) (\<lambda>_. ret ()))))"

text \<open>\<open>dial\<close> is \<open>net.DialTimeout\<close> on TCP with the timeout of 15 seconds.\<close>

definition generic_GetState ::
  "(string \<Rightarrow> ('w, unit) io) \<Rightarrow> ('w, genericDriver) lens \<Rightarrow> ('w, state \<times> gerror option) io" where
  "generic_GetState dial L =
     bindP (reader L (\<lambda>d. JoinHostPort (IPAddress (gn_Base d)) (Itoa (SSHPort (gn_Base d))))) (\<lambda>address.
     bindP (tryP (dial address)) (\<lambda>r. valOk (case r of Inl e \<Rightarrow> Stopped | Inr _ \<Rightarrow> Running)))"

definition generic_GetURL ::
  "(string \<Rightarrow> ('w, unit) io) \<Rightarrow> ('w, genericDriver) lens \<Rightarrow> ('w, string \<times> gerror option) io" where
  "generic_GetURL dial L =
     bindP (tryP (MustBeRunning (generic_GetState dial L))) (\<lambda>r.
       case r of
         Inl e \<Rightarrow> valErr [] e
       | Inr _ \<Rightarrow>
           bindP (reader L (\<lambda>d. BaseDriver_GetIP (gn_Base d))) (\<lambda>(ip, err).
             case err of Some e \<Rightarrow> valErr [] e | None \<Rightarrow> valOk (tcpURL ip)))"

definition generic_hostInfo :: "('w, genericDriver) lens \<Rightarrow> 'w hostInfo" where
  "generic_hostInfo L = \<lparr>
     GetMachineName = reader L (\<lambda>d. MachineName (gn_Base d)),
     GetSSHHostname = reader L (\<lambda>d. BaseDriver_GetIP (gn_Base d)),
     GetSSHPort = updater L (gnBase (\<lambda>b. case BaseDriver_GetSSHPort b of (p, b') \<Rightarrow> ((p, None), b'))),
     GetSSHUsername = reader L (\<lambda>d. SSHUser (gn_Base d)),
     GetSSHKeyPath = reader L (\<lambda>d. SSHKeyPath (gn_Base d))\<rparr>"

definition generic_Restart ::
  "('v os_world_scheme, 'c) ssh_env \<Rightarrow> ('v os_world_scheme, genericDriver) lens \<Rightarrow> ('v os_world_scheme, unit) io" where
  "generic_Restart E L =
     bindP (RunSSHCommandFromDriver E (generic_hostInfo L) ''sudo shutdown -r now'') (\<lambda>_. ret ())"

definition GenericDriver ::
  "('v os_world_scheme, 'c) ssh_env \<Rightarrow> (string \<Rightarrow> ('v os_world_scheme, unit) io) \<Rightarrow>
   ('v os_world_scheme, genericDriver) lens \<Rightarrow> 'v os_world_scheme driver" where
  "GenericDriver E dial L = \<lparr>
     GetMachineName = GetMachineName (generic_hostInfo L),
     GetSSHHostname = GetSSHHostname (generic_hostInfo L),
     GetSSHPort = GetSSHPort (generic_hostInfo L),
     GetSSHUsername = GetSSHUsername (generic_hostInfo L),
     GetSSHKeyPath = GetSSHKeyPath (generic_hostInfo L),
     Create = generic_Create L,
     DriverName = ret ''generic'',
     GetCreateFlags = ret generic_GetCreateFlags,
     GetIP = reader L (\<lambda>d. BaseDriver_GetIP (gn_Base d)),
     GetURL = generic_GetURL dial L,
     GetState = generic_GetState dial L,
     Kill = throw (ErrorString ''generic driver does not support kill''),
     PreCreateCheck = generic_PreCreateCheck L,
     Remove = ret (),
     Restart = generic_Restart E L,
     SetConfigFromFlags = generic_SetConfigFromFlags L,
     Start = throw (ErrorString ''generic driver does not support start''),
     Stop = throw (ErrorString ''generic driver does not support stop'')\<rparr>"

section \<open>Lemmas\<close>

lemma lookupFs_moreL [simp]: "lookupFs (lput moreL s w) p = lookupFs w p"
  by (simp add: moreL_def lookupFs_def)

lemma osOpen_Ok: "osOpen p w = (Ok (), w') \<Longrightarrow> lookupFs w' = lookupFs w"
  unfolding osOpen_def
  by (auto simp: osCall_def fun_eq_iff split: list.splits option.splits if_splits)

lemma osStat_lookup: "osStat p w = (Ok n, w') \<Longrightarrow> lookupFs w' = lookupFs w"
  using osStat_Ok [of p w n w'] by (simp add: lookupFs_def fun_eq_iff)

text \<open>A copy onto another file has the content and the permissions of the source and touches nothing else.\<close>

lemma CopyFile_Ok:
  assumes "CopyFile src dst w = (Ok (), w')" and "src \<noteq> dst"
  shows "\<exists>m s. lookupFs w src = Some (File m s) \<and> lookupFs w' dst = Some (File m s) \<and>
               (\<forall>q. q \<noteq> dst \<longrightarrow> lookupFs w' q = lookupFs w q)"
proof -
  from assms(1) obtain w1 w2 w3 w4 w5 s n where
    1: "osOpen src w = (Ok (), w1)" and 2: "openTrunc dst 438 w1 = (Ok (), w2)"
    and 3: "readFile src w2 = (Ok s, w3)" and 4: "writeData dst s w3 = (Ok (), w4)"
    and 5: "osStat src w4 = (Ok n, w5)" and 6: "osChmod dst (nodeMode n) w5 = (Ok (), w')"
    unfolding CopyFile_def by (auto elim!: bindP_OkE)
  have 34: "lookupFs w3 = lookupFs w2" using readFile_Ok [OF 3] by simp
  have oth: "\<And>q. q \<noteq> dst \<Longrightarrow> lookupFs w4 q = lookupFs w q"
    using osOpen_Ok [OF 1] openTrunc_Ok [OF 2] 34 writeData_Ok [OF 4] by metis
  obtain m where m: "lookupFs w src = Some (File m s)"
    using readFile_Ok [OF 3] openTrunc_Ok [OF 2] osOpen_Ok [OF 1] assms(2) by metis
  then have n: "n = File m s" using osStat_Ok [OF 5] oth [OF assms(2)] by simp
  have w5: "lookupFs w5 = lookupFs w4" using osStat_lookup [OF 5] .
  obtain k where "lookupFs w5 dst = Some (File k s)" using writeData_Ok [OF 4] w5 by metis
  then show ?thesis using osChmod_Ok [OF 6] n m w5 oth by auto
qed

lemma copySSHKey_Ok:
  assumes "copySSHKey src dst w = (Ok (), w')" and "src \<noteq> dst"
  shows "\<exists>m s. lookupFs w src = Some (File m s) \<and> lookupFs w' dst = Some (File 384 s) \<and>
               (\<forall>q. q \<noteq> dst \<longrightarrow> lookupFs w' q = lookupFs w q)"
proof -
  from assms(1) obtain w1 where 1: "CopyFile src dst w = (Ok (), w1)" and 2: "osChmod dst 384 w1 = (Ok (), w')"
    unfolding copySSHKey_def by (auto elim!: bindP_OkE)
  from CopyFile_Ok [OF 1 assms(2)] obtain m s where c: "lookupFs w src = Some (File m s)"
    "lookupFs w1 dst = Some (File m s)" "\<forall>q. q \<noteq> dst \<longrightarrow> lookupFs w1 q = lookupFs w q" by blast
  then show ?thesis using osChmod_Ok [OF 2 c(2)] by auto
qed

text \<open>Whatever the outcome of a copy is, only the destination changes.\<close>

lemma osOpen_frame [frame_rules]: "keepsFile q (osOpen p)"
  unfolding osOpen_def by (rule keepsFile_osCall) (simp add: keepsFile_def)

lemma CopyFile_frame [frame_rules]: "q \<noteq> dst \<Longrightarrow> keepsFile q (CopyFile src dst)"
  unfolding CopyFile_def by (intro frame_rules)

lemma copySSHKey_frame [frame_rules]: "q \<noteq> dst \<Longrightarrow> keepsFile q (copySSHKey src dst)"
  unfolding copySSHKey_def by (intro frame_rules)

section \<open>Properties\<close>

text \<open>creating a generic machine with a key from outside the store copies the key into the machine directory,
  readable by its owner only, and makes the driver use the copy; the original stays as it was.\<close>

theorem generic_Create_imports_key:
  assumes run: "generic_Create moreL w = (Ok (), w')" and d: "d = os_world.more w" and key: "SSHKey d \<noteq> []"
    and dst: "dst = ResolveStorePath (gn_Base d) (pathBase (SSHKey d))"
    and out: "SSHKey d \<noteq> dst" "SSHKey d \<noteq> dst @ ''.pub''"
  shows "\<exists>m s. lookupFs w (SSHKey d) = Some (File m s) \<and> lookupFs w' (SSHKey d) = Some (File m s) \<and>
               lookupFs w' dst = Some (File 384 s)"
proof -
  let ?w0 = "lput moreL (d\<lparr>gn_Base := (gn_Base d)\<lparr>SSHKeyPath := dst\<rparr>\<rparr>) w"
  have "bindP (copySSHKey (SSHKey d) dst) (\<lambda>_. bindP (tryP (copySSHKey (SSHKey d @ ''.pub'') (dst @ ''.pub''))) (\<lambda>_. ret ())) ?w0
          = (Ok (), w')"
    using run d key unfolding generic_Create_def by (simp add: reader_def updater_def moreL_def Let_def dst bindP_def)
  then obtain w1 where 1: "copySSHKey (SSHKey d) dst ?w0 = (Ok (), w1)"
    and 2: "bindP (tryP (copySSHKey (SSHKey d @ ''.pub'') (dst @ ''.pub''))) (\<lambda>_. ret ()) w1 = (Ok (), w')"
    by (rule bindP_OkE) simp
  from copySSHKey_Ok [OF 1 out(1)] obtain m s where c: "lookupFs w (SSHKey d) = Some (File m s)"
    "lookupFs w1 dst = Some (File 384 s)" "lookupFs w1 (SSHKey d) = Some (File m s)"
    using out(1) by auto
  have frame: "lookupFs w' q = lookupFs w1 q" if "q \<noteq> dst @ ''.pub''" for q
  proof -
    have "keepsFile q (bindP (tryP (copySSHKey (SSHKey d @ ''.pub'') (dst @ ''.pub''))) (\<lambda>_. ret ()))"
      by (intro frame_rules that)
    then show ?thesis using 2 by (rule keepsFileD)
  qed
  have "dst \<noteq> dst @ ''.pub''" by simp
  then show ?thesis using c frame [of dst] frame [of "SSHKey d"] out(2) by auto
qed

theorem generic_Create_imports_key_witness:
  "\<exists>w'. generic_Create moreL (plainWorld [(''/k'', File 420 ''secret''), (''/s'', Dir), (''/s/machines'', Dir), (''/s/machines/m'', Dir)]
            \<lparr>gn_Base = newBaseDriver ''m'' ''/s'', SSHKey = ''/k''\<rparr>) = (Ok (), w') \<and>
        lookupFs w' ''/s/machines/m/k'' = Some (File 384 ''secret'')"
proof -
  let ?d = "\<lparr>gn_Base = newBaseDriver ''m'' ''/s'', SSHKey = ''/k''\<rparr>"
  let ?w = "plainWorld [(''/k'', File 420 ''secret''), (''/s'', Dir), (''/s/machines'', Dir), (''/s/machines/m'', Dir)] ?d"
  have dst: "ResolveStorePath (gn_Base ?d) (pathBase (SSHKey ?d)) = ''/s/machines/m/k''" by code_simp
  have "fst (generic_Create moreL ?w) = Ok ()" by code_simp
  then obtain w' where w': "generic_Create moreL ?w = (Ok (), w')" by (metis prod.collapse)
  have "SSHKey ?d \<noteq> ''/s/machines/m/k''" "SSHKey ?d \<noteq> ''/s/machines/m/k'' @ ''.pub''" by simp_all
  from generic_Create_imports_key [OF w' _ _ dst [symmetric] this] w' show ?thesis by simp
qed

end
