(* ===== verification/B2p.thy ===== *)
theory B2p
  imports Mcn_Utils
begin

text \<open>
  \<open>libmachine/mcnutils/b2p.go\<close>: the cache of the boot image.  It finds the latest release, downloads it to a
  temporary file that is renamed into place, reads the version from the volume identifier of the image,
  decides whether the cached image is current, and copies the image into the directory of a machine.

  The network and \<open>net/url\<close> are the record \<open>b2p_env\<close>: the tag names the release service answers with, the body
  and the announced length of a download, and the scheme and path of a parsed URL.
\<close>

record 'w b2p_env =
  getTags :: "string \<Rightarrow> string \<Rightarrow> ('w, string list) io"
  getTag :: "string \<Rightarrow> string \<Rightarrow> ('w, string) io"
  httpGet :: "string \<Rightarrow> ('w, string \<times> int) io"
  parseURL :: "string \<Rightarrow> (string \<times> string) option"
  GithubAPIToken :: string

definition RC :: bool where
  "RC = True"

definition defaultURL :: string where
  "defaultURL = ''https://api.github.com/repos/boot2podman/boot2podman/releases''"

definition defaultISOFilename :: string where
  "defaultISOFilename = ''boot2podman.iso''"

definition defaultVolumeIDOffset :: nat where
  "defaultVolumeIDOffset = 32808"

definition defaultVolumeIDLength :: nat where
  "defaultVolumeIDLength = 32"

definition versionPrefix :: string where
  "versionPrefix = ''-v''"

definition errGitHubAPIResponse :: gerror where
  "errGitHubAPIResponse = ErrorString ''failure getting a version tag from the Github API response (are you getting rate limited by Github?)''"

section \<open>Releases\<close>

text \<open>The header a request carries.\<close>

definition getRequest :: "'w b2p_env \<Rightarrow> string" where
  "getRequest B = (if GithubAPIToken B \<noteq> [] then ''token '' @ GithubAPIToken B else [])"

text \<open>A release candidate asks for the list of releases and takes the first, whatever its length.\<close>

definition getReleaseTag :: "'w b2p_env \<Rightarrow> string \<Rightarrow> ('w, string) io" where
  "getReleaseTag B apiURL0 =
     (let apiURL1 = (if apiURL0 = [] then defaultURL else apiURL0);
          apiURL = (if \<not> RC then apiURL1 @ ''/latest'' else apiURL1)
      in if RC then
           bindP (getTags B (getRequest B) apiURL) (\<lambda>tags.
             case tags of
               [] \<Rightarrow> panic ''index out of range''
             | t # ts \<Rightarrow> if t = [] then throw errGitHubAPIResponse else ret t)
         else
           bindP (getTag B (getRequest B) apiURL) (\<lambda>t.
             if t = [] then throw errGitHubAPIResponse else ret t))"

text \<open>The regular expression \<open>(https?)://([^/]+)(/api/v3)?/repos/([^/]+)/([^/]+)/releases\<close> at one position: scheme,
  host, organisation and repository.\<close>

definition segment :: "string \<Rightarrow> (string \<times> string) option" where
  "segment s = (let x = takeWhile (\<lambda>c. c \<noteq> CHR ''/'') s in if x = [] then None else Some (x, drop (length x) s))"

definition stripPre :: "string \<Rightarrow> string \<Rightarrow> string option" where
  "stripPre p s = (if HasPrefix s p then Some (drop (length p) s) else None)"

definition schemeAt :: "string \<Rightarrow> (string \<times> string) option" where
  "schemeAt s = (case stripPre ''https://'' s of
       Some r \<Rightarrow> Some (''https'', r)
     | None \<Rightarrow> map_option (\<lambda>r. (''http'', r)) (stripPre ''http://'' s))"

definition releaseMatchAt :: "string \<Rightarrow> (string \<times> string \<times> string \<times> string) option" where
  "releaseMatchAt s =
     Option.bind (schemeAt s) (\<lambda>(scheme, s1).
     Option.bind (segment s1) (\<lambda>(host, s2).
     Option.bind (case stripPre ''/api/v3/repos/'' s2 of Some r \<Rightarrow> Some r | None \<Rightarrow> stripPre ''/repos/'' s2) (\<lambda>s3.
     Option.bind (segment s3) (\<lambda>(org, s4).
     Option.bind (stripPre ''/'' s4) (\<lambda>s5.
     Option.bind (segment s5) (\<lambda>(repo, s6).
     Option.bind (stripPre ''/releases'' s6) (\<lambda>_. Some (scheme, host, org, repo))))))))"

fun releaseMatch :: "string \<Rightarrow> (string \<times> string \<times> string \<times> string) option" where
  "releaseMatch [] = releaseMatchAt []"
| "releaseMatch (c # cs) = (case releaseMatchAt (c # cs) of Some m \<Rightarrow> Some m | None \<Rightarrow> releaseMatch cs)"

definition getReleaseURL :: "'w b2p_env \<Rightarrow> string \<Rightarrow> string \<Rightarrow> ('w, string) io" where
  "getReleaseURL B isoFilename apiURL0 =
     (let apiURL = (if apiURL0 = [] then defaultURL else apiURL0)
      in case releaseMatch apiURL of
           None \<Rightarrow> ret apiURL
         | Some (scheme, host0, org, repo) \<Rightarrow>
             (let host = (if host0 = ''api.github.com'' then ''github.com'' else host0)
              in bindP (getReleaseTag B apiURL) (\<lambda>tag.
                   ret (scheme @ ''://'' @ host @ slash @ org @ slash @ repo @ ''/releases/download/'' @ tag
                        @ slash @ isoFilename))))"

section \<open>Downloads\<close>

definition removeFileIfExists :: "string \<Rightarrow> ('v os_world_scheme, unit) io" where
  "removeFileIfExists name =
     bindP (tryP (osStat name)) (\<lambda>r.
       case r of
         Inl e \<Rightarrow> ret ()
       | Inr n \<Rightarrow> wrapErr (errorf ''Error removing temporary download file: '') (osRemove name))"

text \<open>The source is opened before the temporary file is made and read after that: opening yields the reader.  A URL
  that does not parse gives a nil \<open>u\<close>, which is dereferenced.  A download goes through the progress reader, whose
  percentage divides by the announced length.\<close>

definition openSource ::
  "'v os_world_scheme b2p_env \<Rightarrow> string \<Rightarrow> ('v os_world_scheme, ('v os_world_scheme, string) io) io" where
  "openSource B isoURL =
     (case parseURL B isoURL of
        None \<Rightarrow> panic ''invalid memory address or nil pointer dereference''
      | Some (scheme, path) \<Rightarrow>
          (if scheme = ''file'' \<or> scheme = [] then bindP (osOpen path) (\<lambda>_. ret (readFile path))
           else bindP (httpGet B isoURL) (\<lambda>(body, contentLength).
                  ret (if contentLength = 0 \<and> body \<noteq> [] then panic ''integer divide by zero'' else ret body))))"

definition b2p_download ::
  "'v os_world_scheme b2p_env \<Rightarrow> string \<Rightarrow> string \<Rightarrow> string \<Rightarrow> ('v os_world_scheme, unit) io" where
  "b2p_download B dir file isoURL =
     bindP (openSource B isoURL) (\<lambda>src.
     bindP (osTempFile dir (file @ ''.tmp'')) (\<lambda>f.
     deferP (\<lambda>w. snd (removeFileIfExists f w))
       (bindP src (\<lambda>content.
        bindP (writeData f content) (\<lambda>_.
        let dest = pathJoin [dir, file]
        in bindP (removeFileIfExists dest) (\<lambda>_. osRename f dest))))))"

text \<open>The reader that prints the progress: one \<open>Read\<close> of \<open>n\<close> bytes.  Integers are 64 bits wide in the source; the
  division truncates towards zero and panics on a zero length.\<close>

record progress =
  bytesTransferred :: int
  expectedLength :: int
  nextPercentToPrint :: int
  printed :: "string list"

definition truncDiv :: "int \<Rightarrow> int \<Rightarrow> int" where
  "truncDiv a b = sgn a * sgn b * (\<bar>a\<bar> div \<bar>b\<bar>)"

function printUpTo :: "int \<Rightarrow> progress \<Rightarrow> progress" where
  "printUpTo percentage r =
     (if percentage \<ge> nextPercentToPrint r then
        printUpTo percentage
          (r\<lparr>printed := printed r @
               (if nextPercentToPrint r mod 10 = 0 then [Itoa (nextPercentToPrint r) @ ''%'']
                else if nextPercentToPrint r mod 2 = 0 then [''.''] else []),
             nextPercentToPrint := nextPercentToPrint r + 2\<rparr>)
      else r)"
  by pat_completeness auto
termination
  by (relation "measure (\<lambda>(p, r). nat (p + 2 - nextPercentToPrint r))") auto

declare printUpTo.simps [simp del]

definition ReaderWithProgress_Read :: "nat \<Rightarrow> progress \<Rightarrow> (gerror, progress) result" where
  "ReaderWithProgress_Read n r =
     (if n > 0 then
        let t = bytesTransferred r + int n; r' = r\<lparr>bytesTransferred := t\<rparr>
        in if expectedLength r = 0 then Panic ''integer divide by zero''
           else Ok (printUpTo (truncDiv (t * 100) (expectedLength r)) r')
      else Ok r)"

text \<open>The end of the line of progress; the error is that of the body.\<close>

definition ReaderWithProgress_Close :: "('w, unit) io \<Rightarrow> progress \<Rightarrow> ('w, unit) io \<times> progress" where
  "ReaderWithProgress_Close closeBody r = (closeBody, r\<lparr>printed := printed r @ [nl]\<rparr>)"

section \<open>The image\<close>

text \<open>\<open>ReadAt\<close> fails when the file is shorter than the range.\<close>

definition b2pISO_version :: "string \<Rightarrow> ('v os_world_scheme, string) io" where
  "b2pISO_version commonIsoPath =
     bindP (readFile commonIsoPath) (\<lambda>content.
       if length content < defaultVolumeIDOffset + defaultVolumeIDLength then throw (OsErr ''EOF'')
       else let trimmedVersion = TrimSpace (take defaultVolumeIDLength (drop defaultVolumeIDOffset content))
            in case Index trimmedVersion versionPrefix of
                 None \<Rightarrow> throw (ErrorString (''Did not find prefix '' @ Quote versionPrefix @ '' in version string''))
               | Some versionIndex \<Rightarrow> ret (drop (versionIndex + 1) trimmedVersion))"

text \<open>Every error of \<open>Stat\<close> but a missing file counts as existing.\<close>

definition b2pISO_exists :: "string \<Rightarrow> ('v os_world_scheme, bool) io" where
  "b2pISO_exists commonIsoPath =
     bindP (tryP (osStat commonIsoPath)) (\<lambda>r. ret (case r of Inl e \<Rightarrow> \<not> isNotExist e | Inr n \<Rightarrow> True))"

section \<open>The cache\<close>

record b2pUtils =
  storePath :: string
  imgCachePath :: string
  commonIsoPath :: string
  isoFilename :: string

definition NewB2pUtils :: "string \<Rightarrow> b2pUtils" where
  "NewB2pUtils sp =
     (let imgCache = pathJoin [sp, ''cache'']
      in \<lparr>storePath = sp, imgCachePath = imgCache,
          commonIsoPath = pathJoin [imgCache, defaultISOFilename], isoFilename = defaultISOFilename\<rparr>)"

definition DownloadISO ::
  "'v os_world_scheme b2p_env \<Rightarrow> string \<Rightarrow> string \<Rightarrow> string \<Rightarrow> ('v os_world_scheme, unit) io" where
  "DownloadISO B dir file isoURL = b2p_download B dir file isoURL"

definition DownloadISOFromURL :: "'v os_world_scheme b2p_env \<Rightarrow> b2pUtils \<Rightarrow> string \<Rightarrow> ('v os_world_scheme, unit) io" where
  "DownloadISOFromURL B b latestReleaseURL = DownloadISO B (imgCachePath b) (isoFilename b) latestReleaseURL"

definition DownloadLatestBoot2Podman :: "'v os_world_scheme b2p_env \<Rightarrow> b2pUtils \<Rightarrow> string \<Rightarrow> ('v os_world_scheme, unit) io" where
  "DownloadLatestBoot2Podman B b apiURL =
     bindP (getReleaseURL B (isoFilename b) apiURL) (\<lambda>latestReleaseURL. DownloadISOFromURL B b latestReleaseURL)"

definition isLatest :: "'v os_world_scheme b2p_env \<Rightarrow> b2pUtils \<Rightarrow> ('v os_world_scheme, bool) io" where
  "isLatest B b =
     bindP (tryP (b2pISO_version (commonIsoPath b))) (\<lambda>lv.
       case lv of
         Inl e \<Rightarrow> ret False
       | Inr localVer \<Rightarrow>
           bindP (tryP (getReleaseTag B [])) (\<lambda>tv.
             case tv of Inl e \<Rightarrow> ret True | Inr latestVer \<Rightarrow> ret (localVer = latestVer)))"

definition UpdateISOCache :: "'v os_world_scheme b2p_env \<Rightarrow> b2pUtils \<Rightarrow> string \<Rightarrow> ('v os_world_scheme, unit) io" where
  "UpdateISOCache B b isoURL =
     bindP (tryP (osStat (imgCachePath b))) (\<lambda>st.
     bindP (case st of
              Inl e \<Rightarrow> if isNotExist e then osMkdir (imgCachePath b) else ret ()
            | Inr n \<Rightarrow> ret ()) (\<lambda>_.
     bindP (b2pISO_exists (commonIsoPath b)) (\<lambda>ex.
       if isoURL \<noteq> [] then ret ()
       else if \<not> ex then DownloadLatestBoot2Podman B b []
       else bindP (isLatest B b) (\<lambda>latest.
              if \<not> latest then DownloadLatestBoot2Podman B b [] else ret ()))))"

definition CopyIsoToMachineDir ::
  "'v os_world_scheme b2p_env \<Rightarrow> b2pUtils \<Rightarrow> string \<Rightarrow> string \<Rightarrow> ('v os_world_scheme, unit) io" where
  "CopyIsoToMachineDir B b isoURL machineName =
     bindP (UpdateISOCache B b isoURL) (\<lambda>_.
       let machineDir = pathJoin [storePath b, ''machines'', machineName];
           machineIsoPath = pathJoin [machineDir, isoFilename b]
       in if isoURL = [] then CopyFile (commonIsoPath b) machineIsoPath
          else bindP (getReleaseURL B (isoFilename b) isoURL) (\<lambda>downloadURL.
                 DownloadISO B machineDir (isoFilename b) downloadURL))"

section \<open>The disk image\<close>

text \<open>The entries of the archive the guest formats its disk from: name, permission bits, content.\<close>

datatype tarEntry = TarFile string nat string | TarDir string nat

definition magicString :: string where
  "magicString = ''boot2podman, please format-me''"

definition MakeDiskImage :: "string \<Rightarrow> ('v os_world_scheme, tarEntry list) io" where
  "MakeDiskImage publicSSHKeyPath =
     bindP (readFile publicSSHKeyPath) (\<lambda>pubKey.
       ret [TarFile magicString 0 magicString,
            TarDir ''.ssh'' 448,
            TarFile ''.ssh/authorized_keys'' 420 pubKey,
            TarFile ''.ssh/authorized_keys2'' 420 pubKey])"

section \<open>Lemmas\<close>

lemma Index_first:
  assumes "Index s sub = Some i"
  shows "\<exists>b. s = take i s @ sub @ b"
proof -
  from assms obtain a b where c: "cutAt sub s = Some (a, b)" and i: "i = length a"
    by (auto simp: Index_def)
  have "s = a @ sub @ b" using c by (rule cutAt_Some)
  then show ?thesis using i by (metis append_eq_conv_conj)
qed

lemma isLatest_no_tag:
  assumes "b2pISO_version (commonIsoPath b) w = (Ok v, w1)" and "getReleaseTag B [] w1 = (Err e, w2)"
  shows "isLatest B b w = (Ok True, w2)"
  using assms by (simp add: isLatest_def tryP_def bindP_def ret_def)

lemma isLatest_no_version:
  assumes "b2pISO_version (commonIsoPath b) w = (Err e, w1)"
  shows "isLatest B b w = (Ok False, w1)"
  using assms by (simp add: isLatest_def tryP_def bindP_def ret_def)

lemma removeFileIfExists_lookup:
  "q \<noteq> p \<Longrightarrow> lookupFs (snd (removeFileIfExists p w)) q = lookupFs w q"
  by (auto simp: removeFileIfExists_def osRemove_def osStat_def osCall_def prog_defs
      split: list.splits option.splits node.splits if_splits)

lemma printUpTo_bound: "nextPercentToPrint (printUpTo p r) > p"
proof (induction p r rule: printUpTo.induct)
  case (1 p r)
  then show ?case by (subst printUpTo.simps) (auto simp: Let_def)
qed

text \<open>Writing a download over an existing image.\<close>

lemma removeFileIfExists_result:
  assumes "removeFileIfExists p w = (r, w')"
  shows "(r = Ok () \<or> (\<exists>e. r = Err e)) \<and> lookupFs w' p \<in> {lookupFs w p, None} \<and> (\<forall>q. q \<noteq> p \<longrightarrow> lookupFs w' q = lookupFs w q)"
  using assms unfolding removeFileIfExists_def osStat_def osRemove_def
  by (auto simp: osCall_def prog_defs split: list.splits option.splits node.splits if_splits)

lemma writeData_result:
  assumes "writeData p d w = (r, w')" and "lookupFs w p = Some (File m s)"
  shows "(r = Ok () \<and> lookupFs w' p = Some (File m d)) \<or> (\<exists>e. r = Err e)"
  using assms unfolding writeData_def by (auto simp: osCall_def split: list.splits option.splits)

lemma replace_image:
  assumes run: "bindP (writeData f content) (\<lambda>_. bindP (removeFileIfExists dest) (\<lambda>_. osRename f dest)) w = (r, w')"
    and ne: "f \<noteq> dest" and f: "lookupFs w f = Some (File 384 [])"
  shows "(r = Ok () \<and> lookupFs w' dest = Some (File 384 content)) \<or>
         (\<exists>e. r = Err e \<and> lookupFs w' dest \<in> {lookupFs w dest, None})"
proof -
  obtain r1 w1 where 1: "writeData f content w = (r1, w1)" by force
  have d1: "lookupFs w1 dest = lookupFs w dest"
    using keepsFileD [OF keepsFile_write(2) 1, of dest] ne by simp
  obtain r2 w2 where 2: "removeFileIfExists dest w1 = (r2, w2)" by force
  obtain r3 w3 where 3: "osRename f dest w2 = (r3, w3)" by force
  from writeData_result [OF 1 f] consider (ok) "r1 = Ok ()" "lookupFs w1 f = Some (File 384 content)" | (err) e where "r1 = Err e"
    by blast
  then show ?thesis
  proof cases
    case ok
    then have "lookupFs w2 f = Some (File 384 content)" using removeFileIfExists_result [OF 2] ne by simp
    from osRename_result [OF 3 ne this] removeFileIfExists_result [OF 2] show ?thesis
      using run 1 2 3 ok d1 by (auto simp: bindP_def)
  qed (use run 1 d1 in \<open>auto simp: bindP_def\<close>)
qed

section \<open>Properties\<close>


definition demoB2p :: "'w b2p_env" where
  "demoB2p = \<lparr>getTags = (\<lambda>t u. throw ExecNotFound), getTag = (\<lambda>t u. throw ExecNotFound), httpGet = (\<lambda>u. ret (''new'', 3)),
     parseURL = (\<lambda>u. Some (''https'', [])), GithubAPIToken = []\<rparr>"


text \<open>a cached image whose version can be read is kept when the latest release cannot be found out: without a
  network, updating the cache succeeds and downloads nothing.\<close>

theorem UpdateISOCache_offline:
  assumes "faults w = []" and "lookupFs w (imgCachePath b) = Some Dir" and "lookupFs w (commonIsoPath b) = Some n"
    and "b2pISO_version (commonIsoPath b) w = (Ok v, w)" and "getReleaseTag B [] w = (Err e, w2)"
  shows "UpdateISOCache B b [] w = (Ok (), w2)"
proof -
  have "isLatest B b w = (Ok True, w2)" using assms(4,5) by (rule isLatest_no_tag)
  then show ?thesis
    using assms(1-3) by (simp add: UpdateISOCache_def b2pISO_exists_def osStat_def tryP_def bindP_def ret_def)
qed

theorem UpdateISOCache_offline_witness:
  "UpdateISOCache demoB2p (NewB2pUtils ''/s'') []
     (plainWorld [(''/s/cache'', Dir), (''/s/cache/boot2podman.iso'',
        File 420 (replicate 32808 (CHR '' '') @ ''boot2podman-v1.2.3              ''))] ()) =
   (Ok (), plainWorld [(''/s/cache'', Dir), (''/s/cache/boot2podman.iso'',
        File 420 (replicate 32808 (CHR '' '') @ ''boot2podman-v1.2.3              ''))] ())"
proof -
  let ?img = "replicate 32808 (CHR '' '') @ ''boot2podman-v1.2.3              ''"
  let ?w = "plainWorld [(''/s/cache'', Dir), (''/s/cache/boot2podman.iso'', File 420 ?img)] ()"
  have p: "imgCachePath (NewB2pUtils ''/s'') = ''/s/cache''" "commonIsoPath (NewB2pUtils ''/s'') = ''/s/cache/boot2podman.iso''"
    by code_simp+
  have tr: "TrimSpace ''boot2podman-v1.2.3              '' = ''boot2podman-v1.2.3''"
    "Index ''boot2podman-v1.2.3'' ''-v'' = Some 11" by code_simp+
  have v: "b2pISO_version ''/s/cache/boot2podman.iso'' ?w = (Ok ''v1.2.3'', ?w)"
    by (simp add: b2pISO_version_def readFile_def bindP_def defaultVolumeIDOffset_def defaultVolumeIDLength_def
        versionPrefix_def tr ret_def)
  have t: "getReleaseTag demoB2p [] ?w = (Err ExecNotFound, ?w)"
    by (simp add: getReleaseTag_def RC_def demoB2p_def prog_defs)
  have v': "b2pISO_version (commonIsoPath (NewB2pUtils ''/s'')) ?w = (Ok ''v1.2.3'', ?w)" using v by (simp only: p(2))
  show ?thesis by (rule UpdateISOCache_offline [OF _ _ _ v' t]) (simp_all add: p)
qed

end
