(* ===== verification/Cert.thy ===== *)
theory Cert
  imports Mcn_Utils
begin

text \<open>
  \<open>libmachine/cert\<close>: the certificate authority and the client and server certificates of the machines.  The
  X.509 library (key generation, signing, PEM) is a parameter; what the program decides is modelled: which
  certificates are made and when, what goes into a certificate template, and which files are written with
  which permissions.
\<close>

section \<open>Templates\<close>

datatype keyUsage = KeyEncipherment | DigitalSignature | KeyAgreement | CertSign

datatype extKeyUsage = ClientAuth | ServerAuth

record certTemplate =
  SerialNumber :: nat
  Organization :: "string list"
  NotBefore :: int
  NotAfter :: int
  KeyUsage :: "keyUsage list"
  BasicConstraintsValid :: bool
  IsCA :: bool
  ExtKeyUsage :: "extKeyUsage list"
  IPAddresses :: "string list"
  DNSNames :: "string list"

record certOptions =
  Hosts :: "string list"
  CertFile :: string
  KeyFile :: string
  CAFile :: string
  CAKeyFile :: string
  Org :: string
  Bits :: int

text \<open>The outside: the clock in seconds, the random serial number, the parsing of addresses, and the library that
  reads and signs certificates.  \<open>loadKeyPair\<close> reads the authority, \<open>createCertificate\<close> yields the PEM text of the
  certificate and of the key.\<close>

record ('w, 'k) x509_env =
  nowSec :: "'w \<Rightarrow> int"
  randSerial :: "('w, nat) io"
  parseIP :: "string \<Rightarrow> string option"
  genKey :: "int \<Rightarrow> ('w, 'k) io"
  loadKeyPair :: "string \<Rightarrow> string \<Rightarrow> ('w, 'k) io"
  createCertificate :: "certTemplate \<Rightarrow> 'k \<Rightarrow> 'k \<Rightarrow> ('w, string) io"
  pemKey :: "'k \<Rightarrow> string"
  decodePEM :: "string \<Rightarrow> string option"
  parseNotAfter :: "string \<Rightarrow> gerror + int"

text \<open>Five minutes back on the minute, and valid for 1080 days.\<close>

definition notBeforeOf :: "int \<Rightarrow> int" where
  "notBeforeOf now = (now div 60) * 60 - 5 * 60"

definition newCertificate :: "('w, 'k) x509_env \<Rightarrow> string \<Rightarrow> ('w, certTemplate) io" where
  "newCertificate X org =
     bindP getW (\<lambda>w0.
     bindP (randSerial X) (\<lambda>serialNumber.
       let notBefore = notBeforeOf (nowSec X w0)
       in ret \<lparr>SerialNumber = serialNumber, Organization = [org], NotBefore = notBefore,
               NotAfter = notBefore + 3600 * 24 * 1080,
               KeyUsage = [KeyEncipherment, DigitalSignature, KeyAgreement],
               BasicConstraintsValid = True, IsCA = False, ExtKeyUsage = [], IPAddresses = [], DNSNames = []\<rparr>))"

text \<open>The hosts of a server certificate: addresses and names.\<close>

fun addHosts :: "(string \<Rightarrow> string option) \<Rightarrow> string list \<Rightarrow> certTemplate \<Rightarrow> certTemplate" where
  "addHosts pIP [] t = t"
| "addHosts pIP (h # hs) t =
     addHosts pIP hs (case pIP h of
         Some ip \<Rightarrow> t\<lparr>IPAddresses := IPAddresses t @ [ip]\<rparr>
       | None \<Rightarrow> t\<lparr>DNSNames := DNSNames t @ [h]\<rparr>)"

definition certTemplateFor :: "(string \<Rightarrow> string option) \<Rightarrow> certOptions \<Rightarrow> certTemplate \<Rightarrow> certTemplate" where
  "certTemplateFor pIP opts t =
     (if length (Hosts opts) = 1 \<and> hd (Hosts opts) = []
      then t\<lparr>ExtKeyUsage := [ClientAuth], KeyUsage := [DigitalSignature]\<rparr>
      else addHosts pIP (Hosts opts) (t\<lparr>ExtKeyUsage := [ServerAuth]\<rparr>))"

section \<open>Writing certificates\<close>

text \<open>The certificate is created with the default permissions and the key for its owner only.  Errors of the
  writes themselves are not looked at.\<close>

definition writeCertAndKey :: "string \<Rightarrow> string \<Rightarrow> string \<Rightarrow> string \<Rightarrow> ('v os_world_scheme, unit) io" where
  "writeCertAndKey certFile cert keyFile key =
     bindP (openTrunc certFile 438) (\<lambda>_.
     bindP (tryP (writeData certFile cert)) (\<lambda>_.
     bindP (openTrunc keyFile 384) (\<lambda>_.
     bindP (tryP (writeData keyFile key)) (\<lambda>_. ret ()))))"

definition GenerateCACertificate ::
  "('v os_world_scheme, 'k) x509_env \<Rightarrow> string \<Rightarrow> string \<Rightarrow> string \<Rightarrow> int \<Rightarrow> ('v os_world_scheme, unit) io" where
  "GenerateCACertificate X certFile keyFile org bits =
     bindP (newCertificate X org) (\<lambda>t0.
       let template = t0\<lparr>IsCA := True, KeyUsage := KeyUsage t0 @ [CertSign]\<rparr>
       in bindP (genKey X bits) (\<lambda>priv.
          bindP (createCertificate X template priv priv) (\<lambda>pem.
          writeCertAndKey certFile pem keyFile (pemKey X priv))))"

definition GenerateCert :: "('v os_world_scheme, 'k) x509_env \<Rightarrow> certOptions \<Rightarrow> ('v os_world_scheme, unit) io" where
  "GenerateCert X opts =
     bindP (newCertificate X (Org opts)) (\<lambda>t0.
       let template = certTemplateFor (parseIP X) opts t0
       in bindP (loadKeyPair X (CAFile opts) (CAKeyFile opts)) (\<lambda>ca.
          bindP (genKey X (Bits opts)) (\<lambda>priv.
          bindP (createCertificate X template ca priv) (\<lambda>pem.
          writeCertAndKey (CertFile opts) pem (KeyFile opts) (pemKey X priv)))))"

definition CheckCertificateDate :: "('v os_world_scheme, 'k) x509_env \<Rightarrow> string \<Rightarrow> ('v os_world_scheme, bool) io" where
  "CheckCertificateDate X certPath =
     bindP (readFile certPath) (\<lambda>certBytes.
       case decodePEM X certBytes of
         None \<Rightarrow> throw (ErrorString ''Failed to decode PEM data'')
       | Some der \<Rightarrow>
           (case parseNotAfter X der of
              Inl e \<Rightarrow> throw e
            | Inr notAfter \<Rightarrow> (\<lambda>w. (Ok (\<not> nowSec X w > notAfter), w))))"

section \<open>Bootstrapping\<close>

text \<open>The generator in use is a variable of the package (\<open>SetCertGenerator\<close>).\<close>

record 'w certGenerator =
  gen_CA :: "string \<Rightarrow> string \<Rightarrow> string \<Rightarrow> int \<Rightarrow> ('w, unit) io"
  gen_Cert :: "certOptions \<Rightarrow> ('w, unit) io"
  check_Date :: "string \<Rightarrow> ('w, bool) io"

definition X509CertGenerator :: "('v os_world_scheme, 'k) x509_env \<Rightarrow> 'v os_world_scheme certGenerator" where
  "X509CertGenerator X =
     \<lparr>gen_CA = GenerateCACertificate X, gen_Cert = GenerateCert X, check_Date = CheckCertificateDate X\<rparr>"

definition createCACert ::
  "'v os_world_scheme certGenerator \<Rightarrow> authOptions \<Rightarrow> string \<Rightarrow> int \<Rightarrow> ('v os_world_scheme, unit) io" where
  "createCACert G auth caOrg bits =
     bindP (tryP (osStat (CaPrivateKeyPath auth))) (\<lambda>r.
       case r of
         Inr n \<Rightarrow> throw (ErrorString ''certificate authority key already exists'')
       | Inl e \<Rightarrow> wrapErr (errorf ''generating CA certificate failed: '')
                    (gen_CA G (CaCertPath auth) (CaPrivateKeyPath auth) caOrg bits))"

text \<open>\<open>if _, err := os.Stat(dir); err != nil { if os.IsNotExist(err) { mkdir } else { return err } }\<close>\<close>

definition ensureDir :: "(string \<Rightarrow> ('v os_world_scheme, unit) io) \<Rightarrow> string \<Rightarrow> string \<Rightarrow> ('v os_world_scheme, unit) io" where
  "ensureDir mk msg dir =
     bindP (tryP (osStat dir)) (\<lambda>r.
       case r of
         Inr n \<Rightarrow> ret ()
       | Inl e \<Rightarrow> if isNotExist e then wrapErr (errorf msg) (mk dir) else throw e)"

definition createCert ::
  "'v os_world_scheme certGenerator \<Rightarrow> authOptions \<Rightarrow> string \<Rightarrow> int \<Rightarrow> ('v os_world_scheme, unit) io" where
  "createCert G auth org bits =
     bindP (ensureDir osMkdir ''failure creating machine client cert dir: '' (CertDir auth)) (\<lambda>_.
     bindP (tryP (osStat (ClientKeyPath auth))) (\<lambda>r.
       case r of
         Inr n \<Rightarrow> throw (ErrorString ''client key already exists'')
       | Inl e \<Rightarrow>
           wrapErr (errorf ''failure generating client certificate: '')
             (gen_Cert G \<lparr>Hosts = [[]], CertFile = ClientCertPath auth, KeyFile = ClientKeyPath auth,
                          CAFile = CaCertPath auth, CAKeyFile = CaPrivateKeyPath auth, Org = org, Bits = bits\<rparr>)))"

text \<open>A missing certificate is created; an outdated one loses its key and is created again.\<close>

definition renewCert ::
  "'v os_world_scheme certGenerator \<Rightarrow> string \<Rightarrow> string \<Rightarrow> ('v os_world_scheme, unit) io \<Rightarrow> ('v os_world_scheme, unit) io" where
  "renewCert G certPath keyPath create =
     bindP (tryP (osStat certPath)) (\<lambda>r.
       if (case r of Inl e \<Rightarrow> isNotExist e | Inr n \<Rightarrow> False) then create
       else bindP (check_Date G certPath) (\<lambda>current.
              if \<not> current then bindP (tryP (osRemove keyPath)) (\<lambda>_. create) else ret ()))"

definition BootstrapCertificates ::
  "'v os_world_scheme certGenerator \<Rightarrow> string \<Rightarrow> authOptions \<Rightarrow> ('v os_world_scheme, unit) io" where
  "BootstrapCertificates G goos auth =
     bindP getW (\<lambda>w0.
       let caOrg = GetUsername goos w0; org = caOrg @ ''.<bootstrap>''; bits = 2048
       in bindP (ensureDir osMkdirAll ''creating machine certificate dir failed: '' (CertDir auth)) (\<lambda>_.
          bindP (renewCert G (CaCertPath auth) (CaPrivateKeyPath auth) (createCACert G auth caOrg bits)) (\<lambda>_.
          renewCert G (ClientCertPath auth) (ClientKeyPath auth) (createCert G auth org bits))))"

section \<open>Lemmas\<close>

lemma addHosts_split:
  "IPAddresses (addHosts pIP hs t) = IPAddresses t @ List.map_filter pIP hs \<and>
   DNSNames (addHosts pIP hs t) = DNSNames t @ filter (\<lambda>h. pIP h = None) hs \<and>
   ExtKeyUsage (addHosts pIP hs t) = ExtKeyUsage t \<and> KeyUsage (addHosts pIP hs t) = KeyUsage t \<and>
   IsCA (addHosts pIP hs t) = IsCA t \<and> NotBefore (addHosts pIP hs t) = NotBefore t \<and>
   NotAfter (addHosts pIP hs t) = NotAfter t"
  by (induction pIP hs t rule: addHosts.induct) (auto simp: map_filter_simps split: option.splits)

lemma ensureDir_present:
  "faults w = [] \<Longrightarrow> lookupFs w dir = Some n \<Longrightarrow> ensureDir mk msg dir w = (Ok (), w)"
  by (simp add: ensureDir_def osStat_def tryP_def bindP_def ret_def)

lemma renewCert_current:
  "faults w = [] \<Longrightarrow> lookupFs w certPath = Some n \<Longrightarrow> check_Date G certPath w = (Ok True, w) \<Longrightarrow>
   renewCert G certPath keyPath create w = (Ok (), w)"
  by (simp add: renewCert_def osStat_def tryP_def bindP_def ret_def)

lemma writeCertAndKey_nofault:
  assumes "faults w = []" "certFile \<noteq> keyFile" "lookupFs w certFile = None" "lookupFs w keyFile = None"
    "isDirAt w (parentOf certFile)" "isDirAt w (parentOf keyFile)"
  shows "\<exists>w'. writeCertAndKey certFile cert keyFile key w = (Ok (), w') \<and>
     lookupFs w' certFile = Some (File 438 cert) \<and> lookupFs w' keyFile = Some (File 384 key) \<and>
     (\<forall>q. q \<noteq> certFile \<longrightarrow> q \<noteq> keyFile \<longrightarrow> lookupFs w' q = lookupFs w q)"
proof -
  have "parentOf keyFile \<noteq> certFile \<or> parentOf keyFile = slash \<or> parentOf keyFile = ''.''"
    using assms(3,6) by (auto simp: isDirAt_def)
  then show ?thesis
    using assms by (auto simp: writeCertAndKey_def openTrunc_def writeData_def bindP_def tryP_def ret_def isDirAt_def)
qed

text \<open>An expired certificate does not survive.\<close>

lemma renewCert_OkE:
  assumes "renewCert G certPath keyPath create w = (Ok (), w')"
  obtains (kept) w1 where "check_Date G certPath w1 = (Ok True, w')"
  | (created) w1 where "create w1 = (Ok (), w')"
  using assms unfolding renewCert_def
  by (auto simp: ret_def elim!: bindP_OkE split: if_splits sum.splits)

section \<open>Properties\<close>

text \<open>when the authority and the client certificate are there and in date, bootstrapping changes nothing: it
  never replaces valid certificates.\<close>

theorem BootstrapCertificates_keeps_current:
  assumes "faults w = []" and "lookupFs w (CertDir auth) = Some Dir"
    and "lookupFs w (CaCertPath auth) = Some n" and "lookupFs w (ClientCertPath auth) = Some k"
    and "check_Date G (CaCertPath auth) w = (Ok True, w)" and "check_Date G (ClientCertPath auth) w = (Ok True, w)"
  shows "BootstrapCertificates G os auth w = (Ok (), w)"
  using assms
  by (simp add: BootstrapCertificates_def getW_def Let_def ensureDir_present renewCert_current bindP_def)

definition demoGenerator :: "'v os_world_scheme certGenerator" where
  "demoGenerator = \<lparr>gen_CA = (\<lambda>c k org bits. throw ExecNotFound), gen_Cert = (\<lambda>opts. throw ExecNotFound), check_Date = (\<lambda>p. ret True)\<rparr>"

theorem BootstrapCertificates_keeps_current_witness:
  "BootstrapCertificates demoGenerator ''linux''
     \<lparr>CertDir = ''/c'', CaCertPath = ''/c/ca.pem'', CaPrivateKeyPath = ''/c/ca-key.pem'', CaCertRemotePath = [], ServerCertPath = [],
      ServerKeyPath = [], ClientKeyPath = ''/c/key.pem'', ServerCertRemotePath = [], ServerKeyRemotePath = [],
      ClientCertPath = ''/c/cert.pem'', ServerCertSANs = [], auth_StorePath = []\<rparr>
     (plainWorld [(''/c'', Dir), (''/c/ca.pem'', File 420 []), (''/c/cert.pem'', File 420 [])] ()) =
   (Ok (), plainWorld [(''/c'', Dir), (''/c/ca.pem'', File 420 []), (''/c/cert.pem'', File 420 [])] ())"
  by (rule BootstrapCertificates_keeps_current) (simp_all add: demoGenerator_def ret_def)

text \<open>the certificate of a server lists every address among its hosts as an IP address and every other host as a
  DNS name, and is for server authentication; with the single empty host it is for client authentication.\<close>

theorem certTemplateFor_names:
  "(Hosts opts = [[]] \<longrightarrow> ExtKeyUsage (certTemplateFor pIP opts t) = [ClientAuth]) \<and>
   (Hosts opts \<noteq> [[]] \<longrightarrow>
      IPAddresses (certTemplateFor pIP opts t) = IPAddresses t @ List.map_filter pIP (Hosts opts) \<and>
      DNSNames (certTemplateFor pIP opts t) = DNSNames t @ filter (\<lambda>h. pIP h = None) (Hosts opts) \<and>
      ExtKeyUsage (certTemplateFor pIP opts t) = [ServerAuth])"
proof -
  have "length (Hosts opts) = 1 \<and> hd (Hosts opts) = [] \<longleftrightarrow> Hosts opts = [[]]"
    by (cases "Hosts opts") auto
  then show ?thesis by (auto simp: certTemplateFor_def addHosts_split)
qed

theorem certTemplateFor_names_witness:
  "DNSNames (certTemplateFor (\<lambda>h. if h = ''10.0.0.1'' then Some h else None)
     \<lparr>Hosts = [''10.0.0.1'', ''localhost''], CertFile = [], KeyFile = [], CAFile = [], CAKeyFile = [], Org = [], Bits = 2048\<rparr>
     \<lparr>SerialNumber = 1, Organization = [], NotBefore = 0, NotAfter = 0, KeyUsage = [], BasicConstraintsValid = True,
      IsCA = False, ExtKeyUsage = [], IPAddresses = [], DNSNames = []\<rparr>) = [''localhost'']"
  using certTemplateFor_names [of "\<lparr>Hosts = [''10.0.0.1'', ''localhost''], CertFile = [], KeyFile = [], CAFile = [],
     CAKeyFile = [], Org = [], Bits = 2048\<rparr>" "\<lambda>h. if h = ''10.0.0.1'' then Some h else None"] by simp

end
