(* ===== verification/Provision.thy ===== *)
theory Provision
  imports Drivers B2p Cert
begin

text \<open>
  \<open>libmachine/provision\<close>: recognising the operating system of a new machine from its \<open>/etc/os-release\<close>, and the
  provisioners that set the host name, install packages, place the certificates and upgrade the machine.
\<close>

section \<open>os-release\<close>

record osRelease =
  AnsiColor :: string
  osr_Name :: string
  Version :: string
  Variant :: string
  VariantID :: string
  ID :: string
  IDLike :: string
  PrettyName :: string
  VersionID :: string
  HomeURL :: string
  SupportURL :: string
  BugReportURL :: string

definition emptyOsRelease :: osRelease where
  "emptyOsRelease = \<lparr>AnsiColor = [], osr_Name = [], Version = [], Variant = [], VariantID = [], ID = [], IDLike = [],
     PrettyName = [], VersionID = [], HomeURL = [], SupportURL = [], BugReportURL = []\<rparr>"

text \<open>A value that starts with a quote loses its first and its last byte; on a lone quote the slice
  \<open>val[1:0]\<close> is out of range.\<close>

definition stripQuotes :: "string \<Rightarrow> (gerror, string) result" where
  "stripQuotes val =
     (if val \<noteq> [] \<and> hd val = CHR 0x22
      then (if length val = 1 then Panic ''slice bounds out of range'' else Ok (butlast (tl val)))
      else Ok val)"

text \<open>The struct tags, in field order.\<close>

definition setIfPossible :: "string \<Rightarrow> string \<Rightarrow> osRelease \<Rightarrow> osRelease option" where
  "setIfPossible key val osr =
     (if key = ''ANSI_COLOR'' then Some (osr\<lparr>AnsiColor := val\<rparr>)
      else if key = ''NAME'' then Some (osr\<lparr>osr_Name := val\<rparr>)
      else if key = ''VERSION'' then Some (osr\<lparr>Version := val\<rparr>)
      else if key = ''VARIANT'' then Some (osr\<lparr>Variant := val\<rparr>)
      else if key = ''VARIANT_ID'' then Some (osr\<lparr>VariantID := val\<rparr>)
      else if key = ''ID'' then Some (osr\<lparr>ID := val\<rparr>)
      else if key = ''ID_LIKE'' then Some (osr\<lparr>IDLike := val\<rparr>)
      else if key = ''PRETTY_NAME'' then Some (osr\<lparr>PrettyName := val\<rparr>)
      else if key = ''VERSION_ID'' then Some (osr\<lparr>VersionID := val\<rparr>)
      else if key = ''HOME_URL'' then Some (osr\<lparr>HomeURL := val\<rparr>)
      else if key = ''SUPPORT_URL'' then Some (osr\<lparr>SupportURL := val\<rparr>)
      else if key = ''BUG_REPORT_URL'' then Some (osr\<lparr>BugReportURL := val\<rparr>)
      else None)"

definition parseLine :: "string \<Rightarrow> (gerror, string \<times> string) result" where
  "parseLine osrLine =
     (if osrLine = [] then Ok ([], [])
      else case Split osrLine ''='' of
        [key, v] \<Rightarrow> (case stripQuotes v of
                        Ok val \<Rightarrow> Ok (key, val) | Panic s \<Rightarrow> Panic s | Err e \<Rightarrow> Err e | Blocked \<Rightarrow> Blocked)
      | vals \<Rightarrow> Err (ErrorString (''Expected '' @ osrLine @ '' to split by '' @ [CHR 0x27] @ ''='' @ [CHR 0x27] @
                   '' char into two strings, instead got '' @ natDec (length vals) @ '' strings'')))"

text \<open>Invalid lines and unknown keys are skipped.\<close>

fun ParseOsRelease :: "string list \<Rightarrow> osRelease \<Rightarrow> (gerror, osRelease) result" where
  "ParseOsRelease [] osr = Ok osr"
| "ParseOsRelease (l # ls) osr =
     (case parseLine l of
        Ok (key, val) \<Rightarrow> ParseOsRelease ls (case setIfPossible key val osr of None \<Rightarrow> osr | Some osr' \<Rightarrow> osr')
      | Err e \<Rightarrow> ParseOsRelease ls osr
      | Panic s \<Rightarrow> Panic s
      | Blocked \<Rightarrow> Blocked)"

definition NewOsRelease :: "string \<Rightarrow> (gerror, osRelease) result" where
  "NewOsRelease contents = ParseOsRelease (scanLines contents) emptyOsRelease"

section \<open>Provisioners\<close>

datatype provKind = Boot2PodmanP | RedHatP | CentosP | FedoraP

record 'w provisioner =
  prov_kind :: provKind
  OsReleaseID :: string
  EngineOptionsDir :: string
  Packages :: "string list"
  OsReleaseInfo :: osRelease
  prov_Driver :: "'w driver"
  AuthOptions :: authOptions
  EngineOptions :: engineOptions

text \<open>\<open>driverISOURL\<close> is the \<open>Boot2PodmanURL\<close> in the JSON form of a driver, \<open>baseDir\<close> is \<open>mcndirs.GetBaseDir()\<close>.\<close>

record ('w, 'c) prov_env =
  pe_ssh :: "('w, 'c) ssh_env"
  pe_b2p :: "'w b2p_env"
  pe_gen :: "'w certGenerator"
  baseDir :: string
  driverISOURL :: "'w driver \<Rightarrow> ('w, string) io"

text \<open>\<open>NewSystemdProvisioner\<close> sets neither a package nor an options directory; the kind is that of the provisioner that embeds it.\<close>

definition NewBoot2PodmanProvisioner :: "'w driver \<Rightarrow> 'w provisioner" where
  "NewBoot2PodmanProvisioner d =
     \<lparr>prov_kind = Boot2PodmanP, OsReleaseID = [], EngineOptionsDir = [], Packages = [],
      OsReleaseInfo = emptyOsRelease, prov_Driver = d, AuthOptions = zeroAuthOptions, EngineOptions = zeroEngineOptions\<rparr>"

definition NewSystemdProvisioner :: "provKind \<Rightarrow> string \<Rightarrow> 'w driver \<Rightarrow> 'w provisioner" where
  "NewSystemdProvisioner k osReleaseID d =
     \<lparr>prov_kind = k, OsReleaseID = osReleaseID, EngineOptionsDir = [], Packages = [], OsReleaseInfo = emptyOsRelease, prov_Driver = d,
      AuthOptions = zeroAuthOptions, EngineOptions = zeroEngineOptions\<rparr>"

definition NewRedHatProvisioner :: "string \<Rightarrow> 'w driver \<Rightarrow> 'w provisioner" where
  "NewRedHatProvisioner osReleaseID d = NewSystemdProvisioner RedHatP osReleaseID d"

definition NewCentosProvisioner :: "'w driver \<Rightarrow> 'w provisioner" where
  "NewCentosProvisioner d = (NewRedHatProvisioner ''centos'' d)\<lparr>prov_kind := CentosP\<rparr>"

definition NewFedoraProvisioner :: "'w driver \<Rightarrow> 'w provisioner" where
  "NewFedoraProvisioner d = (NewRedHatProvisioner ''fedora'' d)\<lparr>prov_kind := FedoraP\<rparr>"

text \<open>The functions that the \<open>init\<close> of each file registers.\<close>

fun newProvisioner :: "provKind \<Rightarrow> 'w driver \<Rightarrow> 'w provisioner" where
  "newProvisioner Boot2PodmanP d = NewBoot2PodmanProvisioner d"
| "newProvisioner RedHatP d = NewRedHatProvisioner ''rhel'' d"
| "newProvisioner CentosP d = NewCentosProvisioner d"
| "newProvisioner FedoraP d = NewFedoraProvisioner d"

lemmas newProvisioner_defs [simp] = NewBoot2PodmanProvisioner_def NewSystemdProvisioner_def NewRedHatProvisioner_def
  NewCentosProvisioner_def NewFedoraProvisioner_def

definition boot2podman_GetEngineOptionsDir :: string where
  "boot2podman_GetEngineOptionsDir = ''/var/lib/boot2podman''"

definition generic_GetEngineOptionsDir :: "'w provisioner \<Rightarrow> string" where
  "generic_GetEngineOptionsDir p = EngineOptionsDir p"

definition GetEngineOptionsDir :: "'w provisioner \<Rightarrow> string" where
  "GetEngineOptionsDir p =
     (case prov_kind p of Boot2PodmanP \<Rightarrow> boot2podman_GetEngineOptionsDir | _ \<Rightarrow> generic_GetEngineOptionsDir p)"

definition boot2podman_String :: string where
  "boot2podman_String = ''boot2podman''"

definition redhat_String :: string where
  "redhat_String = ''redhat''"

definition centos_String :: string where
  "centos_String = ''centos''"

definition fedora_String :: string where
  "fedora_String = ''fedora''"

fun Provisioner_String :: "provKind \<Rightarrow> string" where
  "Provisioner_String Boot2PodmanP = boot2podman_String"
| "Provisioner_String RedHatP = redhat_String"
| "Provisioner_String CentosP = centos_String"
| "Provisioner_String FedoraP = fedora_String"

definition boot2podman_CompatibleWithHost :: "'w provisioner \<Rightarrow> bool" where
  "boot2podman_CompatibleWithHost p \<longleftrightarrow> ID (OsReleaseInfo p) = ''boot2podman'' \<or> ID (OsReleaseInfo p) = ''tinycore''"

definition generic_CompatibleWithHost :: "'w provisioner \<Rightarrow> bool" where
  "generic_CompatibleWithHost p \<longleftrightarrow> ID (OsReleaseInfo p) = OsReleaseID p"

definition CompatibleWithHost :: "'w provisioner \<Rightarrow> bool" where
  "CompatibleWithHost p = (case prov_kind p of Boot2PodmanP \<Rightarrow> boot2podman_CompatibleWithHost p | _ \<Rightarrow> generic_CompatibleWithHost p)"

definition SetOsReleaseInfo :: "osRelease \<Rightarrow> 'w provisioner \<Rightarrow> 'w provisioner" where
  "SetOsReleaseInfo info p = p\<lparr>OsReleaseInfo := info\<rparr>"

section \<open>Commands on the machine\<close>

definition RedHatSSHCommand ::
  "('v os_world_scheme, 'c) ssh_env \<Rightarrow> 'v os_world_scheme driver \<Rightarrow> string \<Rightarrow> ('v os_world_scheme, string) io" where
  "RedHatSSHCommand E d args =
     bindP (GetSSHClientFromDriver E d) (\<lambda>client.
     bindP (case client of
              ExternalC c \<Rightarrow> ExternalClient_Output E (c\<lparr>BaseArgs := BaseArgs c @ [''-tt'']\<rparr>) args
            | NativeC c \<Rightarrow> NativeClient_OutputWithPty E c args) (\<lambda>(output, err).
       case err of
         None \<Rightarrow> ret output
       | Some e \<Rightarrow> throw (ErrorString (''something went wrong running an SSH command'' @ nl @ ''command : '' @ args @ nl @
                     ''err     : '' @ Error e @ nl @ ''output  : '' @ output))))"

definition SSHCommand ::
  "('v os_world_scheme, 'c) prov_env \<Rightarrow> 'v os_world_scheme provisioner \<Rightarrow> string \<Rightarrow> ('v os_world_scheme, string) io" where
  "SSHCommand P p args =
     (case prov_kind p of
        Boot2PodmanP \<Rightarrow> RunSSHCommandFromDriver (pe_ssh P) (prov_Driver p) args
      | _ \<Rightarrow> RedHatSSHCommand (pe_ssh P) (prov_Driver p) args)"

definition runSSH ::
  "('v os_world_scheme, 'c) prov_env \<Rightarrow> 'v os_world_scheme provisioner \<Rightarrow> string \<Rightarrow> ('v os_world_scheme, unit) io" where
  "runSSH P p args = bindP (SSHCommand P p args) (\<lambda>_. ret ())"

definition boot2podman_SetHostname ::
  "('v os_world_scheme, 'c) prov_env \<Rightarrow> 'v os_world_scheme provisioner \<Rightarrow> string \<Rightarrow> ('v os_world_scheme, unit) io" where
  "boot2podman_SetHostname P p hostname =
     runSSH P p (''sudo /usr/bin/sethostname '' @ hostname @
       '' && sudo mkdir -p /var/lib/boot2podman/etc && echo '' @ Quote hostname @
       '' | sudo tee /var/lib/boot2podman/etc/hostname'')"

definition redhat_SetHostname ::
  "('v os_world_scheme, 'c) prov_env \<Rightarrow> 'v os_world_scheme provisioner \<Rightarrow> string \<Rightarrow> ('v os_world_scheme, unit) io" where
  "redhat_SetHostname P p hostname =
     bindP (runSSH P p (''sudo hostname '' @ hostname @ '' && echo '' @ Quote hostname @ '' | sudo tee /etc/hostname'')) (\<lambda>_.
       runSSH P p (''if grep -xq 127.0.1.1.* /etc/hosts; then sudo sed -i '' @ [CHR 0x27] @ ''s/^127.0.1.1.*/127.0.1.1 '' @
         hostname @ ''/g'' @ [CHR 0x27] @ '' /etc/hosts; else echo '' @ [CHR 0x27] @ ''127.0.1.1 '' @ hostname @ [CHR 0x27] @
         '' | sudo tee -a /etc/hosts; fi''))"

definition SetHostname ::
  "('v os_world_scheme, 'c) prov_env \<Rightarrow> 'v os_world_scheme provisioner \<Rightarrow> string \<Rightarrow> ('v os_world_scheme, unit) io" where
  "SetHostname P p hostname =
     (case prov_kind p of Boot2PodmanP \<Rightarrow> boot2podman_SetHostname P p hostname | _ \<Rightarrow> redhat_SetHostname P p hostname)"

definition provisioner_Hostname ::
  "('v os_world_scheme, 'c) prov_env \<Rightarrow> 'v os_world_scheme provisioner \<Rightarrow> ('v os_world_scheme, string) io" where
  "provisioner_Hostname P p = SSHCommand P p ''hostname''"

definition makeEngineOptionsDir ::
  "('v os_world_scheme, 'c) prov_env \<Rightarrow> 'v os_world_scheme provisioner \<Rightarrow> ('v os_world_scheme, unit) io" where
  "makeEngineOptionsDir P p = runSSH P p (''sudo mkdir -p '' @ GetEngineOptionsDir p)"

definition setRemoteAuthOptions :: "'w provisioner \<Rightarrow> authOptions" where
  "setRemoteAuthOptions p =
     (AuthOptions p)\<lparr>CaCertRemotePath := pathJoin [GetEngineOptionsDir p, ''ca.pem''],
       ServerCertRemotePath := pathJoin [GetEngineOptionsDir p, ''server.pem''],
       ServerKeyRemotePath := pathJoin [GetEngineOptionsDir p, ''server-key.pem'']\<rparr>"

definition certTransferCmd :: "string \<Rightarrow> string \<Rightarrow> string" where
  "certTransferCmd content path =
     ''printf '' @ [CHR 0x27] @ ''%s'' @ [CHR 0x27] @ '' '' @ [CHR 0x27] @ content @ [CHR 0x27] @ '' | sudo tee '' @ path"

definition ConfigureAuth ::
  "('v os_world_scheme, 'c) prov_env \<Rightarrow> 'v os_world_scheme provisioner \<Rightarrow> ('v os_world_scheme, unit) io" where
  "ConfigureAuth P p =
     (let auth = AuthOptions p
      in bindP (GetMachineName (prov_Driver p)) (\<lambda>machineName.
         bindP getW (\<lambda>w0.
         let org = GetUsername (goos (pe_ssh P)) w0 @ ''.'' @ machineName
         in bindP (orErr (GetIP (prov_Driver p))) (\<lambda>ip.
            bindP (wrapErr (errorf ''Copying ca.pem to machine dir failed: '')
                     (CopyFile (CaCertPath auth) (pathJoin [auth_StorePath auth, ''ca.pem'']))) (\<lambda>_.
            bindP (wrapErr (errorf ''Copying cert.pem to machine dir failed: '')
                     (CopyFile (ClientCertPath auth) (pathJoin [auth_StorePath auth, ''cert.pem'']))) (\<lambda>_.
            bindP (wrapErr (errorf ''Copying key.pem to machine dir failed: '')
                     (CopyFile (ClientKeyPath auth) (pathJoin [auth_StorePath auth, ''key.pem'']))) (\<lambda>_.
            bindP (wrapErr (errorf ''error generating server cert: '')
                     (gen_Cert (pe_gen P) \<lparr>Hosts = ServerCertSANs auth @ [ip, ''localhost''],
                        CertFile = ServerCertPath auth, KeyFile = ServerKeyPath auth, CAFile = CaCertPath auth,
                        CAKeyFile = CaPrivateKeyPath auth, Org = org, Bits = 2048\<rparr>)) (\<lambda>_.
            bindP (readFile (CaCertPath auth)) (\<lambda>caCert.
            bindP (readFile (ServerCertPath auth)) (\<lambda>serverCert.
            bindP (readFile (ServerKeyPath auth)) (\<lambda>serverKey.
            bindP (runSSH P p (certTransferCmd caCert (CaCertRemotePath auth))) (\<lambda>_.
            bindP (runSSH P p (certTransferCmd serverCert (ServerCertRemotePath auth))) (\<lambda>_.
            runSSH P p (certTransferCmd serverKey (ServerKeyRemotePath auth)))))))))))))))"

section \<open>Packages and services\<close>

definition upgradeIso ::
  "('v os_world_scheme, 'c) prov_env \<Rightarrow> 'v os_world_scheme provisioner \<Rightarrow> ('v os_world_scheme, unit) io" where
  "upgradeIso P p =
     (let d = prov_Driver p; sleep = sleepW (pe_ssh P)
      in bindP (driverISOURL P d) (\<lambda>url.
         bindP (Stop d) (\<lambda>_.
         bindP (WaitFor sleep (MachineInState d Stopped)) (\<lambda>_.
         bindP (GetMachineName d) (\<lambda>machineName.
         bindP (CopyIsoToMachineDir (pe_b2p P) (NewB2pUtils (baseDir P)) url machineName) (\<lambda>_.
         bindP (Start d) (\<lambda>_.
         WaitFor sleep (MachineInState d Running))))))))"

definition boot2podman_Package ::
  "('v os_world_scheme, 'c) prov_env \<Rightarrow> 'v os_world_scheme provisioner \<Rightarrow> string \<Rightarrow> packageAction \<Rightarrow> ('v os_world_scheme, unit) io" where
  "boot2podman_Package P p name action = (if name = ''podman'' \<and> action = PkgUpgrade then upgradeIso P p else ret ())"

definition redhat_Package ::
  "('v os_world_scheme, 'c) prov_env \<Rightarrow> 'v os_world_scheme provisioner \<Rightarrow> string \<Rightarrow> packageAction \<Rightarrow> ('v os_world_scheme, unit) io" where
  "redhat_Package P p name action =
     (let act = (case action of PkgInstall \<Rightarrow> ''install'' | PkgRemove \<Rightarrow> ''remove'' | PkgPurge \<Rightarrow> ''remove'' | PkgUpgrade \<Rightarrow> ''upgrade'')
      in runSSH P p (''sudo -E yum '' @ act @ '' -y '' @ name))"

definition Package ::
  "('v os_world_scheme, 'c) prov_env \<Rightarrow> 'v os_world_scheme provisioner \<Rightarrow> string \<Rightarrow> packageAction \<Rightarrow> ('v os_world_scheme, unit) io" where
  "Package P p name action =
     (case prov_kind p of Boot2PodmanP \<Rightarrow> boot2podman_Package P p name action | _ \<Rightarrow> redhat_Package P p name action)"

definition boot2podman_Service ::
  "('v os_world_scheme, 'c) prov_env \<Rightarrow> 'v os_world_scheme provisioner \<Rightarrow> string \<Rightarrow> serviceAction \<Rightarrow> ('v os_world_scheme, unit) io" where
  "boot2podman_Service P p name action = runSSH P p (''sudo /etc/init.d/'' @ name @ '' '' @ ServiceAction_String action)"

definition systemd_Service ::
  "('v os_world_scheme, 'c) prov_env \<Rightarrow> 'v os_world_scheme provisioner \<Rightarrow> string \<Rightarrow> serviceAction \<Rightarrow> ('v os_world_scheme, unit) io" where
  "systemd_Service P p name action =
     bindP (if action = SvcStart \<or> action = SvcRestart then runSSH P p ''sudo systemctl daemon-reload'' else ret ()) (\<lambda>_.
       runSSH P p (''sudo systemctl -f '' @ ServiceAction_String action @ '' '' @ name))"

definition Service ::
  "('v os_world_scheme, 'c) prov_env \<Rightarrow> 'v os_world_scheme provisioner \<Rightarrow> string \<Rightarrow> serviceAction \<Rightarrow> ('v os_world_scheme, unit) io" where
  "Service P p name action =
     (case prov_kind p of Boot2PodmanP \<Rightarrow> boot2podman_Service P p name action | _ \<Rightarrow> systemd_Service P p name action)"

section \<open>Options of the engine\<close>

record engineOptionsFile =
  EngineOptionsString :: string
  EngineOptionsPath :: string

text \<open>\<open>range\<close> over the lists of options, each item between the two texts.\<close>

definition eachItem :: "string \<Rightarrow> string \<Rightarrow> string list \<Rightarrow> string" where
  "eachItem before after xs = concat (map (\<lambda>x. before @ x @ after) xs)"

definition optionItems :: "string \<Rightarrow> engineOptions \<Rightarrow> string" where
  "optionItems sep e =
     eachItem ''--label '' sep (Labels e) @ eachItem ''--insecure-registry '' sep (InsecureRegistry e) @
     eachItem ''--registry-mirror '' sep (RegistryMirror e) @ eachItem ''--'' sep (ArbitraryFlags e)"

text \<open>Every call appends the label of the driver to the options once more.\<close>

definition withProviderLabel :: "'w provisioner \<Rightarrow> string \<Rightarrow> 'w provisioner" where
  "withProviderLabel p name = p\<lparr>EngineOptions := (EngineOptions p)\<lparr>Labels := Labels (EngineOptions p) @ [''provider='' @ name]\<rparr>\<rparr>"

definition boot2podman_GenerateEngineOptions :: "'w provisioner \<Rightarrow> ('w, engineOptionsFile \<times> 'w provisioner) io" where
  "boot2podman_GenerateEngineOptions p0 =
     bindP (DriverName (prov_Driver p0)) (\<lambda>name.
     let p = withProviderLabel p0 name; e = EngineOptions p; a = AuthOptions p
     in ret (\<lparr>EngineOptionsString =
          nl @ ''EXTRA_ARGS='' @ [CHR 0x27] @ nl @ optionItems nl e @ nl @ [CHR 0x27] @ nl @
          ''CACERT='' @ CaCertRemotePath a @ nl @ ''SERVERKEY='' @ ServerKeyRemotePath a @ nl @ ''SERVERCERT='' @ ServerCertRemotePath a @ nl @ nl @
          concat (map (\<lambda>v. ''export '' @ [CHR 0x5C] @ dq @ Quote v @ [CHR 0x5C] @ dq @ nl) (engine_Env e)) @ nl,
        EngineOptionsPath = pathJoin [GetEngineOptionsDir p, ''profile'']\<rparr>, p))"

definition redhat_GenerateEngineOptions :: "'w provisioner \<Rightarrow> ('w, engineOptionsFile \<times> 'w provisioner) io" where
  "redhat_GenerateEngineOptions p0 =
     bindP (DriverName (prov_Driver p0)) (\<lambda>name.
     let p = withProviderLabel p0 name; e = EngineOptions p; a = AuthOptions p
     in ret (\<lparr>EngineOptionsString =
          ''--storage-driver '' @ StorageDriver e @ '' --tlsverify --tlscacert '' @ CaCertRemotePath a @ '' --tlscert '' @ ServerCertRemotePath a @
          '' --tlskey '' @ ServerKeyRemotePath a @ '' '' @ optionItems '' '' e @ nl @
          ''Environment='' @ concat (map (\<lambda>v. Quote v @ '' '') (engine_Env e)) @ nl,
        EngineOptionsPath = pathJoin [GetEngineOptionsDir p, ''profile'']\<rparr>, p))"

definition GenerateEngineOptions :: "'w provisioner \<Rightarrow> ('w, engineOptionsFile \<times> 'w provisioner) io" where
  "GenerateEngineOptions p = (case prov_kind p of Boot2PodmanP \<Rightarrow> boot2podman_GenerateEngineOptions p | _ \<Rightarrow> redhat_GenerateEngineOptions p)"

section \<open>Storage\<close>

definition getFilesystemType ::
  "('v os_world_scheme, 'c) prov_env \<Rightarrow> 'v os_world_scheme provisioner \<Rightarrow> string \<Rightarrow> ('v os_world_scheme, string) io" where
  "getFilesystemType P p directory =
     bindP (wrapErr (errorf ''Error looking up filesystem type: '') (SSHCommand P p (''stat -f -c %T '' @ directory))) (\<lambda>out.
       ret (TrimSpace out))"

definition decideStorageDriver ::
  "('v os_world_scheme, 'c) prov_env \<Rightarrow> 'v os_world_scheme provisioner \<Rightarrow> string \<Rightarrow> string \<Rightarrow> ('v os_world_scheme, string) io" where
  "decideStorageDriver P p defaultDriver suppliedDriver =
     (if suppliedDriver \<noteq> [] then ret suppliedDriver
      else if defaultDriver \<noteq> ''aufs'' then ret defaultDriver
      else bindP (getFilesystemType P p ''/var/lib'') (\<lambda>t.
             ret (if t = ''btrfs'' then ''btrfs'' else defaultDriver)))"

section \<open>Provisioning\<close>

definition boot2podman_Provision ::
  "('v os_world_scheme, 'c) prov_env \<Rightarrow> 'v os_world_scheme provisioner \<Rightarrow> authOptions \<Rightarrow> engineOptions \<Rightarrow>
   ('v os_world_scheme, unit) io" where
  "boot2podman_Provision P p0 auth eng =
     (let p = p0\<lparr>AuthOptions := auth, EngineOptions := eng\<rparr>
      in bindP (GetMachineName (prov_Driver p)) (\<lambda>name.
         bindP (SetHostname P p name) (\<lambda>_.
         bindP (makeEngineOptionsDir P p) (\<lambda>_.
         ConfigureAuth P (p\<lparr>AuthOptions := setRemoteAuthOptions p\<rparr>)))))"

definition redhat_Provision ::
  "('v os_world_scheme, 'c) prov_env \<Rightarrow> 'v os_world_scheme provisioner \<Rightarrow> authOptions \<Rightarrow> engineOptions \<Rightarrow>
   ('v os_world_scheme, unit) io" where
  "redhat_Provision P p0 auth eng =
     (let p = p0\<lparr>AuthOptions := auth, EngineOptions := eng\<rparr>
      in bindP (GetMachineName (prov_Driver p)) (\<lambda>name.
         bindP (SetHostname P p name) (\<lambda>_.
         bindP (forEach (Packages p) (\<lambda>pkg. Package P p pkg PkgInstall)) (\<lambda>_.
         ConfigureAuth P (p\<lparr>AuthOptions := setRemoteAuthOptions p\<rparr>)))))"

definition Provision ::
  "('v os_world_scheme, 'c) prov_env \<Rightarrow> 'v os_world_scheme provisioner \<Rightarrow> authOptions \<Rightarrow> engineOptions \<Rightarrow>
   ('v os_world_scheme, unit) io" where
  "Provision P p auth eng = (case prov_kind p of Boot2PodmanP \<Rightarrow> boot2podman_Provision P p auth eng | _ \<Rightarrow> redhat_Provision P p auth eng)"

definition checkDaemonUp ::
  "('v os_world_scheme, 'c) prov_env \<Rightarrow> 'v os_world_scheme provisioner \<Rightarrow> ('v os_world_scheme, bool) io" where
  "checkDaemonUp P p =
     bindP (tryP (SSHCommand P p ''sudo test -S /run/podman/io.podman'')) (\<lambda>r.
       ret (case r of Inl e \<Rightarrow> False | Inr out \<Rightarrow> True))"

definition WaitForPodman ::
  "('v os_world_scheme, 'c) prov_env \<Rightarrow> 'v os_world_scheme provisioner \<Rightarrow> ('v os_world_scheme, unit) io" where
  "WaitForPodman P p =
     wrapErr ErrDaemonAvailable (WaitForSpecific (sleepW (pe_ssh P)) (checkDaemonUp P p) 10 3000)"

section \<open>Detection\<close>

definition ErrDetectionFailed :: gerror where
  "ErrDetectionFailed = ErrorString ''OS type not recognized''"

text \<open>The registry is a Go map, so its iteration order is not fixed: \<open>order\<close> is the order of one run.\<close>

definition registered :: "provKind list" where
  "registered = [Boot2PodmanP, RedHatP, CentosP, FedoraP]"

fun firstCompatible :: "provKind list \<Rightarrow> osRelease \<Rightarrow> 'w driver \<Rightarrow> 'w provisioner option" where
  "firstCompatible [] info d = None"
| "firstCompatible (k # ks) info d =
     (let p = SetOsReleaseInfo info (newProvisioner k d)
      in if CompatibleWithHost p then Some p else firstCompatible ks info d)"

definition DetectProvisioner ::
  "('v os_world_scheme, 'c) prov_env \<Rightarrow> provKind list \<Rightarrow> 'v os_world_scheme driver \<Rightarrow>
   ('v os_world_scheme, 'v os_world_scheme provisioner) io" where
  "DetectProvisioner P order d =
     bindP (WaitForSSH (pe_ssh P) d) (\<lambda>_.
     bindP (wrapErr (errorf ''Error getting SSH command: '')
              (RunSSHCommandFromDriver (pe_ssh P) d ''cat /etc/os-release'')) (\<lambda>osReleaseOut.
       case NewOsRelease osReleaseOut of
         Err e \<Rightarrow> throw (errorf ''Error parsing /etc/os-release file: '' e)
       | Panic s \<Rightarrow> panic s
       | Blocked \<Rightarrow> blocked
       | Ok info \<Rightarrow> (case firstCompatible order info d of None \<Rightarrow> throw ErrDetectionFailed | Some p \<Rightarrow> ret p)))"

section \<open>Lemmas\<close>

lemma CompatibleWithHost_kind:
  "CompatibleWithHost (SetOsReleaseInfo info (newProvisioner k d)) \<longleftrightarrow>
     (case k of Boot2PodmanP \<Rightarrow> ID info = ''boot2podman'' \<or> ID info = ''tinycore''
      | RedHatP \<Rightarrow> ID info = ''rhel'' | CentosP \<Rightarrow> ID info = ''centos'' | FedoraP \<Rightarrow> ID info = ''fedora'')"
  by (cases k) (auto simp: CompatibleWithHost_def boot2podman_CompatibleWithHost_def generic_CompatibleWithHost_def SetOsReleaseInfo_def)

text \<open>At most one registered provisioner fits a machine, so the order of the registry does not matter.\<close>

lemma compatible_unique:
  "CompatibleWithHost (SetOsReleaseInfo info (newProvisioner k d)) \<Longrightarrow>
   CompatibleWithHost (SetOsReleaseInfo info (newProvisioner k' d)) \<Longrightarrow> k = k'"
  unfolding CompatibleWithHost_kind by (cases k; cases k') auto

lemma firstCompatible_Some_iff:
  "firstCompatible ks info d = Some p \<longleftrightarrow>
     (\<exists>k \<in> set ks. p = SetOsReleaseInfo info (newProvisioner k d) \<and> CompatibleWithHost p)"
proof (induction ks)
  case Nil
  then show ?case by simp
next
  case (Cons k ks)
  then show ?case
    using compatible_unique [of info k d]
    by (auto simp: Let_def simp del: newProvisioner.simps)
qed

lemma firstCompatible_order:
  assumes "set ks = set ks'"
  shows "firstCompatible ks info d = firstCompatible ks' info d"
proof -
  have "firstCompatible ks info d = Some p \<longleftrightarrow> firstCompatible ks' info d = Some p" for p
    using assms by (simp add: firstCompatible_Some_iff)
  then show ?thesis by (metis not_None_eq)
qed

text \<open>What a well-formed quoted line reads back as.\<close>

lemma parseLine_quoted:
  assumes "CHR ''='' \<notin> set key" "CHR ''='' \<notin> set val"
  shows "parseLine (key @ ''='' @ dq @ val @ dq) = Ok (key, val)"
proof -
  have "Split (key @ CHR ''='' # (dq @ val @ dq)) [CHR ''=''] = [key, dq @ val @ dq]"
    using assms by (simp add: Split_single_step Split_single_none)
  then show ?thesis by (simp add: parseLine_def stripQuotes_def)
qed

lemma parseLine_plain:
  assumes "CHR ''='' \<notin> set key" "CHR ''='' \<notin> set val" "val \<noteq> [] \<Longrightarrow> hd val \<noteq> CHR 0x22"
  shows "parseLine (key @ ''='' @ val) = Ok (key, val)"
proof -
  have "Split (key @ CHR ''='' # val) [CHR ''=''] = [key, val]"
    using assms by (simp add: Split_single_step Split_single_none)
  then show ?thesis using assms(3) by (auto simp: parseLine_def stripQuotes_def)
qed

text \<open>Reading back a file written with one quoted line per field.\<close>

definition osrLine :: "string \<Rightarrow> string \<Rightarrow> string" where
  "osrLine key val = key @ ''='' @ dq @ val @ dq"

definition osrLines :: "osRelease \<Rightarrow> string list" where
  "osrLines r = [osrLine ''ANSI_COLOR'' (AnsiColor r), osrLine ''NAME'' (osr_Name r), osrLine ''VERSION'' (Version r),
     osrLine ''VARIANT'' (Variant r), osrLine ''VARIANT_ID'' (VariantID r), osrLine ''ID'' (ID r), osrLine ''ID_LIKE'' (IDLike r),
     osrLine ''PRETTY_NAME'' (PrettyName r), osrLine ''VERSION_ID'' (VersionID r), osrLine ''HOME_URL'' (HomeURL r),
     osrLine ''SUPPORT_URL'' (SupportURL r), osrLine ''BUG_REPORT_URL'' (BugReportURL r)]"

definition osrFields :: "osRelease \<Rightarrow> string list" where
  "osrFields r = [AnsiColor r, osr_Name r, Version r, Variant r, VariantID r, ID r, IDLike r, PrettyName r, VersionID r,
     HomeURL r, SupportURL r, BugReportURL r]"

lemma Split_Join_single:
  "ls \<noteq> [] \<Longrightarrow> \<forall>l \<in> set ls. c \<notin> set l \<Longrightarrow> Split (Join ls [c]) [c] = ls"
proof (induction ls)
  case (Cons l ls)
  then show ?case by (cases ls) (auto simp: Split_single_none Split_single_step)
qed simp

lemma scanLines_Join:
  assumes "ls \<noteq> []" "\<forall>l \<in> set ls. CHR 0x0A \<notin> set l \<and> l \<noteq> [] \<and> last l \<noteq> CHR 0x0D"
  shows "scanLines (Join ls nl) = ls"
proof -
  have "Split (Join ls nl) nl = ls" using assms by (intro Split_Join_single) auto
  moreover have "map dropCR ls = ls" using assms(2) by (intro map_idI) (auto simp: dropCR_def)
  ultimately show ?thesis using assms by (simp add: scanLines_def Let_def)
qed

lemma ParseOsRelease_osrLine:
  assumes "CHR ''='' \<notin> set key" "CHR ''='' \<notin> set val"
  shows "ParseOsRelease (osrLine key val # ls) r =
           ParseOsRelease ls (case setIfPossible key val r of None \<Rightarrow> r | Some r' \<Rightarrow> r')"
  using parseLine_quoted [OF assms] by (simp add: osrLine_def)

section \<open>Properties\<close>



text \<open>a line of \<open>os-release\<close> whose value is a single quote makes the parser panic instead of skipping the line.\<close>

theorem ParseOsRelease_lone_quote:
  assumes "CHR ''='' \<notin> set key"
  shows "ParseOsRelease ((key @ ''='' @ dq) # ls) r = Panic ''slice bounds out of range''"
proof -
  have "Split (key @ CHR ''='' # dq) [CHR ''=''] = [key, dq]"
    using assms by (simp add: Split_single_step Split_single_none)
  then show ?thesis by (simp add: parseLine_def stripQuotes_def)
qed

theorem ParseOsRelease_lone_quote_witness:
  "ParseOsRelease [''NAME='' @ dq] emptyOsRelease = Panic ''slice bounds out of range''"
  using ParseOsRelease_lone_quote [of "''NAME''" "[]" emptyOsRelease] by simp

text \<open>which provisioner is detected does not depend on the order in which the registry is ranged over, which Go
  does not fix.\<close>

theorem DetectProvisioner_order:
  assumes "set order = set order'"
  shows "DetectProvisioner P order d = DetectProvisioner P order' d"
  unfolding DetectProvisioner_def firstCompatible_order [OF assms] ..

theorem DetectProvisioner_order_witness:
  "\<forall>P d. DetectProvisioner P [Boot2PodmanP, RedHatP, CentosP, FedoraP] d =
         DetectProvisioner P [FedoraP, CentosP, RedHatP, Boot2PodmanP] d"
  by (intro allI DetectProvisioner_order) auto

text \<open>a machine whose operating system is recognised gets the provisioner registered for it, and any other
  machine is refused: the detection succeeds exactly for the identifiers of the four supported systems.\<close>

theorem firstCompatible_supported:
  "firstCompatible registered info d \<noteq> None \<longleftrightarrow>
     ID info \<in> {''boot2podman'', ''tinycore'', ''rhel'', ''centos'', ''fedora''}"
proof -
  have "firstCompatible registered info d \<noteq> None \<longleftrightarrow>
      (\<exists>k \<in> set registered. CompatibleWithHost (SetOsReleaseInfo info (newProvisioner k d)))"
    using firstCompatible_Some_iff [of registered info d] by (metis not_None_eq)
  then show ?thesis by (auto simp: registered_def CompatibleWithHost_kind simp del: newProvisioner.simps)
qed

end
