(* ===== verification/Host.thy ===== *)
theory Host
  imports Provision
begin

text \<open>
  \<open>libmachine/host\<close>: a machine with its driver and options, the operations that move it between states,
  its provisioning, and the migration of a stored configuration to the current format.
\<close>

section \<open>Hosts\<close>

record hostOptions =
  ho_Driver :: string
  ho_Memory :: int
  ho_Disk :: int
  ho_EngineOptions :: "engineOptions option"
  ho_AuthOptions :: "authOptions option"

record metadata =
  md_ConfigVersion :: int
  md_DriverName :: string
  md_HostOptions :: hostOptions

text \<open>
  The interface value in a host: nil, the placeholder that only keeps the raw JSON of the driver (it embeds a
  \<open>none\<close> driver), or a driver that can be called.
\<close>

datatype 'w driverSlot = NilDriver | RawDataDriver noneDriver string | LiveDriver "'w driver"

record 'w host =
  h_ConfigVersion :: int
  h_Driver :: "'w driverSlot"
  h_DriverName :: string
  h_HostOptions :: "hostOptions option"
  h_Name :: string
  h_RawDriver :: string

definition newHost :: "string \<Rightarrow> 'w host" where
  "newHost name = \<lparr>h_ConfigVersion = 0, h_Driver = NilDriver, h_DriverName = [], h_HostOptions = None, h_Name = name,
                   h_RawDriver = []\<rparr>"

text \<open>\<open>provOrder\<close> is the order in which one run ranges over the registered provisioners, \<open>urlHost\<close> the host
  that \<open>net/url.Parse\<close> finds.\<close>

record ('w, 'c) host_env =
  he_prov :: "('w, 'c) prov_env"
  provOrder :: "provKind list"
  urlHost :: "string \<Rightarrow> gerror + string"

definition isAlnum :: "char \<Rightarrow> bool" where
  "isAlnum c \<longleftrightarrow> (CHR ''a'' \<le> c \<and> c \<le> CHR ''z'') \<or> (CHR ''A'' \<le> c \<and> c \<le> CHR ''Z'') \<or> (CHR ''0'' \<le> c \<and> c \<le> CHR ''9'')"

definition ValidateHostName :: "string \<Rightarrow> bool" where
  "ValidateHostName name \<longleftrightarrow>
     (case name of [] \<Rightarrow> False | c # cs \<Rightarrow> isAlnum c \<and> (\<forall>x \<in> set cs. isAlnum x \<or> x = CHR ''-'' \<or> x = CHR ''.''))"

text \<open>The method set behind the interface value; a call on nil panics.  The struct of the placeholder is
  a value of its own that the methods called here do not change.\<close>

definition constL :: "'s \<Rightarrow> ('w, 's) lens" where
  "constL s = \<lparr>lget = (\<lambda>_. s), lput = (\<lambda>_ w. w)\<rparr>"

definition nilDeref :: string where
  "nilDeref = ''invalid memory address or nil pointer dereference''"

definition driverOf :: "('w, 'c) host_env \<Rightarrow> 'w host \<Rightarrow> ('w, 'w driver) io" where
  "driverOf H h = (case h_Driver h of
       NilDriver \<Rightarrow> panic nilDeref
     | RawDataDriver nd data \<Rightarrow> ret (NoneDriver (urlHost H) (constL nd))
     | LiveDriver d \<Rightarrow> ret d)"

section \<open>SSH clients\<close>

definition host_RunSSHCommand ::
  "('v os_world_scheme, 'c) host_env \<Rightarrow> 'v os_world_scheme host \<Rightarrow> string \<Rightarrow> ('v os_world_scheme, string) io" where
  "host_RunSSHCommand H h command =
     bindP (driverOf H h) (\<lambda>d. RunSSHCommandFromDriver (pe_ssh (he_prov H)) d command)"

text \<open>Address, port and keys of a driver, asked for in this order by the three client constructors.\<close>

definition sshTarget :: "'w driver \<Rightarrow> ('w, string \<times> int \<times> sshAuth) io" where
  "sshTarget d =
     bindP (orErr (GetSSHHostname d)) (\<lambda>addr.
     bindP (orErr (GetSSHPort d)) (\<lambda>port.
     bindP (GetSSHKeyPath d) (\<lambda>k.
     bindP (if k = [] then ret \<lparr>Passwords = [], Keys = []\<rparr>
            else bindP (GetSSHKeyPath d) (\<lambda>key. ret \<lparr>Passwords = [], Keys = [key]\<rparr>)) (\<lambda>auth.
     ret (addr, port, auth)))))"

definition StdCreateSSHClient ::
  "('v os_world_scheme, 'c) ssh_env \<Rightarrow> 'v os_world_scheme driver \<Rightarrow> ('v os_world_scheme, sshClient) io" where
  "StdCreateSSHClient E d =
     bindP (sshTarget d) (\<lambda>(addr, port, auth).
     bindP (GetSSHUsername d) (\<lambda>user. NewClient E user addr port auth))"

definition StdCreateExternalSSHClient ::
  "('v os_world_scheme, 'c) ssh_env \<Rightarrow> 'v os_world_scheme driver \<Rightarrow> ('v os_world_scheme, externalClient) io" where
  "StdCreateExternalSSHClient E d =
     bindP (lookPath E ''ssh'') (\<lambda>sshBinaryPath.
     bindP (sshTarget d) (\<lambda>(addr, port, auth).
     bindP (GetSSHUsername d) (\<lambda>user. NewExternalClient (goos E) sshBinaryPath user addr port auth)))"

definition StdCreateExternalRootSSHClient ::
  "('v os_world_scheme, 'c) ssh_env \<Rightarrow> 'v os_world_scheme driver \<Rightarrow> ('v os_world_scheme, externalClient) io" where
  "StdCreateExternalRootSSHClient E d =
     bindP (lookPath E ''ssh'') (\<lambda>sshBinaryPath.
     bindP (sshTarget d) (\<lambda>(addr, port, auth). NewExternalClient (goos E) sshBinaryPath ''root'' addr port auth))"

definition host_CreateSSHClient ::
  "('v os_world_scheme, 'c) host_env \<Rightarrow> 'v os_world_scheme host \<Rightarrow> ('v os_world_scheme, sshClient) io" where
  "host_CreateSSHClient H h = bindP (driverOf H h) (StdCreateSSHClient (pe_ssh (he_prov H)))"

definition host_CreateExternalSSHClient ::
  "('v os_world_scheme, 'c) host_env \<Rightarrow> 'v os_world_scheme host \<Rightarrow> ('v os_world_scheme, externalClient) io" where
  "host_CreateExternalSSHClient H h = bindP (driverOf H h) (StdCreateExternalSSHClient (pe_ssh (he_prov H)))"

definition host_CreateExternalRootSSHClient ::
  "('v os_world_scheme, 'c) host_env \<Rightarrow> 'v os_world_scheme host \<Rightarrow> ('v os_world_scheme, externalClient) io" where
  "host_CreateExternalRootSSHClient H h = bindP (driverOf H h) (StdCreateExternalRootSSHClient (pe_ssh (he_prov H)))"

section \<open>Moving a machine between states\<close>

definition he_sleep :: "('w, 'c) host_env \<Rightarrow> nat \<Rightarrow> 'w \<Rightarrow> 'w" where
  "he_sleep H = sleepW (pe_ssh (he_prov H))"

definition runActionForState ::
  "('w, 'c) host_env \<Rightarrow> 'w host \<Rightarrow> 'w driver \<Rightarrow> ('w, unit) io \<Rightarrow> state \<Rightarrow> ('w, unit) io" where
  "runActionForState H h d action desiredState =
     bindP (MachineInState d desiredState) (\<lambda>already.
       if already then throw (ErrHostAlreadyInState (h_Name h) desiredState)
       else bindP action (\<lambda>_. WaitFor (he_sleep H) (MachineInState d desiredState)))"

definition host_detect ::
  "('v os_world_scheme, 'c) host_env \<Rightarrow> 'v os_world_scheme driver \<Rightarrow> ('v os_world_scheme, 'v os_world_scheme provisioner) io" where
  "host_detect H d = DetectProvisioner (he_prov H) (provOrder H) d"

definition host_WaitForPodman ::
  "('v os_world_scheme, 'c) host_env \<Rightarrow> 'v os_world_scheme host \<Rightarrow> ('v os_world_scheme, unit) io" where
  "host_WaitForPodman H h =
     bindP (driverOf H h) (\<lambda>d. bindP (host_detect H d) (WaitForPodman (he_prov H)))"

definition host_Start ::
  "('v os_world_scheme, 'c) host_env \<Rightarrow> 'v os_world_scheme host \<Rightarrow> ('v os_world_scheme, unit) io" where
  "host_Start H h =
     bindP (driverOf H h) (\<lambda>d.
     bindP (runActionForState H h d (Start d) Running) (\<lambda>_.
     host_WaitForPodman H h))"

definition host_Stop :: "('w, 'c) host_env \<Rightarrow> 'w host \<Rightarrow> ('w, unit) io" where
  "host_Stop H h = bindP (driverOf H h) (\<lambda>d. runActionForState H h d (Stop d) Stopped)"

definition host_Kill :: "('w, 'c) host_env \<Rightarrow> 'w host \<Rightarrow> ('w, unit) io" where
  "host_Kill H h = bindP (driverOf H h) (\<lambda>d. runActionForState H h d (Kill d) Stopped)"

definition host_Restart ::
  "('v os_world_scheme, 'c) host_env \<Rightarrow> 'v os_world_scheme host \<Rightarrow> ('v os_world_scheme, unit) io" where
  "host_Restart H h =
     bindP (driverOf H h) (\<lambda>d.
     bindP (MachineInState d Stopped) (\<lambda>stopped.
     bindP (if stopped then host_Start H h
            else bindP (MachineInState d Running) (\<lambda>running.
              if running then bindP (Restart d) (\<lambda>_. WaitFor (he_sleep H) (MachineInState d Running))
              else ret ())) (\<lambda>_.
     host_WaitForPodman H h)))"

definition host_Upgrade ::
  "('v os_world_scheme, 'c) host_env \<Rightarrow> 'v os_world_scheme host \<Rightarrow> ('v os_world_scheme, unit) io" where
  "host_Upgrade H h =
     bindP (driverOf H h) (\<lambda>d.
     bindP (orErr (GetState d)) (\<lambda>machineState.
     bindP (if machineState \<noteq> Running then host_Start H h else ret ()) (\<lambda>_.
     bindP (host_detect H d) (\<lambda>provisioner.
     Package (he_prov H) provisioner ''podman'' PkgUpgrade))))"

definition host_URL :: "('w, 'c) host_env \<Rightarrow> 'w host \<Rightarrow> ('w, string) io" where
  "host_URL H h = bindP (driverOf H h) (\<lambda>d. orErr (GetURL d))"

section \<open>Provisioning\<close>

definition host_AuthOptions :: "'w host \<Rightarrow> authOptions option" where
  "host_AuthOptions h = (case h_HostOptions h of None \<Rightarrow> None | Some ho \<Rightarrow> ho_AuthOptions ho)"

text \<open>\<open>*h.HostOptions.AuthOptions, *h.HostOptions.EngineOptions\<close>\<close>

definition derefOptions :: "'w host \<Rightarrow> ('w, authOptions \<times> engineOptions) io" where
  "derefOptions h = (case h_HostOptions h of
       None \<Rightarrow> panic nilDeref
     | Some ho \<Rightarrow> (case (ho_AuthOptions ho, ho_EngineOptions ho) of
           (Some auth, Some eng) \<Rightarrow> ret (auth, eng)
         | _ \<Rightarrow> panic nilDeref))"

definition host_ConfigureAuth ::
  "('v os_world_scheme, 'c) host_env \<Rightarrow> 'v os_world_scheme host \<Rightarrow> ('v os_world_scheme, unit) io" where
  "host_ConfigureAuth H h =
     bindP (driverOf H h) (\<lambda>d.
     bindP (host_detect H d) (\<lambda>provisioner.
     bindP (derefOptions h) (\<lambda>(auth, eng). Provision (he_prov H) provisioner auth eng)))"

definition host_bootstrap ::
  "('v os_world_scheme, 'c) host_env \<Rightarrow> 'v os_world_scheme host \<Rightarrow> ('v os_world_scheme, unit) io" where
  "host_bootstrap H h = (case host_AuthOptions h of
       None \<Rightarrow> panic nilDeref
     | Some auth \<Rightarrow> BootstrapCertificates (pe_gen (he_prov H)) (goos (pe_ssh (he_prov H))) auth)"

definition host_ConfigureAllAuth ::
  "('v os_world_scheme, 'c) host_env \<Rightarrow> 'v os_world_scheme host \<Rightarrow> ('v os_world_scheme, unit) io" where
  "host_ConfigureAllAuth H h = bindP (host_bootstrap H h) (\<lambda>_. host_ConfigureAuth H h)"

definition host_Provision ::
  "('v os_world_scheme, 'c) host_env \<Rightarrow> 'v os_world_scheme host \<Rightarrow> ('v os_world_scheme, unit) io" where
  "host_Provision H h =
     bindP (driverOf H h) (\<lambda>d.
     bindP (host_detect H d) (\<lambda>provisioner.
     bindP (derefOptions h) (\<lambda>(auth, eng). Provision (he_prov H) provisioner auth eng)))"

section \<open>Migration\<close>

text \<open>
  \<open>encoding/json\<close> on hosts.  \<open>decodeMeta\<close> is the decoding into a pointer to \<open>Metadata\<close>, which the JSON value
  \<open>null\<close> leaves nil; \<open>unmarshalHost\<close> overwrites the fields of a host that the data has, and its second result is
  what \<open>RawDataDriver.UnmarshalJSON\<close> was given; \<open>marshalHost\<close> may call the driver for its configuration.
\<close>

record 'w codec =
  decodeMeta :: "string \<Rightarrow> gerror + metadata option"
  unmarshalHost :: "string \<Rightarrow> 'w host \<Rightarrow> gerror + 'w host \<times> string"
  marshalHost :: "'w host \<Rightarrow> ('w, string) io"

definition errConfigFromFuture :: gerror where
  "errConfigFromFuture =
     ErrorString ''config version is from the future -- you should upgrade your Podman Machine client''"

function migrateLoop :: "int \<Rightarrow> int" where
  "migrateLoop v = (if v < ConfigVersion then migrateLoop (v + 1) else v)"
  by auto

termination migrateLoop
  by (relation "measure (\<lambda>v. nat (ConfigVersion - v))") auto

declare migrateLoop.simps [simp del]

definition MigrateHost :: "'w codec \<Rightarrow> 'w host \<Rightarrow> string \<Rightarrow> (gerror, 'w host \<times> bool) result" where
  "MigrateHost C h data =
     (case decodeMeta C data of
        Inl e \<Rightarrow> Err e
      | Inr None \<Rightarrow> Panic nilDeref
      | Inr (Some md) \<Rightarrow>
         (case ho_AuthOptions (md_HostOptions md) of
            None \<Rightarrow> Panic nilDeref
          | Some auth \<Rightarrow>
              let globalStorePath = pathDir (pathDir (auth_StorePath auth));
                  nd = none_NewDriver (h_Name h) globalStorePath
              in if md_ConfigVersion md > ConfigVersion then Err errConfigFromFuture
                 else if md_ConfigVersion md = ConfigVersion
                 then (case unmarshalHost C data (h\<lparr>h_Driver := RawDataDriver nd []\<rparr>) of
                         Inl e \<Rightarrow> Err (errorf ''Error unmarshalling most recent host version: '' e)
                       | Inr (h', raw) \<Rightarrow> Ok (h'\<lparr>h_RawDriver := raw\<rparr>, False))
                 else Ok (h\<lparr>h_ConfigVersion := migrateLoop (md_ConfigVersion md), h_RawDriver := []\<rparr>, True)))"

section \<open>Lemmas\<close>

lemma ValidateHostName_Cons:
  "ValidateHostName (c # cs) \<longleftrightarrow> isAlnum c \<and> (\<forall>x \<in> set cs. isAlnum x \<or> x = CHR ''-'' \<or> x = CHR ''.'')"
  by (simp add: ValidateHostName_def)

text \<open>A valid name is one plain element of a path: it cannot leave the directory it is joined to.\<close>

lemma isAlnum_special: "\<not> isAlnum (CHR ''/'')" "\<not> isAlnum (CHR ''.'')" "\<not> isAlnum (CHR ''-'')"
  by (simp_all add: isAlnum_def less_eq_char_def)

lemma ValidateHostName_plain: "ValidateHostName name \<Longrightarrow> plainElem name \<and> hd name \<noteq> CHR ''.''"
  by (cases name) (auto simp: ValidateHostName_def plainElem_def isAlnum_special)

lemma migrateLoop_le: "v \<le> ConfigVersion \<Longrightarrow> migrateLoop v = ConfigVersion"
  by (induction v rule: migrateLoop.induct) (subst migrateLoop.simps, auto)

text \<open>Below the current version the stored fields are not read: only the name and the version remain.\<close>

lemma MigrateHost_old:
  assumes "decodeMeta C data = Inr (Some md)" "ho_AuthOptions (md_HostOptions md) \<noteq> None"
    and "md_ConfigVersion md < ConfigVersion"
  shows "MigrateHost C (newHost name) data = Ok ((newHost name)\<lparr>h_ConfigVersion := ConfigVersion\<rparr>, True)"
  using assms by (auto simp: MigrateHost_def migrateLoop_le newHost_def)

lemma MachineInState_OkE:
  assumes "MachineInState d s w = (Ok b, w')"
  obtains t e where "GetState d w = (Ok (t, e), w')" "b = (t = s)"
  using assms unfolding MachineInState_def by (auto simp: ret_def elim!: bindP_OkE)

text \<open>A state change that reports success was confirmed by the driver at the end.\<close>

lemma runActionForState_Ok:
  assumes "runActionForState H h d action s w = (Ok (), w')"
  shows "(\<exists>v e. GetState d v = (Ok (s, e), w')) \<and>
         (\<exists>w1 w2 t e. GetState d w = (Ok (t, e), w1) \<and> t \<noteq> s \<and> action w1 = (Ok (), w2))"
proof -
  from assms obtain w1 w2 where 1: "MachineInState d s w = (Ok False, w1)" and 2: "action w1 = (Ok (), w2)"
    and 3: "WaitFor (he_sleep H) (MachineInState d s) w2 = (Ok (), w')"
    unfolding runActionForState_def by (auto simp: throw_def elim!: bindP_OkE split: if_splits)
  from WaitFor_sound [OF 3] have "\<exists>v e. GetState d v = (Ok (s, e), w')"
    by (auto elim!: MachineInState_OkE)
  with 1 2 show ?thesis by (auto elim!: MachineInState_OkE)
qed

text \<open>
  A driver whose state can be observed and whose operations reach the state they are named for.  The laws
  are what \<open>host.go\<close> relies on when it skips an operation in the target state and polls after it.
\<close>

locale driver_lifecycle =
  fixes d :: "'w driver" and obs :: "'w \<Rightarrow> state"
  assumes GetState_obs: "GetState d w = (Ok (obs w, None), w)"
    and Start_obs: "Start d w = (Ok (), w') \<Longrightarrow> obs w' = Running"
    and Stop_obs: "Stop d w = (Ok (), w') \<Longrightarrow> obs w' = Stopped"
    and Kill_obs: "Kill d w = (Ok (), w') \<Longrightarrow> obs w' = Stopped"
begin

lemma MachineInState_obs: "MachineInState d s w = (Ok (obs w = s), w)"
  by (simp add: MachineInState_def GetState_obs prog_defs)

lemma action_to_state:
  assumes "\<And>w w'. action w = (Ok (), w') \<Longrightarrow> obs w' = s"
  shows "runActionForState H h d action s w =
           (if obs w = s then (Err (ErrHostAlreadyInState (h_Name h) s), w) else action w)"
proof (cases "obs w = s")
  case True
  then show ?thesis by (simp add: runActionForState_def MachineInState_obs bindP_def throw_def)
next
  case False
  have "WaitFor (he_sleep H) (MachineInState d s) w' = (Ok (), w')" if "action w = (Ok (), w')" for w'
    using assms [OF that] by (intro WaitFor_first) (simp add: MachineInState_obs)
  with False show ?thesis
    by (auto simp: runActionForState_def MachineInState_obs bindP_def split: prod.splits result.splits)
qed

lemma stop_effect:
  assumes "h_Driver h = LiveDriver d"
  shows "host_Stop H h w =
           (if obs w = Stopped then (Err (ErrHostAlreadyInState (h_Name h) Stopped), w) else Stop d w)"
  using assms action_to_state [of "Stop d" Stopped H h w] Stop_obs by (simp add: host_Stop_def driverOf_def)

lemma kill_effect:
  assumes "h_Driver h = LiveDriver d"
  shows "host_Kill H h w =
           (if obs w = Stopped then (Err (ErrHostAlreadyInState (h_Name h) Stopped), w) else Kill d w)"
  using assms action_to_state [of "Kill d" Stopped H h w] Kill_obs by (simp add: host_Kill_def driverOf_def)

end

interpretation fakeLifecycle: driver_lifecycle "FakeDriver moreL" "\<lambda>w. MockState (os_world.more w)"
  by unfold_locales
    (auto simp: FakeDriver_def fake_setState_def updater_def reader_def moreL_def valOk_def prog_defs)

text \<open>Surroundings in which every command sent over \<open>ssh\<close> succeeds and the machine is a boot2podman one.\<close>

definition demoSSH :: "('w, 'c) ssh_env" where
  "demoSSH = offlineSSH\<lparr>defaultClientType := External, lookPath := (\<lambda>p. ret ''/usr/bin/ssh''),
     runCombined := (\<lambda>b a. ret (''ID=boot2podman'', None)), runStdio := (\<lambda>b a. ret ())\<rparr>"

definition demoHostEnv :: "('v os_world_scheme, unit) host_env" where
  "demoHostEnv = \<lparr>he_prov = \<lparr>pe_ssh = demoSSH, pe_b2p = demoB2p, pe_gen = demoGenerator, baseDir = ''/s'', driverISOURL = (\<lambda>d. ret [])\<rparr>,
     provOrder = registered, urlHost = Inr\<rparr>"

definition demoFake :: "state \<Rightarrow> fakeDriver" where
  "demoFake s = \<lparr>fk_Base = newBaseDriver [] [], MockState = s, MockIP = ''1.2.3.4'', MockName = ''m'', MockHostname = ''h''\<rparr>"

section \<open>Properties\<close>

text \<open>C19: when \<open>Start\<close> returns without an error, the machine was not running before, the driver was asked to start it,
  the driver confirmed afterwards that it runs, and then Podman answered on it.\<close>

theorem host_Start_confirmed:
  assumes "host_Start H h w = (Ok (), w')" and "h_Driver h = LiveDriver d"
  shows "\<exists>w1 w2 t e. GetState d w = (Ok (t, e), w1) \<and> t \<noteq> Running \<and> Start d w1 = (Ok (), w2) \<and>
           (\<exists>v w3 e'. GetState d v = (Ok (Running, e'), w3) \<and> host_WaitForPodman H h w3 = (Ok (), w'))"
proof -
  have d: "driverOf H h = ret d" using assms(2) by (simp add: driverOf_def)
  from assms(1) obtain w3 where 1: "runActionForState H h d (Start d) Running w = (Ok (), w3)"
    and 2: "host_WaitForPodman H h w3 = (Ok (), w')"
    unfolding host_Start_def d by (auto elim: bindP_OkE)
  from runActionForState_Ok [OF 1] 2 show ?thesis by blast
qed

theorem host_Start_confirmed_witness:
  "\<exists>w1 t e. GetState (FakeDriver moreL) (plainWorld [] (demoFake Stopped)) = (Ok (t, e), w1) \<and> t \<noteq> Running"
proof -
  let ?h = "(newHost ''m'')\<lparr>h_Driver := LiveDriver (FakeDriver moreL)\<rparr>" and ?w = "plainWorld [] (demoFake Stopped)"
  have "fst (host_Start demoHostEnv ?h ?w) = Ok ()" by code_simp
  then obtain w' where "host_Start demoHostEnv ?h ?w = (Ok (), w')" by (metis prod.collapse)
  from host_Start_confirmed [OF this, of "FakeDriver moreL"] show ?thesis by auto
qed

text \<open>stopping a machine that is stopped is refused with an error that names it and changes nothing; stopping any
  other machine does exactly what the driver's own \<open>Stop\<close> does, and leaves it stopped when that succeeds.  Stated for
  hosts with the fake driver, whose operations reach their state at once.\<close>

theorem host_Stop_effect:
  assumes "h_Driver h = LiveDriver (FakeDriver moreL)"
  shows "host_Stop H h w =
           (if MockState (os_world.more w) = Stopped then (Err (ErrHostAlreadyInState (h_Name h) Stopped), w)
            else Stop (FakeDriver moreL) w) \<and>
         (host_Stop H h w = (Ok (), w') \<longrightarrow> MockState (os_world.more w') = Stopped)"
  using fakeLifecycle.stop_effect [OF assms, of H w] fakeLifecycle.Stop_obs [of w w'] by auto

theorem host_Stop_effect_witness:
  "fst (host_Stop demoHostEnv ((newHost ''m'')\<lparr>h_Driver := LiveDriver (FakeDriver moreL)\<rparr>) (plainWorld [] (demoFake Stopped))) =
     Err (ErrHostAlreadyInState ''m'' Stopped)"
proof -
  let ?h = "(newHost ''m'')\<lparr>h_Driver := LiveDriver (FakeDriver moreL)\<rparr>"
  have "h_Driver ?h = LiveDriver (FakeDriver moreL)" by simp
  from host_Stop_effect [OF this, of demoHostEnv "plainWorld [] (demoFake Stopped)"] show ?thesis
    by (simp add: demoFake_def newHost_def)
qed

text \<open>migration by version: a configuration of a later version is refused, one of the current version is decoded,
  and one of an earlier version is reported as migrated although only the name survives: driver, driver name and
  options are those of an empty host.\<close>

theorem MigrateHost_by_version:
  assumes "decodeMeta C data = Inr (Some md)" and "ho_AuthOptions (md_HostOptions md) = Some auth"
  shows "(md_ConfigVersion md > ConfigVersion \<longrightarrow> MigrateHost C (newHost name) data = Err errConfigFromFuture) \<and>
         (md_ConfigVersion md < ConfigVersion \<longrightarrow>
            MigrateHost C (newHost name) data = Ok ((newHost name)\<lparr>h_ConfigVersion := ConfigVersion\<rparr>, True)) \<and>
         (md_ConfigVersion md = ConfigVersion \<longrightarrow>
            (\<forall>h m. MigrateHost C (newHost name) data = Ok (h, m) \<longrightarrow> \<not> m))"
  using assms MigrateHost_old [OF assms(1), of name]
  by (auto simp: MigrateHost_def Let_def split: sum.splits)

definition demoMeta :: "int \<Rightarrow> metadata" where
  "demoMeta v = \<lparr>md_ConfigVersion = v, md_DriverName = ''virtualbox'', md_HostOptions =
     \<lparr>ho_Driver = [], ho_Memory = 0, ho_Disk = 0, ho_EngineOptions = None, ho_AuthOptions = Some zeroAuthOptions\<rparr>\<rparr>"

theorem MigrateHost_by_version_witness:
  "MigrateHost \<lparr>decodeMeta = (\<lambda>s. Inr (Some (demoMeta 2))), unmarshalHost = (\<lambda>s h. Inr (h, s)), marshalHost = (\<lambda>h. ret [])\<rparr>
     (newHost ''m'') ''{}'' = Ok ((newHost ''m'')\<lparr>h_ConfigVersion := 3\<rparr>, True)"
  using MigrateHost_by_version [of "\<lparr>decodeMeta = (\<lambda>s. Inr (Some (demoMeta 2))), unmarshalHost = (\<lambda>s h. Inr (h, s)),
     marshalHost = (\<lambda>h. ret [])\<rparr>" "''{}''" "demoMeta 2" zeroAuthOptions "''m''"]
  by (simp add: demoMeta_def ConfigVersion_def)

end
