(* ===== verification/Paths.thy ===== *)
theory Paths
  imports Os_Model
begin

text \<open>
  Clean paths.  Every file the program keeps is reached through \<open>filepath.Join\<close>, which normalises its result;
  the lemmas here say that joining plain elements onto a normalised path appends them, so that distinct names
  give distinct files.
\<close>

section \<open>The elements Clean keeps\<close>

text \<open>The kept elements, in reverse, have their dot-dots at the far end only.\<close>

fun normAcc :: "bool \<Rightarrow> string list \<Rightarrow> bool" where
  "normAcc r [] = True"
| "normAcc r (x # xs) =
     (x \<noteq> [] \<and> x \<noteq> ''.'' \<and> CHR ''/'' \<notin> set x \<and> (x = ''..'' \<longrightarrow> \<not> r \<and> (\<forall>y \<in> set xs. y = ''..'')) \<and> normAcc r xs)"

lemma normAcc_append: "normAcc r (xs @ ys) \<Longrightarrow> normAcc r ys"
  by (induction xs) auto

lemma cleanElems_norm:
  "normAcc r acc \<Longrightarrow> \<forall>x \<in> set xs. CHR ''/'' \<notin> set x \<Longrightarrow> normAcc r (rev (cleanElems r acc xs))"
  by (induction r acc xs rule: cleanElems.induct) (auto split: list.splits)

lemma cleanElems_id: "normAcc r (rev xs @ acc) \<Longrightarrow> cleanElems r acc xs = rev acc @ xs"
proof (induction xs arbitrary: acc)
  case Nil
  then show ?case by simp
next
  case (Cons x xs)
  then have "normAcc r (x # acc)" using normAcc_append [of r "rev xs" "x # acc"] by simp
  moreover have "cleanElems r (x # acc) xs = rev (x # acc) @ xs"
    using Cons.prems by (intro Cons.IH) simp
  ultimately show ?case by (auto split: list.splits)
qed

lemma cleanElems_snoc_empty: "cleanElems r acc (xs @ [[]]) = cleanElems r acc xs"
  by (induction r acc xs rule: cleanElems.induct) (auto split: list.splits)

lemma Split_elems: "\<forall>x \<in> set (Split p slash). CHR ''/'' \<notin> set x"
proof (induction "length p" arbitrary: p rule: less_induct)
  case less
  show ?case
  proof (cases "CHR ''/'' \<in> set p")
    case False
    then show ?thesis by (simp add: Split_single_none)
  next
    case True
    then obtain a b where p: "p = a @ CHR ''/'' # b" and a: "CHR ''/'' \<notin> set a"
      by (meson split_list_first)
    then show ?thesis using less [of b] by (simp add: Split_single_step)
  qed
qed

lemma Split_Join_slash:
  "xs \<noteq> [] \<Longrightarrow> \<forall>x \<in> set xs. CHR ''/'' \<notin> set x \<Longrightarrow> Split (Join xs slash) slash = xs"
proof (induction xs)
  case (Cons x xs)
  then show ?case
    by (cases xs) (auto simp: Split_single_none Split_single_step)
qed simp

lemma hd_Join: "xs \<noteq> [] \<Longrightarrow> hd xs \<noteq> [] \<Longrightarrow> hd (Join xs slash) = hd (hd xs) \<and> Join xs slash \<noteq> []"
  by (cases xs; cases "tl xs") auto

lemma normAcc_set: "normAcc r xs \<Longrightarrow> x \<in> set xs \<Longrightarrow> x \<noteq> [] \<and> CHR ''/'' \<notin> set x"
  by (induction xs) auto

section \<open>Directory paths\<close>

text \<open>A normalised path other than the root and the current directory.\<close>

definition pathOf :: "bool \<Rightarrow> string list \<Rightarrow> string" where
  "pathOf r E = (if r then slash else []) @ Join E slash"

definition dirPath :: "string \<Rightarrow> bool" where
  "dirPath M \<longleftrightarrow> (\<exists>r E. E \<noteq> [] \<and> normAcc r (rev E) \<and> M = pathOf r E)"

lemma pathOf_parts:
  assumes "E \<noteq> []" and n: "normAcc r (rev E)"
  shows "pathOf r E \<noteq> []" "(hd (pathOf r E) = CHR ''/'') = r"
    "Split (pathOf r E) slash = (if r then [[]] else []) @ E" "Join E slash \<noteq> []"
proof -
  have el: "\<forall>x \<in> set E. x \<noteq> [] \<and> CHR ''/'' \<notin> set x" using normAcc_set [OF n] by simp
  then have hdE: "hd E \<noteq> []" "CHR ''/'' \<notin> set (hd E)" using assms(1) by simp_all
  have J: "hd (Join E slash) = hd (hd E)" "Join E slash \<noteq> []" using hd_Join [OF assms(1) hdE(1)] by simp_all
  show "Join E slash \<noteq> []" by (rule J(2))
  show "pathOf r E \<noteq> []" using J by (simp add: pathOf_def)
  have "hd (hd E) \<noteq> CHR ''/''" using hdE by (metis list.set_sel(1))
  then show "(hd (pathOf r E) = CHR ''/'') = r" using J by (auto simp: pathOf_def)
  have S: "Split (Join E slash) slash = E" using Split_Join_slash [OF assms(1)] el by blast
  then show "Split (pathOf r E) slash = (if r then [[]] else []) @ E"
    using Split_single_step [of "CHR ''/''" "[]" "Join E slash"] by (simp add: pathOf_def)
qed

lemma Clean_pathOf:
  assumes "E \<noteq> []" "normAcc r (rev E)"
  shows "Clean (pathOf r E) = pathOf r E" "Clean (pathOf r E @ slash) = pathOf r E"
proof -
  note parts = pathOf_parts [OF assms]
  have c: "cleanElems r [] E = E" using cleanElems_id [of r E "[]"] assms(2) by simp
  then show "Clean (pathOf r E) = pathOf r E"
    using parts by (cases r) (simp_all add: Clean_def Let_def pathOf_def)
  have "Split (pathOf r E @ slash) slash = (if r then [[]] else []) @ E @ [[]]"
    using Split_append_elem [of "[]" "pathOf r E"] parts(3) by simp
  moreover have "cleanElems r [] (E @ [[]]) = E" using c by (simp add: cleanElems_snoc_empty)
  moreover have "hd (pathOf r E @ slash) = hd (pathOf r E)" using parts(1) by simp
  ultimately show "Clean (pathOf r E @ slash) = pathOf r E"
    using parts by (cases r) (simp_all add: Clean_def Let_def pathOf_def)
qed

lemma pathOf_snoc: "E \<noteq> [] \<Longrightarrow> pathOf r (E @ [x]) = pathOf r E @ slash @ x"
  by (simp add: pathOf_def Join_snoc)

lemma dirPath_append: "dirPath M \<Longrightarrow> plainElem x \<Longrightarrow> dirPath (M @ slash @ x)"
  unfolding dirPath_def
proof (elim exE conjE)
  fix r E
  assume a: "plainElem x" "E \<noteq> []" "normAcc r (rev E)" "M = pathOf r E"
  have "normAcc r (rev (E @ [x]))" using a by (simp add: plainElem_def)
  moreover have "M @ slash @ x = pathOf r (E @ [x])" using pathOf_snoc [OF a(2), of r x] a(4) by simp
  ultimately show "\<exists>r E. E \<noteq> [] \<and> normAcc r (rev E) \<and> M @ slash @ x = pathOf r E"
    by (intro exI [of _ r] exI [of _ "E @ [x]"]) simp
qed

lemma dirPath_Clean: "dirPath M \<Longrightarrow> Clean M = M" "dirPath M \<Longrightarrow> Clean (M @ slash) = M" "dirPath M \<Longrightarrow> M \<noteq> []"
  unfolding dirPath_def by (auto simp: Clean_pathOf pathOf_parts)

lemma pathJoin_dirPath: "dirPath M \<Longrightarrow> plainElem x \<Longrightarrow> pathJoin [M, x] = M @ slash @ x"
  using dirPath_Clean(1) [OF dirPath_append, of M x] dirPath_Clean(3) [of M] by (simp add: pathJoin_def)

text \<open>Joining a plain element onto any non-empty path gives such a path.\<close>

lemma dirPath_pathJoin:
  assumes "p \<noteq> []" "plainElem y"
  shows "dirPath (pathJoin [p, y])"
proof -
  let ?r = "hd p = CHR ''/''"
  let ?E = "cleanElems ?r [] (Split p slash)"
  have ns: "CHR ''/'' \<notin> set y" using assms by (simp add: plainElem_def)
  have E: "cleanElems ?r [] (Split (p @ slash @ y) slash) = ?E @ [y]"
    by (simp only: Split_append_elem [OF ns] cleanElems_append [OF assms(2)])
  have "normAcc ?r (rev (?E @ [y]))"
    using cleanElems_norm [of ?r "[]" "Split (p @ slash @ y) slash"] Split_elems E by simp
  moreover have "Join (?E @ [y]) slash \<noteq> []"
    using assms(2) by (intro Join_snoc_not_Nil) (simp add: plainElem_def)
  then have "pathJoin [p, y] = pathOf ?r (?E @ [y])"
    using assms E by (auto simp: pathJoin_def Clean_def Let_def pathOf_def)
  ultimately show ?thesis unfolding dirPath_def by blast
qed

lemma uptoLastSlash_elem: "CHR ''/'' \<notin> set x \<Longrightarrow> uptoLastSlash (M @ slash @ x) = M @ slash"
proof -
  assume "CHR ''/'' \<notin> set x"
  then have "dropWhile (\<lambda>c. c \<noteq> CHR ''/'') (rev x @ CHR ''/'' # rev M) = CHR ''/'' # rev M"
    by (simp add: dropWhile_until)
  then show ?thesis by (simp add: uptoLastSlash_def)
qed

lemma pathDir_elem: "dirPath M \<Longrightarrow> plainElem x \<Longrightarrow> pathDir (M @ slash @ x) = M"
  using uptoLastSlash_elem [of x M] dirPath_Clean(2) [of M] by (simp add: pathDir_def plainElem_def)

lemma parentOf_elem: "M \<noteq> [] \<Longrightarrow> plainElem x \<Longrightarrow> parentOf (M @ slash @ x) = M"
  using uptoLastSlash_elem [of x M] by (simp add: parentOf_def plainElem_def butlast_append Let_def)

section \<open>Creating and removing directories\<close>

lemma ancestors_elem:
  assumes "CHR ''/'' \<notin> set x" "M \<noteq> []"
  shows "ancestors (M @ slash @ x) = ancestors M @ [M @ slash @ x]"
proof -
  let ?S = "Split M slash"
  have S: "Split (M @ slash @ x) slash = ?S @ [x]" by (rule Split_append_elem [OF assms(1)])
  have J: "Join (?S @ [x]) slash = M @ slash @ x"
    using Join_Split [of slash "M @ slash @ x"] S by simp
  have m: "map (\<lambda>n. Join (take n (?S @ [x])) slash) [1 ..< Suc (length ?S)] =
        map (\<lambda>n. Join (take n ?S) slash) [1 ..< Suc (length ?S)]"
    by (intro map_cong) auto
  have "[1 ..< Suc (length (?S @ [x]))] = [1 ..< Suc (length ?S)] @ [length (?S @ [x])]" by simp
  then have "map (\<lambda>n. Join (take n (?S @ [x])) slash) [1 ..< Suc (length (?S @ [x]))] =
      map (\<lambda>n. Join (take n ?S) slash) [1 ..< Suc (length ?S)] @ [M @ slash @ x]"
    by (simp only: map_append m list.map take_all [OF order_refl] J)
  then show ?thesis unfolding ancestors_def S by (simp only: filter_append) simp
qed

lemma ancestors_last: "M \<noteq> [] \<Longrightarrow> M \<in> set (ancestors M)"
  using Join_Split [of slash M] Split_not_Nil [of slash M]
  by (auto simp: ancestors_def image_iff Suc_le_eq intro!: bexI [of _ "length (Split M slash)"])

lemma mkdirs_spec:
  assumes "\<forall>d \<in> set ds. \<forall>m s. lookupFs w d \<noteq> Some (File m s)"
  shows "\<exists>w'. mkdirs ds w = (Ok (), w') \<and> (\<forall>p. lookupFs w' p = (if p \<in> set ds then Some Dir else lookupFs w p)) \<and>
              faults w' = faults w \<and> os_world.more w' = os_world.more w"
  using assms
proof (induction ds arbitrary: w)
  case (Cons d ds)
  show ?case
  proof (cases "lookupFs w d")
    case None
    have "\<forall>d' \<in> set ds. \<forall>m s. lookupFs (putNode d Dir w) d' \<noteq> Some (File m s)" using Cons.prems by simp
    from Cons.IH [OF this] None show ?thesis by auto
  next
    case (Some n)
    with Cons.prems have "n = Dir" by (cases n) auto
    moreover have "\<forall>d' \<in> set ds. \<forall>m s. lookupFs w d' \<noteq> Some (File m s)" using Cons.prems by simp
    from Cons.IH [OF this] Some calculation show ?thesis by auto
  qed
qed simp

lemma lookupFs_removeAll:
  assumes "faults w = []"
  shows "\<exists>w'. osRemoveAll p w = (Ok (), w') \<and> faults w' = [] \<and> os_world.more w' = os_world.more w \<and>
              (\<forall>q. lookupFs w' q = (if q = p \<or> isUnder p q then None else lookupFs w q))"
proof -
  have "map_of (filter (\<lambda>(q, n). q \<noteq> p \<and> \<not> isUnder p q) l) q = (if q = p \<or> isUnder p q then None else map_of l q)" for l :: "(string \<times> node) list" and q
    by (induction l) auto
  with assms show ?thesis by (simp add: osRemoveAll_def lookupFs_def)
qed

lemma isUnder_elem: "isUnder (M @ slash @ x) (M @ slash @ y @ slash @ z) \<longleftrightarrow> x = y" if "plainElem x" "plainElem y"
proof
  assume "isUnder (M @ slash @ x) (M @ slash @ y @ slash @ z)"
  then obtain t where "x @ CHR ''/'' # t = y @ CHR ''/'' # z" by (auto simp: isUnder_def HasPrefix_iff)
  then have "takeWhile (\<lambda>c. c \<noteq> CHR ''/'') (x @ CHR ''/'' # t) = takeWhile (\<lambda>c. c \<noteq> CHR ''/'') (y @ CHR ''/'' # z)"
    by simp
  then show "x = y" using that by (simp add: takeWhile_until plainElem_def)
qed (auto simp: isUnder_def HasPrefix_iff)

lemma isUnder_elem_short: "\<not> isUnder (M @ slash @ x) (M @ slash @ y)" if "plainElem x" "plainElem y"
  using that by (auto simp: isUnder_def HasPrefix_iff plainElem_def)

end
