(* ===== verification/Persist.thy ===== *)
theory Persist
  imports Host Paths
begin

text \<open>
  \<open>libmachine/persist\<close>: the directory that keeps one sub-directory per machine with its configuration.
  The abstract view of a store is a partial map from machine names to stored configurations; the locale
  \<open>machine_store\<close> says what its clients rely on and is interpreted on the file store.
\<close>

section \<open>The file store\<close>

record filestore =
  st_Path :: string
  st_CaCertPath :: string
  st_CaPrivateKeyPath :: string

definition NewFilestore :: "string \<Rightarrow> string \<Rightarrow> string \<Rightarrow> filestore" where
  "NewFilestore path caCertPath caPrivateKeyPath =
     \<lparr>st_Path = path, st_CaCertPath = caCertPath, st_CaPrivateKeyPath = caPrivateKeyPath\<rparr>"

definition GetMachinesDir :: "filestore \<Rightarrow> string" where
  "GetMachinesDir S = pathJoin [st_Path S, ''machines'']"

definition osClose :: "('v os_world_scheme, unit) io" where
  "osClose = osCall (ret ())"

text \<open>The file is replaced by a temporary one beside it, which is written first and removed on every way out.\<close>

definition saveOver :: "string \<Rightarrow> string \<Rightarrow> ('v os_world_scheme, unit) io" where
  "saveOver data file =
     bindP (osTempFile (pathDir file) ''config.json.tmp'') (\<lambda>tmp.
     deferP (\<lambda>w. snd (osRemove tmp w))
       (bindP (writeFile tmp data 384) (\<lambda>_.
        bindP osClose (\<lambda>_.
        bindP (osRemove file) (\<lambda>_.
        osRename tmp file)))))"

text \<open>Any stat error but a missing file counts as an existing file.\<close>

definition saveToFile :: "string \<Rightarrow> string \<Rightarrow> ('v os_world_scheme, unit) io" where
  "saveToFile data file =
     bindP (tryP (osStat file)) (\<lambda>r.
       case r of
         Inl e \<Rightarrow> if isNotExist e then writeFile file data 384 else saveOver data file
       | Inr n \<Rightarrow> saveOver data file)"

text \<open>\<open>Save\<close> after the host was turned into bytes.\<close>

definition saveData :: "filestore \<Rightarrow> string \<Rightarrow> string \<Rightarrow> ('v os_world_scheme, unit) io" where
  "saveData S name data =
     (let hostPath = pathJoin [GetMachinesDir S, name]
      in bindP (osMkdirAll hostPath) (\<lambda>_. saveToFile data (pathJoin [hostPath, ''config.json''])))"

definition Save ::
  "'v os_world_scheme codec \<Rightarrow> filestore \<Rightarrow> 'v os_world_scheme host \<Rightarrow> ('v os_world_scheme, unit) io" where
  "Save C S h = bindP (marshalHost C h) (\<lambda>data. saveData S (h_Name h) data)"

definition Filestore_Remove :: "filestore \<Rightarrow> string \<Rightarrow> ('v os_world_scheme, unit) io" where
  "Filestore_Remove S name = osRemoveAll (pathJoin [GetMachinesDir S, name])"

definition Filestore_List :: "filestore \<Rightarrow> ('v os_world_scheme, string list) io" where
  "Filestore_List S =
     bindP (tryP (osReadDir (GetMachinesDir S))) (\<lambda>r.
       case r of
         Inl e \<Rightarrow> if isNotExist e then ret [] else throw e
       | Inr dir \<Rightarrow> ret (map fst (filter (\<lambda>(name, n). n = Dir \<and> \<not> HasPrefix name ''.'') dir)))"

definition Exists :: "filestore \<Rightarrow> string \<Rightarrow> ('v os_world_scheme, bool) io" where
  "Exists S name =
     bindP (tryP (osStat (pathJoin [GetMachinesDir S, name]))) (\<lambda>r.
       case r of
         Inl e \<Rightarrow> if isNotExist e then ret False else throw e
       | Inr n \<Rightarrow> ret True)"

definition liftResult :: "(gerror, 'a) result \<Rightarrow> ('w, 'a) io" where
  "liftResult r = (\<lambda>w. (r, w))"

text \<open>After a migration the old bytes are kept in a backup and the new form is saved.\<close>

definition loadConfig ::
  "'v os_world_scheme codec \<Rightarrow> filestore \<Rightarrow> 'v os_world_scheme host \<Rightarrow> ('v os_world_scheme, 'v os_world_scheme host) io" where
  "loadConfig C S h =
     bindP (readFile (pathJoin [GetMachinesDir S, h_Name h, ''config.json''])) (\<lambda>data.
     bindP (wrapErr (errorf ''Error getting migrated host: '') (liftResult (MigrateHost C h data)))
       (\<lambda>(migratedHost, migrationPerformed).
         let h' = migratedHost\<lparr>h_Name := h_Name h\<rparr>
         in if migrationPerformed
            then bindP (wrapErr (errorf ''Error attempting to save backup after migration: '')
                          (saveToFile data (pathJoin [GetMachinesDir S, h_Name h', ''config.json.bak'']))) (\<lambda>_.
                 bindP (wrapErr (errorf ''Error saving config after migration was performed: '') (Save C S h')) (\<lambda>_.
                 ret h'))
            else ret h'))"

definition Filestore_Load ::
  "'v os_world_scheme codec \<Rightarrow> filestore \<Rightarrow> string \<Rightarrow> ('v os_world_scheme, 'v os_world_scheme host) io" where
  "Filestore_Load C S name =
     bindP (tryP (osStat (pathJoin [GetMachinesDir S, name]))) (\<lambda>r.
       case r of
         Inl e \<Rightarrow> if isNotExist e then throw (ErrHostDoesNotExist name) else loadConfig C S (newHost name)
       | Inr n \<Rightarrow> loadConfig C S (newHost name))"

section \<open>Loading many\<close>

text \<open>The errors are a Go map from the host name: a later error of the same name replaces an earlier one.\<close>

fun LoadHosts :: "(string \<Rightarrow> ('w, 'h) io) \<Rightarrow> string list \<Rightarrow> ('w, 'h list \<times> (string \<times> gerror) list) io" where
  "LoadHosts load [] = ret ([], [])"
| "LoadHosts load (n # ns) =
     bindP (tryP (load n)) (\<lambda>r.
     bindP (LoadHosts load ns) (\<lambda>(hs, es).
       ret (case r of
              Inl e \<Rightarrow> (hs, if n \<in> fst ` set es then es else (n, e) # es)
            | Inr h \<Rightarrow> (h # hs, es))))"

definition LoadAllHosts ::
  "(string \<Rightarrow> ('w, 'h) io) \<Rightarrow> ('w, string list) io \<Rightarrow> ('w, 'h list \<times> (string \<times> gerror) list) io" where
  "LoadAllHosts load list = bindP list (\<lambda>hostNames. LoadHosts load hostNames)"

section \<open>Replacing a file\<close>

lemma osStat_cases:
  obtains (fault) s fl where "osStat p w = (Err (OsErr s), w\<lparr>faults := fl\<rparr>)"
  | (no) fl where "osStat p w = (Err (OsNotExist p), w\<lparr>faults := fl\<rparr>)" "lookupFs w p = None"
  | (yes) n fl where "osStat p w = (Ok n, w\<lparr>faults := fl\<rparr>)" "lookupFs w p = Some n"
  unfolding osStat_def
  by (rule osCall_cases [of "\<lambda>w. case lookupFs w p of None \<Rightarrow> (Err (OsNotExist p), w) | Some n \<Rightarrow> (Ok n, w)" w])
    (auto split: option.splits)

text \<open>What the file calls leave behind, on every outcome.\<close>

lemma writeFile_frame:
  assumes "writeFile p d perm w = (r, w')" and "q \<noteq> p"
  shows "lookupFs w' q = lookupFs w q"
  using assms unfolding writeFile_def openTrunc_def writeData_def bindP_def
  by (auto simp: osCall_def split: prod.splits result.splits list.splits option.splits node.splits if_splits)

lemma writeFile_Ok_content:
  assumes "writeFile p d perm w = (Ok (), w')"
  shows "\<exists>m. lookupFs w' p = Some (File m d) \<and> (case lookupFs w p of Some (File m' s) \<Rightarrow> m = m' | _ \<Rightarrow> m = perm)"
proof -
  from assms obtain w1 where 1: "openTrunc p perm w = (Ok (), w1)" and 2: "writeData p d w1 = (Ok (), w')"
    unfolding writeFile_def by (auto elim!: bindP_OkE)
  from 1 have "\<exists>m. lookupFs w1 p = Some (File m []) \<and> (case lookupFs w p of Some (File m' s) \<Rightarrow> m = m' | _ \<Rightarrow> m = perm)"
    unfolding openTrunc_def by (auto simp: osCall_def split: list.splits option.splits node.splits if_splits)
  with 2 show ?thesis
    unfolding writeData_def
    by (auto simp: osCall_def split: list.splits option.splits node.splits if_splits)
qed

lemma osRemove_frame: "osRemove p w = (r, w') \<Longrightarrow> q \<noteq> p \<Longrightarrow> lookupFs w' q = lookupFs w q"
  unfolding osRemove_def
  by (auto simp: osCall_def split: list.splits option.splits node.splits if_splits)

lemma osRemove_result:
  "osRemove p w = (r, w') \<Longrightarrow> lookupFs w' p = None \<or> (r \<noteq> Ok () \<and> lookupFs w' p = lookupFs w p)"
  unfolding osRemove_def
  by (auto simp: osCall_def split: list.splits option.splits node.splits if_splits)

lemma osRemove_Ok: "osRemove p w = (Ok (), w') \<Longrightarrow> lookupFs w' p = None"
  using osRemove_result by fastforce

lemma osClose_frame: "osClose w = (r, w') \<Longrightarrow> lookupFs w' = lookupFs w"
  unfolding osClose_def by (auto simp: osCall_def ret_def fun_eq_iff split: list.splits option.splits)

lemma outcome_OkErr:
  "writeFile p d perm w = (r, w') \<Longrightarrow> r = Ok () \<or> (\<exists>e. r = Err e)"
  "osRemove p w = (r, w') \<Longrightarrow> r = Ok () \<or> (\<exists>e. r = Err e)"
  "osClose w = (r, w') \<Longrightarrow> r = Ok () \<or> (\<exists>e. r = Err e)"
  unfolding writeFile_def openTrunc_def writeData_def osRemove_def osClose_def bindP_def ret_def
  by (auto simp: osCall_def split: prod.splits result.splits list.splits option.splits node.splits if_splits)

lemma replace_body:
  assumes run: "bindP (writeFile tmp data 384) (\<lambda>_. bindP osClose (\<lambda>_. bindP (osRemove file) (\<lambda>_. osRename tmp file))) w
                  = (r, w')"
    and ne: "tmp \<noteq> file" and old: "lookupFs w file = Some (File m s)" and tmp: "lookupFs w tmp = Some (File 384 [])"
  shows "(r = Ok () \<and> lookupFs w' file = Some (File 384 data)) \<or>
         (\<exists>e. r = Err e \<and> lookupFs w' file \<in> {Some (File m s), None})"
proof -
  obtain r1 w1 where 1: "writeFile tmp data 384 w = (r1, w1)" by force
  have o1: "lookupFs w1 file = Some (File m s)" using writeFile_frame [OF 1] ne old by auto
  from outcome_OkErr(1) [OF 1] consider (err) e where "r1 = Err e" | (ok) "r1 = Ok ()" by blast
  then show ?thesis
  proof cases
    case ok
    then have t1: "lookupFs w1 tmp = Some (File 384 data)" using writeFile_Ok_content [of tmp data 384 w w1] 1 tmp by auto
    obtain r2 w2 where 2: "osClose w1 = (r2, w2)" by force
    have l2: "lookupFs w2 = lookupFs w1" by (rule osClose_frame [OF 2])
    obtain r3 w3 where 3: "osRemove file w2 = (r3, w3)" by force
    obtain r4 w4 where 4: "osRename tmp file w3 = (r4, w4)" by force
    have t3: "lookupFs w3 tmp = Some (File 384 data)" using osRemove_frame [OF 3 ne] t1 l2 by simp
    have f3: "lookupFs w3 file \<in> {Some (File m s), None}" using osRemove_result [OF 3] o1 l2 by auto
    show ?thesis
      using run 1 ok 2 3 4 l2 o1 f3 osRename_result [OF 4 ne t3] outcome_OkErr(2) [OF 3] outcome_OkErr(3) [OF 2]
      by (auto simp: bindP_def)
  qed (use run 1 o1 in \<open>auto simp: bindP_def\<close>)
qed

text \<open>
  Replacing an existing file, whatever call fails: the file then has its old node, or the new content with
  the permissions 0600, or it is gone.  It never has part of the new content.
\<close>

lemma saveOver_result:
  assumes run: "saveOver data file w = (r, w')" and old: "lookupFs w file = Some (File m s)"
  shows "(r = Ok () \<and> lookupFs w' file = Some (File 384 data)) \<or>
         (\<exists>e. r = Err e \<and> lookupFs w' file \<in> {Some (File m s), None})"
proof -
  obtain r0 w0 where t: "osTempFile (pathDir file) ''config.json.tmp'' w = (r0, w0)" by force
  from osTempFile_result [OF t] show ?thesis
  proof (elim disjE exE conjE)
    fix e
    assume "r0 = Err e" "\<forall>q. lookupFs w0 q = lookupFs w q"
    with run t old show ?thesis by (auto simp: saveOver_def bindP_def)
  next
    fix tmp
    assume tmp: "r0 = Ok tmp" "lookupFs w tmp = None" "lookupFs w0 tmp = Some (File 384 [])"
      "\<forall>q. q \<noteq> tmp \<longrightarrow> lookupFs w0 q = lookupFs w q"
    then have ne: "file \<noteq> tmp" "tmp \<noteq> file" using old by auto
    have old0: "lookupFs w0 file = Some (File m s)" using tmp ne old by simp
    let ?body = "bindP (writeFile tmp data 384) (\<lambda>_. bindP osClose (\<lambda>_. bindP (osRemove file) (\<lambda>_. osRename tmp file)))"
    obtain r1 w1 where b: "?body w0 = (r1, w1)" by force
    have w': "r = r1" "lookupFs w' file = lookupFs w1 file"
      using run t tmp(1) b osRemove_frame [of tmp w1] ne
      by (auto simp: saveOver_def bindP_def deferP_def split: if_splits) (metis prod.collapse)+
    have "(r1 = Ok () \<and> lookupFs w1 file = Some (File 384 data)) \<or>
          (\<exists>e. r1 = Err e \<and> lookupFs w1 file \<in> {Some (File m s), None})"
      using replace_body [OF b ne(2) old0 tmp(3)] .
    with w' show ?thesis by auto
  qed
qed

section \<open>The store as a map\<close>

lemma saveOver_nofault:
  assumes nf: "faults w = []" and old: "lookupFs w file = Some (File m s)"
    and dir: "isDirAt w (pathDir file)" "isDirAt w (parentOf file)" "parentOf file \<noteq> file"
  shows "\<exists>w'. saveOver data file w = (Ok (), w') \<and> faults w' = [] \<and> os_world.more w' = os_world.more w \<and>
              (\<forall>q. lookupFs w' q = (if q = file then Some (File 384 data) else lookupFs w q))"
proof -
  obtain tmp rs where
    t: "tempFrom (pathJoin [pathDir file, ''config.json.tmp'']) (randoms w) w
          = (Ok tmp, putNode tmp (File 384 []) (w\<lparr>randoms := rs\<rparr>))" and fresh: "lookupFs w tmp = None"
    using tempFrom_Ok [of "pathJoin [pathDir file, ''config.json.tmp'']" "randoms w" w] by blast
  have ne: "tmp \<noteq> file" using fresh old by auto
  have T: "osTempFile (pathDir file) ''config.json.tmp'' w = (Ok tmp, putNode tmp (File 384 []) (w\<lparr>randoms := rs\<rparr>))"
    using nf dir t by (simp add: osTempFile_def)
  let ?w1 = "putNode tmp (File 384 []) (w\<lparr>randoms := rs\<rparr>)"
  let ?w2 = "putNode tmp (File 384 data) (putNode tmp (File 384 []) ?w1)"
  have W: "writeFile tmp data 384 ?w1 = (Ok (), ?w2)"
    using nf by (simp add: writeFile_def openTrunc_def writeData_def bindP_def)
  have R: "osRemove file ?w2 = (Ok (), delNode file ?w2)"
    using nf old ne by (simp add: osRemove_def)
  have dirs: "isDirAt (delNode file ?w2) (parentOf file)"
    using dir fresh by (auto simp: isDirAt_def)
  let ?w3 = "putNode file (File 384 data) (delNode tmp (delNode file ?w2))"
  have N: "osRename tmp file (delNode file ?w2) = (Ok (), ?w3)"
    using nf ne dirs by (simp add: osRename_def)
  have D: "osRemove tmp ?w3 = (Err (OsNotExist tmp), ?w3)"
    using nf ne by (simp add: osRemove_def)
  have C: "osClose ?w2 = (Ok (), ?w2)" using nf by (simp add: osClose_def ret_def)
  have "saveOver data file w = (Ok (), ?w3)"
    unfolding saveOver_def bindP_def deferP_def using T W C R N D by simp
  moreover have "lookupFs ?w3 q = (if q = file then Some (File 384 data) else lookupFs w q)" for q
    using fresh by simp
  ultimately show ?thesis using nf by (intro exI [of _ ?w3]) simp
qed

text \<open>The places of a machine in the store.\<close>

definition machineDir :: "filestore \<Rightarrow> string \<Rightarrow> string" where
  "machineDir S name = GetMachinesDir S @ slash @ name"

definition configPath :: "filestore \<Rightarrow> string \<Rightarrow> string" where
  "configPath S name = machineDir S name @ slash @ ''config.json''"

definition stored :: "filestore \<Rightarrow> 'v os_world_scheme \<Rightarrow> string \<Rightarrow> string option" where
  "stored S w name = (case lookupFs w (configPath S name) of Some (File m s) \<Rightarrow> Some s | _ \<Rightarrow> None)"

text \<open>The invariant: no call is going to fail, the directories above are not files, and a machine directory
  exists exactly for the machines that have a configuration.\<close>

definition storeOK :: "filestore \<Rightarrow> 'v os_world_scheme \<Rightarrow> bool" where
  "storeOK S w \<longleftrightarrow> faults w = [] \<and> st_Path S \<noteq> [] \<and>
     (\<forall>a \<in> set (ancestors (GetMachinesDir S)). \<forall>m s. lookupFs w a \<noteq> Some (File m s)) \<and>
     (\<forall>n. plainElem n \<longrightarrow>
        (lookupFs w (machineDir S n) = None \<and> lookupFs w (configPath S n) = None) \<or>
        (lookupFs w (machineDir S n) = Some Dir \<and> (\<exists>m s. lookupFs w (configPath S n) = Some (File m s))))"

lemma config_plain [simp]: "plainElem ''config.json''" "plainElem ''machines''"
  by (simp_all add: plainElem_def)

lemma machines_dirPath: "st_Path S \<noteq> [] \<Longrightarrow> dirPath (GetMachinesDir S)"
  by (simp add: GetMachinesDir_def dirPath_pathJoin)

lemma machine_paths:
  assumes "st_Path S \<noteq> []" "plainElem n"
  shows "pathJoin [GetMachinesDir S, n] = machineDir S n"
    and "pathJoin [machineDir S n, ''config.json''] = configPath S n"
    and "pathJoin [GetMachinesDir S, n, ''config.json''] = configPath S n"
    and "pathDir (configPath S n) = machineDir S n" and "parentOf (configPath S n) = machineDir S n"
    and "ancestors (machineDir S n) = ancestors (GetMachinesDir S) @ [machineDir S n]"
proof -
  have M: "dirPath (GetMachinesDir S)" "GetMachinesDir S \<noteq> []"
    using machines_dirPath [OF assms(1)] dirPath_Clean(3) by blast+
  have D: "dirPath (machineDir S n)" unfolding machineDir_def using M assms(2) by (intro dirPath_append)
  have c: "dirPath (configPath S n)" unfolding configPath_def using D by (intro dirPath_append) simp_all
  show "pathJoin [GetMachinesDir S, n] = machineDir S n"
    unfolding machineDir_def using M(1) assms(2) by (rule pathJoin_dirPath)
  show "pathJoin [machineDir S n, ''config.json''] = configPath S n"
    unfolding configPath_def using D by (rule pathJoin_dirPath) simp
  show "pathJoin [GetMachinesDir S, n, ''config.json''] = configPath S n"
    using dirPath_Clean(1) [OF c] M(2) by (simp add: pathJoin_def configPath_def machineDir_def)
  show "pathDir (configPath S n) = machineDir S n"
    unfolding configPath_def using D by (rule pathDir_elem) simp
  show "parentOf (configPath S n) = machineDir S n"
    unfolding configPath_def using D dirPath_Clean(3) by (intro parentOf_elem) auto
  show "ancestors (machineDir S n) = ancestors (GetMachinesDir S) @ [machineDir S n]"
    unfolding machineDir_def using assms(2) M(2) by (intro ancestors_elem) (simp_all add: plainElem_def)
qed

text \<open>Different machines use different paths, and none is a directory above the store.\<close>

lemma ancestor_length: "a \<in> set (ancestors p) \<Longrightarrow> length a \<le> length p"
proof -
  have "length (Join (take n xs) slash) \<le> length (Join xs slash)" for n and xs :: "string list"
  proof (induction xs arbitrary: n)
    case (Cons x xs)
    show ?case
    proof (cases n)
      case (Suc k)
      show ?thesis
      proof (cases "take k xs = []")
        case True
        then show ?thesis using Suc by (cases xs) auto
      next
        case False
        then have "xs \<noteq> []" by auto
        with False Suc Cons.IH [of k] show ?thesis by (simp add: Join_Cons)
      qed
    qed simp
  qed simp
  from this [of _ "Split p slash"] show "a \<in> set (ancestors p) \<Longrightarrow> length a \<le> length p"
    using Join_Split [of slash p] by (auto simp: ancestors_def)
qed

lemma path_distinct:
  assumes "plainElem n" "plainElem k"
  shows "machineDir S n \<noteq> configPath S k" "configPath S n = configPath S k \<longleftrightarrow> n = k"
    "machineDir S n = machineDir S k \<longleftrightarrow> n = k"
    "machineDir S n \<notin> set (ancestors (GetMachinesDir S))" "configPath S n \<notin> set (ancestors (GetMachinesDir S))"
  using assms by (auto simp: machineDir_def configPath_def plainElem_def dest!: ancestor_length)

lemma storeOK_cases:
  assumes "storeOK S w" "plainElem n"
  obtains (absent) "lookupFs w (machineDir S n) = None" "lookupFs w (configPath S n) = None" "stored S w n = None"
  | (present) m s where "lookupFs w (machineDir S n) = Some Dir" "lookupFs w (configPath S n) = Some (File m s)"
      "stored S w n = Some s"
  using assms unfolding storeOK_def stored_def by fastforce

lemma Exists_ok:
  assumes "storeOK S w" "plainElem n"
  shows "Exists S n w = (Ok (stored S w n \<noteq> None), w)"
proof -
  have "pathJoin [GetMachinesDir S, n] = machineDir S n" "faults w = []"
    using assms machine_paths(1) by (auto simp: storeOK_def)
  then show ?thesis
    using assms by (cases rule: storeOK_cases [OF assms]) (auto simp: Exists_def osStat_def prog_defs)
qed

text \<open>Writing one machine directory.\<close>

lemma saveData_ok:
  assumes ok: "storeOK S w" and n: "plainElem n"
  shows "\<exists>w'. saveData S n data w = (Ok (), w') \<and> faults w' = [] \<and> os_world.more w' = os_world.more w \<and>
           (\<forall>q. lookupFs w' q = (if q = configPath S n then Some (File 384 data)
                else if q \<in> set (ancestors (machineDir S n)) then Some Dir else lookupFs w q))"
proof -
  have P: "st_Path S \<noteq> []" and nf: "faults w = []" using ok by (auto simp: storeOK_def)
  note paths = machine_paths [OF P n]
  have "lookupFs w a \<noteq> Some (File m s)" if "a \<in> set (ancestors (machineDir S n))" for a m s
  proof (cases "a = machineDir S n")
    case True
    then show ?thesis by (cases rule: storeOK_cases [OF ok n]) auto
  qed (use that ok paths(6) in \<open>auto simp: storeOK_def\<close>)
  then obtain w1 where mk: "mkdirs (ancestors (machineDir S n)) w = (Ok (), w1)"
    and l1: "\<And>p. lookupFs w1 p = (if p \<in> set (ancestors (machineDir S n)) then Some Dir else lookupFs w p)"
    and f1: "faults w1 = []" "os_world.more w1 = os_world.more w"
    using mkdirs_spec [of "ancestors (machineDir S n)" w] nf by auto
  have dir: "isDirAt w1 (machineDir S n)" using l1 paths(6) by (simp add: isDirAt_def)
  have c1: "lookupFs w1 (configPath S n) = lookupFs w (configPath S n)"
    using l1 path_distinct(1) [OF n n, of S] path_distinct(5) [OF n n, of S] paths(6) by auto
  have "\<exists>w'. saveToFile data (configPath S n) w1 = (Ok (), w') \<and> faults w' = [] \<and> os_world.more w' = os_world.more w \<and>
          (\<forall>q. lookupFs w' q = (if q = configPath S n then Some (File 384 data) else lookupFs w1 q))"
    using ok n
  proof (cases rule: storeOK_cases)
    case absent
    then show ?thesis
      using f1 dir c1 paths(5)
      by (simp add: saveToFile_def osStat_def tryP_def bindP_def writeFile_nofault_new)
  next
    case (present m s)
    have st: "saveToFile data (configPath S n) w1 = saveOver data (configPath S n) w1"
      using present f1 c1 by (simp add: saveToFile_def osStat_def tryP_def bindP_def)
    show ?thesis
      using saveOver_nofault [OF f1(1), of "configPath S n" m s data] present c1 dir paths(4,5) path_distinct(1) [OF n n] f1(2)
      unfolding st by simp
  qed
  then show ?thesis
    using mk nf l1 paths(1,2) by (auto simp: saveData_def osMkdirAll_def bindP_def Let_def)
qed

lemma saveData_stored:
  assumes ok: "storeOK S w" and n: "plainElem n"
  shows "\<exists>w'. saveData S n data w = (Ok (), w') \<and> storeOK S w' \<and>
           (\<forall>k. plainElem k \<longrightarrow> stored S w' k = (if k = n then Some data else stored S w k))"
proof -
  from saveData_ok [OF ok n] obtain w' where run: "saveData S n data w = (Ok (), w')" and nf: "faults w' = []"
    and l: "\<And>q. lookupFs w' q = (if q = configPath S n then Some (File 384 data)
                else if q \<in> set (ancestors (machineDir S n)) then Some Dir else lookupFs w q)" by auto
  have P: "st_Path S \<noteq> []" using ok by (simp add: storeOK_def)
  have A: "set (ancestors (machineDir S n)) = insert (machineDir S n) (set (ancestors (GetMachinesDir S)))"
    using machine_paths(6) [OF P n] by simp
  have k: "lookupFs w' (machineDir S k) = (if k = n then Some Dir else lookupFs w (machineDir S k)) \<and>
           lookupFs w' (configPath S k) = (if k = n then Some (File 384 data) else lookupFs w (configPath S k))"
    if "plainElem k" for k
    using that n l A path_distinct [of k n S] path_distinct [of n k S] by auto
  have "storeOK S w'"
    using ok k nf l A path_distinct(5) [OF n n, of S] unfolding storeOK_def by auto
  moreover have "stored S w' j = (if j = n then Some data else stored S w j)" if "plainElem j" for j
    using k [OF that] by (simp add: stored_def)
  ultimately show ?thesis using run by blast
qed

lemma Remove_stored:
  assumes ok: "storeOK S w" and n: "plainElem n"
  shows "\<exists>w'. Filestore_Remove S n w = (Ok (), w') \<and> storeOK S w' \<and>
           (\<forall>k. plainElem k \<longrightarrow> stored S w' k = (if k = n then None else stored S w k))"
proof -
  have P: "st_Path S \<noteq> []" and nf: "faults w = []" using ok by (auto simp: storeOK_def)
  from lookupFs_removeAll [OF nf, of "machineDir S n"] obtain w' where
    run: "osRemoveAll (machineDir S n) w = (Ok (), w')" and nf': "faults w' = []"
    and l: "\<And>q. lookupFs w' q = (if q = machineDir S n \<or> isUnder (machineDir S n) q then None else lookupFs w q)" by auto
  have u: "isUnder (machineDir S n) (configPath S k) \<longleftrightarrow> n = k" "\<not> isUnder (machineDir S n) (machineDir S k)"
    if "plainElem k" for k
    using isUnder_elem [OF n that, of "GetMachinesDir S" "''config.json''"] isUnder_elem_short [OF n that, of "GetMachinesDir S"]
    by (simp_all add: machineDir_def configPath_def)
  have k: "lookupFs w' (machineDir S k) = (if k = n then None else lookupFs w (machineDir S k)) \<and>
           lookupFs w' (configPath S k) = (if k = n then None else lookupFs w (configPath S k))"
    if "plainElem k" for k
    using that n l u path_distinct [of k n S] path_distinct [of n k S] by auto
  have "storeOK S w'" using ok k nf' l unfolding storeOK_def by auto
  moreover have "stored S w' j = (if j = n then None else stored S w j)" if "plainElem j" for j
    using k [OF that] by (simp add: stored_def)
  ultimately show ?thesis
    using run machine_paths(1) [OF P n] unfolding Filestore_Remove_def by auto
qed

section \<open>The interface\<close>

datatype ('n, 'd) storeOp = PutOp 'n 'd | DelOp 'n

fun opName :: "('n, 'd) storeOp \<Rightarrow> 'n" where
  "opName (PutOp n d) = n"
| "opName (DelOp n) = n"

fun runStoreOp :: "('n \<Rightarrow> 'd \<Rightarrow> ('w, unit) io) \<Rightarrow> ('n \<Rightarrow> ('w, unit) io) \<Rightarrow> ('n, 'd) storeOp \<Rightarrow> ('w, unit) io" where
  "runStoreOp put del (PutOp n d) = put n d"
| "runStoreOp put del (DelOp n) = del n"

text \<open>The abstract store.\<close>

fun mapOp :: "('n, 'd) storeOp \<Rightarrow> ('n \<rightharpoonup> 'd) \<Rightarrow> ('n \<rightharpoonup> 'd)" where
  "mapOp (PutOp n d) M = M(n \<mapsto> d)"
| "mapOp (DelOp n) M = M(n := None)"

locale machine_store =
  fixes inv :: "'w \<Rightarrow> bool" and valid :: "'n \<Rightarrow> bool" and contents :: "'w \<Rightarrow> 'n \<rightharpoonup> 'd"
    and has :: "'n \<Rightarrow> ('w, bool) io" and put :: "'n \<Rightarrow> 'd \<Rightarrow> ('w, unit) io" and del :: "'n \<Rightarrow> ('w, unit) io"
  assumes has_law: "inv w \<Longrightarrow> valid n \<Longrightarrow> has n w = (Ok (contents w n \<noteq> None), w)"
    and put_law: "inv w \<Longrightarrow> valid n \<Longrightarrow> \<exists>w'. put n d w = (Ok (), w') \<and> inv w' \<and>
        (\<forall>k. valid k \<longrightarrow> contents w' k = (if k = n then Some d else contents w k))"
    and del_law: "inv w \<Longrightarrow> valid n \<Longrightarrow> \<exists>w'. del n w = (Ok (), w') \<and> inv w' \<and>
        (\<forall>k. valid k \<longrightarrow> contents w' k = (if k = n then None else contents w k))"
begin

lemma step_refines:
  assumes "inv w" "valid (opName a)"
  shows "\<exists>w'. runStoreOp put del a w = (Ok (), w') \<and> inv w' \<and> (\<forall>k. valid k \<longrightarrow> contents w' k = mapOp a (contents w) k)"
  using assms put_law del_law by (cases a) auto

lemma mapOp_cong: "(\<And>k. valid k \<Longrightarrow> M k = N k) \<Longrightarrow> valid k \<Longrightarrow> fold mapOp as M k = fold mapOp as N k"
proof (induction as arbitrary: M N)
  case (Cons a as)
  have "\<And>k. valid k \<Longrightarrow> mapOp a M k = mapOp a N k" using Cons.prems(1) by (cases a) auto
  then show ?case using Cons.IH [of "mapOp a M" "mapOp a N"] Cons.prems(2) by simp
qed simp

text \<open>Any sequence of saves and removals behaves as the same sequence of updates of a map.\<close>

lemma run_refines:
  assumes "inv w" "\<forall>a \<in> set as. valid (opName a)"
  shows "\<exists>w'. forEach as (runStoreOp put del) w = (Ok (), w') \<and> inv w' \<and>
           (\<forall>k. valid k \<longrightarrow> contents w' k = fold mapOp as (contents w) k)"
  using assms
proof (induction as arbitrary: w)
  case Nil
  then show ?case by (simp add: ret_def)
next
  case (Cons a as)
  from step_refines [of w a] Cons.prems obtain w1 where 1: "runStoreOp put del a w = (Ok (), w1)" "inv w1"
    and c1: "\<And>k. valid k \<Longrightarrow> contents w1 k = mapOp a (contents w) k" by auto
  from Cons.IH [OF 1(2)] Cons.prems obtain w2 where
    2: "forEach as (runStoreOp put del) w1 = (Ok (), w2)" "inv w2"
      "\<And>k. valid k \<Longrightarrow> contents w2 k = fold mapOp as (contents w1) k" by auto
  have "contents w2 k = fold mapOp as (mapOp a (contents w)) k" if "valid k" for k
    using 2(3) [OF that] mapOp_cong [of "contents w1" "mapOp a (contents w)" k as] c1 that by simp
  with 1 2 show ?case by (auto simp: bindP_def)
qed

lemma exists_after_put:
  assumes "inv w" "valid n" "valid k"
  shows "\<exists>w'. put n d w = (Ok (), w') \<and> has k w' = (Ok (k = n \<or> contents w k \<noteq> None), w')"
  using put_law [OF assms(1,2), of d] has_law assms(3) by auto

end

interpretation fileStore: machine_store "storeOK S" plainElem "stored S" "Exists S" "saveData S" "Filestore_Remove S"
  for S :: filestore
  by unfold_locales (simp_all add: Exists_ok saveData_stored Remove_stored)

section \<open>Saving and loading\<close>

text \<open>What was saved is loaded again, if the bytes decode to the fields they were made from.\<close>

lemma Load_saved:
  assumes ok: "storeOK S w" and n: "plainElem (h_Name h)"
    and enc: "marshalHost C h w = (Ok data, w)"
    and meta: "decodeMeta C data = Inr (Some md)" "ho_AuthOptions (md_HostOptions md) = Some auth"
      "md_ConfigVersion md = ConfigVersion"
    and dec: "\<And>h0. unmarshalHost C data h0 = Inr (dh, raw)"
  shows "\<exists>w'. Save C S h w = (Ok (), w') \<and> storeOK S w' \<and>
              Filestore_Load C S (h_Name h) w' = (Ok (dh\<lparr>h_Name := h_Name h, h_RawDriver := raw\<rparr>), w')"
proof -
  from saveData_stored [OF ok n, of data] obtain w' where
    run: "saveData S (h_Name h) data w = (Ok (), w')" and ok': "storeOK S w'" and st: "stored S w' (h_Name h) = Some data"
    using n by auto
  have P: "st_Path S \<noteq> []" and nf: "faults w' = []" using ok' by (auto simp: storeOK_def)
  obtain m where c: "lookupFs w' (configPath S (h_Name h)) = Some (File m data)"
    "lookupFs w' (machineDir S (h_Name h)) = Some Dir"
    using st by (cases rule: storeOK_cases [OF ok' n]) auto
  have "MigrateHost C (newHost (h_Name h)) data = Ok (dh\<lparr>h_RawDriver := raw\<rparr>, False)"
    using meta dec by (simp add: MigrateHost_def Let_def)
  then have "Filestore_Load C S (h_Name h) w' = (Ok (dh\<lparr>h_Name := h_Name h, h_RawDriver := raw\<rparr>), w')"
    using c nf machine_paths(1,3) [OF P n]
    by (simp add: Filestore_Load_def loadConfig_def osStat_def readFile_nofault liftResult_def newHost_def prog_defs)
  moreover have "Save C S h w = (Ok (), w')" using enc run by (simp add: Save_def bindP_def)
  ultimately show ?thesis using ok' by blast
qed

lemma storeOK_empty: "st_Path S \<noteq> [] \<Longrightarrow> storeOK S (plainWorld [] v)"
  by (simp add: storeOK_def)

lemma saveToFile_present:
  assumes "lookupFs w file = Some n" and "saveToFile data file w = (r, w')"
  shows "\<exists>w1. saveOver data file w1 = (r, w') \<and> lookupFs w1 = lookupFs w"
proof -
  from osStat_cases [of "file" w] assms(1) obtain x fl where
    "osStat file w = (x, w\<lparr>faults := fl\<rparr>)" "(\<exists>s. x = Err (OsErr s)) \<or> (\<exists>n. x = Ok n)"
    by (metis option.distinct(1))
  then have "saveToFile data file w = saveOver data file (w\<lparr>faults := fl\<rparr>)"
    by (auto simp: saveToFile_def tryP_def bindP_def)
  then show ?thesis using assms(2) by (intro exI [of _ "w\<lparr>faults := fl\<rparr>"]) (auto simp: fun_eq_iff)
qed

text \<open>The backup of a configuration is a file of its own in the machine directory.\<close>

lemma backup_paths:
  assumes "st_Path S \<noteq> []" "plainElem n"
  shows "pathJoin [GetMachinesDir S, n, ''config.json.bak''] = configPath S n @ ''.bak''"
    "parentOf (configPath S n @ ''.bak'') = machineDir S n"
proof -
  have M: "dirPath (GetMachinesDir S)" "GetMachinesDir S \<noteq> []"
    using machines_dirPath [OF assms(1)] dirPath_Clean(3) by blast+
  have D: "dirPath (machineDir S n)" unfolding machineDir_def using M assms(2) by (intro dirPath_append)
  have b: "plainElem ''config.json.bak''" by (simp add: plainElem_def)
  have c: "dirPath (machineDir S n @ slash @ ''config.json.bak'')" using D b by (rule dirPath_append)
  show "pathJoin [GetMachinesDir S, n, ''config.json.bak''] = configPath S n @ ''.bak''"
    using dirPath_Clean(1) [OF c] M(2) by (simp add: pathJoin_def configPath_def machineDir_def)
  show "parentOf (configPath S n @ ''.bak'') = machineDir S n"
    using parentOf_elem [OF dirPath_Clean(3) [OF D] b] by (simp add: configPath_def)
qed

lemma backup_distinct:
  assumes "st_Path S \<noteq> []" "plainElem n"
  shows "configPath S n @ ''.bak'' \<notin> set (ancestors (machineDir S n))" "configPath S n @ ''.bak'' \<noteq> configPath S n"
proof -
  show "configPath S n @ ''.bak'' \<notin> set (ancestors (machineDir S n))"
    using ancestor_length [of "configPath S n @ ''.bak''" "machineDir S n"] by (auto simp: configPath_def)
qed simp

lemma storeOK_putBackup:
  assumes ok: "storeOK S w" and n: "plainElem n"
  shows "storeOK S (putNode (configPath S n @ ''.bak'') (File m s) w)"
proof -
  let ?b = "configPath S n @ ''.bak''"
  have P: "st_Path S \<noteq> []" using ok by (simp add: storeOK_def)
  have "?b \<notin> set (ancestors (GetMachinesDir S))"
    using backup_distinct(1) [OF P n] machine_paths(6) [OF P n] by simp
  moreover have "machineDir S k \<noteq> ?b \<and> configPath S k \<noteq> ?b" if "plainElem k" for k
    using that n by (auto simp: configPath_def machineDir_def plainElem_def)
  ultimately show ?thesis using ok unfolding storeOK_def by auto
qed

section \<open>Properties\<close>

text \<open>C1: any sequence of saves and removals of machines in the file store has the effect of the same sequence of
  updates on a map from names to configurations; every call succeeds, and the invariant of the store is kept.\<close>

theorem store_refines_map:
  assumes "storeOK S w" and "\<forall>a \<in> set ops. plainElem (opName a)"
  shows "\<exists>w'. forEach ops (runStoreOp (saveData S) (Filestore_Remove S)) w = (Ok (), w') \<and> storeOK S w' \<and>
           (\<forall>n. plainElem n \<longrightarrow> stored S w' n = fold mapOp ops (stored S w) n \<and>
                Exists S n w' = (Ok (fold mapOp ops (stored S w) n \<noteq> None), w'))"
  using fileStore.run_refines [OF assms] fileStore.has_law by fastforce

definition demoStore :: filestore where
  "demoStore = NewFilestore ''/s'' ''/s/certs'' ''/s/certs''"

theorem store_refines_map_witness:
  "\<exists>w'. forEach [PutOp ''a'' ''1'', PutOp ''b'' ''2'', DelOp ''a''] (runStoreOp (saveData demoStore) (Filestore_Remove demoStore))
          (plainWorld [] ()) = (Ok (), w') \<and> stored demoStore w' ''b'' = Some ''2'' \<and> stored demoStore w' ''a'' = None"
proof -
  let ?ops = "[PutOp ''a'' ''1'', PutOp ''b'' ''2'', DelOp ''a'']"
  have "storeOK demoStore (plainWorld [] ())" by (rule storeOK_empty) (simp add: demoStore_def NewFilestore_def)
  moreover have "\<forall>a \<in> set ?ops. plainElem (opName a)" by (simp add: plainElem_def)
  ultimately obtain w' where "forEach ?ops (runStoreOp (saveData demoStore) (Filestore_Remove demoStore)) (plainWorld [] ()) = (Ok (), w')"
    "\<forall>n. plainElem n \<longrightarrow> stored demoStore w' n = fold mapOp ?ops (stored demoStore (plainWorld [] ())) n"
    using store_refines_map [of demoStore "plainWorld [] ()" ?ops] by blast
  then show ?thesis by (auto simp: plainElem_def)
qed



text \<open>C4: saving over an existing configuration, whichever of the file calls fails: after success the file has the new
  content and the permissions 0600; after an error it is as it was or gone.  It never holds part of the new content.\<close>

theorem saveToFile_no_partial:
  assumes "saveToFile data file w = (r, w')" and "lookupFs w file = Some (File m s)"
  shows "(r = Ok () \<and> lookupFs w' file = Some (File 384 data)) \<or>
         (\<exists>e. r = Err e \<and> lookupFs w' file \<in> {Some (File m s), None})"
proof -
  from saveToFile_present [OF assms(2,1)] obtain w1 where 1: "saveOver data file w1 = (r, w')" and l: "lookupFs w1 = lookupFs w"
    by blast
  from saveOver_result [OF 1] assms(2) l show ?thesis by simp
qed

theorem saveToFile_no_partial_witness:
  "\<exists>w'. saveToFile ''new'' ''/d/c'' (plainWorld [(''/d'', Dir), (''/d/c'', File 420 ''old'')] ()) = (Ok (), w') \<and>
        lookupFs w' ''/d/c'' = Some (File 384 ''new'')"
proof -
  let ?w = "plainWorld [(''/d'', Dir), (''/d/c'', File 420 ''old'')] ()"
  have "fst (saveToFile ''new'' ''/d/c'' ?w) = Ok ()" by code_simp
  then obtain w' where w': "saveToFile ''new'' ''/d/c'' ?w = (Ok (), w')" by (metis prod.collapse)
  from saveToFile_no_partial [OF w', of 420 "''old''"] w' show ?thesis by simp
qed

text \<open>when only the final rename fails, the configuration is lost: the old file was removed before, and the
  temporary file with the new content is removed on the way out.\<close>

theorem saveToFile_rename_loses:
  assumes "faults w = replicate 6 None @ [Some msg]" and "lookupFs w file = Some (File m s)"
    and "isDirAt w (pathDir file)"
  shows "\<exists>w'. saveToFile data file w = (Err (OsErr msg), w') \<and> lookupFs w' file = None \<and>
              (\<forall>q. q \<noteq> file \<longrightarrow> lookupFs w' q = lookupFs w q)"
proof -
  let ?f1 = "w\<lparr>faults := replicate 5 None @ [Some msg]\<rparr>" and ?f2 = "w\<lparr>faults := replicate 4 None @ [Some msg]\<rparr>"
  obtain tmp rs where
    t: "tempFrom (pathJoin [pathDir file, ''config.json.tmp'']) (randoms ?f2) ?f2
          = (Ok tmp, putNode tmp (File 384 []) (?f2\<lparr>randoms := rs\<rparr>))" and fresh: "lookupFs w tmp = None"
    using tempFrom_Ok [of "pathJoin [pathDir file, ''config.json.tmp'']" "randoms ?f2" ?f2] by auto
  have ne: "tmp \<noteq> file" using fresh assms(2) by auto
  have dir: "isDirAt ?f2 (pathDir file)" using assms(3) by (simp add: isDirAt_def)
  have st: "saveToFile data file w = saveOver data file ?f1"
    using assms(1,2) by (simp add: saveToFile_def osStat_def osCall_def tryP_def bindP_def eval_nat_numeral)
  let ?w3 = "putNode tmp (File 384 []) (w\<lparr>faults := replicate 4 None @ [Some msg], randoms := rs\<rparr>)"
  have T: "osTempFile (pathDir file) ''config.json.tmp'' ?f1 = (Ok tmp, ?w3)"
    using dir t by (simp add: osTempFile_def osCall_def eval_nat_numeral)
  have "\<exists>w'. saveOver data file ?f1 = (Err (OsErr msg), w') \<and> lookupFs w' file = None \<and>
             (\<forall>q. q \<noteq> file \<longrightarrow> lookupFs w' q = lookupFs w q)"
    unfolding saveOver_def bindP_def [of "osTempFile (pathDir file) ''config.json.tmp''"] T
    using ne fresh assms(2)
    by (auto simp: writeFile_def openTrunc_def writeData_def osClose_def osRemove_def osRename_def osCall_def
        bindP_def deferP_def ret_def eval_nat_numeral)
  then show ?thesis using st by simp
qed

theorem saveToFile_rename_loses_witness:
  "\<exists>w'. saveToFile ''new'' ''/d/c'' ((plainWorld [(''/d'', Dir), (''/d/c'', File 420 ''old'')] ())\<lparr>faults := replicate 6 None @ [Some ''disk full'']\<rparr>)
          = (Err (OsErr ''disk full''), w') \<and> lookupFs w' ''/d/c'' = None"
proof -
  let ?w = "(plainWorld [(''/d'', Dir), (''/d/c'', File 420 ''old'')] ())\<lparr>faults := replicate 6 None @ [Some ''disk full'']\<rparr>"
  have "pathDir ''/d/c'' = ''/d''" by code_simp
  then show ?thesis using saveToFile_rename_loses [of ?w "''disk full''" "''/d/c''" 420 "''old''" "''new''"]
    by (auto simp: isDirAt_def)
qed

text \<open>loading a machine whose configuration has an earlier version overwrites the configuration with that of a host
  that has nothing but its name; the old bytes remain only in the backup.\<close>

theorem Load_old_overwrites:
  assumes ok: "storeOK S w" and v: "ValidateHostName name" and st: "stored S w name = Some data"
    and bak: "lookupFs w (configPath S name @ ''.bak'') = None"
    and enc: "\<And>h v. marshalHost C h v = (Ok (enc h), v)"
    and meta: "decodeMeta C data = Inr (Some md)" "ho_AuthOptions (md_HostOptions md) \<noteq> None" "md_ConfigVersion md < ConfigVersion"
  shows "\<exists>w'. Filestore_Load C S name w = (Ok ((newHost name)\<lparr>h_ConfigVersion := ConfigVersion\<rparr>), w') \<and>
              stored S w' name = Some (enc ((newHost name)\<lparr>h_ConfigVersion := ConfigVersion\<rparr>)) \<and>
              lookupFs w' (configPath S name @ ''.bak'') = Some (File 384 data)"
proof -
  have n: "plainElem name" using ValidateHostName_plain [OF v] by simp
  have P: "st_Path S \<noteq> []" and nf: "faults w = []" using ok by (auto simp: storeOK_def)
  let ?h = "(newHost name)\<lparr>h_ConfigVersion := ConfigVersion\<rparr>" and ?b = "configPath S name @ ''.bak''"
  obtain m where c: "lookupFs w (configPath S name) = Some (File m data)" "lookupFs w (machineDir S name) = Some Dir"
    using st by (cases rule: storeOK_cases [OF ok n]) auto
  have mig: "MigrateHost C (newHost name) data = Ok (?h, True)" by (rule MigrateHost_old [OF meta])
  have bp: "pathJoin [GetMachinesDir S, name, ''config.json.bak''] = ?b" "parentOf ?b = machineDir S name"
    using backup_paths [OF P n] by simp_all
  let ?w1 = "putNode ?b (File 384 data) (putNode ?b (File 384 []) w)"
  have sb: "saveToFile data ?b w = (Ok (), ?w1)"
    using nf bak c(2) bp(2) by (simp add: saveToFile_def osStat_def tryP_def bindP_def writeFile_nofault_new isDirAt_def)
  have ok1: "storeOK S ?w1" by (rule storeOK_putBackup [OF storeOK_putBackup [OF ok n] n])
  from saveData_ok [OF ok1 n, of "enc ?h"] obtain w' where w': "saveData S name (enc ?h) ?w1 = (Ok (), w')"
    "lookupFs w' (configPath S name) = Some (File 384 (enc ?h))" "lookupFs w' ?b = Some (File 384 data)"
    using backup_distinct [OF P n] by auto
  have "Filestore_Load C S name w = (Ok ?h, w')"
    using c nf machine_paths(1,3) [OF P n] sb w'(1) enc mig bp(1)
    by (simp add: Filestore_Load_def loadConfig_def osStat_def readFile_nofault liftResult_def newHost_def Save_def Let_def prog_defs)
  then show ?thesis using w' by (intro exI [of _ w']) (simp add: stored_def)
qed

theorem Load_old_overwrites_witness:
  "\<exists>w'. Filestore_Load \<lparr>decodeMeta = (\<lambda>s. Inr (Some (demoMeta 2))), unmarshalHost = (\<lambda>s h. Inr (h, s)), marshalHost = (\<lambda>h. ret ''new'')\<rparr>
          demoStore ''m'' (snd (saveData demoStore ''m'' ''old'' (plainWorld [] ()))) =
        (Ok ((newHost ''m'')\<lparr>h_ConfigVersion := 3\<rparr>), w') \<and> stored demoStore w' ''m'' = Some ''new''"
proof -
  let ?C = "\<lparr>decodeMeta = (\<lambda>s. Inr (Some (demoMeta 2))), unmarshalHost = (\<lambda>s h. Inr (h, s)), marshalHost = (\<lambda>h. ret ''new'')\<rparr>"
  have s: "storeOK demoStore (plainWorld [] ())" by (rule storeOK_empty) (simp add: demoStore_def NewFilestore_def)
  have v: "ValidateHostName ''m''" by code_simp
  from saveData_stored [OF s, of "''m''" "''old''"] obtain w1 where
    w1: "saveData demoStore ''m'' ''old'' (plainWorld [] ()) = (Ok (), w1)" "storeOK demoStore w1" "stored demoStore w1 ''m'' = Some ''old''"
    by (auto simp: plainElem_def)
  have "lookupFs (snd (saveData demoStore ''m'' ''old'' (plainWorld [] ()))) (configPath demoStore ''m'' @ ''.bak'') = None" by code_simp
  then have b: "lookupFs w1 (configPath demoStore ''m'' @ ''.bak'') = None" using w1(1) by simp
  show ?thesis
    using Load_old_overwrites [OF w1(2) v w1(3) b, of ?C "\<lambda>_. ''new''" "demoMeta 2"] w1(1)
    by (auto simp: ret_def demoMeta_def ConfigVersion_def)
qed

text \<open>a machine with a valid name lives directly below the machines directory of the store; no valid name reaches
  another directory.\<close>

theorem valid_name_confined:
  assumes "st_Path S \<noteq> []" and "ValidateHostName name"
  shows "pathJoin [GetMachinesDir S, name] = GetMachinesDir S @ slash @ name \<and> CHR ''/'' \<notin> set name"
  using machine_paths(1) [OF assms(1)] ValidateHostName_plain [OF assms(2)] by (auto simp: machineDir_def plainElem_def)

theorem valid_name_confined_witness:
  "ValidateHostName ''my-box.1'' \<and> pathJoin [GetMachinesDir demoStore, ''my-box.1''] = GetMachinesDir demoStore @ ''/my-box.1''"
proof -
  have v: "ValidateHostName ''my-box.1''" by code_simp
  then show ?thesis using valid_name_confined [OF _ v, of demoStore] by (simp add: demoStore_def NewFilestore_def)
qed

end
