(* ===== verification/Libmachine.thy ===== *)
theory Libmachine
  imports Persist
begin

text \<open>
  \<open>libmachine/libmachine.go\<close>: the client that joins the file store with the drivers, and the creation of a
  machine from pre-create checks to the first contact with Podman.  The commands see it as the record \<open>api\<close>.
\<close>

section \<open>The client\<close>

text \<open>\<open>newRPCClientDriver\<close> starts the plugin of a driver and connects to it; \<open>stdLock\<close> is the mutex of
  \<open>drivers/serial.go\<close> that all serialising wrappers share.\<close>

record ('w, 'c) client =
  certsDir :: string
  cl_Filestore :: filestore
  newRPCClientDriver :: "string \<Rightarrow> string \<Rightarrow> ('w, 'w driver) io"
  stdLock :: "('w, bool) lens"
  cl_host :: "('w, 'c) host_env"
  cl_codec :: "'w codec"

record 'w api =
  api_NewHost :: "string \<Rightarrow> string \<Rightarrow> ('w, 'w host) io"
  api_Create :: "'w host \<Rightarrow> ('w, unit) io"
  api_Exists :: "string \<Rightarrow> ('w, bool) io"
  api_List :: "('w, string list) io"
  api_Load :: "string \<Rightarrow> ('w, 'w host) io"
  api_Remove :: "string \<Rightarrow> ('w, unit) io"
  api_Save :: "'w host \<Rightarrow> ('w, unit) io"
  api_MachinesDir :: string

definition Client_NewHost :: "('w, 'c) client \<Rightarrow> string \<Rightarrow> string \<Rightarrow> ('w, 'w host) io" where
  "Client_NewHost c driverName rawDriver =
     bindP (newRPCClientDriver c driverName rawDriver) (\<lambda>driver.
     bindP (GetMachineName driver) (\<lambda>name.
     bindP (DriverName driver) (\<lambda>dn.
     let dir = certsDir c; machines = GetMachinesDir (cl_Filestore c)
     in ret \<lparr>h_ConfigVersion = ConfigVersion, h_Driver = LiveDriver driver, h_DriverName = dn,
          h_HostOptions = Some \<lparr>ho_Driver = [], ho_Memory = 0, ho_Disk = 0,
            ho_EngineOptions = Some (zeroEngineOptions\<lparr>InstallURL := DefaultEngineInstallURL,
              StorageDriver := ''overlay2'', TLSVerify := True\<rparr>),
            ho_AuthOptions = Some (zeroAuthOptions\<lparr>CertDir := dir, CaCertPath := pathJoin [dir, ''ca.pem''],
              CaPrivateKeyPath := pathJoin [dir, ''ca-key.pem''], ClientCertPath := pathJoin [dir, ''cert.pem''],
              ClientKeyPath := pathJoin [dir, ''key.pem''], ServerCertPath := pathJoin [machines, ''server.pem''],
              ServerKeyPath := pathJoin [machines, ''server-key.pem'']\<rparr>)\<rparr>,
          h_Name = name, h_RawDriver = []\<rparr>)))"

text \<open>A missing plugin binary is not an error here: the host gets a driver that reports it on every call.\<close>

fun isBinaryNotFound :: "gerror \<Rightarrow> bool" where
  "isBinaryNotFound (ErrPluginBinaryNotFound d p) = True"
| "isBinaryNotFound e = False"

definition Client_Load ::
  "('v os_world_scheme, 'c) client \<Rightarrow> string \<Rightarrow> ('v os_world_scheme, 'v os_world_scheme host) io" where
  "Client_Load c name =
     bindP (Filestore_Load (cl_codec c) (cl_Filestore c) name) (\<lambda>h.
     bindP (tryP (newRPCClientDriver c (h_DriverName h) (h_RawDriver h))) (\<lambda>r.
       case r of
         Inl e \<Rightarrow> if isBinaryNotFound e then ret (h\<lparr>h_Driver := LiveDriver (errDriver (h_DriverName h))\<rparr>) else throw e
       | Inr d \<Rightarrow> ret (h\<lparr>h_Driver := LiveDriver (if h_DriverName h = ''virtualbox''
                                                 then newSerialDriverWithLock d (stdLock c) else d)\<rparr>)))"

definition Client_Save ::
  "('v os_world_scheme, 'c) client \<Rightarrow> 'v os_world_scheme host \<Rightarrow> ('v os_world_scheme, unit) io" where
  "Client_Save c h = Save (cl_codec c) (cl_Filestore c) h"

section \<open>Creating a machine\<close>

definition performCreate ::
  "('v os_world_scheme, 'c) client \<Rightarrow> 'v os_world_scheme host \<Rightarrow> ('v os_world_scheme, unit) io" where
  "performCreate c h =
     (let H = cl_host c; P = he_prov H; E = pe_ssh P
      in bindP (driverOf H h) (\<lambda>d.
         bindP (wrapErr (errorf ''Error in driver during machine creation: '') (Create d)) (\<lambda>_.
         bindP (wrapErr (errorf ''Error saving host to store after attempting creation: '') (Client_Save c h)) (\<lambda>_.
         bindP (DriverName d) (\<lambda>n1.
         bindP (if n1 = ''none'' then ret True else bindP (DriverName d) (\<lambda>n2. ret (n2 = ''ci-test''))) (\<lambda>bare.
           if bare then ret ()
           else
             bindP (wrapErr (errorf ''Error waiting for machine to be running: '')
                      (WaitFor (he_sleep H) (MachineInState d Running))) (\<lambda>_.
             bindP (wrapErr (errorf ''Error detecting OS: '') (host_detect H d)) (\<lambda>provisioner.
             bindP (derefOptions h) (\<lambda>(auth, eng).
             bindP (wrapErr (errorf ''Error running provisioning: '') (Provision P provisioner auth eng)) (\<lambda>_.
             bindP (wrapErr (errorf ''Error creating SSH client: '') (host_CreateSSHClient H h)) (\<lambda>client.
             bindP (wrapErr (errorf ''Error getting podman version: '')
                      (orErr (Client_Output E client ''podman --version''))) (\<lambda>_.
             ret ()))))))))))))"

definition Client_Create ::
  "('v os_world_scheme, 'c) client \<Rightarrow> 'v os_world_scheme host \<Rightarrow> ('v os_world_scheme, unit) io" where
  "Client_Create c h =
     bindP (wrapErr (errorf ''Error generating certificates: '') (host_bootstrap (cl_host c) h)) (\<lambda>_.
     bindP (driverOf (cl_host c) h) (\<lambda>d.
     bindP (wrapErr ErrDuringPreCreate (PreCreateCheck d)) (\<lambda>_.
     bindP (wrapErr (errorf ''Error saving host to store before attempting creation: '') (Client_Save c h)) (\<lambda>_.
     wrapErr (errorf ''Error creating machine: '') (performCreate c h)))))"

definition Client_api :: "('v os_world_scheme, 'c) client \<Rightarrow> 'v os_world_scheme api" where
  "Client_api c = \<lparr>
     api_NewHost = Client_NewHost c,
     api_Create = Client_Create c,
     api_Exists = Exists (cl_Filestore c),
     api_List = Filestore_List (cl_Filestore c),
     api_Load = Client_Load c,
     api_Remove = Filestore_Remove (cl_Filestore c),
     api_Save = Client_Save c,
     api_MachinesDir = GetMachinesDir (cl_Filestore c)\<rparr>"

section \<open>Lemmas\<close>

text \<open>The options of a new host place its files under the directories of the client.\<close>

lemma Client_NewHost_OkE:
  assumes "Client_NewHost c dn raw w = (Ok h, w')"
  obtains d w1 w2 where "newRPCClientDriver c dn raw w = (Ok d, w1)" "h_Driver h = LiveDriver d"
    "GetMachineName d w1 = (Ok (h_Name h), w2)" "DriverName d w2 = (Ok (h_DriverName h), w')"
    "h_ConfigVersion h = ConfigVersion" "host_AuthOptions h \<noteq> None"
  using assms unfolding Client_NewHost_def
  by (auto simp: ret_def Let_def host_AuthOptions_def elim!: bindP_OkE)

text \<open>A failed pre-create check stops the creation before anything is saved or created.\<close>

lemma Client_Create_precheck:
  assumes "host_bootstrap (cl_host c) h w = (Ok (), w1)" and "h_Driver h = LiveDriver d"
    and "PreCreateCheck d w1 = (Err e, w2)"
  shows "Client_Create c h w = (Err (ErrDuringPreCreate e), w2)"
  using assms by (simp add: Client_Create_def driverOf_def bindP_def wrapErr_def ret_def)

text \<open>When the driver fails to create, the configuration that was saved before stays in the store.\<close>

lemma Client_Create_driver_fails:
  assumes "host_bootstrap (cl_host c) h w = (Ok (), w1)" and d: "h_Driver h = LiveDriver d"
    and "PreCreateCheck d w1 = (Ok (), w2)" and "Client_Save c h w2 = (Ok (), w3)" and "Create d w3 = (Err e, w4)"
  shows "Client_Create c h w =
    (Err (errorf ''Error creating machine: '' (errorf ''Error in driver during machine creation: '' e)), w4)"
proof -
  have "driverOf (cl_host c) h = ret d" using d by (simp add: driverOf_def)
  then show ?thesis
    using assms by (simp add: Client_Create_def performCreate_def Let_def bindP_def wrapErr_def ret_def)
qed

text \<open>A successful creation saved the host after the driver had created the machine, and for a driver other
  than the two that are not provisioned it went on to see the machine running.\<close>

lemma performCreate_Ok:
  assumes run: "performCreate c h w = (Ok (), w')" and d: "h_Driver h = LiveDriver d"
  shows "\<exists>w1 w2. Create d w = (Ok (), w1) \<and> Client_Save c h w1 = (Ok (), w2)"
proof -
  have "driverOf (cl_host c) h = ret d" using d by (simp add: driverOf_def)
  then show ?thesis
    using run unfolding performCreate_def Let_def by (auto elim!: bindP_OkE)
qed

lemma Client_Load_serial:
  assumes "Filestore_Load (cl_codec c) (cl_Filestore c) name w = (Ok h, w1)"
    and "newRPCClientDriver c (h_DriverName h) (h_RawDriver h) w1 = (r, w2)"
  shows "Client_Load c name w =
    (case r of
       Ok d \<Rightarrow> (Ok (h\<lparr>h_Driver := LiveDriver (if h_DriverName h = ''virtualbox''
                                              then newSerialDriverWithLock d (stdLock c) else d)\<rparr>), w2)
     | Err e \<Rightarrow> (if isBinaryNotFound e then Ok (h\<lparr>h_Driver := LiveDriver (errDriver (h_DriverName h))\<rparr>) else Err e, w2)
     | Panic s \<Rightarrow> (Panic s, w2)
     | Blocked \<Rightarrow> (Blocked, w2))"
  using assms by (cases r) (auto simp: Client_Load_def bindP_def tryP_def ret_def throw_def)

text \<open>A client of a store, with the given driver behind every plugin.\<close>

definition demoCodec :: "'w codec" where
  "demoCodec = \<lparr>decodeMeta = (\<lambda>s. Inr (Some (demoMeta 3))), unmarshalHost = (\<lambda>s h. Inr (h, s)), marshalHost = (\<lambda>h. ret ''{}'')\<rparr>"

definition demoClient :: "'v os_world_scheme driver \<Rightarrow> ('v os_world_scheme, unit) client" where
  "demoClient d = \<lparr>certsDir = ''/c'', cl_Filestore = demoStore, newRPCClientDriver = (\<lambda>n raw. ret d), stdLock = constL False,
     cl_host = demoHostEnv, cl_codec = demoCodec\<rparr>"

section \<open>Properties\<close>

text \<open>a pre-create check that fails ends the creation with an error that carries its cause, in the world that the
  check left: nothing is saved and the driver's \<open>Create\<close> is not called.\<close>

theorem Create_stops_at_precheck:
  assumes "host_bootstrap (cl_host c) h w = (Ok (), w1)" and "h_Driver h = LiveDriver d" and "PreCreateCheck d w1 = (Err e, w2)"
  shows "Client_Create c h w = (Err (ErrDuringPreCreate e), w2)"
  by (rule Client_Create_precheck [OF assms])

definition demoAuth :: authOptions where
  "demoAuth = zeroAuthOptions\<lparr>CertDir := ''/c'', CaCertPath := ''/c/ca.pem'', ClientCertPath := ''/c/cert.pem''\<rparr>"

definition demoHost :: "'w driver \<Rightarrow> 'w host" where
  "demoHost d = (newHost ''m'')\<lparr>h_Driver := LiveDriver d, h_HostOptions := Some \<lparr>ho_Driver = [], ho_Memory = 0, ho_Disk = 0,
     ho_EngineOptions = Some zeroEngineOptions, ho_AuthOptions = Some demoAuth\<rparr>\<rparr>"

definition certWorld :: "'v \<Rightarrow> 'v os_world_scheme" where
  "certWorld v = plainWorld [(''/c'', Dir), (''/c/ca.pem'', File 420 []), (''/c/cert.pem'', File 420 [])] v"

lemma demo_bootstrap: "host_bootstrap demoHostEnv (demoHost d) (certWorld v) = (Ok (), certWorld v)"
  by (simp add: host_bootstrap_def host_AuthOptions_def demoHost_def demoAuth_def demoHostEnv_def certWorld_def
      BootstrapCertificates_def ensureDir_present renewCert_current demoGenerator_def getW_def bindP_def ret_def Let_def)

theorem Create_stops_at_precheck_witness:
  "Client_Create (demoClient (errDriver ''x'')) (demoHost (errDriver ''x'')) (certWorld ()) =
     (Err (ErrDuringPreCreate (NotLoadable ''x'')), certWorld ())"
  by (rule Create_stops_at_precheck [of _ _ _ "certWorld ()" "errDriver ''x''"])
    (simp_all add: demoClient_def demo_bootstrap, simp_all add: demoHost_def errDriver_def throw_def)

text \<open>C22: when the driver fails to create the machine, the error reports it and the configuration that was saved before
  the attempt stays in the store, so that the machine can still be removed.\<close>

theorem failed_Create_stays_stored:
  assumes boot: "host_bootstrap (cl_host c) h w = (Ok (), w1)" and d: "h_Driver h = LiveDriver d"
    and pre: "PreCreateCheck d w1 = (Ok (), w2)" and ok: "storeOK (cl_Filestore c) w2" and n: "ValidateHostName (h_Name h)"
    and enc: "marshalHost (cl_codec c) h w2 = (Ok data, w2)"
    and fails: "\<And>v. storeOK (cl_Filestore c) v \<Longrightarrow> \<exists>e v'. Create d v = (Err e, v') \<and> stored (cl_Filestore c) v' = stored (cl_Filestore c) v"
  shows "\<exists>e w'. Client_Create c h w =
      (Err (errorf ''Error creating machine: '' (errorf ''Error in driver during machine creation: '' e)), w') \<and>
    stored (cl_Filestore c) w' (h_Name h) = Some data"
proof -
  have p: "plainElem (h_Name h)" using ValidateHostName_plain [OF n] by simp
  from saveData_stored [OF ok p, of data] obtain w3 where 3: "saveData (cl_Filestore c) (h_Name h) data w2 = (Ok (), w3)"
    "storeOK (cl_Filestore c) w3" "stored (cl_Filestore c) w3 (h_Name h) = Some data" using p by auto
  have "Client_Save c h w2 = (Ok (), w3)" using enc 3(1) by (simp add: Client_Save_def Save_def bindP_def)
  moreover from fails [OF 3(2)] obtain e w4 where "Create d w3 = (Err e, w4)" "stored (cl_Filestore c) w4 = stored (cl_Filestore c) w3"
    by blast
  ultimately show ?thesis using Client_Create_driver_fails [OF boot d pre] 3(3) by auto
qed

lemma certWorld_storeOK: "storeOK demoStore (certWorld v)"
proof -
  have M: "GetMachinesDir demoStore = ''/s/machines''" by code_simp
  have "ancestors ''/s/machines'' = [''/s'', ''/s/machines'']" "st_Path demoStore = ''/s''" by code_simp+
  then show ?thesis
    by (simp add: storeOK_def certWorld_def M machineDir_def configPath_def)
qed

theorem failed_Create_stays_stored_witness:
  "\<exists>e w'. Client_Create (demoClient ((errDriver ''x'')\<lparr>PreCreateCheck := ret ()\<rparr>)) (demoHost ((errDriver ''x'')\<lparr>PreCreateCheck := ret ()\<rparr>))
       (certWorld ()) = (Err e, w') \<and> stored demoStore w' ''m'' = Some ''{}''"
proof -
  let ?d = "(errDriver ''x'')\<lparr>PreCreateCheck := ret ()\<rparr> :: unit os_world_scheme driver"
  have n: "ValidateHostName ''m''" by code_simp
  have "host_bootstrap (cl_host (demoClient ?d)) (demoHost ?d) (certWorld ()) = (Ok (), certWorld ())"
    by (simp add: demoClient_def demo_bootstrap)
  moreover have "h_Driver (demoHost ?d) = LiveDriver ?d" "h_Name (demoHost ?d) = ''m''" by (simp_all add: demoHost_def newHost_def)
  moreover have "PreCreateCheck ?d (certWorld ()) = (Ok (), certWorld ())" by (simp add: ret_def)
  moreover have c: "cl_Filestore (demoClient ?d) = demoStore" by (simp add: demoClient_def)
  moreover have "marshalHost (cl_codec (demoClient ?d)) (demoHost ?d) (certWorld ()) = (Ok ''{}'', certWorld ())"
    by (simp add: demoClient_def demoCodec_def ret_def)
  moreover have "\<exists>e v'. Create ?d v = (Err e, v') \<and> stored demoStore v' = stored demoStore v" for v
    by (simp add: errDriver_def throw_def)
  ultimately show ?thesis
    using failed_Create_stays_stored [of "demoClient ?d" "demoHost ?d" "certWorld ()" "certWorld ()" ?d "certWorld ()" "''{}''"]
      certWorld_storeOK [of "()"] n by (metis (no_types, lifting))
qed

end
