(* ===== verification/Rpc.thy ===== *)
theory Rpc
  imports Drivers
begin

text \<open>
  \<open>libmachine/drivers/rpc\<close> and \<open>libmachine/drivers/plugin\<close>: a driver runs in a process of its own; the server side
  wraps the driver, the client side is again a driver whose methods are calls over \<open>net/rpc\<close>.  The factory
  starts plugins, checks their version and closes them.
\<close>

section \<open>Flags over the wire\<close>

type_synonym rpcFlags = "(string \<times> flagval) list"

text \<open>A missing key and a value of another type both give the zero value.\<close>

definition RPCFlags_Get :: "rpcFlags \<Rightarrow> string \<Rightarrow> flagval" where
  "RPCFlags_Get values key = (case map_of values key of None \<Rightarrow> VNil | Some v \<Rightarrow> v)"

definition RPCFlags_String :: "rpcFlags \<Rightarrow> string \<Rightarrow> string" where
  "RPCFlags_String r key = (case valString (RPCFlags_Get r key) of None \<Rightarrow> [] | Some v \<Rightarrow> v)"

definition RPCFlags_StringSlice :: "rpcFlags \<Rightarrow> string \<Rightarrow> string list" where
  "RPCFlags_StringSlice r key = (case valSlice (RPCFlags_Get r key) of None \<Rightarrow> [] | Some v \<Rightarrow> v)"

definition RPCFlags_Int :: "rpcFlags \<Rightarrow> string \<Rightarrow> int" where
  "RPCFlags_Int r key = (case valInt (RPCFlags_Get r key) of None \<Rightarrow> 0 | Some v \<Rightarrow> v)"

definition RPCFlags_Bool :: "rpcFlags \<Rightarrow> string \<Rightarrow> bool" where
  "RPCFlags_Bool r key = (case valBool (RPCFlags_Get r key) of None \<Rightarrow> False | Some v \<Rightarrow> v)"

definition RPCFlags_options :: "rpcFlags \<Rightarrow> driverOptions" where
  "RPCFlags_options r = \<lparr>optString = RPCFlags_String r, optStringSlice = RPCFlags_StringSlice r,
     optInt = RPCFlags_Int r, optBool = RPCFlags_Bool r\<rparr>"

section \<open>The server\<close>

datatype rpcVal = RUnit | RString string | RInt int | RState state | RFlags "mcnflag list"

datatype rpcArg = ANone | ABytes string | AOpts driverOptions

text \<open>\<open>sv_marshal\<close> and \<open>sv_unmarshal\<close> are \<open>encoding/json\<close> on the struct of the driver, \<open>sv_stack\<close> the text of the
  stack trace; \<open>sv_services\<close> are the names the plugin registered, and \<open>sv_version\<close> the API version it was built with.\<close>

record 'w rpcServer =
  ActualDriver :: "'w driver"
  sv_marshal :: "('w, string) io"
  sv_unmarshal :: "string \<Rightarrow> ('w, unit) io"
  sv_stack :: string
  sv_services :: "string list"
  sv_version :: int

definition replyU :: "('w, unit) io \<Rightarrow> ('w, rpcVal) io" where
  "replyU m = bindP m (\<lambda>_. ret RUnit)"

text \<open>The reply is set even when the driver returns an error with it.\<close>

definition replyV :: "('a \<Rightarrow> rpcVal) \<Rightarrow> ('w, 'a \<times> gerror option) io \<Rightarrow> ('w, rpcVal) io" where
  "replyV f m = bindP m (\<lambda>(x, e). case e of None \<Rightarrow> ret (f x) | Some err \<Rightarrow> throw err)"

definition replyP :: "('a \<Rightarrow> rpcVal) \<Rightarrow> ('w, 'a) io \<Rightarrow> ('w, rpcVal) io" where
  "replyP f m = bindP m (\<lambda>x. ret (f x))"

definition trapPanic :: "string \<Rightarrow> ('w, unit) io \<Rightarrow> ('w, unit) io" where
  "trapPanic stack m = (\<lambda>w. case m w of
       (Panic s, w') \<Rightarrow> (Err (ErrorString (''Panic in the driver: '' @ s @ nl @ stack)), w')
     | r \<Rightarrow> r)"

definition argOptions :: "rpcArg \<Rightarrow> driverOptions" where
  "argOptions a = (case a of AOpts opts \<Rightarrow> opts | _ \<Rightarrow> RPCFlags_options [])"

definition argBytes :: "rpcArg \<Rightarrow> string" where
  "argBytes a = (case a of ABytes s \<Rightarrow> s | _ \<Rightarrow> [])"

text \<open>\<open>None\<close>: the server has no such method.  \<open>Close\<close> and \<open>Heartbeat\<close> hand a token to the loop of the plugin, which
  always takes it.\<close>

definition serverMethod :: "'w rpcServer \<Rightarrow> string \<Rightarrow> rpcArg \<Rightarrow> ('w, rpcVal) io option" where
  "serverMethod r name a =
     (let d = ActualDriver r
      in if name = ''.Close'' then Some (ret RUnit)
         else if name = ''.GetVersion'' then Some (ret (RInt (sv_version r)))
         else if name = ''.GetConfigRaw'' then Some (replyP RString (sv_marshal r))
         else if name = ''.GetCreateFlags'' then Some (replyP RFlags (GetCreateFlags d))
         else if name = ''.SetConfigRaw'' then Some (replyU (sv_unmarshal r (argBytes a)))
         else if name = ''.Create'' then Some (replyU (trapPanic (sv_stack r) (Create d)))
         else if name = ''.DriverName'' then Some (replyP RString (DriverName d))
         else if name = ''.GetIP'' then Some (replyV RString (GetIP d))
         else if name = ''.GetMachineName'' then Some (replyP RString (GetMachineName d))
         else if name = ''.GetSSHHostname'' then Some (replyV RString (GetSSHHostname d))
         else if name = ''.GetSSHKeyPath'' then Some (replyP RString (GetSSHKeyPath d))
         else if name = ''.GetSSHPort'' then Some (replyV RInt (GetSSHPort d))
         else if name = ''.GetSSHUsername'' then Some (replyP RString (GetSSHUsername d))
         else if name = ''.GetURL'' then Some (replyV RString (GetURL d))
         else if name = ''.GetState'' then Some (replyV RState (GetState d))
         else if name = ''.Kill'' then Some (replyU (Kill d))
         else if name = ''.PreCreateCheck'' then Some (replyU (PreCreateCheck d))
         else if name = ''.Remove'' then Some (replyU (Remove d))
         else if name = ''.Restart'' then Some (replyU (Restart d))
         else if name = ''.SetConfigFromFlags'' then Some (replyU (SetConfigFromFlags d (argOptions a)))
         else if name = ''.Start'' then Some (replyU (Start d))
         else if name = ''.Stop'' then Some (replyU (Stop d))
         else if name = ''.Heartbeat'' then Some (ret RUnit)
         else None)"

section \<open>A call\<close>

definition RPCServiceNameV0 :: string where
  "RPCServiceNameV0 = ''RpcServerDriver''"

definition RPCServiceNameV1 :: string where
  "RPCServiceNameV1 = ''RPCServerDriver''"

text \<open>
  \<open>net/rpc\<close>: an error of the method comes back as its text only and without the reply; a panic of the method
  ends the plugin, which the client sees as a broken connection.
\<close>

definition wireError :: "gerror \<Rightarrow> gerror" where
  "wireError e = ErrorString (Error e)"

definition rpcCall :: "'w rpcServer \<Rightarrow> string \<Rightarrow> string \<Rightarrow> rpcArg \<Rightarrow> ('w, rpcVal) io" where
  "rpcCall r service name a =
     (if service \<notin> set (sv_services r) then throw (ErrorString (''rpc: can'' @ [CHR 0x27] @ ''t find service '' @ service @ name))
      else case serverMethod r name a of
        None \<Rightarrow> throw (ErrorString (''rpc: can'' @ [CHR 0x27] @ ''t find method '' @ service @ name))
      | Some m \<Rightarrow> (\<lambda>w. case m w of
            (Ok v, w') \<Rightarrow> (Ok v, w')
          | (Err e, w') \<Rightarrow> (Err (wireError e), w')
          | (Panic s, w') \<Rightarrow> (Err (ErrorString ''unexpected EOF''), w')
          | (Blocked, w') \<Rightarrow> (Blocked, w')))"

section \<open>The client\<close>

definition asString :: "rpcVal \<Rightarrow> string" where
  "asString v = (case v of RString s \<Rightarrow> s | _ \<Rightarrow> [])"

definition asInt :: "rpcVal \<Rightarrow> int" where
  "asInt v = (case v of RInt i \<Rightarrow> i | _ \<Rightarrow> 0)"

definition asState :: "rpcVal \<Rightarrow> state" where
  "asState v = (case v of RState s \<Rightarrow> s | _ \<Rightarrow> StNone)"

definition asFlags :: "rpcVal \<Rightarrow> mcnflag list" where
  "asFlags v = (case v of RFlags l \<Rightarrow> l | _ \<Rightarrow> [])"

text \<open>\<open>var x T; if err := Call(method, ..., &x); err != nil { return zero, err }; return x, nil\<close>\<close>

definition rpcValueCall :: "(string \<Rightarrow> rpcArg \<Rightarrow> ('w, rpcVal) io) \<Rightarrow> (rpcVal \<Rightarrow> 'a) \<Rightarrow> 'a \<Rightarrow> string \<Rightarrow>
    ('w, 'a \<times> gerror option) io" where
  "rpcValueCall call as zero name =
     bindP (tryP (call name ANone)) (\<lambda>r. case r of Inl e \<Rightarrow> valErr zero e | Inr v \<Rightarrow> valOk (as v))"

definition rpcStringCall :: "(string \<Rightarrow> rpcArg \<Rightarrow> ('w, rpcVal) io) \<Rightarrow> string \<Rightarrow> ('w, string \<times> gerror option) io" where
  "rpcStringCall call name = rpcValueCall call asString [] name"

text \<open>The methods without an error result log the error and return what they have.\<close>

definition rpcPlainCall :: "(string \<Rightarrow> rpcArg \<Rightarrow> ('w, rpcVal) io) \<Rightarrow> string \<Rightarrow> ('w, string) io" where
  "rpcPlainCall call name = bindP (rpcStringCall call name) (\<lambda>(s, e). ret s)"

definition rpcUnitCall :: "(string \<Rightarrow> rpcArg \<Rightarrow> ('w, rpcVal) io) \<Rightarrow> string \<Rightarrow> rpcArg \<Rightarrow> ('w, unit) io" where
  "rpcUnitCall call name a = bindP (call name a) (\<lambda>_. ret ())"

definition RPCClient_GetCreateFlags :: "(string \<Rightarrow> rpcArg \<Rightarrow> ('w, rpcVal) io) \<Rightarrow> ('w, mcnflag list) io" where
  "RPCClient_GetCreateFlags call = bindP (rpcValueCall call asFlags [] ''.GetCreateFlags'') (\<lambda>(l, e). ret l)"

definition RPCClient_SetConfigRaw :: "(string \<Rightarrow> rpcArg \<Rightarrow> ('w, rpcVal) io) \<Rightarrow> string \<Rightarrow> ('w, unit) io" where
  "RPCClient_SetConfigRaw call data = rpcUnitCall call ''.SetConfigRaw'' (ABytes data)"

definition RPCClient_GetConfigRaw :: "(string \<Rightarrow> rpcArg \<Rightarrow> ('w, rpcVal) io) \<Rightarrow> ('w, string) io" where
  "RPCClient_GetConfigRaw call = orErr (rpcValueCall call asString [] ''.GetConfigRaw'')"

definition RPCClientDriver :: "(string \<Rightarrow> rpcArg \<Rightarrow> ('w, rpcVal) io) \<Rightarrow> 'w driver" where
  "RPCClientDriver call = \<lparr>
     GetMachineName = rpcPlainCall call ''.GetMachineName'',
     GetSSHHostname = rpcStringCall call ''.GetSSHHostname'',
     GetSSHPort = rpcValueCall call asInt 0 ''.GetSSHPort'',
     GetSSHUsername = rpcPlainCall call ''.GetSSHUsername'',
     GetSSHKeyPath = rpcPlainCall call ''.GetSSHKeyPath'',
     Create = rpcUnitCall call ''.Create'' ANone,
     DriverName = rpcPlainCall call ''.DriverName'',
     GetCreateFlags = RPCClient_GetCreateFlags call,
     GetIP = rpcStringCall call ''.GetIP'',
     GetURL = rpcStringCall call ''.GetURL'',
     GetState = rpcValueCall call asState StError ''.GetState'',
     Kill = rpcUnitCall call ''.Kill'' ANone,
     PreCreateCheck = rpcUnitCall call ''.PreCreateCheck'' ANone,
     Remove = rpcUnitCall call ''.Remove'' ANone,
     Restart = rpcUnitCall call ''.Restart'' ANone,
     SetConfigFromFlags = (\<lambda>flags. rpcUnitCall call ''.SetConfigFromFlags'' (AOpts flags)),
     Start = rpcUnitCall call ''.Start'' ANone,
     Stop = rpcUnitCall call ''.Stop'' ANone\<rparr>"

text \<open>The upgrade is not in the interface of drivers.\<close>

definition RPCClient_Upgrade :: "(string \<Rightarrow> rpcArg \<Rightarrow> ('w, rpcVal) io) \<Rightarrow> ('w, unit) io" where
  "RPCClient_Upgrade call = rpcUnitCall call ''.Upgrade'' ANone"

section \<open>Plugins\<close>

definition CoreDrivers :: "string list" where
  "CoreDrivers = [''generic'', ''none'', ''virtualbox'', ''qemu'']"

text \<open>
  \<open>pl_address\<close> is the line the plugin printed before the timeout, \<open>pl_dial\<close> connects to it and yields a handle, and
  \<open>pl_server\<close> is the server behind a handle.
\<close>

record 'w plugin_env =
  pl_lookPath :: "string \<Rightarrow> ('w, string) io"
  pl_self :: bool
  pl_arg0 :: string
  pl_address :: "string \<Rightarrow> string \<Rightarrow> ('w, string option) io"
  pl_dial :: "string \<Rightarrow> ('w, nat) io"
  pl_server :: "nat \<Rightarrow> 'w rpcServer"

definition driverPath :: "bool \<Rightarrow> string \<Rightarrow> string \<Rightarrow> string" where
  "driverPath currentBinaryIsPodmanMachine arg0 driverName =
     (if driverName \<in> set CoreDrivers then (if currentBinaryIsPodmanMachine then arg0 else ''podman-machine'')
      else ''podman-machine-driver-'' @ driverName)"

definition NewPlugin :: "'w plugin_env \<Rightarrow> string \<Rightarrow> ('w, string) io" where
  "NewPlugin E driverName =
     (let path = driverPath (pl_self E) (pl_arg0 E) driverName
      in wrapErr (\<lambda>_. ErrPluginBinaryNotFound driverName path) (pl_lookPath E path))"

definition Plugin_Address :: "'w plugin_env \<Rightarrow> string \<Rightarrow> string \<Rightarrow> ('w, string) io" where
  "Plugin_Address E binaryPath driverName =
     bindP (pl_address E binaryPath driverName) (\<lambda>a. case a of
         Some line \<Rightarrow> ret (TrimSpace line)
       | None \<Rightarrow> throw (ErrorString ''Failed to dial the plugin server in 10s''))"

text \<open>The main loop of a plugin process: the exit code after a sequence of events, \<open>None\<close> while it runs.\<close>

datatype pluginEvent = EvClose | EvHeartbeat | EvHeartbeatTimeout

fun registerLoop :: "pluginEvent list \<Rightarrow> nat option" where
  "registerLoop [] = None"
| "registerLoop (EvClose # es) = Some 0"
| "registerLoop (EvHeartbeat # es) = registerLoop es"
| "registerLoop (EvHeartbeatTimeout # es) = Some 1"

definition runDriver :: "string \<Rightarrow> string option" where
  "runDriver driverName =
     (if driverName \<in> {''generic'', ''virtualbox'', ''qemu''} then Some driverName else None)"

section \<open>The factory\<close>

text \<open>
  One opened driver: its server, the service name in use, whether the heartbeat goroutine runs (it alone
  receives on \<open>heartbeatDoneCh\<close>), and whether the field \<open>plugin\<close> is set.
\<close>

record conn =
  cn_server :: nat
  cn_service :: string
  cn_heartbeat :: bool
  cn_plugin :: bool

definition conn_Call :: "'w plugin_env \<Rightarrow> conn \<Rightarrow> string \<Rightarrow> rpcArg \<Rightarrow> ('w, rpcVal) io" where
  "conn_Call E c name a = rpcCall (pl_server E (cn_server c)) (cn_service c) name a"

text \<open>The version is asked for under the current service name and, if that fails, once under the old one.\<close>

definition negotiate :: "'w plugin_env \<Rightarrow> conn \<Rightarrow> ('w, int \<times> conn) io" where
  "negotiate E c =
     bindP (tryP (conn_Call E c ''.GetVersion'' ANone)) (\<lambda>r. case r of
         Inr v \<Rightarrow> ret (asInt v, c)
       | Inl e \<Rightarrow> (let c0 = c\<lparr>cn_service := RPCServiceNameV0\<rparr>
                  in bindP (conn_Call E c0 ''.GetVersion'' ANone) (\<lambda>v. ret (asInt v, c0))))"

definition newConn :: "nat \<Rightarrow> conn" where
  "newConn s = \<lparr>cn_server = s, cn_service = RPCServiceNameV1, cn_heartbeat = False, cn_plugin = False\<rparr>"

text \<open>What happens to a freshly dialled connection; the connection is already on the list of opened drivers, so
  its final form is returned on every way out.\<close>

definition setupConn :: "'w plugin_env \<Rightarrow> conn \<Rightarrow> string \<Rightarrow> ('w, gerror option \<times> conn) io" where
  "setupConn E c rawDriver =
     bindP (tryP (negotiate E c)) (\<lambda>r. case r of
         Inl e \<Rightarrow> ret (Some e, c\<lparr>cn_service := RPCServiceNameV0\<rparr>)
       | Inr (serverVersion, c1) \<Rightarrow>
           (if serverVersion \<noteq> APIVersion
            then ret (Some (ErrorString (''Driver binary uses an incompatible API version ('' @ Itoa serverVersion @ '')'')), c1)
            else let c2 = c1\<lparr>cn_heartbeat := True\<rparr>
              in bindP (tryP (RPCClient_SetConfigRaw (conn_Call E c2) rawDriver)) (\<lambda>s. case s of
                   Inl e \<Rightarrow> ret (Some e, c2)
                 | Inr _ \<Rightarrow> bindP (GetMachineName (RPCClientDriver (conn_Call E c2))) (\<lambda>_.
                     ret (None, c2\<lparr>cn_plugin := True\<rparr>)))))"

definition NewRPCClientDriver ::
  "'w plugin_env \<Rightarrow> ('w, conn list) lens \<Rightarrow> string \<Rightarrow> string \<Rightarrow> ('w, 'w driver) io" where
  "NewRPCClientDriver E F driverName rawDriver =
     bindP (NewPlugin E driverName) (\<lambda>binaryPath.
     bindP (wrapErr (errorf ''Error attempting to get plugin server address for RPC: '') (Plugin_Address E binaryPath driverName)) (\<lambda>addr.
     bindP (pl_dial E addr) (\<lambda>server.
     bindP (setupConn E (newConn server) rawDriver) (\<lambda>(err, c).
     bindP (updater F (\<lambda>cs. ((), cs @ [c]))) (\<lambda>_.
       case err of Some e \<Rightarrow> throw e | None \<Rightarrow> ret (RPCClientDriver (conn_Call E c)))))))"

text \<open>Closing one driver: the send on the channel waits for the heartbeat goroutine; the plugin is nil when the
  connection was never completed.\<close>

definition conn_close :: "'w plugin_env \<Rightarrow> conn \<Rightarrow> ('w, unit) io" where
  "conn_close E c =
     (if \<not> cn_heartbeat c then blocked
      else bindP (tryP (conn_Call E c ''.Close'' ANone)) (\<lambda>_.
           if cn_plugin c then ret () else panic ''invalid memory address or nil pointer dereference''))"

definition Factory_Close :: "'w plugin_env \<Rightarrow> ('w, conn list) lens \<Rightarrow> ('w, unit) io" where
  "Factory_Close E F =
     bindP (reader F (\<lambda>cs. cs)) (\<lambda>cs.
     bindP (forEach cs (conn_close E)) (\<lambda>_.
     updater F (\<lambda>_. ((), []))))"

section \<open>Lemmas\<close>

text \<open>What a driver looks like over the wire, as a specification: errors keep their text only, and a value that
  comes with an error is dropped.\<close>

definition wireU :: "('w, unit) io \<Rightarrow> ('w, unit) io" where
  "wireU m = (\<lambda>w. case m w of
       (Err e, w') \<Rightarrow> (Err (wireError e), w') | (Panic s, w') \<Rightarrow> (Err (ErrorString ''unexpected EOF''), w') | r \<Rightarrow> r)"

definition wireV :: "'a \<Rightarrow> ('w, 'a \<times> gerror option) io \<Rightarrow> ('w, 'a \<times> gerror option) io" where
  "wireV zero m = (\<lambda>w. case m w of
       (Ok (x, None), w') \<Rightarrow> (Ok (x, None), w')
     | (Ok (x, Some e), w') \<Rightarrow> (Ok (zero, Some (wireError e)), w')
     | (Err e, w') \<Rightarrow> (Ok (zero, Some (wireError e)), w')
     | (Panic s, w') \<Rightarrow> (Ok (zero, Some (ErrorString ''unexpected EOF'')), w')
     | (Blocked, w') \<Rightarrow> (Blocked, w'))"

lemma rpcCall_known:
  "service \<in> set (sv_services r) \<Longrightarrow> serverMethod r name a = Some m \<Longrightarrow>
   rpcCall r service name a = (\<lambda>w. case m w of
            (Ok v, w') \<Rightarrow> (Ok v, w')
          | (Err e, w') \<Rightarrow> (Err (wireError e), w')
          | (Panic s, w') \<Rightarrow> (Err (ErrorString ''unexpected EOF''), w')
          | (Blocked, w') \<Rightarrow> (Blocked, w'))"
  by (simp add: rpcCall_def)

text \<open>No server has a method for the upgrade, so that call fails on every connection.\<close>

lemma Upgrade_unknown:
  assumes "cn_service c \<in> set (sv_services (pl_server E (cn_server c)))"
  shows "RPCClient_Upgrade (conn_Call E c) w =
    (Err (ErrorString (''rpc: can'' @ [CHR 0x27] @ ''t find method '' @ cn_service c @ ''.Upgrade'')), w)"
  using assms by (simp add: RPCClient_Upgrade_def rpcUnitCall_def conn_Call_def rpcCall_def serverMethod_def Let_def bindP_def throw_def)

lemma rpcUnitCall_wire:
  assumes "cn_service c \<in> set (sv_services (pl_server E (cn_server c)))" "serverMethod (pl_server E (cn_server c)) name a = Some (replyU m)"
  shows "rpcUnitCall (conn_Call E c) name a = wireU m"
  unfolding rpcUnitCall_def conn_Call_def rpcCall_known [OF assms(1,2)] replyU_def wireU_def
  by (auto simp: prog_defs fun_eq_iff split: prod.splits result.splits)

lemma rpcValueCall_wire:
  assumes "cn_service c \<in> set (sv_services (pl_server E (cn_server c)))" "serverMethod (pl_server E (cn_server c)) name ANone = Some (replyV f m)"
    and "\<And>x. as (f x) = x"
  shows "rpcValueCall (conn_Call E c) as zero name = wireV zero m"
  unfolding rpcValueCall_def conn_Call_def rpcCall_known [OF assms(1,2)] replyV_def wireV_def valErr_def valOk_def
  by (auto simp: assms(3) prog_defs fun_eq_iff split: prod.splits result.splits option.splits)

lemma serverMethod_simps:
  "serverMethod r ''.Start'' a = Some (replyU (Start (ActualDriver r)))"
  "serverMethod r ''.Stop'' a = Some (replyU (Stop (ActualDriver r)))"
  "serverMethod r ''.Kill'' a = Some (replyU (Kill (ActualDriver r)))"
  "serverMethod r ''.Restart'' a = Some (replyU (Restart (ActualDriver r)))"
  "serverMethod r ''.Remove'' a = Some (replyU (Remove (ActualDriver r)))"
  "serverMethod r ''.PreCreateCheck'' a = Some (replyU (PreCreateCheck (ActualDriver r)))"
  "serverMethod r ''.Create'' a = Some (replyU (trapPanic (sv_stack r) (Create (ActualDriver r))))"
  "serverMethod r ''.GetState'' a = Some (replyV RState (GetState (ActualDriver r)))"
  "serverMethod r ''.GetIP'' a = Some (replyV RString (GetIP (ActualDriver r)))"
  "serverMethod r ''.GetURL'' a = Some (replyV RString (GetURL (ActualDriver r)))"
  "serverMethod r ''.GetSSHHostname'' a = Some (replyV RString (GetSSHHostname (ActualDriver r)))"
  "serverMethod r ''.GetSSHPort'' a = Some (replyV RInt (GetSSHPort (ActualDriver r)))"
  "serverMethod r ''.GetVersion'' a = Some (ret (RInt (sv_version r)))"
  "serverMethod r ''.SetConfigFromFlags'' a = Some (replyU (SetConfigFromFlags (ActualDriver r) (argOptions a)))"
  by (simp_all add: serverMethod_def)

lemma wireU_Ok [simp]: "wireU m w = (Ok (), w') \<longleftrightarrow> m w = (Ok (), w')"
  by (auto simp: wireU_def split: prod.splits result.splits)

lemma wireV_Ok [simp]: "wireV z m w = (Ok (x, None), w') \<longleftrightarrow> m w = (Ok (x, None), w')"
  by (auto simp: wireV_def split: prod.splits result.splits option.splits)

text \<open>An opened driver whose version was refused has no heartbeat, and closing the factory waits for it.\<close>

lemma setupConn_bad_version:
  assumes "RPCServiceNameV1 \<in> set (sv_services (pl_server E k))" "sv_version (pl_server E k) \<noteq> APIVersion"
  shows "setupConn E (newConn k) raw w = (Ok (Some (ErrorString (''Driver binary uses an incompatible API version ('' @
           Itoa (sv_version (pl_server E k)) @ '')'')), newConn k), w)"
  using assms
  by (simp add: setupConn_def negotiate_def newConn_def conn_Call_def rpcCall_known serverMethod_simps asInt_def prog_defs)

lemma conn_close_stuck: "\<not> cn_heartbeat c \<Longrightarrow> conn_close E c w = (Blocked, w)"
  by (simp add: conn_close_def blocked_def)

lemma conn_close_ok: "cn_heartbeat c \<Longrightarrow> cn_plugin c \<Longrightarrow> conn_close E c w = (Ok (), w)"
  by (simp add: conn_close_def conn_Call_def rpcCall_def serverMethod_def prog_defs)

lemma closeAll_blocked:
  assumes "\<forall>c \<in> set cs. cn_heartbeat c \<and> cn_plugin c" and "\<not> cn_heartbeat c"
  shows "forEach (cs @ c # cs') (conn_close E) w = (Blocked, w)"
  using assms(1) by (induction cs) (simp_all add: conn_close_ok conn_close_stuck [OF assms(2)] bindP_def)

text \<open>The error of a plugin of another version, and the connection that stays on the list.\<close>

lemma NewRPCClientDriver_refused:
  fixes E :: "(conn list) os_world_scheme plugin_env"
  assumes "NewPlugin E name w = (Ok bin, w1)" and "Plugin_Address E bin name w1 = (Ok addr, w2)" and "pl_dial E addr w2 = (Ok k, w3)"
    and "RPCServiceNameV1 \<in> set (sv_services (pl_server E k))" and "sv_version (pl_server E k) \<noteq> APIVersion"
  shows "NewRPCClientDriver E moreL name raw w = (Err (ErrorString (''Driver binary uses an incompatible API version ('' @
     Itoa (sv_version (pl_server E k)) @ '')'')), lput moreL (os_world.more w3 @ [newConn k]) w3)"
  using assms(1-3) setupConn_bad_version [OF assms(4,5), of raw w3]
  by (simp add: NewRPCClientDriver_def bindP_def wrapErr_def updater_def moreL_def throw_def)

lemma Factory_Close_blocked:
  assumes "\<forall>c \<in> set cs. cn_heartbeat c \<and> cn_plugin c" and "\<not> cn_heartbeat c" and "os_world.more w = cs @ [c]"
  shows "fst (Factory_Close E moreL w) = Blocked"
  using closeAll_blocked [OF assms(1,2), of "[]" E w] assms(3) by (simp add: Factory_Close_def reader_def bindP_def moreL_def)

text \<open>A plugin that is found, answers and has the given driver.\<close>

definition demoServer :: "'w driver \<Rightarrow> int \<Rightarrow> 'w rpcServer" where
  "demoServer d v = \<lparr>ActualDriver = d, sv_marshal = ret ''{}'', sv_unmarshal = (\<lambda>s. ret ()), sv_stack = [],
     sv_services = [RPCServiceNameV0, RPCServiceNameV1], sv_version = v\<rparr>"

definition demoPlugin :: "'w driver \<Rightarrow> int \<Rightarrow> 'w plugin_env" where
  "demoPlugin d v = \<lparr>pl_lookPath = (\<lambda>p. ret p), pl_self = True, pl_arg0 = ''machine'', pl_address = (\<lambda>b n. ret (Some ''127.0.0.1:1'')),
     pl_dial = (\<lambda>a. ret 0), pl_server = (\<lambda>k. demoServer d v)\<rparr>"

section \<open>Properties\<close>

text \<open>C10: a driver behind the RPC boundary does what the driver itself does: state changes run the same code, values
  come back unchanged, and an error comes back as its text, with the value replaced by a fixed one (the error state
  for \<open>GetState\<close>).\<close>

theorem rpc_driver_refines:
  assumes "cn_service c \<in> set (sv_services (pl_server E (cn_server c)))" and "d = ActualDriver (pl_server E (cn_server c))"
  shows "Start (RPCClientDriver (conn_Call E c)) = wireU (Start d) \<and> Stop (RPCClientDriver (conn_Call E c)) = wireU (Stop d) \<and>
         Kill (RPCClientDriver (conn_Call E c)) = wireU (Kill d) \<and> Restart (RPCClientDriver (conn_Call E c)) = wireU (Restart d) \<and>
         Remove (RPCClientDriver (conn_Call E c)) = wireU (Remove d) \<and>
         PreCreateCheck (RPCClientDriver (conn_Call E c)) = wireU (PreCreateCheck d) \<and>
         SetConfigFromFlags (RPCClientDriver (conn_Call E c)) opts = wireU (SetConfigFromFlags d opts) \<and>
         GetState (RPCClientDriver (conn_Call E c)) = wireV StError (GetState d) \<and>
         GetIP (RPCClientDriver (conn_Call E c)) = wireV [] (GetIP d) \<and>
         GetURL (RPCClientDriver (conn_Call E c)) = wireV [] (GetURL d) \<and>
         GetSSHHostname (RPCClientDriver (conn_Call E c)) = wireV [] (GetSSHHostname d) \<and>
         GetSSHPort (RPCClientDriver (conn_Call E c)) = wireV 0 (GetSSHPort d)"
  using assms
  by (simp add: RPCClientDriver_def rpcStringCall_def rpcUnitCall_wire rpcValueCall_wire serverMethod_simps asState_def
      asString_def asInt_def argOptions_def)

theorem rpc_driver_refines_witness:
  "Stop (RPCClientDriver (conn_Call (demoPlugin (errDriver ''x'') 1) (newConn 0))) () =
     wireU (Stop (errDriver ''x'')) () \<and>
   wireU (Stop (errDriver ''x'')) () = (Err (ErrorString (Error (NotLoadable ''x''))), ())"
proof -
  let ?E = "demoPlugin (errDriver ''x'') 1 :: unit plugin_env"
  have "cn_service (newConn 0) \<in> set (sv_services (pl_server ?E (cn_server (newConn 0))))"
    "errDriver ''x'' = ActualDriver (pl_server ?E (cn_server (newConn 0)))"
    by (simp_all add: newConn_def demoPlugin_def demoServer_def)
  then have "Stop (RPCClientDriver (conn_Call ?E (newConn 0))) = wireU (Stop (errDriver ''x''))"
    using rpc_driver_refines by blast
  moreover have "wireU (Stop (errDriver ''x'')) () = (Err (ErrorString (Error (NotLoadable ''x''))), ())"
    by (simp add: wireU_def errDriver_def throw_def wireError_def)
  ultimately show ?thesis by (simp only: simp_thms)
qed

text \<open>a driver that panics while it creates a machine does not take the plugin down: the client gets the panic as
  an error.\<close>

theorem rpc_Create_traps_panic:
  assumes "cn_service c \<in> set (sv_services (pl_server E (cn_server c)))"
    and "Create (ActualDriver (pl_server E (cn_server c))) w = (Panic s, w')"
  shows "Create (RPCClientDriver (conn_Call E c)) w =
    (Err (ErrorString (''Panic in the driver: '' @ s @ nl @ sv_stack (pl_server E (cn_server c)))), w')"
proof -
  have "Create (RPCClientDriver (conn_Call E c)) = wireU (trapPanic (sv_stack (pl_server E (cn_server c)))
          (Create (ActualDriver (pl_server E (cn_server c)))))"
    using assms(1) by (simp add: RPCClientDriver_def rpcUnitCall_wire serverMethod_simps)
  then show ?thesis using assms(2) by (simp add: wireU_def trapPanic_def wireError_def)
qed

theorem rpc_Create_traps_panic_witness:
  "Create (RPCClientDriver (conn_Call (demoPlugin ((errDriver ''x'')\<lparr>Create := panic ''boom''\<rparr>) 1) (newConn 0))) () =
     (Err (ErrorString (''Panic in the driver: boom'' @ nl)), ())"
  using rpc_Create_traps_panic [of "newConn 0" "demoPlugin ((errDriver ''x'')\<lparr>Create := panic ''boom''\<rparr>) 1" "()" "''boom''" "()"]
  by (simp add: newConn_def demoPlugin_def demoServer_def panic_def)

text \<open>a plugin of another API version is refused, but the refused connection stays on the list of opened drivers
  without a heartbeat; closing the factory afterwards waits for ever on it.\<close>

theorem refused_plugin_blocks_Close:
  fixes E :: "(conn list) os_world_scheme plugin_env"
  assumes "NewPlugin E name w = (Ok bin, w1)" and "Plugin_Address E bin name w1 = (Ok addr, w2)" and "pl_dial E addr w2 = (Ok k, w3)"
    and "RPCServiceNameV1 \<in> set (sv_services (pl_server E k))" and "sv_version (pl_server E k) \<noteq> APIVersion"
    and "\<forall>c \<in> set (os_world.more w3). cn_heartbeat c \<and> cn_plugin c"
  shows "\<exists>e w'. NewRPCClientDriver E moreL name raw w = (Err e, w') \<and> fst (Factory_Close E moreL w') = Blocked"
proof -
  have "fst (Factory_Close E moreL (lput moreL (os_world.more w3 @ [newConn k]) w3)) = Blocked"
    using assms(6) by (rule Factory_Close_blocked) (simp_all add: newConn_def moreL_def)
  then show ?thesis using NewRPCClientDriver_refused [OF assms(1-5), of raw] by blast
qed

theorem refused_plugin_blocks_Close_witness:
  "\<exists>e w'. NewRPCClientDriver (demoPlugin (errDriver ''x'') 2) moreL ''qemu'' [] (plainWorld [] []) = (Err e, w') \<and>
          fst (Factory_Close (demoPlugin (errDriver ''x'') 2) moreL w') = Blocked"
proof -
  let ?E = "demoPlugin (errDriver ''x'') 2" and ?w = "plainWorld [] []"
  have "NewPlugin ?E ''qemu'' ?w = (Ok ''machine'', ?w)" "Plugin_Address ?E ''machine'' ''qemu'' ?w = (Ok (TrimSpace ''127.0.0.1:1''), ?w)"
    "pl_dial ?E (TrimSpace ''127.0.0.1:1'') ?w = (Ok 0, ?w)"
    by (simp_all add: demoPlugin_def NewPlugin_def driverPath_def CoreDrivers_def Plugin_Address_def prog_defs)
  then show ?thesis
    by (rule refused_plugin_blocks_Close) (simp_all add: demoPlugin_def demoServer_def APIVersion_def)
qed

end
