(* ===== verification/Fan_Out.thy ===== *)
theory Fan_Out
  imports Core_Types "HOL-Library.Multiset"
begin

text \<open>
  The concurrency of \<open>runActionForeachMachine\<close> (\<open>commands/commands.go\<close>) and of \<open>getHostListItems\<close>
  (\<open>commands/ls.go\<close>): one goroutine per machine, each of which sends one result on an unbuffered channel, and a
  collecting loop that receives as many results as there are goroutines.

  A goroutine is a resumption: it has its result, or it waits for ever, or it makes a step on the shared world and goes
  on in a way that may depend on what it saw.  The goroutines interleave their steps in any order; a send and the receive of the collecting
  loop happen together, as the channel has no buffer.  The fields \<open>executed\<close> and \<open>received\<close> record who made a step and
  whose result arrived, in order.
\<close>

section \<open>Goroutines and the collecting loop\<close>

datatype (dead 'w, 'r) thread = Finished 'r | Stuck | Step "'w \<Rightarrow> 'w \<times> ('w, 'r) thread"

datatype (dead 'w, 'r) goroutine = Active "('w, 'r) thread" | Sent

record ('w, 'r) fan_sys =
  workers :: "('w, 'r) goroutine list"
  world :: 'w
  executed :: "nat list"
  received :: "(nat \<times> 'r) list"

inductive fan_step :: "('w, 'r) fan_sys \<Rightarrow> ('w, 'r) fan_sys \<Rightarrow> bool" where
  work: "i < length (workers s) \<Longrightarrow> workers s ! i = Active (Step f) \<Longrightarrow> f (world s) = (w', t) \<Longrightarrow>
     fan_step s (s\<lparr>workers := (workers s)[i := Active t], world := w', executed := executed s @ [i]\<rparr>)"
| deliver: "i < length (workers s) \<Longrightarrow> workers s ! i = Active (Finished r) \<Longrightarrow> length (received s) < length (workers s) \<Longrightarrow>
     fan_step s (s\<lparr>workers := (workers s)[i := Sent], received := received s @ [(i, r)]\<rparr>)"

inductive_cases fan_stepE: "fan_step s t"

definition fan_init :: "('w, 'r) thread list \<Rightarrow> 'w \<Rightarrow> ('w, 'r) fan_sys" where
  "fan_init ts w = \<lparr>workers = map Active ts, world = w, executed = [], received = []\<rparr>"

text \<open>Goroutines that come to a result in whatever worlds they meet.\<close>

inductive returns :: "('w, 'r) thread \<Rightarrow> bool" where
  "returns (Finished r)"
| "(\<And>w. returns (snd (f w))) \<Longrightarrow> returns (Step f)"

inductive_simps returns_simps [simp]: "returns (Finished r)" "returns Stuck" "returns (Step f)"

text \<open>The loop \<open>for i := 0; i < n; i++\<close> is over when it has received \<open>n\<close> results.\<close>

definition fan_done :: "('w, 'r) fan_sys \<Rightarrow> bool" where
  "fan_done s \<longleftrightarrow> length (received s) = length (workers s)"

abbreviation fan_run :: "('w, 'r) fan_sys \<Rightarrow> ('w, 'r) fan_sys \<Rightarrow> bool" where
  "fan_run \<equiv> fan_step\<^sup>*\<^sup>*"

section \<open>The collecting loop gets one result from every goroutine\<close>

definition fan_inv :: "('w, 'r) fan_sys \<Rightarrow> bool" where
  "fan_inv s \<longleftrightarrow> distinct (map fst (received s)) \<and>
     set (map fst (received s)) = {i. i < length (workers s) \<and> workers s ! i = Sent}"

lemma fan_inv_init: "fan_inv (fan_init ts w)"
  by (auto simp: fan_inv_def fan_init_def)

lemma fan_step_inv: "fan_step s t \<Longrightarrow> fan_inv s \<Longrightarrow> fan_inv t"
  by (erule fan_stepE) (auto simp: fan_inv_def nth_list_update split: if_splits)

lemma fan_run_inv: "fan_run s t \<Longrightarrow> fan_inv s \<Longrightarrow> fan_inv t"
  by (induction rule: rtranclp_induct) (auto intro: fan_step_inv)

lemma fan_run_length: "fan_run s t \<Longrightarrow> length (workers t) = length (workers s)"
  by (induction rule: rtranclp_induct) (auto elim: fan_stepE)

lemma fan_inv_received_le: "fan_inv s \<Longrightarrow> length (received s) \<le> length (workers s)"
proof -
  assume inv: "fan_inv s"
  then have "length (received s) = card (set (map fst (received s)))"
    by (metis distinct_card fan_inv_def length_map)
  also have "\<dots> \<le> card {..< length (workers s)}"
    using inv by (intro card_mono) (auto simp: fan_inv_def)
  finally show ?thesis by simp
qed

lemma fan_done_all_sent:
  assumes "fan_inv s" and "fan_done s" and "i < length (workers s)"
  shows "workers s ! i = Sent"
proof -
  let ?sent = "{i. i < length (workers s) \<and> workers s ! i = Sent}"
  have "card ?sent = card {..< length (workers s)}"
    using assms(1,2) distinct_card [of "map fst (received s)"] by (simp add: fan_inv_def fan_done_def)
  moreover have "?sent \<subseteq> {..< length (workers s)}" by auto
  ultimately have "?sent = {..< length (workers s)}" by (intro card_subset_eq) auto
  then show ?thesis using assms(3) by auto
qed

lemma fan_done_indices:
  assumes "fan_inv s" and "fan_done s"
  shows "mset (map fst (received s)) = mset [0 ..< length (workers s)]"
proof -
  have "set (map fst (received s)) = set [0 ..< length (workers s)]"
    using assms fan_done_all_sent [OF assms] by (auto simp: fan_inv_def)
  moreover have "distinct (map fst (received s))" using assms(1) by (simp add: fan_inv_def)
  ultimately show ?thesis using set_eq_iff_mset_eq_distinct [OF _ distinct_upt] by blast
qed

definition allReturn :: "('w, 'r) fan_sys \<Rightarrow> bool" where
  "allReturn s \<longleftrightarrow> (\<forall>t. Active t \<in> set (workers s) \<longrightarrow> returns t)"

lemma allReturn_init: "(\<forall>t \<in> set ts. returns t) \<Longrightarrow> allReturn (fan_init ts w)"
  by (auto simp: allReturn_def fan_init_def)

lemma allReturn_step: "fan_step s t \<Longrightarrow> allReturn s \<Longrightarrow> allReturn t"
proof (erule fan_stepE, goal_cases)
  case (1 i f w' u)
  then have "returns (Step f)" unfolding allReturn_def by (metis nth_mem)
  then have "returns u" using 1 by (metis returns_simps(3) snd_conv)
  then show ?case using 1 set_update_subset_insert by (fastforce simp: allReturn_def)
next
  case (2 i r)
  then show ?case using set_update_subset_insert by (fastforce simp: allReturn_def)
qed

lemma allReturn_run: "fan_run s t \<Longrightarrow> allReturn s \<Longrightarrow> allReturn t"
  by (induction rule: rtranclp_induct) (auto intro: allReturn_step)

text \<open>While a result is missing, some goroutine can go on or deliver: the loop does not wait in vain.\<close>

lemma fan_progress:
  assumes "fan_inv s" and "\<not> fan_done s" and "allReturn s"
  shows "\<exists>t. fan_step s t"
proof -
  have lt: "length (received s) < length (workers s)"
    using assms fan_inv_received_le [OF assms(1)] by (simp add: fan_done_def)
  have "\<exists>i < length (workers s). workers s ! i \<noteq> Sent"
  proof (rule ccontr)
    assume "\<not> ?thesis"
    then have "set (map fst (received s)) = {..< length (workers s)}" using assms(1) by (auto simp: fan_inv_def)
    then have "card (set (map fst (received s))) = length (workers s)" by simp
    then show False using lt assms(1) distinct_card [of "map fst (received s)"] by (simp add: fan_inv_def)
  qed
  then obtain i t where i: "i < length (workers s)" "workers s ! i = Active t" by (metis goroutine.exhaust)
  have "returns t" using i assms(3) unfolding allReturn_def by (metis nth_mem)
  then show ?thesis
  proof cases
    case (1 r)
    then show ?thesis using fan_step.deliver [of i s r] i lt by auto
  next
    case (2 f)
    then show ?thesis using fan_step.work [of i s f "fst (f (world s))" "snd (f (world s))"] i by auto
  qed
qed

lemma fan_done_final: "fan_inv s \<Longrightarrow> fan_done s \<Longrightarrow> \<not> fan_step s t"
  using fan_done_all_sent [of s] by (auto elim!: fan_stepE)

text \<open>Every step moves one goroutine on, and none can go on for ever.\<close>

inductive_set advance :: "(('w, 'r) goroutine \<times> ('w, 'r) goroutine) set" where
  go: "f w = (w', t) \<Longrightarrow> (Active t, Active (Step f)) \<in> advance"
| send: "(Sent, Active (Finished r)) \<in> advance"

inductive_cases advanceE: "(a, b) \<in> advance"

lemma Sent_acc: "Sent \<in> Wellfounded.acc advance"
  by (rule accI) (auto elim: advanceE)

lemma Active_acc: "Active t \<in> Wellfounded.acc advance"
proof (induction t)
  case (Finished r)
  show ?case by (rule accI, erule advanceE) (simp_all add: Sent_acc)
next
  case Stuck
  show ?case by (rule accI, erule advanceE) simp_all
next
  case (Step f)
  have IH: "Active t \<in> Wellfounded.acc advance" if "f w = (w', t)" for w w' t
  proof (rule Step)
    show "f w \<in> range f" by simp
    show "t \<in> Basic_BNFs.snds (f w)" using that snds.intros [of "f w"] by simp
  qed
  show ?case
  proof (rule accI)
    fix y assume "(y, Active (Step f)) \<in> advance"
    then show "y \<in> Wellfounded.acc advance" by (rule advanceE) (simp_all add: IH)
  qed
qed

lemma wf_advance: "wf (advance :: (('w, 'r) goroutine \<times> ('w, 'r) goroutine) set)"
  by (rule acc_wfI) (metis Active_acc Sent_acc goroutine.exhaust)

lemma listrel1_update: "i < length xs \<Longrightarrow> (y, xs ! i) \<in> r \<Longrightarrow> (xs[i := y], xs) \<in> listrel1 r"
  by (metis append_take_drop_id Cons_nth_drop_Suc listrel1I upd_conv_take_nth_drop)

lemma fan_step_advance: "fan_step s t \<Longrightarrow> (workers t, workers s) \<in> listrel1 advance"
  by (erule fan_stepE) (auto intro!: listrel1_update intro: advance.intros)

lemma fan_terminates: "wfP (\<lambda>t s. fan_step s t)"
proof -
  have "wf (inv_image (listrel1 advance) workers)" by (simp add: wf_advance)
  then have "wf {(t, s). fan_step s t}" by (rule wf_subset) (auto simp: in_inv_image fan_step_advance)
  then show ?thesis by (simp add: wfp_def)
qed

lemma fan_no_infinite_run: "\<nexists>r. r 0 = s \<and> (\<forall>n. fan_step (r n) (r (Suc n)))"
  using fan_terminates unfolding wfp_def wf_iff_no_infinite_down_chain by blast

section \<open>Atomic actions\<close>

text \<open>Every machine gets its action, whether or not another fails; the errors are collected.\<close>

fun runActions :: "('h \<Rightarrow> ('w, unit) io) \<Rightarrow> 'h list \<Rightarrow> ('w, gerror list) io" where
  "runActions act [] = ret []"
| "runActions act (h # hs) =
     bindP (tryP (act h)) (\<lambda>r.
     bindP (runActions act hs) (\<lambda>errs.
       ret (case r of Inl e \<Rightarrow> e # errs | Inr _ \<Rightarrow> errs)))"

text \<open>An action whose effects others see at once; a panic ends the process, so no run goes on after it.\<close>

definition atomicT :: "('w, unit) io \<Rightarrow> ('w, gerror option) thread" where
  "atomicT m = Step (\<lambda>w. case m w of
       (Ok _, w') \<Rightarrow> (w', Finished None)
     | (Err e, w') \<Rightarrow> (w', Finished (Some e))
     | (_, w') \<Rightarrow> (w', Stuck))"

lemma returns_atomicT:
  assumes "\<And>w. fst (m w) = Ok () \<or> (\<exists>e. fst (m w) = Err e)"
  shows "returns (atomicT m)"
  unfolding atomicT_def returns_simps
proof
  fix w
  show "returns (snd (case m w of (Ok _, w') \<Rightarrow> (w', Finished None) | (Err e, w') \<Rightarrow> (w', Finished (Some e)) | (_, w') \<Rightarrow> (w', Stuck)))"
    using assms [of w] by (auto split: prod.splits result.splits)
qed

lemma runActions_append:
  "runActions act (xs @ ys) = bindP (runActions act xs) (\<lambda>es. bindP (runActions act ys) (\<lambda>es'. ret (es @ es')))"
proof (induction xs)
  case (Cons x xs)
  show ?case
    unfolding append_Cons runActions.simps Cons.IH bindP_assoc bindP_ret
    by (intro arg_cong [where f = "bindP (tryP (act x))"] ext arg_cong2 [where f = bindP] refl) (simp split: sum.splits)
qed simp

lemma runActions_snoc:
  assumes "runActions act xs w = (Ok es, w1)"
  shows "act x w1 = (Ok (), w2) \<Longrightarrow> runActions act (xs @ [x]) w = (Ok es, w2)"
    and "act x w1 = (Err e, w2) \<Longrightarrow> runActions act (xs @ [x]) w = (Ok (es @ [e]), w2)"
  using assms by (simp_all add: runActions_append bindP_def tryP_def ret_def)

text \<open>The state of a run of atomic actions: the actions made so far ran one after the other in the order \<open>executed\<close>.\<close>

definition atomicInv :: "('w, unit) io list \<Rightarrow> 'w \<Rightarrow> (nat \<Rightarrow> gerror option) \<Rightarrow> ('w, gerror option) fan_sys \<Rightarrow> bool" where
  "atomicInv acts w0 res s \<longleftrightarrow> length (workers s) = length acts \<and> distinct (executed s) \<and>
     (\<forall>i < length acts. if i \<in> set (executed s) then workers s ! i \<in> {Active (Finished (res i)), Sent}
                       else workers s ! i = Active (atomicT (acts ! i))) \<and>
     set (executed s) \<subseteq> {..< length acts} \<and>
     (\<forall>(i, r) \<in> set (received s). i \<in> set (executed s) \<and> r = res i) \<and>
     runActions ((!) acts) (executed s) w0 = (Ok (List.map_filter res (executed s)), world s)"

lemma atomicInv_init: "atomicInv acts w0 res (fan_init (map atomicT acts) w0)"
  by (simp add: atomicInv_def fan_init_def map_filter_simps ret_def)

lemma map_filter_upd: "i \<notin> set xs \<Longrightarrow> List.map_filter (f(i := r)) xs = List.map_filter f xs"
  by (induction xs) (auto simp: map_filter_simps split: option.splits)

lemma map_filter_snoc: "List.map_filter f (xs @ [x]) = List.map_filter f xs @ (case f x of None \<Rightarrow> [] | Some y \<Rightarrow> [y])"
  by (induction xs) (auto simp: map_filter_simps split: option.splits)

lemma mset_map_filter: "mset xs = mset ys \<Longrightarrow> mset (List.map_filter f xs) = mset (List.map_filter f ys)"
  by (simp add: map_filter_def)

lemma map_filter_pairs: "\<forall>p \<in> set l. snd p = f (fst p) \<Longrightarrow> List.map_filter snd l = List.map_filter f (map fst l)"
  by (induction l) (auto simp: map_filter_simps split: option.splits)

text \<open>The next action of the order, at its place.\<close>

lemma atomicInv_executes:
  assumes inv: "atomicInv acts w0 res s" and i: "i < length acts" "i \<notin> set (executed s)"
    and act: "(acts ! i) (world s) = (case r of None \<Rightarrow> Ok () | Some e \<Rightarrow> Err e, w')"
  shows "atomicInv acts w0 (res(i := r)) (s\<lparr>workers := (workers s)[i := Active (Finished r)], world := w', executed := executed s @ [i]\<rparr>)"
proof -
  have run: "runActions ((!) acts) (executed s) w0 = (Ok (List.map_filter res (executed s)), world s)"
    using inv by (simp add: atomicInv_def)
  have "runActions ((!) acts) (executed s @ [i]) w0 = (Ok (List.map_filter (res(i := r)) (executed s @ [i])), w')"
    using act i(2) runActions_snoc [OF run, where x = i and ?w2.0 = w'] by (cases r) (simp_all add: map_filter_snoc map_filter_upd)
  then show ?thesis
    using inv i by (auto simp: atomicInv_def nth_list_update)
qed

definition someStuck :: "('w, 'r) fan_sys \<Rightarrow> bool" where
  "someStuck s \<longleftrightarrow> (\<exists>i < length (workers s). workers s ! i = Active Stuck)"

lemma atomicInv_step:
  assumes "fan_step s t" and inv: "atomicInv acts w0 res s"
  shows "someStuck t \<or> (\<exists>res'. atomicInv acts w0 res' t)"
  using assms(1)
proof cases
  case (deliver i r)
  then have "i \<in> set (executed s) \<and> r = res i"
    using inv by (auto simp: atomicInv_def atomicT_def split: if_splits)
  then have "atomicInv acts w0 res t"
    using inv deliver by (auto simp: atomicInv_def nth_list_update)
  then show ?thesis by blast
next
  case (work i f w' u)
  then have i: "i < length acts" "i \<notin> set (executed s)" "atomicT (acts ! i) = Step f"
    using inv by (auto simp: atomicInv_def split: if_splits)
  then consider (stuck) "u = Stuck" | (ends) r where "u = Finished r" "(acts ! i) (world s) = (case r of None \<Rightarrow> Ok () | Some e \<Rightarrow> Err e, w')"
    using work(4) by (auto simp: atomicT_def split: prod.splits result.splits)
  then show ?thesis
  proof cases
    case stuck
    then show ?thesis using work by (auto simp: someStuck_def)
  next
    case ends
    then show ?thesis using atomicInv_executes [OF inv i(1,2)] work(1) by blast
  qed
qed

lemma someStuck_update:
  assumes "someStuck s" and "workers s ! i \<noteq> Active Stuck" and "workers t = (workers s)[i := x]"
  shows "someStuck t"
proof -
  from assms(1) obtain j where "j < length (workers s)" "workers s ! j = Active Stuck" by (auto simp: someStuck_def)
  with assms(2,3) show ?thesis unfolding someStuck_def by (metis length_list_update nth_list_update_neq)
qed

lemma someStuck_step: "fan_step s t \<Longrightarrow> someStuck s \<Longrightarrow> someStuck t"
  by (erule fan_stepE; rule someStuck_update; simp)

lemma atomic_run: "fan_run (fan_init (map atomicT acts) w0) s \<Longrightarrow> someStuck s \<or> (\<exists>res. atomicInv acts w0 res s)"
proof (induction rule: rtranclp_induct)
  case base
  show ?case by (intro disjI2 exI) (rule atomicInv_init)
next
  case (step y z)
  then show ?case using atomicInv_step [OF step.hyps(2)] someStuck_step [OF step.hyps(2)] by auto
qed

lemma atomic_run_done:
  assumes run: "fan_run (fan_init (map atomicT acts) w0) s" and fin: "fan_done s"
  shows "\<exists>errs. runActions ((!) acts) (executed s) w0 = (Ok errs, world s) \<and>
           mset (executed s) = mset [0 ..< length acts] \<and> mset errs = mset (List.map_filter snd (received s))"
proof -
  have inv: "fan_inv s" by (rule fan_run_inv [OF run fan_inv_init])
  have "\<not> someStuck s" using fan_done_all_sent [OF inv fin] by (auto simp: someStuck_def)
  then obtain res where a: "atomicInv acts w0 res s" using atomic_run [OF run] by blast
  have len: "length (workers s) = length acts" using a by (simp add: atomicInv_def)
  have idx: "mset (map fst (received s)) = mset [0 ..< length acts]" using fan_done_indices [OF inv fin] by (simp only: len)
  then have "set (map fst (received s)) = {..< length acts}" by (metis atLeast_upt mset_eq_setD)
  moreover have "set (map fst (received s)) \<subseteq> set (executed s)" using a by (auto simp: atomicInv_def)
  ultimately have "set (executed s) = set [0 ..< length acts]" using a by (auto simp: atomicInv_def)
  then have ex: "mset (executed s) = mset [0 ..< length acts]"
    using a set_eq_iff_mset_eq_distinct [OF _ distinct_upt] by (auto simp: atomicInv_def)
  have "\<forall>p \<in> set (received s). snd p = res (fst p)" using a by (auto simp: atomicInv_def)
  then have "List.map_filter snd (received s) = List.map_filter res (map fst (received s))"
    by (rule map_filter_pairs)
  then have "mset (List.map_filter res (executed s)) = mset (List.map_filter snd (received s))"
    using mset_map_filter [of "executed s" "map fst (received s)" res] ex idx by simp
  then show ?thesis using a ex by (auto simp: atomicInv_def)
qed

end
