(* ===== verification/Commands.thy ===== *)
theory Commands
  imports Libmachine Rpc Fan_Out
begin

text \<open>
  \<open>commands\<close>: the commands of the program over the interface of the client.  Log lines that go to the logger are
  not part of the model; text printed on standard output is.
\<close>

section \<open>The command line and the environment\<close>

text \<open>\<open>cl_Generic\<close> is the value behind a flag when it is a \<open>flag.Getter\<close>.\<close>

record 'w commandLine =
  ShowHelp :: "('w, unit) io"
  ShowVersion :: "('w, unit) io"
  cl_Args :: "string list"
  cl_IsSet :: "string \<Rightarrow> bool"
  cl_Bool :: "string \<Rightarrow> bool"
  cl_Int :: "string \<Rightarrow> int"
  cl_String :: "string \<Rightarrow> string"
  cl_StringSlice :: "string \<Rightarrow> string list"
  cl_GlobalString :: "string \<Rightarrow> string"
  cl_FlagNames :: "string list"
  cl_Generic :: "string \<Rightarrow> flagval option"

text \<open>
  \<open>schedule\<close> is the order in which the goroutines of one run act, \<open>delivery\<close> the order in which their errors arrive at
  the collecting loop, \<open>errOrder\<close> the order in which
  it ranges over a map of errors; \<open>scanln\<close> reads the word the user types; \<open>marshalBase\<close> is \<open>json.Marshal\<close> of a bare
  driver; \<open>parseTemplate\<close> parses a Go template and yields its rendering of a JSON text.
\<close>

record ('w, 'c) cmd_env =
  ce_host :: "('w, 'c) host_env"
  schedule :: "'w host list \<Rightarrow> 'w host list"
  delivery :: "gerror list \<Rightarrow> gerror list"
  errOrder :: "(string \<times> gerror) list \<Rightarrow> (string \<times> gerror) list"
  scanln :: "('w, string) io"
  osArgs :: "string list"
  marshalBase :: "baseDriver \<Rightarrow> string"
  BaseDir :: string
  parseTemplate :: "string \<Rightarrow> gerror + (string \<Rightarrow> gerror + string)"
  ce_codec :: "'w codec"

definition GetBaseDir :: "('v os_world_scheme, 'c) cmd_env \<Rightarrow> 'v os_world_scheme \<Rightarrow> string" where
  "GetBaseDir Z w = (if BaseDir Z = [] then pathJoin [GetHomeDir (goos (pe_ssh (he_prov (ce_host Z)))) w, ''.local'', ''machine'']
                     else BaseDir Z)"

definition GetMachineDir :: "('v os_world_scheme, 'c) cmd_env \<Rightarrow> 'v os_world_scheme \<Rightarrow> string" where
  "GetMachineDir Z w = pathJoin [GetBaseDir Z w, ''machines'']"

definition GetMachineCertDir :: "('v os_world_scheme, 'c) cmd_env \<Rightarrow> 'v os_world_scheme \<Rightarrow> string" where
  "GetMachineCertDir Z w = pathJoin [GetBaseDir Z w, ''certs'']"

definition defaultMachineName :: string where
  "defaultMachineName = ''box''"

definition ErrHostLoad :: gerror where
  "ErrHostLoad = ErrorString ''All specified hosts had errors loading their configuration''"

definition ErrNoDefault :: gerror where
  "ErrNoDefault = ErrorString (''Error: No machine name(s) specified and no '' @ Quote defaultMachineName @ '' machine exists'')"

definition ErrNoMachineSpecified :: gerror where
  "ErrNoMachineSpecified = ErrorString ''Error: Expected to get one or more machine names as arguments''"

definition ErrExpectedOneMachine :: gerror where
  "ErrExpectedOneMachine = ErrorString ''Error: Expected one machine name as an argument''"

definition ErrTooManyArguments :: gerror where
  "ErrTooManyArguments = ErrorString ''Error: Too many arguments given''"

definition errNoMachineName :: gerror where
  "errNoMachineName = ErrorString ''Error: No machine name specified''"

section \<open>Running an action on machines\<close>

definition targetHost :: "'w commandLine \<Rightarrow> 'w api \<Rightarrow> ('w, string) io" where
  "targetHost c api =
     (case cl_Args c of
        [] \<Rightarrow>
          bindP (wrapErr (errorf (''Error checking if host '' @ Quote defaultMachineName @ '' exists: ''))
                   (api_Exists api defaultMachineName)) (\<lambda>defaultExists.
            if defaultExists then ret defaultMachineName else throw ErrNoDefault)
      | a # as \<Rightarrow> ret a)"

definition printIP :: "('v os_world_scheme, 'c) host_env \<Rightarrow> 'v os_world_scheme host \<Rightarrow> ('v os_world_scheme, unit) io" where
  "printIP H h =
     bindP (driverOf H h) (\<lambda>d.
     bindP (wrapErr (errorf ''Error getting IP address: '') (orErr (GetIP d))) (\<lambda>ip. Println ip))"

text \<open>The table of actions; an unknown name is a call of a nil function.\<close>

definition machineCommand ::
  "('v os_world_scheme, 'c) host_env \<Rightarrow> string \<Rightarrow> 'v os_world_scheme host \<Rightarrow> ('v os_world_scheme, unit) io" where
  "machineCommand H actionName h =
     (if actionName = ''configureAuth'' then host_ConfigureAuth H h
      else if actionName = ''configureAllAuth'' then host_ConfigureAllAuth H h
      else if actionName = ''start'' then host_Start H h
      else if actionName = ''stop'' then host_Stop H h
      else if actionName = ''restart'' then host_Restart H h
      else if actionName = ''kill'' then host_Kill H h
      else if actionName = ''upgrade'' then host_Upgrade H h
      else if actionName = ''ip'' then printIP H h
      else if actionName = ''provision'' then host_Provision H h
      else panic nilDeref)"

text \<open>The goroutines, one per machine, act in some order and their errors arrive in some order (\<open>Fan_Out\<close>).\<close>

definition runActionForeachMachine ::
  "('v os_world_scheme, 'c) cmd_env \<Rightarrow> string \<Rightarrow> 'v os_world_scheme host list \<Rightarrow> ('v os_world_scheme, gerror list) io" where
  "runActionForeachMachine Z actionName machines =
     bindP (runActions (machineCommand (ce_host Z) actionName) (schedule Z machines)) (\<lambda>errs. ret (delivery Z errs))"

definition consolidateErrs :: "gerror list \<Rightarrow> gerror" where
  "consolidateErrs errs = ErrorString (TrimSpace (foldl (\<lambda>s e. s @ nl @ Error e) [] errs))"

definition runAction ::
  "('v os_world_scheme, 'c) cmd_env \<Rightarrow> string \<Rightarrow> 'v os_world_scheme commandLine \<Rightarrow> 'v os_world_scheme api \<Rightarrow>
   ('v os_world_scheme, unit) io" where
  "runAction Z actionName c api =
     bindP (if cl_Args c = [] then bindP (targetHost c api) (\<lambda>target. ret [target]) else ret (cl_Args c)) (\<lambda>hostsToLoad.
     bindP (LoadHosts (api_Load api) hostsToLoad) (\<lambda>(hosts, hostsInError).
       if hostsInError \<noteq> [] then throw (consolidateErrs (map snd (errOrder Z hostsInError)))
       else if hosts = [] then throw ErrHostLoad
       else bindP (runActionForeachMachine Z actionName hosts) (\<lambda>errs.
         if errs \<noteq> [] then throw (consolidateErrs errs)
         else forEach hosts (\<lambda>h. wrapErr (errorf ''Error saving host to store: '') (api_Save api h)))))"

text \<open>The exit code of the process.  The deferred \<open>Close\<close> of the client does not run when the command failed,
  because \<open>os.Exit\<close> skips it.\<close>

definition runCommand :: "('w, unit) io \<Rightarrow> ('w, unit) io \<Rightarrow> ('w, nat) io" where
  "runCommand close command = (\<lambda>w. case command w of
       (Ok _, w1) \<Rightarrow> bindP (tryP close) (\<lambda>_. ret 0) w1
     | (Err e, w1) \<Rightarrow> (Ok 1, w1)
     | (Panic s, w1) \<Rightarrow> bindP (tryP close) (\<lambda>_. panic s) w1
     | (Blocked, w1) \<Rightarrow> (Blocked, w1))"

definition confirmInput :: "('v os_world_scheme, 'c) cmd_env \<Rightarrow> string \<Rightarrow> ('v os_world_scheme, bool) io" where
  "confirmInput Z msg =
     bindP (Println (msg @ '' (y/n): '')) (\<lambda>_.
     bindP (scanln Z) (\<lambda>resp. ret (Index (ToLower resp) ''y'' = Some 0)))"

definition cmdStart :: "('v os_world_scheme, 'c) cmd_env \<Rightarrow> 'v os_world_scheme commandLine \<Rightarrow> 'v os_world_scheme api \<Rightarrow>
    ('v os_world_scheme, unit) io" where
  "cmdStart Z c api = runAction Z ''start'' c api"

definition cmdStop :: "('v os_world_scheme, 'c) cmd_env \<Rightarrow> 'v os_world_scheme commandLine \<Rightarrow> 'v os_world_scheme api \<Rightarrow>
    ('v os_world_scheme, unit) io" where
  "cmdStop Z c api = runAction Z ''stop'' c api"

definition cmdKill :: "('v os_world_scheme, 'c) cmd_env \<Rightarrow> 'v os_world_scheme commandLine \<Rightarrow> 'v os_world_scheme api \<Rightarrow>
    ('v os_world_scheme, unit) io" where
  "cmdKill Z c api = runAction Z ''kill'' c api"

definition cmdRestart :: "('v os_world_scheme, 'c) cmd_env \<Rightarrow> 'v os_world_scheme commandLine \<Rightarrow> 'v os_world_scheme api \<Rightarrow>
    ('v os_world_scheme, unit) io" where
  "cmdRestart Z c api = runAction Z ''restart'' c api"

definition cmdUpgrade :: "('v os_world_scheme, 'c) cmd_env \<Rightarrow> 'v os_world_scheme commandLine \<Rightarrow> 'v os_world_scheme api \<Rightarrow>
    ('v os_world_scheme, unit) io" where
  "cmdUpgrade Z c api = runAction Z ''upgrade'' c api"

definition cmdIP :: "('v os_world_scheme, 'c) cmd_env \<Rightarrow> 'v os_world_scheme commandLine \<Rightarrow> 'v os_world_scheme api \<Rightarrow>
    ('v os_world_scheme, unit) io" where
  "cmdIP Z c api = runAction Z ''ip'' c api"

definition cmdProvision :: "('v os_world_scheme, 'c) cmd_env \<Rightarrow> 'v os_world_scheme commandLine \<Rightarrow> 'v os_world_scheme api \<Rightarrow>
    ('v os_world_scheme, unit) io" where
  "cmdProvision Z c api = runAction Z ''provision'' c api"

definition cmdRegenerateCerts :: "('v os_world_scheme, 'c) cmd_env \<Rightarrow> 'v os_world_scheme commandLine \<Rightarrow> 'v os_world_scheme api \<Rightarrow>
    ('v os_world_scheme, unit) io" where
  "cmdRegenerateCerts Z c api =
     bindP (if cl_Bool c ''force'' then ret True
            else confirmInput Z ''Regenerate TLS machine certs?  Warning: this is irreversible.'') (\<lambda>ok.
       if \<not> ok then ret ()
       else if cl_Bool c ''client-certs'' then runAction Z ''configureAllAuth'' c api
       else runAction Z ''configureAuth'' c api)"

section \<open>Commands on one machine\<close>

definition loadTarget :: "'w commandLine \<Rightarrow> 'w api \<Rightarrow> ('w, 'w host) io" where
  "loadTarget c api = bindP (targetHost c api) (api_Load api)"

definition cmdURL :: "('v os_world_scheme, 'c) cmd_env \<Rightarrow> 'v os_world_scheme commandLine \<Rightarrow> 'v os_world_scheme api \<Rightarrow>
    ('v os_world_scheme, unit) io" where
  "cmdURL Z c api =
     (if length (cl_Args c) > 1 then throw ErrExpectedOneMachine
      else bindP (loadTarget c api) (\<lambda>h. bindP (host_URL (ce_host Z) h) Println))"

definition cmdStatus :: "('v os_world_scheme, 'c) cmd_env \<Rightarrow> 'v os_world_scheme commandLine \<Rightarrow> 'v os_world_scheme api \<Rightarrow>
    ('v os_world_scheme, unit) io" where
  "cmdStatus Z c api =
     (if length (cl_Args c) > 1 then throw ErrExpectedOneMachine
      else bindP (loadTarget c api) (\<lambda>h.
           bindP (driverOf (ce_host Z) h) (\<lambda>d.
           bindP (wrapErr (errorf (''error getting state for host '' @ h_Name h @ '': '')) (orErr (GetState d))) (\<lambda>s.
           Println (State_String s)))))"

definition cmdSSH :: "('v os_world_scheme, 'c) cmd_env \<Rightarrow> 'v os_world_scheme commandLine \<Rightarrow> 'v os_world_scheme api \<Rightarrow>
    ('v os_world_scheme, unit) io" where
  "cmdSSH Z c api =
     (let firstArg = (case cl_Args c of [] \<Rightarrow> [] | a # as \<Rightarrow> a)
      in if firstArg \<in> {''-help'', ''--help'', ''-h''} then ShowHelp c
         else bindP (loadTarget c api) (\<lambda>h.
              bindP (driverOf (ce_host Z) h) (\<lambda>d.
              bindP (orErr (GetState d)) (\<lambda>currentState.
                if currentState \<noteq> Running
                then throw (ErrorString (''Error: Cannot run SSH command: Host '' @ Quote (h_Name h) @ '' is not running''))
                else bindP (host_CreateSSHClient (ce_host Z) h) (\<lambda>client.
                     Client_Shell (pe_ssh (he_prov (ce_host Z))) client (tl (cl_Args c)))))))"

text \<open>With an address the printed user is always root.\<close>

definition cmdConfig :: "('v os_world_scheme, 'c) cmd_env \<Rightarrow> 'v os_world_scheme commandLine \<Rightarrow> 'v os_world_scheme api \<Rightarrow>
    ('v os_world_scheme, unit) io" where
  "cmdConfig Z c api =
     bindP (loadTarget c api) (\<lambda>h.
       case h_Driver h of NilDriver \<Rightarrow> ret ()
       | _ \<Rightarrow> bindP (driverOf (ce_host Z) h) (\<lambda>d.
            bindP (GetSSHUsername d) (\<lambda>user.
            bindP (orErr (GetSSHHostname d)) (\<lambda>addr.
            bindP (orErr (GetSSHPort d)) (\<lambda>port.
            bindP (GetSSHKeyPath d) (\<lambda>key.
            Println (''--username='' @ (if addr \<noteq> [] then ''root'' else user) @ nl @ ''--host='' @ addr @ nl @
                     ''--port='' @ Itoa port @ nl @ ''--identity-file='' @ key)))))))"

definition liftSum :: "gerror + 'a \<Rightarrow> ('w, 'a) io" where
  "liftSum r = (case r of Inl e \<Rightarrow> throw e | Inr x \<Rightarrow> ret x)"

definition cmdInspect :: "('v os_world_scheme, 'c) cmd_env \<Rightarrow> 'v os_world_scheme commandLine \<Rightarrow> 'v os_world_scheme api \<Rightarrow>
    ('v os_world_scheme, unit) io" where
  "cmdInspect Z c api =
     (if length (cl_Args c) > 1 then bindP (ShowHelp c) (\<lambda>_. throw ErrExpectedOneMachine)
      else bindP (loadTarget c api) (\<lambda>h.
        let tmplString = cl_String c ''format''
        in if tmplString \<noteq> []
           then bindP (wrapErr (errorf ''template parsing error: '') (liftSum (parseTemplate Z tmplString))) (\<lambda>render.
                bindP (marshalHost (ce_codec Z) h) (\<lambda>jsonHost.
                bindP (liftSum (render jsonHost)) Println))
           else bindP (marshalHost (ce_codec Z) h) Println))"

definition printVersion :: "('v os_world_scheme, 'c) cmd_env \<Rightarrow> 'v os_world_scheme commandLine \<Rightarrow> 'v os_world_scheme api \<Rightarrow>
    ('v os_world_scheme, unit) io" where
  "printVersion Z c api =
     (case cl_Args c of
        [] \<Rightarrow> ShowVersion c
      | [name] \<Rightarrow>
          bindP (api_Load api name) (\<lambda>h.
          bindP (host_CreateSSHClient (ce_host Z) h) (\<lambda>client.
          bindP (orErr (Client_Output (pe_ssh (he_prov (ce_host Z))) client
                   (''podman version --format '' @ [CHR 0x27] @ ''{{ .Version }}'' @ [CHR 0x27]))) (\<lambda>version.
          Println version)))
      | _ \<Rightarrow> throw ErrExpectedOneMachine)"

section \<open>Removing machines\<close>

definition userConfirm :: "('v os_world_scheme, 'c) cmd_env \<Rightarrow> bool \<Rightarrow> bool \<Rightarrow> ('v os_world_scheme, bool) io" where
  "userConfirm Z confirm force =
     (if confirm \<or> force then ret True
      else bindP (tryP (confirmInput Z ''Are you sure?'')) (\<lambda>r. ret (case r of Inl e \<Rightarrow> False | Inr sure \<Rightarrow> sure)))"

definition removeRemoteMachine ::
  "('w, 'c) host_env \<Rightarrow> string \<Rightarrow> 'w api \<Rightarrow> ('w, unit) io" where
  "removeRemoteMachine H hostName api =
     bindP (api_Load api hostName) (\<lambda>h. bindP (driverOf H h) (\<lambda>d. Remove d))"

text \<open>An error of \<open>Exists\<close> counts as not existing.\<close>

definition removeLocalMachine :: "string \<Rightarrow> 'w api \<Rightarrow> ('w, unit) io" where
  "removeLocalMachine hostName api =
     bindP (tryP (api_Exists api hostName)) (\<lambda>r.
       if r = Inr True then api_Remove api hostName else throw (ErrorString (hostName @ '' does not exist.'')))"

definition collectError :: "string \<Rightarrow> string list \<Rightarrow> string list" where
  "collectError message errorOccurred = errorOccurred @ [message]"

text \<open>One machine of the loop of \<open>cmdRm\<close>.\<close>

definition rmOne :: "('w, 'c) host_env \<Rightarrow> bool \<Rightarrow> 'w api \<Rightarrow> string \<Rightarrow> string list \<Rightarrow> ('w, string list) io" where
  "rmOne H force api hostName errs =
     bindP (tryP (removeRemoteMachine H hostName api)) (\<lambda>r.
       let errs1 = (case r of Inl e \<Rightarrow> collectError (''Error removing host '' @ Quote hostName @ '': '' @ Error e) errs
                            | Inr _ \<Rightarrow> errs)
       in if \<not> isl r \<or> force
          then bindP (tryP (removeLocalMachine hostName api)) (\<lambda>r2.
                 ret (case r2 of Inl e \<Rightarrow> collectError (''Can'' @ [CHR 0x27] @ ''t remove '' @ dq @ hostName @ dq) errs1
                               | Inr _ \<Rightarrow> errs1))
          else ret errs1)"

fun rmLoop :: "('w, 'c) host_env \<Rightarrow> bool \<Rightarrow> 'w api \<Rightarrow> string list \<Rightarrow> string list \<Rightarrow> ('w, string list) io" where
  "rmLoop H force api [] errs = ret errs"
| "rmLoop H force api (n # ns) errs = bindP (rmOne H force api n errs) (\<lambda>errs'. rmLoop H force api ns errs')"

definition cmdRm :: "('v os_world_scheme, 'c) cmd_env \<Rightarrow> 'v os_world_scheme commandLine \<Rightarrow> 'v os_world_scheme api \<Rightarrow>
    ('v os_world_scheme, unit) io" where
  "cmdRm Z c api =
     (if cl_Args c = [] then bindP (ShowHelp c) (\<lambda>_. throw ErrNoMachineSpecified)
      else let force = cl_Bool c ''force''; confirm = cl_Bool c ''y''
        in bindP (userConfirm Z confirm force) (\<lambda>sure.
             if \<not> sure then ret ()
             else bindP (rmLoop (ce_host Z) force api (cl_Args c) []) (\<lambda>errs.
               if errs \<noteq> [] \<and> \<not> force then throw (ErrorString (Join errs nl)) else ret ())))"

section \<open>Creating machines\<close>

definition tlsPath :: "('v os_world_scheme, 'c) cmd_env \<Rightarrow> 'v os_world_scheme commandLine \<Rightarrow> 'v os_world_scheme \<Rightarrow> string \<Rightarrow> string \<Rightarrow> string" where
  "tlsPath Z c w flag defaultName =
     (let path = cl_GlobalString c flag
      in if path \<noteq> [] then path else pathJoin [GetMachineCertDir Z w, defaultName])"

text \<open>The values sent to the driver: the defaults of its flags, overwritten by what the command line has.\<close>

definition flagDefault :: "mcnflag \<Rightarrow> flagval" where
  "flagDefault f = (case Flag_Default f of VNil \<Rightarrow> VBool False | v \<Rightarrow> v)"

definition flagGiven :: "'w commandLine \<Rightarrow> string \<Rightarrow> rpcFlags \<Rightarrow> rpcFlags" where
  "flagGiven c name vals =
     (case cl_Generic c name of
        Some v \<Rightarrow> AList.update name v vals
      | None \<Rightarrow> if cl_IsSet c name then AList.update name (VSlice (cl_StringSlice c name)) vals else vals)"

definition getDriverOpts :: "'w commandLine \<Rightarrow> mcnflag list \<Rightarrow> rpcFlags" where
  "getDriverOpts c mcnflags =
     fold (flagGiven c) (cl_FlagNames c) (fold (\<lambda>f. AList.update (Flag_String f) (flagDefault f)) mcnflags [])"

datatype cliFlag =
    CliBool string string string
  | CliInt string string string int
  | CliString string string string string
  | CliStringSlice string string string "string list"

text \<open>The default of a slice flag is dropped.\<close>

fun convertMcnFlag :: "mcnflag \<Rightarrow> cliFlag" where
  "convertMcnFlag (BoolFlag n u e) = CliBool n u e"
| "convertMcnFlag (IntFlag n u e v) = CliInt n u e v"
| "convertMcnFlag (StringFlag n u e v) = CliString n u e v"
| "convertMcnFlag (StringSliceFlag n u e v) = CliStringSlice n u e []"

definition convertMcnFlagsToCliFlags :: "mcnflag list \<Rightarrow> cliFlag list" where
  "convertMcnFlagsToCliFlags mcnFlags = map convertMcnFlag mcnFlags"

definition createOptions ::
  "('v os_world_scheme, 'c) cmd_env \<Rightarrow> 'v os_world_scheme commandLine \<Rightarrow> 'v os_world_scheme \<Rightarrow> string \<Rightarrow> hostOptions" where
  "createOptions Z c w name =
     \<lparr>ho_Driver = [], ho_Memory = 0, ho_Disk = 0,
      ho_EngineOptions = Some (zeroEngineOptions\<lparr>ArbitraryFlags := cl_StringSlice c ''engine-opt'',
        engine_Env := cl_StringSlice c ''engine-env'', InsecureRegistry := cl_StringSlice c ''engine-insecure-registry'',
        Labels := cl_StringSlice c ''engine-label'', RegistryMirror := cl_StringSlice c ''engine-registry-mirror'',
        StorageDriver := cl_String c ''engine-storage-driver'', TLSVerify := True,
        InstallURL := cl_String c ''engine-install-url''\<rparr>),
      ho_AuthOptions = Some (zeroAuthOptions\<lparr>CertDir := GetMachineCertDir Z w,
        CaCertPath := tlsPath Z c w ''tls-ca-cert'' ''ca.pem'', CaPrivateKeyPath := tlsPath Z c w ''tls-ca-key'' ''ca-key.pem'',
        ClientCertPath := tlsPath Z c w ''tls-client-cert'' ''cert.pem'', ClientKeyPath := tlsPath Z c w ''tls-client-key'' ''key.pem'',
        ServerCertPath := pathJoin [GetMachineDir Z w, name, ''server.pem''],
        ServerKeyPath := pathJoin [GetMachineDir Z w, name, ''server-key.pem''],
        auth_StorePath := pathJoin [GetMachineDir Z w, name], ServerCertSANs := cl_StringSlice c ''tls-san''\<rparr>)\<rparr>"

definition cmdCreateInner :: "('v os_world_scheme, 'c) cmd_env \<Rightarrow> 'v os_world_scheme commandLine \<Rightarrow> 'v os_world_scheme api \<Rightarrow>
    ('v os_world_scheme, unit) io" where
  "cmdCreateInner Z c api =
     (if length (cl_Args c) > 1
      then throw (ErrorString (''Invalid command line. Found extra arguments ['' @ Join (tl (cl_Args c)) '' '' @ '']''))
      else let name = (case cl_Args c of [] \<Rightarrow> [] | a # as \<Rightarrow> a)
        in if name = [] then bindP (ShowHelp c) (\<lambda>_. throw errNoMachineName)
           else if \<not> ValidateHostName name then throw (errorf ''Error creating machine: '' ErrInvalidHostname)
           else let rawDriver = marshalBase Z (newBaseDriver name (cl_GlobalString c ''storage-path''))
             in bindP (wrapErr (errorf ''Error getting new host: '') (api_NewHost api (cl_String c ''driver'') rawDriver)) (\<lambda>h0.
                bindP getW (\<lambda>w0.
                let h = h0\<lparr>h_HostOptions := Some (createOptions Z c w0 name)\<rparr>
                in bindP (wrapErr (errorf ''Error checking if host exists: '') (api_Exists api (h_Name h))) (\<lambda>exists.
                   if exists then throw (ErrHostAlreadyExists (h_Name h))
                   else bindP (driverOf (ce_host Z) h) (\<lambda>d.
                        bindP (GetCreateFlags d) (\<lambda>mcnFlags.
                        bindP (wrapErr (errorf ''Error setting machine configuration from flags provided: '')
                                 (SetConfigFromFlags d (RPCFlags_options (getDriverOpts c mcnFlags)))) (\<lambda>_.
                        bindP (wrapErr (errorf ''Error performing create: '') (api_Create api h)) (\<lambda>_.
                        wrapErr (errorf ''Error attempting to save store: '') (api_Save api h)))))))))"

text \<open>The value of a flag, looked up by hand in the arguments of the process.\<close>

fun flagLookupFrom :: "string \<Rightarrow> string \<Rightarrow> string list \<Rightarrow> string" where
  "flagLookupFrom flagPrefix flagName [] = []"
| "flagLookupFrom flagPrefix flagName (arg # rest) =
     (if Contains arg flagPrefix then
        (if (arg = flagPrefix \<or> arg = flagName) \<and> rest \<noteq> [] then hd rest
         else if HasPrefix arg (flagPrefix @ ''='') \<or> HasPrefix arg (flagName @ ''='') then Split arg ''='' ! 1
         else flagLookupFrom flagPrefix flagName rest)
      else flagLookupFrom flagPrefix flagName rest)"

definition flagHackLookup :: "string list \<Rightarrow> string \<Rightarrow> string" where
  "flagHackLookup args flagName = flagLookupFrom (take 2 (drop 1 flagName)) flagName args"

text \<open>The driver whose flags the outer command adds; its host is only asked for them.\<close>

definition createDriverName :: "('v os_world_scheme, 'c) cmd_env \<Rightarrow> 'v os_world_scheme \<Rightarrow> string" where
  "createDriverName Z w =
     (let driverName = flagHackLookup (osArgs Z) ''--driver''
      in if driverName \<noteq> [] then driverName
         else let e = Getenv w ''MACHINE_DRIVER'' in if e \<noteq> [] then e else ''virtualbox'')"

definition cmdCreateOuterFlags :: "('v os_world_scheme, 'c) cmd_env \<Rightarrow> 'v os_world_scheme api \<Rightarrow> ('v os_world_scheme, cliFlag list) io" where
  "cmdCreateOuterFlags Z api =
     bindP getW (\<lambda>w.
     bindP (api_NewHost api (createDriverName Z w) (marshalBase Z (newBaseDriver ''flag-lookup'' []))) (\<lambda>h.
     bindP (driverOf (ce_host Z) h) (\<lambda>d.
     bindP (GetCreateFlags d) (\<lambda>mcnFlags. ret (convertMcnFlagsToCliFlags mcnFlags)))))"

section \<open>Lemmas\<close>

lemma tryP_OkE:
  assumes "tryP m w = (Ok r, w')"
  obtains (val) x where "m w = (Ok x, w')" "r = Inr x" | (err) e where "m w = (Err e, w')" "r = Inl e"
  using assms by (auto simp: tryP_def split: prod.splits result.splits)

text \<open>No error was collected exactly if every action succeeded, one after the other.\<close>

lemma runActions_Nil_iff:
  "runActions act hs w = (Ok [], w') \<longleftrightarrow> forEach hs act w = (Ok (), w')"
proof (induction hs arbitrary: w)
  case Nil
  then show ?case by (simp add: ret_def)
next
  case (Cons h hs)
  show ?case
  proof
    assume "runActions act (h # hs) w = (Ok [], w')"
    then obtain r w1 errs where "tryP (act h) w = (Ok r, w1)" "runActions act hs w1 = (Ok errs, w')"
      "(case r of Inl e \<Rightarrow> e # errs | Inr _ \<Rightarrow> errs) = []"
      by (auto simp: ret_def elim!: bindP_OkE)
    then show "forEach (h # hs) act w = (Ok (), w')"
      by (cases r) (auto simp: Cons.IH bindP_def elim!: tryP_OkE)
  next
    assume "forEach (h # hs) act w = (Ok (), w')"
    then obtain w1 where "act h w = (Ok (), w1)" "runActions act hs w1 = (Ok [], w')"
      by (auto simp: Cons.IH elim!: bindP_OkE)
    then show "runActions act (h # hs) w = (Ok [], w')" by (simp add: bindP_def tryP_def ret_def)
  qed
qed

text \<open>With returning actions every machine is acted on, whatever the others report.\<close>

fun actionTrace :: "('h \<Rightarrow> ('w, unit) io) \<Rightarrow> 'h list \<Rightarrow> 'w \<Rightarrow> ('h \<times> (gerror, unit) result) list" where
  "actionTrace act [] w = []"
| "actionTrace act (h # hs) w = (h, fst (act h w)) # actionTrace act hs (snd (act h w))"

definition errorsOf :: "('h \<times> (gerror, unit) result) list \<Rightarrow> gerror list" where
  "errorsOf t = List.map_filter (\<lambda>(h, r). case r of Err e \<Rightarrow> Some e | _ \<Rightarrow> None) t"

lemma runActions_map:
  "\<forall>i \<in> set xs. act i = act' (f i) \<Longrightarrow> runActions act xs = runActions act' (map f xs)"
  by (induction xs) simp_all

lemma actionTrace_hosts: "map fst (actionTrace act hs w) = hs"
  by (induction hs arbitrary: w) auto

lemma runActions_trace:
  assumes "\<And>h v. h \<in> set hs \<Longrightarrow> fst (act h v) = Ok () \<or> (\<exists>e. fst (act h v) = Err e)"
  shows "\<exists>w'. runActions act hs w = (Ok (errorsOf (actionTrace act hs w)), w')"
  using assms
proof (induction hs arbitrary: w)
  case Nil
  then show ?case by (simp add: ret_def errorsOf_def map_filter_simps)
next
  case (Cons h hs)
  obtain r v where hv: "act h w = (r, v)" by force
  from Cons.IH [of v] Cons.prems obtain w' where w': "runActions act hs v = (Ok (errorsOf (actionTrace act hs v)), w')" by auto
  have "r = Ok () \<or> (\<exists>e. r = Err e)" using Cons.prems [of h w] hv by simp
  with hv w' show ?case
    by (auto simp: tryP_def bindP_def ret_def errorsOf_def map_filter_simps)
qed

lemma LoadHosts_no_errors:
  "LoadHosts load ns w = (Ok (hs, []), w') \<Longrightarrow> length hs = length ns"
proof (induction ns arbitrary: w hs)
  case Nil
  then show ?case by (simp add: ret_def)
next
  case (Cons n ns)
  then obtain r w1 hs1 es1 where "tryP (load n) w = (Ok r, w1)" and l: "LoadHosts load ns w1 = (Ok (hs1, es1), w')"
    and out: "(case r of Inl e \<Rightarrow> (hs1, if n \<in> fst ` set es1 then es1 else (n, e) # es1) | Inr h \<Rightarrow> (h # hs1, es1)) = (hs, [])"
    by (auto simp: ret_def elim!: bindP_OkE)
  then show ?case using Cons.IH by (auto split: sum.splits if_splits)
qed

definition permutes :: "('w, 'c) cmd_env \<Rightarrow> bool" where
  "permutes Z \<longleftrightarrow> (\<forall>hs. mset (schedule Z hs) = mset hs) \<and> (\<forall>es. mset (delivery Z es) = mset es)"

lemma permutes_Nil: "permutes Z \<Longrightarrow> delivery Z es = [] \<longleftrightarrow> es = []"
  by (metis mset_zero_iff permutes_def)

lemma runAction_OkE:
  assumes "permutes Z" and "runAction Z a c api w = (Ok (), w')"
  obtains names hosts w1 w2 w3 where "cl_Args c \<noteq> [] \<longrightarrow> names = cl_Args c \<and> w1 = w"
    "LoadHosts (api_Load api) names w1 = (Ok (hosts, []), w2)" "hosts \<noteq> []"
    "forEach (schedule Z hosts) (machineCommand (ce_host Z) a) w2 = (Ok (), w3)"
    "forEach hosts (\<lambda>h. wrapErr (errorf ''Error saving host to store: '') (api_Save api h)) w3 = (Ok (), w')"
proof -
  from assms(2) obtain names w1 hosts errs w2 where
    n: "(if cl_Args c = [] then bindP (targetHost c api) (\<lambda>target. ret [target]) else ret (cl_Args c)) w = (Ok names, w1)"
    and l: "LoadHosts (api_Load api) names w1 = (Ok (hosts, errs), w2)"
    and rest: "(if errs \<noteq> [] then throw (consolidateErrs (map snd (errOrder Z errs)))
       else if hosts = [] then throw ErrHostLoad
       else bindP (runActionForeachMachine Z a hosts) (\<lambda>errs.
         if errs \<noteq> [] then throw (consolidateErrs errs)
         else forEach hosts (\<lambda>h. wrapErr (errorf ''Error saving host to store: '') (api_Save api h)))) w2 = (Ok (), w')"
    unfolding runAction_def by (auto elim!: bindP_OkE)
  have e: "errs = []" "hosts \<noteq> []" using rest by (auto simp: throw_def split: if_splits)
  with rest obtain w3 where f: "runActionForeachMachine Z a hosts w2 = (Ok [], w3)"
    and s: "forEach hosts (\<lambda>h. wrapErr (errorf ''Error saving host to store: '') (api_Save api h)) w3 = (Ok (), w')"
    by (auto simp: throw_def elim!: bindP_OkE split: if_splits)
  from f have "runActions (machineCommand (ce_host Z) a) (schedule Z hosts) w2 = (Ok [], w3)"
    unfolding runActionForeachMachine_def by (rule bindP_OkE) (simp add: ret_def permutes_Nil [OF assms(1)])
  then have "forEach (schedule Z hosts) (machineCommand (ce_host Z) a) w2 = (Ok (), w3)" by (simp only: runActions_Nil_iff)
  moreover have "cl_Args c \<noteq> [] \<longrightarrow> names = cl_Args c \<and> w1 = w" using n by (auto simp: ret_def split: if_splits)
  ultimately show thesis using that l e s by blast
qed

text \<open>Removal with \<open>--force\<close>: each name is removed locally, whatever the driver reported.\<close>

definition keepsStore :: "filestore \<Rightarrow> ('v os_world_scheme, 'a) io \<Rightarrow> bool" where
  "keepsStore S m \<longleftrightarrow> (\<forall>w. storeOK S w \<longrightarrow>
     (\<exists>r w'. m w = (r, w') \<and> r \<noteq> Blocked \<and> (\<forall>s. r \<noteq> Panic s) \<and> storeOK S w' \<and>
             (\<forall>k. plainElem k \<longrightarrow> stored S w' k = stored S w k)))"

lemma removeLocalMachine_stored:
  assumes ok: "storeOK S w" and n: "plainElem n"
    and api: "api_Exists api = Exists S" "api_Remove api = Filestore_Remove S"
  shows "\<exists>r w'. removeLocalMachine n api w = (r, w') \<and> (r = Ok () \<or> (\<exists>e. r = Err e)) \<and> storeOK S w' \<and>
           (\<forall>k. plainElem k \<longrightarrow> stored S w' k = (if k = n then None else stored S w k))"
  using fileStore.del_law [OF ok n] ok api fileStore.has_law [OF ok n]
  by (auto simp: removeLocalMachine_def tryP_def bindP_def throw_def)

lemma rmOne_force_stored:
  assumes ok: "storeOK S w" and n: "plainElem n"
    and api: "api_Exists api = Exists S" "api_Remove api = Filestore_Remove S"
    and remote: "keepsStore S (removeRemoteMachine H n api)"
  shows "\<exists>errs' w'. rmOne H True api n errs w = (Ok errs', w') \<and> storeOK S w' \<and>
           (\<forall>k. plainElem k \<longrightarrow> stored S w' k = (if k = n then None else stored S w k))"
proof -
  from remote ok obtain r w1 where r: "removeRemoteMachine H n api w = (r, w1)" "r \<noteq> Blocked" "\<forall>s. r \<noteq> Panic s"
    and ok1: "storeOK S w1" and s1: "\<forall>k. plainElem k \<longrightarrow> stored S w1 k = stored S w k"
    unfolding keepsStore_def by blast
  from removeLocalMachine_stored [OF ok1 n api] obtain r2 w2 where
    l: "removeLocalMachine n api w1 = (r2, w2)" "r2 = Ok () \<or> (\<exists>e. r2 = Err e)" "storeOK S w2"
    "\<forall>k. plainElem k \<longrightarrow> stored S w2 k = (if k = n then None else stored S w1 k)" by blast
  have "\<exists>errs'. rmOne H True api n errs w = (Ok errs', w2)"
    using r l by (cases r) (auto simp: rmOne_def tryP_def bindP_def ret_def Let_def)
  with l s1 show ?thesis by auto
qed

lemma rmLoop_force_stored:
  assumes "storeOK S w" and "\<forall>n \<in> set ns. plainElem n"
    and api: "api_Exists api = Exists S" "api_Remove api = Filestore_Remove S"
    and remote: "\<forall>n \<in> set ns. keepsStore S (removeRemoteMachine H n api)"
  shows "\<exists>errs' w'. rmLoop H True api ns errs w = (Ok errs', w') \<and> storeOK S w' \<and>
           (\<forall>k. plainElem k \<longrightarrow> stored S w' k = (if k \<in> set ns then None else stored S w k))"
  using assms(1,2,5)
proof (induction ns arbitrary: w errs)
  case Nil
  then show ?case by (simp add: ret_def)
next
  case (Cons n ns)
  from rmOne_force_stored [OF Cons.prems(1) _ api, of n H errs] Cons.prems obtain errs1 w1 where
    1: "rmOne H True api n errs w = (Ok errs1, w1)" "storeOK S w1"
    "\<forall>k. plainElem k \<longrightarrow> stored S w1 k = (if k = n then None else stored S w k)" by auto
  from Cons.IH [OF 1(2), of errs1] Cons.prems obtain errs2 w2 where
    2: "rmLoop H True api ns errs1 w1 = (Ok errs2, w2)" "storeOK S w2"
    "\<forall>k. plainElem k \<longrightarrow> stored S w2 k = (if k \<in> set ns then None else stored S w1 k)" by auto
  show ?case using 1 2 by (auto simp: bindP_def)
qed

text \<open>Values of flags.\<close>

lemma map_of_updates:
  "map_of (fold (\<lambda>f. AList.update (g f) (v f)) l al) k =
     (case find (\<lambda>f. g f = k) (rev l) of Some f \<Rightarrow> Some (v f) | None \<Rightarrow> map_of al k)"
  by (induction l arbitrary: al rule: rev_induct) (auto simp: update_conv' split: option.splits)

lemma flagGiven_map:
  "map_of (flagGiven c name vals) k =
     (if k = name then (case cl_Generic c name of Some v \<Rightarrow> Some v
        | None \<Rightarrow> if cl_IsSet c name then Some (VSlice (cl_StringSlice c name)) else map_of vals k)
      else map_of vals k)"
  by (auto simp: flagGiven_def update_conv' split: option.splits)

lemma fold_flagGiven:
  "map_of (fold (flagGiven c) names vals) k =
     (if k \<in> set names then (case cl_Generic c k of Some v \<Rightarrow> Some v
        | None \<Rightarrow> if cl_IsSet c k then Some (VSlice (cl_StringSlice c k)) else map_of vals k)
      else map_of vals k)"
  by (induction names arbitrary: vals) (auto simp: flagGiven_map split: option.splits)

lemma forEach_Ok_all:
  assumes "forEach xs f w = (Ok (), w')" and "x \<in> set xs"
  shows "\<exists>v v'. f x v = (Ok (), v')"
  using assms
proof (induction xs arbitrary: w)
  case (Cons y ys)
  then obtain w1 where "f y w = (Ok (), w1)" "forEach ys f w1 = (Ok (), w')" by (auto elim: bindP_OkE)
  with Cons show ?case by auto
qed simp

text \<open>A command line with the given arguments and boolean flags, and an interface whose store is that of the client.\<close>

definition demoLine :: "string list \<Rightarrow> string list \<Rightarrow> 'w commandLine" where
  "demoLine args bools = \<lparr>ShowHelp = ret (), ShowVersion = ret (), cl_Args = args, cl_IsSet = (\<lambda>n. n \<in> set bools),
     cl_Bool = (\<lambda>n. n \<in> set bools), cl_Int = (\<lambda>n. 10), cl_String = (\<lambda>n. []), cl_StringSlice = (\<lambda>n. []),
     cl_GlobalString = (\<lambda>n. []), cl_FlagNames = [], cl_Generic = (\<lambda>n. None)\<rparr>"

definition demoCmdEnv :: "('v os_world_scheme, unit) cmd_env" where
  "demoCmdEnv = \<lparr>ce_host = demoHostEnv, schedule = (\<lambda>hs. hs), delivery = (\<lambda>es. es), errOrder = (\<lambda>es. es), scanln = ret ''y'', osArgs = [],
     marshalBase = (\<lambda>b. ''{}''), BaseDir = ''/s'', parseTemplate = (\<lambda>s. Inl ExecNotFound), ce_codec = demoCodec\<rparr>"

lemma permutes_demo: "permutes demoCmdEnv"
  by (simp add: permutes_def demoCmdEnv_def)

lemma kill_errDriver: "machineCommand demoHostEnv ''kill'' (demoHost (errDriver n)) v = (Err (NotLoadable n), v)"
  by (simp add: machineCommand_def host_Kill_def driverOf_def runActionForState_def MachineInState_def demoHost_def prog_defs)
    (simp add: errDriver_def valErr_def prog_defs)

definition demoApi :: "'v os_world_scheme driver \<Rightarrow> 'v os_world_scheme api" where
  "demoApi d = (Client_api (demoClient d))\<lparr>api_Load := (\<lambda>n. ret ((demoHost d)\<lparr>h_Name := n\<rparr>)), api_Create := (\<lambda>h. ret ())\<rparr>"

section \<open>Properties\<close>

text \<open>C5: an action command that succeeds has loaded every named machine, has run the action on every one of them
  with success, in the order of the goroutines, and after the last of them has saved every machine in the order of the
  command line.\<close>

theorem runAction_success:
  assumes perm: "permutes Z" and run: "runAction Z a c api w = (Ok (), w')"
  shows "\<exists>names hosts w1 w2 w3. (cl_Args c \<noteq> [] \<longrightarrow> names = cl_Args c \<and> w1 = w) \<and>
           LoadHosts (api_Load api) names w1 = (Ok (hosts, []), w2) \<and> length hosts = length names \<and>
           mset (schedule Z hosts) = mset hosts \<and>
           forEach (schedule Z hosts) (machineCommand (ce_host Z) a) w2 = (Ok (), w3) \<and>
           forEach hosts (\<lambda>h. wrapErr (errorf ''Error saving host to store: '') (api_Save api h)) w3 = (Ok (), w')"
proof -
  from perm have "mset (schedule Z hosts) = mset hosts" for hosts by (simp add: permutes_def)
  with runAction_OkE [OF perm run] LoadHosts_no_errors show ?thesis by metis
qed

theorem runAction_success_witness:
  "\<exists>(hosts :: fakeDriver os_world_scheme host list) w2 w3. length hosts = 1 \<and> forEach hosts (machineCommand demoHostEnv ''stop'') w2 = (Ok (), w3)"
proof -
  let ?c = "demoLine [''m''] []" and ?api = "demoApi (FakeDriver moreL)" and ?w = "plainWorld [] (demoFake Running)"
  have "fst (runAction demoCmdEnv ''stop'' ?c ?api ?w) = Ok ()" by code_simp
  then obtain w' where w': "runAction demoCmdEnv ''stop'' ?c ?api ?w = (Ok (), w')" by (metis prod.collapse)
  have "permutes (demoCmdEnv :: (fakeDriver os_world_scheme, unit) cmd_env)" by (rule permutes_demo)
  from runAction_success [OF this w'] obtain hosts :: "fakeDriver os_world_scheme host list" and w2 w3
    where "length hosts = length (cl_Args ?c)" "forEach (schedule demoCmdEnv hosts) (machineCommand (ce_host demoCmdEnv) ''stop'') w2 = (Ok (), w3)"
    by (auto simp: demoLine_def)
  then show ?thesis by (intro exI [of _ hosts] exI [of _ w2] exI [of _ w3]) (simp add: demoLine_def demoCmdEnv_def)
qed

text \<open>when an action fails on any of the named machines, the command reports the errors together and ends in the
  world the actions left: no machine is saved, not even those on which the action succeeded.\<close>

theorem runAction_error_saves_none:
  assumes "cl_Args c \<noteq> []" and "LoadHosts (api_Load api) (cl_Args c) w = (Ok (hosts, []), w1)" and "hosts \<noteq> []"
    and "runActionForeachMachine Z a hosts w1 = (Ok errs, w2)" and "errs \<noteq> []"
  shows "runAction Z a c api w = (Err (consolidateErrs errs), w2)"
  using assms by (simp add: runAction_def bindP_def ret_def throw_def)

theorem runAction_error_saves_none_witness:
  "\<exists>errs w2. runAction demoCmdEnv ''start'' (demoLine [''m''] []) (demoApi (errDriver ''x'')) (plainWorld [] ()) = (Err (consolidateErrs errs), w2)
     \<and> fs w2 = []"
proof -
  let ?c = "demoLine [''m''] []" and ?api = "demoApi (errDriver ''x'')" and ?w = "plainWorld [] ()"
  let ?h = "(demoHost (errDriver ''x''))\<lparr>h_Name := ''m''\<rparr>"
  have l: "LoadHosts (api_Load ?api) (cl_Args ?c) ?w = (Ok ([?h], []), ?w)" by (simp add: demoLine_def demoApi_def prog_defs)
  have "machineCommand demoHostEnv ''start'' ?h ?w = (Err (NotLoadable ''x''), ?w)"
    by (simp add: machineCommand_def host_Start_def driverOf_def runActionForState_def MachineInState_def demoHost_def prog_defs)
      (simp add: errDriver_def valErr_def prog_defs)
  then have r: "runActionForeachMachine demoCmdEnv ''start'' [?h] ?w = (Ok [NotLoadable ''x''], ?w)"
    by (simp add: runActionForeachMachine_def demoCmdEnv_def prog_defs)
  have "runAction demoCmdEnv ''start'' ?c ?api ?w = (Err (consolidateErrs [NotLoadable ''x'']), ?w)"
    by (rule runAction_error_saves_none [OF _ l _ r]) (simp_all add: demoLine_def)
  then show ?thesis by fastforce
qed

text \<open>C6: the action is run on every machine, also after it failed on others, and the errors reported are exactly those
  the actions returned.\<close>

theorem runActionForeachMachine_complete:
  assumes "permutes Z"
    and "\<And>h v. h \<in> set hs \<Longrightarrow> fst (machineCommand (ce_host Z) a h v) = Ok () \<or> (\<exists>e. fst (machineCommand (ce_host Z) a h v) = Err e)"
  shows "\<exists>trace errs w'. trace = actionTrace (machineCommand (ce_host Z) a) (schedule Z hs) w \<and>
         runActionForeachMachine Z a hs w = (Ok errs, w') \<and> mset errs = mset (errorsOf trace) \<and> mset (map fst trace) = mset hs"
proof -
  have m: "mset (schedule Z hs) = mset hs" using assms(1) by (simp add: permutes_def)
  then obtain w' where "runActions (machineCommand (ce_host Z) a) (schedule Z hs) w =
      (Ok (errorsOf (actionTrace (machineCommand (ce_host Z) a) (schedule Z hs) w)), w')"
    using runActions_trace [of "schedule Z hs" "machineCommand (ce_host Z) a" w] assms(2) mset_eq_setD [OF m] by auto
  moreover have "mset (map fst (actionTrace (machineCommand (ce_host Z) a) (schedule Z hs) w)) = mset hs"
    by (simp only: actionTrace_hosts m)
  ultimately show ?thesis
    using assms(1) by (simp add: runActionForeachMachine_def permutes_def bindP_def ret_def)
qed

theorem runActionForeachMachine_complete_witness:
  "\<exists>errs w'. runActionForeachMachine demoCmdEnv ''kill'' [demoHost (errDriver ''x''), demoHost (errDriver ''y'')] (plainWorld [] ()) =
     (Ok errs, w') \<and> mset errs = {#NotLoadable ''x'', NotLoadable ''y''#}"
proof -
  let ?hs = "[demoHost (errDriver ''x''), demoHost (errDriver ''y'')] :: unit os_world_scheme host list"
  have Z: "ce_host demoCmdEnv = demoHostEnv" "schedule demoCmdEnv ?hs = ?hs" by (simp_all add: demoCmdEnv_def)
  have h: "fst (machineCommand (ce_host demoCmdEnv) ''kill'' h v) = Ok () \<or> (\<exists>e. fst (machineCommand (ce_host demoCmdEnv) ''kill'' h v) = Err e)"
    if "h \<in> set ?hs" for h and v :: "unit os_world_scheme"
  proof -
    from that obtain n where "h = demoHost (errDriver n)" by auto
    then show ?thesis by (simp add: Z kill_errDriver)
  qed
  from runActionForeachMachine_complete [where hs = ?hs, OF permutes_demo h] show ?thesis
    by (fastforce simp: Z kill_errDriver errorsOf_def map_filter_simps)
qed



text \<open>C9: the collecting loop of an action command does not hang when every action returns: no run goes on for ever, and the
  only states in which nothing can happen any more are those in which every result has arrived.\<close>

theorem goroutines_finish:
  assumes "fan_run (fan_init (map (\<lambda>h. atomicT (machineCommand H a h)) hs) w) s"
    and "\<And>h v. h \<in> set hs \<Longrightarrow> fst (machineCommand H a h v) = Ok () \<or> (\<exists>e. fst (machineCommand H a h v) = Err e)"
  shows "(\<nexists>r. r 0 = s \<and> (\<forall>n. fan_step (r n) (r (Suc n)))) \<and> ((\<nexists>t. fan_step s t) \<longleftrightarrow> fan_done s)"
proof -
  have inv: "fan_inv s" by (rule fan_run_inv [OF assms(1) fan_inv_init])
  have "\<forall>t \<in> set (map (\<lambda>h. atomicT (machineCommand H a h)) hs). returns t" using assms(2) by (auto intro!: returns_atomicT)
  then have "allReturn s" by (rule allReturn_run [OF assms(1) allReturn_init])
  then show ?thesis using fan_no_infinite_run [of s] fan_progress [OF inv] fan_done_final [OF inv] by blast
qed

theorem goroutines_finish_witness:
  "\<nexists>r. r 0 = fan_init (map (\<lambda>h. atomicT (machineCommand demoHostEnv ''kill'' h)) [demoHost (errDriver ''x''), demoHost (errDriver ''y'')])
            (plainWorld [] ()) \<and> (\<forall>n. fan_step (r n) (r (Suc n)))"
proof -
  let ?hs = "[demoHost (errDriver ''x''), demoHost (errDriver ''y'')] :: unit os_world_scheme host list"
  have "fst (machineCommand demoHostEnv ''kill'' h v) = Ok () \<or> (\<exists>e. fst (machineCommand demoHostEnv ''kill'' h v) = Err e)"
    if "h \<in> set ?hs" for h and v :: "unit os_world_scheme"
    using that kill_errDriver [of _ v] by auto
  from goroutines_finish [where hs = ?hs and w = "plainWorld [] ()", OF rtranclp.rtrancl_refl this] show ?thesis by blast
qed

text \<open>C20: \<open>rm --force\<close> succeeds and leaves none of the named machines in the store and all the others as they were, even
  where the driver could not remove its machine.\<close>

theorem cmdRm_force_removes:
  assumes "storeOK S w" and "cl_Bool c ''force''" and "cl_Args c \<noteq> []" and "\<forall>n \<in> set (cl_Args c). ValidateHostName n"
    and "api_Exists api = Exists S" "api_Remove api = Filestore_Remove S"
    and "\<forall>n \<in> set (cl_Args c). keepsStore S (removeRemoteMachine (ce_host Z) n api)"
  shows "\<exists>w'. cmdRm Z c api w = (Ok (), w') \<and> storeOK S w' \<and>
           (\<forall>k. plainElem k \<longrightarrow> stored S w' k = (if k \<in> set (cl_Args c) then None else stored S w k))"
proof -
  have "\<forall>n \<in> set (cl_Args c). plainElem n" using assms(4) ValidateHostName_plain by blast
  from rmLoop_force_stored [OF assms(1) this assms(5-7), of "[]"] show ?thesis
    using assms(2,3) by (auto simp: cmdRm_def userConfirm_def bindP_def ret_def Let_def)
qed

theorem cmdRm_force_removes_witness:
  "\<exists>w'. cmdRm demoCmdEnv (demoLine [''m''] [''force'']) (demoApi (errDriver ''x'')) (plainWorld [] ()) = (Ok (), w') \<and> storeOK demoStore w'"
proof -
  let ?api = "demoApi (errDriver ''x'') :: unit os_world_scheme api"
  have "removeRemoteMachine demoHostEnv n ?api = throw (NotLoadable ''x'')" for n
    by (simp add: removeRemoteMachine_def demoApi_def driverOf_def demoHost_def) (simp add: errDriver_def)
  then have k: "keepsStore demoStore (removeRemoteMachine (ce_host demoCmdEnv) n ?api)" for n
    by (simp add: keepsStore_def throw_def demoCmdEnv_def)
  have s: "storeOK demoStore (plainWorld [] ())" by (rule storeOK_empty) (simp add: demoStore_def NewFilestore_def)
  have v: "ValidateHostName ''m''" by code_simp
  show ?thesis
    using cmdRm_force_removes [OF s, of "demoLine [''m''] [''force'']" ?api demoCmdEnv] k v
    by (auto simp: demoLine_def demoApi_def Client_api_def demoClient_def)
qed



text \<open>a machine is only created under a valid name that the store does not have: when \<open>create\<close> succeeds there was one
  argument, it passed the validation, and the store had answered that the machine does not exist.\<close>

theorem cmdCreateInner_guards:
  assumes "cmdCreateInner Z c api w = (Ok (), w')"
  shows "\<exists>name h0 w1 w2. cl_Args c = [name] \<and> ValidateHostName name \<and>
           api_NewHost api (cl_String c ''driver'') (marshalBase Z (newBaseDriver name (cl_GlobalString c ''storage-path''))) w = (Ok h0, w1) \<and>
           api_Exists api (h_Name h0) w1 = (Ok False, w2)"
proof (cases "cl_Args c")
  case Nil
  with assms show ?thesis by (auto simp: cmdCreateInner_def throw_def Let_def elim!: bindP_OkE)
next
  case (Cons name rest)
  have "rest = []" using assms Cons by (cases rest) (auto simp: cmdCreateInner_def throw_def)
  moreover have v: "name \<noteq> []" "ValidateHostName name"
    using assms Cons calculation by (auto simp: cmdCreateInner_def throw_def Let_def elim!: bindP_OkE split: if_splits)
  ultimately show ?thesis
    using assms Cons
    by (auto simp: cmdCreateInner_def throw_def getW_def Let_def elim!: bindP_OkE split: if_splits)
qed

theorem cmdCreateInner_guards_witness:
  "\<exists>h0 w1 w2. api_NewHost (demoApi (FakeDriver moreL)) [] ''{}'' (plainWorld [] (demoFake Stopped)) = (Ok h0, w1) \<and>
     api_Exists (demoApi (FakeDriver moreL)) (h_Name h0) w1 = (Ok False, w2)"
proof -
  let ?c = "demoLine [''m''] []" and ?api = "demoApi (FakeDriver moreL)" and ?w = "plainWorld [] (demoFake Stopped)"
  have "fst (cmdCreateInner demoCmdEnv ?c ?api ?w) = Ok ()" by code_simp
  then obtain w' where "cmdCreateInner demoCmdEnv ?c ?api ?w = (Ok (), w')" by (metis prod.collapse)
  from cmdCreateInner_guards [OF this] show ?thesis by (auto simp: demoCmdEnv_def demoLine_def)
qed

text \<open>the value a driver reads for a flag is what the command line gives for it, and otherwise the default of the last
  flag of that name, with false for booleans; slices count only when they were set.\<close>

theorem getDriverOpts_lookup:
  "map_of (getDriverOpts c mcnflags) k =
     (let dflt = map_option flagDefault (find (\<lambda>f. Flag_String f = k) (rev mcnflags))
      in if k \<notin> set (cl_FlagNames c) then dflt
         else case cl_Generic c k of
                Some v \<Rightarrow> Some v
              | None \<Rightarrow> if cl_IsSet c k then Some (VSlice (cl_StringSlice c k)) else dflt)"
proof -
  have "map_of (fold (\<lambda>f. AList.update (Flag_String f) (flagDefault f)) mcnflags []) k =
        map_option flagDefault (find (\<lambda>f. Flag_String f = k) (rev mcnflags))"
    by (simp add: map_of_updates split: option.splits)
  then show ?thesis by (simp add: getDriverOpts_def fold_flagGiven Let_def split: option.splits)
qed

end
