(* ===== verification/Ls.thy ===== *)
theory Ls
  imports Commands
begin

text \<open>
  \<open>commands/ls.go\<close> and \<open>commands/active.go\<close>: the table of machines, with its filters and its format, and the active
  machine.  The state of every machine is asked for in a goroutine of its own, with a time limit.
\<close>

section \<open>Items and filters\<close>

text \<open>\<open>ResponseTime\<close> is in milliseconds.\<close>

record hostListItem =
  li_Name :: string
  Active_mark :: string
  ActiveHost :: bool
  li_DriverName :: string
  li_State :: state
  li_URL :: string
  li_EngineOptions :: "engineOptions option"
  li_Error :: string
  ResponseTime :: int

definition zeroItem :: hostListItem where
  "zeroItem = \<lparr>li_Name = [], Active_mark = [], ActiveHost = False, li_DriverName = [], li_State = StNone, li_URL = [],
     li_EngineOptions = None, li_Error = [], ResponseTime = 0\<rparr>"

record filterOptions =
  fo_DriverName :: "string list"
  fo_State :: "string list"
  fo_Name :: "string list"
  fo_Labels :: "string list"

text \<open>What a template is executed on.\<close>

datatype lsRow = HeaderRow | ItemRow hostListItem

text \<open>
  \<open>le_regexp\<close> is \<open>regexp.Compile\<close> with \<open>MatchString\<close>, \<open>le_template\<close> parses a template and yields its rendering, \<open>le_align\<close>
  lays out the cells that went through the \<open>tabwriter\<close>, \<open>naturalSort\<close> is \<open>sort.Sort\<close> with the order of the package
  \<open>naturalsort\<close>, \<open>le_late\<close> says whether the timer of a machine fires before its answer, \<open>le_elapsed\<close> is the time between two
  worlds in milliseconds, and \<open>le_delivery\<close> the order in which the items arrive at the collecting loop.
\<close>

record 'w ls_env =
  le_regexp :: "string \<Rightarrow> gerror + (string \<Rightarrow> bool)"
  le_template :: "string \<Rightarrow> gerror + (lsRow \<Rightarrow> gerror + string)"
  le_align :: "string list \<Rightarrow> string"
  naturalSort :: "string list \<Rightarrow> string list"
  le_late :: "'w host \<Rightarrow> 'w \<Rightarrow> bool"
  le_elapsed :: "'w \<Rightarrow> 'w \<Rightarrow> int"
  le_delivery :: "hostListItem list \<Rightarrow> hostListItem list"

definition lsDefaultFormat :: string where
  "lsDefaultFormat = ''table {{ .Name }}'' @ [CHR 0x09] @ ''{{ .Active }}'' @ [CHR 0x09] @ ''{{ .DriverName}}'' @ [CHR 0x09] @
     ''{{ .State }}'' @ [CHR 0x09] @ ''{{ .URL }}'' @ [CHR 0x09] @ ''{{ .Error}}''"

text \<open>\<open>strings.NewReplacer\<close> with the two escapes: a backslash before \<open>t\<close> or \<open>n\<close> becomes the control character.\<close>

fun unescape :: "string \<Rightarrow> string" where
  "unescape (a # b # s) =
     (if a = CHR 0x5C \<and> b = CHR ''t'' then CHR 0x09 # unescape s
      else if a = CHR 0x5C \<and> b = CHR ''n'' then CHR 0x0A # unescape s
      else a # unescape (b # s))"
| "unescape s = s"

definition parseFormat :: "'w ls_env \<Rightarrow> string \<Rightarrow> gerror + (lsRow \<Rightarrow> gerror + string) \<times> bool" where
  "parseFormat L format =
     (let final = (if format = [] then lsDefaultFormat else format);
          table = HasPrefix final ''table'';
          final' = TrimF (\<lambda>x. x = CHR '' '') (if table then drop (length ''table'') final else final)
      in case le_template L (unescape final' @ nl) of
           Inl e \<Rightarrow> Inl e
         | Inr t \<Rightarrow> Inr (t, table))"

fun addFilter :: "filterOptions \<Rightarrow> string list \<Rightarrow> gerror + filterOptions" where
  "addFilter opts [k, value] =
     (let key = ToLower k
      in if key = ''driver'' then Inr (opts\<lparr>fo_DriverName := fo_DriverName opts @ [value]\<rparr>)
         else if key = ''state'' then Inr (opts\<lparr>fo_State := fo_State opts @ [value]\<rparr>)
         else if key = ''name'' then Inr (opts\<lparr>fo_Name := fo_Name opts @ [value]\<rparr>)
         else if key = ''label'' then Inr (opts\<lparr>fo_Labels := fo_Labels opts @ [value]\<rparr>)
         else Inl (ErrorString (''Unsupported filter key '' @ [CHR 0x27] @ key @ [CHR 0x27])))"
| "addFilter opts kv = Inl (ErrorString ''Unsupported filter syntax'')"

fun parseFiltersFrom :: "filterOptions \<Rightarrow> string list \<Rightarrow> gerror + filterOptions" where
  "parseFiltersFrom opts [] = Inr opts"
| "parseFiltersFrom opts (x # xs) =
     (case addFilter opts (SplitN2 x ''='') of Inl e \<Rightarrow> Inl e | Inr opts' \<Rightarrow> parseFiltersFrom opts' xs)"

definition noFilters :: filterOptions where
  "noFilters = \<lparr>fo_DriverName = [], fo_State = [], fo_Name = [], fo_Labels = []\<rparr>"

definition parseFilters :: "string list \<Rightarrow> gerror + filterOptions" where
  "parseFilters filters = parseFiltersFrom noFilters filters"

section \<open>Matching\<close>

definition matchesDriverName :: "'w host \<Rightarrow> string list \<Rightarrow> bool" where
  "matchesDriverName h driverNames \<longleftrightarrow> driverNames = [] \<or> (\<exists>n \<in> set driverNames. EqualFold (h_DriverName h) n)"

text \<open>The state is asked for once per wanted state, until one matches; an error of \<open>GetState\<close> is logged only.\<close>

fun stateLoop :: "('w, 'c) host_env \<Rightarrow> 'w host \<Rightarrow> string list \<Rightarrow> ('w, bool) io" where
  "stateLoop H h [] = ret False"
| "stateLoop H h (n # ns) =
     bindP (driverOf H h) (\<lambda>d.
     bindP (GetState d) (\<lambda>(s, err). if EqualFold n (State_String s) then ret True else stateLoop H h ns))"

definition matchesState :: "('w, 'c) host_env \<Rightarrow> 'w host \<Rightarrow> string list \<Rightarrow> ('w, bool) io" where
  "matchesState H h wanted = (if wanted = [] then ret True else stateLoop H h wanted)"

text \<open>A bad expression ends the process with the exit code of an error.\<close>

fun nameLoop :: "'w ls_env \<Rightarrow> ('w, 'c) host_env \<Rightarrow> 'w host \<Rightarrow> string list \<Rightarrow> ('w, bool) io" where
  "nameLoop L H h [] = ret False"
| "nameLoop L H h (n # ns) =
     bindP (liftSum (le_regexp L n)) (\<lambda>matches.
     bindP (driverOf H h) (\<lambda>d.
     bindP (GetMachineName d) (\<lambda>m. if matches m then ret True else nameLoop L H h ns)))"

definition matchesName :: "'w ls_env \<Rightarrow> ('w, 'c) host_env \<Rightarrow> 'w host \<Rightarrow> string list \<Rightarrow> ('w, bool) io" where
  "matchesName L H h names = (if names = [] then ret True else nameLoop L H h names)"

definition indexRange :: string where
  "indexRange = ''runtime error: index out of range''"

text \<open>\<open>kv[0]\<close> and \<open>kv[1]\<close> of a label; there is no \<open>kv[1]\<close> without an equals sign.\<close>

fun labelMap :: "string list \<Rightarrow> (string \<times> string) list \<Rightarrow> ('w, (string \<times> string) list) io" where
  "labelMap [] m = ret m"
| "labelMap (s # ss) m = (case SplitN2 s ''='' of
       [k, v] \<Rightarrow> labelMap ss (AList.update k v m)
     | _ \<Rightarrow> panic indexRange)"

fun labelLoop :: "(string \<times> string) list \<Rightarrow> string list \<Rightarrow> ('w, bool) io" where
  "labelLoop m [] = ret False"
| "labelLoop m (l # ls) = (case SplitN2 l ''='' of
       [k] \<Rightarrow> (case map_of m k of None \<Rightarrow> labelLoop m ls | Some val \<Rightarrow> panic indexRange)
     | k # v # _ \<Rightarrow> (case map_of m k of None \<Rightarrow> labelLoop m ls
                    | Some val \<Rightarrow> if EqualFold val v then ret True else labelLoop m ls)
     | [] \<Rightarrow> panic indexRange)"

text \<open>The options of the host are dereferenced before the check for nil.\<close>

definition matchesLabel :: "'w host \<Rightarrow> string list \<Rightarrow> ('w, bool) io" where
  "matchesLabel h labels =
     (if labels = [] then ret True
      else case Option.bind (h_HostOptions h) ho_EngineOptions of
             None \<Rightarrow> panic nilDeref
           | Some eng \<Rightarrow> bindP (labelMap (Labels eng) []) (\<lambda>m. labelLoop m labels))"

definition filterHost :: "'w ls_env \<Rightarrow> ('w, 'c) host_env \<Rightarrow> 'w host \<Rightarrow> filterOptions \<Rightarrow> ('w, bool) io" where
  "filterHost L H h f =
     bindP (matchesState H h (fo_State f)) (\<lambda>stateMatches.
     bindP (matchesName L H h (fo_Name f)) (\<lambda>nameMatches.
     bindP (matchesLabel h (fo_Labels f)) (\<lambda>labelMatches.
     ret (matchesDriverName h (fo_DriverName f) \<and> stateMatches \<and> nameMatches \<and> labelMatches))))"

fun filterLoop :: "'w ls_env \<Rightarrow> ('w, 'c) host_env \<Rightarrow> 'w host list \<Rightarrow> filterOptions \<Rightarrow> ('w, 'w host list) io" where
  "filterLoop L H [] f = ret []"
| "filterLoop L H (h # hs) f =
     bindP (filterHost L H h f) (\<lambda>keep.
     bindP (filterLoop L H hs f) (\<lambda>rest. ret (if keep then h # rest else rest)))"

definition filterHosts :: "'w ls_env \<Rightarrow> ('w, 'c) host_env \<Rightarrow> 'w host list \<Rightarrow> filterOptions \<Rightarrow> ('w, 'w host list) io" where
  "filterHosts L H hosts f =
     (if fo_DriverName f = [] \<and> fo_State f = [] \<and> fo_Name f = [] \<and> fo_Labels f = [] then ret hosts
      else filterLoop L H hosts f)"

section \<open>Asking for the states\<close>

definition isActive :: "'v os_world_scheme \<Rightarrow> state \<Rightarrow> string \<Rightarrow> bool" where
  "isActive w currentState hostName \<longleftrightarrow> currentState = Running \<and> hostName = Getenv w ''PODMAN_MACHINE_NAME''"

text \<open>A machine with an URL is taken to be running; the error of a stopped machine is not shown.\<close>

definition attemptGetHostState ::
  "'v os_world_scheme ls_env \<Rightarrow> ('v os_world_scheme, 'c) host_env \<Rightarrow> 'v os_world_scheme host \<Rightarrow> ('v os_world_scheme, hostListItem) io" where
  "attemptGetHostState L H h =
     bindP getW (\<lambda>begin.
     bindP (driverOf H h) (\<lambda>d.
     bindP (GetURL d) (\<lambda>(url, urlErr).
     bindP (case urlErr of
              None \<Rightarrow> if url \<noteq> [] then ret (Running, None) else GetState d
            | Some e \<Rightarrow> bindP (GetState d) (\<lambda>(s, _). ret (s, Some e))) (\<lambda>(currentState, err).
     bindP getW (\<lambda>w.
     bindP (DriverName d) (\<lambda>dn.
     let hostError = (case err of None \<Rightarrow> [] | Some e \<Rightarrow> Error e);
         activeHost = isActive w currentState (h_Name h)
     in bindP getW (\<lambda>now.
        ret \<lparr>li_Name = h_Name h, Active_mark = (if activeHost then ''*'' else ''-''), ActiveHost = activeHost, li_DriverName = dn,
             li_State = currentState, li_URL = url,
             li_EngineOptions = Option.bind (h_HostOptions h) ho_EngineOptions,
             li_Error = (if hostError = Error ErrHostIsNotRunning then [] else hostError),
             ResponseTime = le_elapsed L begin now\<rparr>)))))))"

text \<open>
  The attempt runs in a goroutine; when the timer fires first, or the attempt never answers, the item says so.  Whatever
  the attempt did to the world stays done.  The timeout branch asks the driver for its name.
\<close>

definition getHostState ::
  "'v os_world_scheme ls_env \<Rightarrow> ('v os_world_scheme, 'c) host_env \<Rightarrow> int \<Rightarrow> 'v os_world_scheme host \<Rightarrow>
   ('v os_world_scheme, hostListItem) io" where
  "getHostState L H timeout h = (\<lambda>w.
     case attemptGetHostState L H h w of
       (Panic s, w') \<Rightarrow> (Panic s, w')
     | (r, w') \<Rightarrow>
         (if r = Blocked \<or> le_late L h w
          then bindP (driverOf H h) (\<lambda>d.
               bindP (DriverName d) (\<lambda>dn.
               ret (zeroItem\<lparr>li_Name := h_Name h, li_DriverName := dn, li_State := StTimeout, ResponseTime := 1000 * timeout\<rparr>))) w'
          else (r, w')))"

definition newHostListItemInError :: "string \<Rightarrow> gerror \<Rightarrow> hostListItem" where
  "newHostListItemInError name err =
     zeroItem\<lparr>li_Name := name, li_DriverName := ''not found'', li_State := StError, li_Error := deleteAll (CHR 0x0A) (Error err)\<rparr>"

text \<open>The items go through a map from the lower-case name, in which a later one replaces an earlier one.\<close>

definition sortHostListItemsByName :: "'w ls_env \<Rightarrow> hostListItem list \<Rightarrow> hostListItem list" where
  "sortHostListItemsByName L items =
     (let m = map_of (rev (map (\<lambda>v. (ToLower (li_Name v), v)) items))
      in map (\<lambda>n. case m n of None \<Rightarrow> zeroItem | Some v \<Rightarrow> v) (naturalSort L (map (\<lambda>v. ToLower (li_Name v)) items)))"

fun stateItems :: "('h \<Rightarrow> ('w, 'i) io) \<Rightarrow> 'h list \<Rightarrow> ('w, 'i list) io" where
  "stateItems ask [] = ret []"
| "stateItems ask (h # hs) = bindP (ask h) (\<lambda>item. bindP (stateItems ask hs) (\<lambda>items. ret (item # items)))"

definition getHostListItems ::
  "'v os_world_scheme ls_env \<Rightarrow> ('v os_world_scheme, 'c) cmd_env \<Rightarrow> 'v os_world_scheme host list \<Rightarrow> (string \<times> gerror) list \<Rightarrow> int \<Rightarrow>
   ('v os_world_scheme, hostListItem list) io" where
  "getHostListItems L Z hostList hostsInError timeout =
     bindP (stateItems (getHostState L (ce_host Z) timeout) (schedule Z hostList)) (\<lambda>items.
     ret (sortHostListItemsByName L
            (le_delivery L items @ map (\<lambda>(name, err). newHostListItemInError name err) (errOrder Z hostsInError))))"

section \<open>The commands\<close>

fun renderAll :: "(lsRow \<Rightarrow> gerror + string) \<Rightarrow> lsRow list \<Rightarrow> string list \<Rightarrow> string list \<times> gerror option" where
  "renderAll t [] out = (out, None)"
| "renderAll t (r # rs) out = (case t r of Inl e \<Rightarrow> (out, Some e) | Inr s \<Rightarrow> renderAll t rs (out @ [s]))"

text \<open>The writer of a table is flushed on every way out; the states are asked for after the header is rendered.\<close>

definition cmdLs :: "'v os_world_scheme ls_env \<Rightarrow> ('v os_world_scheme, 'c) cmd_env \<Rightarrow> 'v os_world_scheme commandLine \<Rightarrow>
    'v os_world_scheme api \<Rightarrow> ('v os_world_scheme, unit) io" where
  "cmdLs L Z c api =
     bindP (liftSum (parseFilters (cl_StringSlice c ''filter''))) (\<lambda>filters.
     bindP (LoadAllHosts (api_Load api) (api_List api)) (\<lambda>(loaded, hostInError).
     bindP (filterHosts L (ce_host Z) loaded filters) (\<lambda>hostList.
       if cl_Bool c ''quiet'' then forEach hostList (\<lambda>h. Println (h_Name h))
       else
         bindP (liftSum (parseFormat L (cl_String c ''format''))) (\<lambda>(template, table).
         let header = (if table then renderAll template [HeaderRow] [] else ([], None))
         in case snd header of
              Some e \<Rightarrow> throw e
            | None \<Rightarrow>
                bindP (getHostListItems L Z hostList hostInError (cl_Int c ''timeout'')) (\<lambda>items.
                let rows = renderAll template (map ItemRow items) (fst header)
                in bindP (if table then Println (le_align L (fst rows)) else forEach (fst rows) Println) (\<lambda>_.
                   case snd rows of None \<Rightarrow> ret () | Some e \<Rightarrow> throw e))))))"

definition errNoActiveHost :: gerror where
  "errNoActiveHost = ErrorString ''No active host found''"

definition errActiveTimeout :: gerror where
  "errActiveTimeout = ErrorString ''Error getting active host: timeout''"

fun activeLoop :: "hostListItem list \<Rightarrow> bool \<Rightarrow> gerror + hostListItem" where
  "activeLoop [] timeout = Inl (if timeout then errActiveTimeout else errNoActiveHost)"
| "activeLoop (item # items) timeout =
     (if ActiveHost item then Inr item else activeLoop items (timeout \<or> li_State item = StTimeout))"

definition activeHost :: "hostListItem list \<Rightarrow> gerror + hostListItem" where
  "activeHost items = activeLoop items False"

definition cmdActive :: "'v os_world_scheme ls_env \<Rightarrow> ('v os_world_scheme, 'c) cmd_env \<Rightarrow> 'v os_world_scheme commandLine \<Rightarrow>
    'v os_world_scheme api \<Rightarrow> ('v os_world_scheme, unit) io" where
  "cmdActive L Z c api =
     (if cl_Args c \<noteq> [] then throw ErrTooManyArguments
      else
        bindP (wrapErr (errorf ''Error getting active host: '') (LoadAllHosts (api_Load api) (api_List api))) (\<lambda>(hosts, hostsInError).
        bindP (getHostListItems L Z hosts hostsInError (cl_Int c ''timeout'')) (\<lambda>items.
        bindP (liftSum (activeHost items)) (\<lambda>active. Println (li_Name active)))))"

section \<open>Lemmas\<close>

text \<open>Sorting goes through a map from lower-case names, which loses nothing when they are distinct.\<close>

lemma map_of_rev_distinct:
  "distinct (map f xs) \<Longrightarrow> x \<in> set xs \<Longrightarrow> map_of (rev (map (\<lambda>v. (f v, v)) xs)) (f x) = Some x"
  by (intro map_of_is_SomeI) (auto simp: o_def rev_map [symmetric] distinct_rev)

lemma sortHostListItemsByName_mset:
  assumes "\<And>ns. mset (naturalSort L ns) = mset ns" and "distinct (map (\<lambda>v. ToLower (li_Name v)) items)"
  shows "mset (sortHostListItemsByName L items) = mset items"
proof -
  let ?f = "\<lambda>v. ToLower (li_Name v)" and ?m = "map_of (rev (map (\<lambda>v. (ToLower (li_Name v), v)) items))"
  have "mset (sortHostListItemsByName L items) = image_mset (\<lambda>n. case ?m n of None \<Rightarrow> zeroItem | Some v \<Rightarrow> v) (mset (map ?f items))"
    by (simp add: sortHostListItemsByName_def Let_def assms(1))
  also have "\<dots> = mset (map (\<lambda>v. case ?m (?f v) of None \<Rightarrow> zeroItem | Some v \<Rightarrow> v) items)" by (simp add: image_mset.compositionality o_def)
  also have "map (\<lambda>v. case ?m (?f v) of None \<Rightarrow> zeroItem | Some v \<Rightarrow> v) items = items"
    by (rule map_idI) (simp add: map_of_rev_distinct [OF assms(2)])
  finally show ?thesis .
qed

lemma attemptGetHostState_name: "attemptGetHostState L H h w = (Ok item, w') \<Longrightarrow> li_Name item = h_Name h"
  unfolding attemptGetHostState_def Let_def
  by (auto simp: ret_def elim!: bindP_OkE split: prod.splits)

lemma getHostState_name: "getHostState L H t h w = (Ok item, w') \<Longrightarrow> li_Name item = h_Name h"
  unfolding getHostState_def
  by (auto simp: ret_def elim!: bindP_OkE dest: attemptGetHostState_name split: prod.splits result.splits if_splits)

lemma stateItems_names:
  assumes "\<And>h v item v'. ask h v = (Ok item, v') \<Longrightarrow> g item = f h"
  shows "stateItems ask hs w = (Ok items, w') \<Longrightarrow> map g items = map f hs"
proof (induction hs arbitrary: w items)
  case (Cons h hs)
  then obtain item w1 rest where "ask h w = (Ok item, w1)" "stateItems ask hs w1 = (Ok rest, w')" "items = item # rest"
    by (auto simp: ret_def elim!: bindP_OkE)
  with Cons.IH assms show ?case by auto
qed (simp add: ret_def)

text \<open>Filters on machines whose drivers answer.\<close>

lemma stateLoop_answers:
  assumes "driverOf H h = ret d" and "GetState d = ret (s, err)"
  shows "stateLoop H h ns = ret (\<exists>n \<in> set ns. EqualFold n (State_String s))"
  by (induction ns) (auto simp: assms)

lemma nameLoop_answers:
  assumes "driverOf H h = ret d" and "GetMachineName d = ret m" and "\<forall>n \<in> set ns. le_regexp L n = Inr (re n)"
  shows "nameLoop L H h ns = ret (\<exists>n \<in> set ns. re n m)"
  using assms(3) by (induction ns) (auto simp: assms(1,2) liftSum_def)

lemma filterLoop_pure:
  "(\<And>h. h \<in> set hs \<Longrightarrow> filterHost L H h f = ret (P h)) \<Longrightarrow> filterLoop L H hs f = ret (filter P hs)"
  by (induction hs) auto

text \<open>A demonstration environment: names are sorted as lists of bytes.\<close>

definition demoLs :: "'w ls_env" where
  "demoLs = \<lparr>le_regexp = (\<lambda>p. Inr (\<lambda>s. Contains s p)), le_template = (\<lambda>t. Inr (\<lambda>r. Inr (case r of HeaderRow \<Rightarrow> ''NAME'' | ItemRow i \<Rightarrow> li_Name i))),
     le_align = concat, naturalSort = sort, le_late = (\<lambda>h w. False), le_elapsed = (\<lambda>a b. 0), le_delivery = (\<lambda>items. items)\<rparr>"

section \<open>Properties\<close>

text \<open>C35: \<open>ls\<close> lists every machine once: when it has asked all machines, the items are exactly one per loaded machine and
  one per machine that could not be loaded, provided that no two names differ in case only.\<close>

theorem getHostListItems_complete:
  assumes "permutes Z" and "\<And>es. mset (errOrder Z es) = mset es" and "\<And>items. mset (le_delivery L items) = mset items"
    and "\<And>ns. mset (naturalSort L ns) = mset ns"
    and "distinct (map ToLower (map h_Name hosts @ map fst failed))"
    and "getHostListItems L Z hosts failed timeout w = (Ok items, w')"
  shows "mset (map li_Name items) = mset (map h_Name hosts) + mset (map fst failed)"
proof -
  let ?inErr = "map (\<lambda>(name, err). newHostListItemInError name err) (errOrder Z failed)"
  from assms(6) obtain asked where ask: "stateItems (getHostState L (ce_host Z) timeout) (schedule Z hosts) w = (Ok asked, w')"
    and it: "items = sortHostListItemsByName L (le_delivery L asked @ ?inErr)"
    unfolding getHostListItems_def by (auto simp: ret_def elim: bindP_OkE)
  have "map li_Name asked = map h_Name (schedule Z hosts)" by (rule stateItems_names [OF getHostState_name ask])
  then have a: "mset (map li_Name (le_delivery L asked)) = mset (map h_Name hosts)"
    using assms(1,3) by (metis mset_map permutes_def)
  have e: "mset (map li_Name ?inErr) = mset (map fst failed)"
    by (simp add: assms(2) image_mset.compositionality o_def case_prod_beta newHostListItemInError_def)
  have names: "mset (map li_Name (le_delivery L asked @ ?inErr)) = mset (map h_Name hosts @ map fst failed)"
    using a e by simp
  then have "mset (map ToLower (map li_Name (le_delivery L asked @ ?inErr))) = mset (map ToLower (map h_Name hosts @ map fst failed))"
    by (metis mset_map)
  then have "distinct (map ToLower (map li_Name (le_delivery L asked @ ?inErr)))" using assms(5) mset_eq_imp_distinct_iff by blast
  then have "mset items = mset (le_delivery L asked @ ?inErr)"
    unfolding it by (intro sortHostListItemsByName_mset assms(4)) (simp add: o_def)
  then show ?thesis using names by (metis mset_append mset_map)
qed

theorem getHostListItems_complete_witness:
  "\<exists>items w'. getHostListItems demoLs demoCmdEnv [demoHost (errDriver ''x'')] [(''b'', ErrMachineNotExist)] 10 (plainWorld [] ()) = (Ok items, w') \<and>
     mset (map li_Name items) = {#''m'', ''b''#}"
proof -
  let ?hs = "[demoHost (errDriver ''x'')] :: unit os_world_scheme host list" and ?es = "[(''b'', ErrMachineNotExist)]"
  have "isOk (fst (getHostListItems demoLs demoCmdEnv ?hs ?es 10 (plainWorld [] ())))" by code_simp
  then obtain items w' where run: "getHostListItems demoLs demoCmdEnv ?hs ?es 10 (plainWorld [] ()) = (Ok items, w')"
    by (rule isOkE)
  have d: "distinct (map ToLower (map h_Name ?hs @ map fst ?es))" by code_simp
  have "mset (map li_Name items) = mset (map h_Name ?hs) + mset (map fst ?es)"
    by (rule getHostListItems_complete [OF permutes_demo _ _ _ d run]) (simp_all add: demoCmdEnv_def demoLs_def)
  then show ?thesis using run by (auto simp: demoHost_def newHost_def)
qed

text \<open>a driver call that never returns does not hang \<open>ls\<close> as long as the driver can still say its name: the item of
  the machine reports the timeout.  For a driver behind the serialising wrapper, though, the stuck call still holds the
  lock that the timeout branch needs to ask for the name, so the listing waits for ever.\<close>

theorem getHostState_stuck_driver:
  assumes stuck: "GetURL d v = (Blocked, v')" and name: "DriverName d v' = (Ok dn, v'')"
    and live: "h_Driver h = LiveDriver d" and serial: "h_Driver g = LiveDriver (newSerialDriverWithLock d M)"
    and lock: "\<not> lget M w" "lput M True w = v" "lget M v'"
  shows "getHostState L H t h v = (Ok (zeroItem\<lparr>li_Name := h_Name h, li_DriverName := dn, li_State := StTimeout, ResponseTime := 1000 * t\<rparr>), v'') \<and>
         getHostState L H t g w = (Blocked, v')"
  using assms
  by (simp add: getHostState_def attemptGetHostState_def driverOf_def newSerialDriverWithLock_def withLock_def deferP_def
      bindP_def ret_def getW_def)

text \<open>A world with one mutex, and a driver whose \<open>GetURL\<close> never comes back.\<close>

theorem getHostState_stuck_driver_witness:
  "fst (getHostState demoLs demoHostEnv 10 (demoHost (newSerialDriverWithLock ((errDriver ''x'')\<lparr>GetURL := blocked\<rparr>) moreL)) (plainWorld [] False)) = Blocked"
proof -
  let ?d = "(errDriver ''x'')\<lparr>GetURL := blocked\<rparr> :: bool os_world_scheme driver" and ?v = "plainWorld [] True"
  have "GetURL ?d ?v = (Blocked, ?v)" "DriverName ?d ?v = (Ok ''not-found'', ?v)"
    by (simp_all add: blocked_def errDriver_def ret_def)
  moreover have "h_Driver (demoHost ?d) = LiveDriver ?d"
    "h_Driver (demoHost (newSerialDriverWithLock ?d moreL)) = LiveDriver (newSerialDriverWithLock ?d moreL)"
    by (simp_all add: demoHost_def)
  moreover have "\<not> lget moreL (plainWorld [] False)" "lput moreL True (plainWorld [] False) = ?v" "lget moreL ?v"
    by (simp_all add: moreL_def plainWorld_def)
  ultimately show ?thesis
    using getHostState_stuck_driver [of ?d ?v ?v "''not-found''" ?v "demoHost ?d" "demoHost (newSerialDriverWithLock ?d moreL)" moreL
        "plainWorld [] False" demoLs demoHostEnv 10] by simp
qed

text \<open>The port of an address, without a caller: the part after the last colon.\<close>

definition urlPort :: "string \<Rightarrow> string" where
  "urlPort urlWithPort = last (Split urlWithPort '':'')"

lemma urlPort_hostPort: "CHR '':'' \<notin> set h \<Longrightarrow> CHR '':'' \<notin> set p \<Longrightarrow> urlPort (h @ '':'' @ p) = p"
  by (simp add: urlPort_def Split_single_step Split_single_none)

text \<open>What a set of filters means: every kind of filter that is given must match in at least one of its values.\<close>

definition meetsFilters :: "('w host \<Rightarrow> state) \<Rightarrow> ('w host \<Rightarrow> string) \<Rightarrow> (string \<Rightarrow> string \<Rightarrow> bool) \<Rightarrow> filterOptions \<Rightarrow> 'w host \<Rightarrow> bool" where
  "meetsFilters st nm re f h \<longleftrightarrow>
     (fo_DriverName f = [] \<or> (\<exists>n \<in> set (fo_DriverName f). EqualFold (h_DriverName h) n)) \<and>
     (fo_State f = [] \<or> (\<exists>n \<in> set (fo_State f). EqualFold n (State_String (st h)))) \<and>
     (fo_Name f = [] \<or> (\<exists>n \<in> set (fo_Name f). re n (nm h)))"

text \<open>the filters of \<open>ls\<close> on driver, state and name keep exactly the machines that match at least one value of every
  kind that is given, in their order.\<close>

theorem filterHosts_meets:
  assumes "fo_Labels f = []" and "\<forall>n \<in> set (fo_Name f). le_regexp L n = Inr (re n)"
    and "\<forall>h \<in> set hosts. \<exists>d. driverOf H h = ret d \<and> (\<exists>e. GetState d = ret (st h, e)) \<and> GetMachineName d = ret (nm h)"
  shows "filterHosts L H hosts f = ret (filter (meetsFilters st nm re f) hosts)"
proof -
  have "filterHost L H h f = ret (meetsFilters st nm re f h)" if h: "h \<in> set hosts" for h
  proof -
    from assms(3) h obtain d e where d: "driverOf H h = ret d" "GetState d = ret (st h, e)" "GetMachineName d = ret (nm h)" by blast
    show ?thesis
      using stateLoop_answers [OF d(1,2)] nameLoop_answers [OF d(1,3) assms(2)] assms(1)
      by (simp add: filterHost_def matchesState_def matchesName_def matchesLabel_def matchesDriverName_def meetsFilters_def)
  qed
  then have "filterLoop L H hosts f = ret (filter (meetsFilters st nm re f) hosts)" by (rule filterLoop_pure)
  moreover have "filter (meetsFilters st nm re f) hosts = hosts"
    if "fo_DriverName f = [] \<and> fo_State f = [] \<and> fo_Name f = []"
    using that by (intro filter_True) (simp add: meetsFilters_def)
  ultimately show ?thesis by (simp add: filterHosts_def)
qed

theorem filterHosts_meets_witness:
  "filterHosts demoLs demoHostEnv [demoHost (errDriver ''x''), demoHost (errDriver ''y'')] (noFilters\<lparr>fo_Name := [''y'']\<rparr>) =
     ret [demoHost (errDriver ''y'') :: unit os_world_scheme host]"
proof -
  let ?hs = "[demoHost (errDriver ''x''), demoHost (errDriver ''y'')] :: unit os_world_scheme host list"
  let ?nm = "\<lambda>h :: unit os_world_scheme host. case h_Driver h of LiveDriver d \<Rightarrow> (case fst (GetMachineName d (plainWorld [] ())) of Ok n \<Rightarrow> n | _ \<Rightarrow> []) | _ \<Rightarrow> []"
  have "filterHosts demoLs demoHostEnv ?hs (noFilters\<lparr>fo_Name := [''y'']\<rparr>) =
      ret (filter (meetsFilters (\<lambda>h. StError) ?nm (\<lambda>p s. Contains s p) (noFilters\<lparr>fo_Name := [''y'']\<rparr>)) ?hs)"
  proof (rule filterHosts_meets)
    have n: "?nm (demoHost (errDriver n)) = n" "GetState (errDriver n) = ret (StError, Some (NotLoadable n))"
      "GetMachineName (errDriver n) = ret n" "driverOf demoHostEnv (demoHost (errDriver n)) = ret (errDriver n)" for n
      by (simp_all add: demoHost_def driverOf_def) (simp_all add: errDriver_def valErr_def ret_def)
    show "\<forall>h \<in> set ?hs. \<exists>d. driverOf demoHostEnv h = ret d \<and> (\<exists>e. GetState d = ret (StError, e)) \<and> GetMachineName d = ret (?nm h)"
      using n by fastforce
  qed (simp_all add: noFilters_def demoLs_def)
  also have "filter (meetsFilters (\<lambda>h. StError) ?nm (\<lambda>p s. Contains s p) (noFilters\<lparr>fo_Name := [''y'']\<rparr>)) ?hs = [demoHost (errDriver ''y'')]"
  proof -
    have "?nm (demoHost (errDriver n)) = n" for n by (simp add: demoHost_def errDriver_def ret_def)
    moreover have "\<not> Contains ''x'' ''y''" "Contains ''y'' ''y''" by code_simp+
    ultimately show ?thesis by (simp add: meetsFilters_def noFilters_def)
  qed
  finally show ?thesis .
qed

text \<open>Two machines whose names differ in case only: the last one is listed twice and the other one not at all.\<close>

theorem sort_collapses_case:
  "sortHostListItemsByName demoLs [zeroItem\<lparr>li_Name := ''Box''\<rparr>, zeroItem\<lparr>li_Name := ''box''\<rparr>] =
     [zeroItem\<lparr>li_Name := ''box''\<rparr>, zeroItem\<lparr>li_Name := ''box''\<rparr>]"
  by code_simp

text \<open>\<open>active\<close> reports the first item that is marked active; without one it tells a timeout from a machine that is not
  there.\<close>

theorem activeHost_first:
  "activeHost items = (case find ActiveHost items of Some item \<Rightarrow> Inr item
     | None \<Rightarrow> Inl (if StTimeout \<in> li_State ` set items then errActiveTimeout else errNoActiveHost))"
proof -
  have "activeLoop items b = (case find ActiveHost items of Some item \<Rightarrow> Inr item
     | None \<Rightarrow> Inl (if b \<or> StTimeout \<in> li_State ` set items then errActiveTimeout else errNoActiveHost))" for b
    by (induction items arbitrary: b) auto
  from this [of False] show ?thesis by (simp add: activeHost_def)
qed

end
