(* ===== verification/Env.thy ===== *)
theory Env
  imports Commands "HOL-Library.Word"
begin

text \<open>
  \<open>commands/env.go\<close> and \<open>libmachine/shell\<close>: the commands that set or unset the variables of a Podman client, written for
  the shell of the user.  The two templates of the source are constants; they are written out as the texts they render.
\<close>

section \<open>Detecting the shell\<close>

definition ErrUnknownShell :: gerror where
  "ErrUnknownShell = ErrorString ''Error: Unknown shell''"

definition Detect :: "('v os_world_scheme, string) io" where
  "Detect =
     bindP getW (\<lambda>w. let shell = Getenv w ''SHELL''
       in if shell = []
          then bindP (Println (''The default lines below are for a sh/bash shell, you can specify the shell you'' @ [CHR 0x27] @
                 ''re using, with the --shell flag.'' @ nl)) (\<lambda>_. throw ErrUnknownShell)
          else ret (pathBase shell))"

text \<open>The Windows build asks for the names of the parent processes.  \<open>snapshot\<close> takes the table of the processes; a process is
  searched for by its number as an unsigned 32-bit integer.\<close>

record processEntry32 =
  ProcessID :: "32 word"
  ParentProcessID :: "32 word"
  ExeFile :: string

definition noMoreFiles :: gerror where
  "noMoreFiles = OsErr ''There are no more files.''"

fun findProcess :: "processEntry32 list \<Rightarrow> 32 word \<Rightarrow> gerror + processEntry32" where
  "findProcess [] pid = Inl noMoreFiles"
| "findProcess (e # es) pid = (if ProcessID e = pid then Inr e else findProcess es pid)"

definition getProcessEntry :: "('w, processEntry32 list) io \<Rightarrow> int \<Rightarrow> ('w, processEntry32) io" where
  "getProcessEntry snapshot pid = bindP snapshot (\<lambda>es. liftSum (findProcess es (word_of_int pid)))"

definition getNameAndItsPpid :: "('w, processEntry32 list) io \<Rightarrow> int \<Rightarrow> ('w, string \<times> int) io" where
  "getNameAndItsPpid snapshot pid = bindP (getProcessEntry snapshot pid) (\<lambda>pe. ret (ExeFile pe, uint (ParentProcessID pe)))"

definition shellOfProcess :: "string \<Rightarrow> string option" where
  "shellOfProcess name =
     (if Contains (ToLower name) ''powershell'' then Some ''powershell''
      else if Contains (ToLower name) ''cmd'' then Some ''cmd'' else None)"

definition Detect_windows :: "('v os_world_scheme, processEntry32 list) io \<Rightarrow> int \<Rightarrow> ('v os_world_scheme, string) io" where
  "Detect_windows snapshot ppid =
     bindP getW (\<lambda>w. let shell = Getenv w ''SHELL''
       in if shell = []
          then bindP (getNameAndItsPpid snapshot ppid) (\<lambda>(name, shellppid).
                 case shellOfProcess name of
                   Some s \<Rightarrow> ret s
                 | None \<Rightarrow> bindP (getNameAndItsPpid snapshot shellppid) (\<lambda>(name2, _).
                     case shellOfProcess name2 of
                       Some s \<Rightarrow> ret s
                     | None \<Rightarrow> bindP (Println (''You can further specify your shell with either '' @ [CHR 0x27] @ ''cmd'' @ [CHR 0x27] @ '' or '' @
                          [CHR 0x27] @ ''powershell'' @ [CHR 0x27] @ '' with the --shell flag.'' @ nl)) (\<lambda>_. ret ''cmd'')))
          else if Getenv w ''__fish_bin_dir'' \<noteq> [] then ret ''fish''
          else ret (pathBase shell))"

definition getShell :: "('v os_world_scheme, string) io \<Rightarrow> string \<Rightarrow> ('v os_world_scheme, string) io" where
  "getShell detect userShell = (if userShell \<noteq> [] then ret userShell else detect)"

section \<open>The configuration of a shell\<close>

record shellConfig =
  Prefix :: string
  Delimiter :: string
  Suffix :: string
  PodmanUser :: string
  PodmanHost :: string
  PodmanPort :: int
  IdentityFile :: string
  KnownHosts :: string
  VarlinkBridge :: string
  UsageHint :: string
  sc_MachineName :: string
  NoProxyVar :: string
  NoProxyValue :: string
  ComposePathsVar :: bool

definition zeroShellConfig :: shellConfig where
  "zeroShellConfig = \<lparr>Prefix = [], Delimiter = [], Suffix = [], PodmanUser = [], PodmanHost = [], PodmanPort = 0, IdentityFile = [],
     KnownHosts = [], VarlinkBridge = [], UsageHint = [], sc_MachineName = [], NoProxyVar = [], NoProxyValue = [], ComposePathsVar = False\<rparr>"

text \<open>One variable, and the two templates.\<close>

definition envLine :: "shellConfig \<Rightarrow> string \<Rightarrow> string \<Rightarrow> string" where
  "envLine c var val = Prefix c @ var @ Delimiter c @ val @ Suffix c"

definition envTmpl :: "shellConfig \<Rightarrow> string" where
  "envTmpl c =
     envLine c ''PODMAN_USER'' (PodmanUser c) @ envLine c ''PODMAN_HOST'' (PodmanHost c) @
     envLine c ''PODMAN_PORT'' (Itoa (PodmanPort c)) @ envLine c ''PODMAN_IDENTITY_FILE'' (IdentityFile c) @
     (if KnownHosts c \<noteq> [] then envLine c ''PODMAN_KNOWN_HOSTS'' (KnownHosts c) else envLine c ''PODMAN_IGNORE_HOSTS'' ''true'') @
     envLine c ''PODMAN_MACHINE_NAME'' (sc_MachineName c) @
     (if ComposePathsVar c then envLine c ''COMPOSE_CONVERT_WINDOWS_PATHS'' ''true'' else []) @
     (if NoProxyVar c \<noteq> [] then envLine c (NoProxyVar c) (NoProxyValue c) else []) @ UsageHint c"

definition bridgeTmpl :: "shellConfig \<Rightarrow> string" where
  "bridgeTmpl c = envLine c ''PODMAN_VARLINK_BRIDGE'' (VarlinkBridge c) @ envLine c ''PODMAN_MACHINE_NAME'' (sc_MachineName c) @ UsageHint c"

text \<open>The hint quotes the first argument in place, which nothing reads afterwards.\<close>

definition GenerateUsageHint :: "string \<Rightarrow> string list \<Rightarrow> ('w, string) io" where
  "GenerateUsageHint userShell args =
     (case args of
        [] \<Rightarrow> panic ''runtime error: index out of range''
      | podmanMachinePath # rest \<Rightarrow>
          let first = (if Contains podmanMachinePath '' '' \<or> Contains podmanMachinePath [CHR 0x5C] then dq @ podmanMachinePath @ dq
                       else podmanMachinePath);
              commandLine = Join (first # rest) '' '';
              (cmd, comment) =
                (if userShell = ''fish'' then (''eval ('' @ commandLine @ '')'', ''#'')
                 else if userShell = ''powershell'' then (''& '' @ commandLine @ '' | Invoke-Expression'', ''#'')
                 else if userShell = ''cmd''
                   then ([CHR 0x09] @ ''@FOR /f '' @ dq @ ''tokens=*'' @ dq @ '' %i IN ('' @ [CHR 0x27] @ commandLine @ [CHR 0x27] @ '') DO @%i'', ''REM'')
                 else if userShell = ''emacs''
                   then (''(with-temp-buffer (shell-command '' @ dq @ commandLine @ dq @ '' (current-buffer)) (eval-buffer))'', '';;'')
                 else if userShell = ''tcsh'' then (''eval '' @ [CHR 0x60] @ commandLine @ [CHR 0x60], '':'')
                 else (''eval $('' @ commandLine @ '')'', ''#''))
          in ret (comment @ '' Run this command to configure your shell: '' @ nl @ comment @ '' '' @ cmd @ nl))"

definition findNoProxyFromEnv :: "'v os_world_scheme \<Rightarrow> string \<times> string" where
  "findNoProxyFromEnv w =
     (if Getenv w ''no_proxy'' = [] then (''NO_PROXY'', Getenv w ''NO_PROXY'') else (''no_proxy'', Getenv w ''no_proxy''))"

text \<open>The address is added to the list unless it occurs in it.\<close>

definition addNoProxy :: "string \<Rightarrow> string \<Rightarrow> string" where
  "addNoProxy value ip = (if value = [] then ip else if Contains value ip then value else value @ '','' @ ip)"

definition setSyntax :: "string \<Rightarrow> shellConfig \<Rightarrow> shellConfig" where
  "setSyntax userShell c =
     (if userShell = ''fish'' then c\<lparr>Prefix := ''set -gx '', Suffix := dq @ '';'' @ nl, Delimiter := '' '' @ dq\<rparr>
      else if userShell = ''powershell'' then c\<lparr>Prefix := ''$Env:'', Suffix := dq @ nl, Delimiter := '' = '' @ dq\<rparr>
      else if userShell = ''cmd'' then c\<lparr>Prefix := ''SET '', Suffix := nl, Delimiter := ''=''\<rparr>
      else if userShell = ''tcsh'' then c\<lparr>Prefix := ''setenv '', Suffix := dq @ '';'' @ nl, Delimiter := '' '' @ dq\<rparr>
      else if userShell = ''emacs'' then c\<lparr>Prefix := ''(setenv '' @ dq, Suffix := dq @ '')'' @ nl, Delimiter := dq @ '' '' @ dq\<rparr>
      else c\<lparr>Prefix := ''export '', Suffix := dq @ nl, Delimiter := ''='' @ dq\<rparr>)"

definition unsetSyntax :: "string \<Rightarrow> shellConfig \<Rightarrow> shellConfig" where
  "unsetSyntax userShell c =
     (if userShell = ''fish'' then c\<lparr>Prefix := ''set -e '', Suffix := '';'' @ nl, Delimiter := []\<rparr>
      else if userShell = ''powershell'' then c\<lparr>Prefix := ''Remove-Item Env:'' @ [CHR 0x5C, CHR 0x5C], Suffix := nl, Delimiter := []\<rparr>
      else if userShell = ''cmd'' then c\<lparr>Prefix := ''SET '', Suffix := nl, Delimiter := ''=''\<rparr>
      else if userShell = ''emacs'' then c\<lparr>Prefix := ''(setenv '' @ dq, Suffix := '')'' @ nl, Delimiter := dq @ '' nil''\<rparr>
      else if userShell = ''tcsh'' then c\<lparr>Prefix := ''unsetenv '', Suffix := '';'' @ nl, Delimiter := []\<rparr>
      else c\<lparr>Prefix := ''unset '', Suffix := nl, Delimiter := []\<rparr>)"

section \<open>The command\<close>

text \<open>With an address the user is always root.\<close>

definition sshShellCfg :: "'w host \<Rightarrow> 'w driver \<Rightarrow> string \<Rightarrow> ('w, shellConfig) io" where
  "sshShellCfg h d hint =
     bindP (GetSSHUsername d) (\<lambda>user.
     bindP (orErr (GetSSHHostname d)) (\<lambda>addr.
     bindP (orErr (GetSSHPort d)) (\<lambda>port.
     bindP (GetSSHKeyPath d) (\<lambda>key.
     ret (zeroShellConfig\<lparr>PodmanUser := (if addr \<noteq> [] then ''root'' else user), PodmanHost := addr, PodmanPort := port,
            IdentityFile := key, UsageHint := hint, sc_MachineName := h_Name h\<rparr>)))))"

definition bridgeShellCfg ::
  "('v os_world_scheme, 'c) host_env \<Rightarrow> 'v os_world_scheme host \<Rightarrow> string \<Rightarrow> ('v os_world_scheme, shellConfig) io" where
  "bridgeShellCfg H h hint =
     bindP (host_CreateExternalSSHClient H h) (\<lambda>client.
     let command = [BinaryPath client] @ BaseArgs client @ [''--'', ''sudo'', ''varlink'', ''-A'',
           [CHR 0x5C, CHR 0x27] @ ''podman varlink '' @ [CHR 0x5C, CHR 0x5C, CHR 0x5C] @ ''$VARLINK_ADDRESS'' @ [CHR 0x5C, CHR 0x27], ''bridge'']
     in ret (zeroShellConfig\<lparr>VarlinkBridge := Join command '' '', UsageHint := hint, sc_MachineName := h_Name h\<rparr>))"

definition withNoProxy ::
  "('v os_world_scheme, 'c) host_env \<Rightarrow> 'v os_world_scheme host \<Rightarrow> shellConfig \<Rightarrow> ('v os_world_scheme, shellConfig) io" where
  "withNoProxy H h cfg =
     bindP (driverOf H h) (\<lambda>d.
     bindP (wrapErr (errorf ''Error getting host IP: '') (orErr (GetIP d))) (\<lambda>ip.
     bindP getW (\<lambda>w. let (noProxyVar, noProxyValue) = findNoProxyFromEnv w
       in ret (cfg\<lparr>NoProxyVar := noProxyVar, NoProxyValue := addNoProxy noProxyValue ip\<rparr>))))"

definition shellCfgSet ::
  "('v os_world_scheme, string) io \<Rightarrow> ('v os_world_scheme, 'c) cmd_env \<Rightarrow> 'v os_world_scheme commandLine \<Rightarrow> 'v os_world_scheme api \<Rightarrow>
   ('v os_world_scheme, shellConfig) io" where
  "shellCfgSet detect Z c api =
     (if length (cl_Args c) > 1 then throw ErrExpectedOneMachine
      else
        bindP (loadTarget c api) (\<lambda>h.
        bindP (getShell detect (cl_String c ''shell'')) (\<lambda>userShell.
        bindP (GenerateUsageHint userShell (osArgs Z)) (\<lambda>hint.
        bindP (case h_Driver h of
                 NilDriver \<Rightarrow> ret (zeroShellConfig\<lparr>UsageHint := hint, sc_MachineName := h_Name h\<rparr>)
               | _ \<Rightarrow> if \<not> cl_Bool c ''varlink'' then bindP (driverOf (ce_host Z) h) (\<lambda>d. sshShellCfg h d hint)
                     else bridgeShellCfg (ce_host Z) h hint) (\<lambda>cfg.
        bindP (if cl_Bool c ''no-proxy'' then withNoProxy (ce_host Z) h cfg else ret cfg) (\<lambda>cfg'.
        ret (setSyntax userShell
               (if goos (pe_ssh (he_prov (ce_host Z))) = ''windows'' then cfg'\<lparr>ComposePathsVar := True\<rparr> else cfg'))))))))"

definition errImproperUnsetEnvArgs :: gerror where
  "errImproperUnsetEnvArgs = ErrorString ''Error: Expected no machine name when the -u flag is present''"

definition shellCfgUnset ::
  "('v os_world_scheme, string) io \<Rightarrow> ('v os_world_scheme, 'c) cmd_env \<Rightarrow> 'v os_world_scheme commandLine \<Rightarrow>
   ('v os_world_scheme, shellConfig) io" where
  "shellCfgUnset detect Z c =
     (if cl_Args c \<noteq> [] then throw errImproperUnsetEnvArgs
      else
        bindP (getShell detect (cl_String c ''shell'')) (\<lambda>userShell.
        bindP (GenerateUsageHint userShell (osArgs Z)) (\<lambda>hint.
        bindP getW (\<lambda>w.
        let cfg = zeroShellConfig\<lparr>UsageHint := hint\<rparr>;
            cfg' = (if cl_Bool c ''no-proxy''
                    then cfg\<lparr>NoProxyVar := fst (findNoProxyFromEnv w), NoProxyValue := snd (findNoProxyFromEnv w)\<rparr> else cfg)
        in ret (unsetSyntax userShell cfg')))))"

definition cmdEnv ::
  "('v os_world_scheme, string) io \<Rightarrow> ('v os_world_scheme, 'c) cmd_env \<Rightarrow> 'v os_world_scheme commandLine \<Rightarrow> 'v os_world_scheme api \<Rightarrow>
   ('v os_world_scheme, unit) io" where
  "cmdEnv detect Z c api =
     bindP (if cl_Bool c ''unset'' then shellCfgUnset detect Z c else shellCfgSet detect Z c api) (\<lambda>shellCfg.
     Println (if cl_Bool c ''varlink'' then bridgeTmpl shellCfg else envTmpl shellCfg))"

section \<open>What the shell makes of it\<close>

text \<open>
  The lines of a Bourne shell that set and unset variables; every other line (a comment, an empty line) changes no
  variable.  A value between double quotes means itself when it has no character that is special there.
\<close>

definition shPlain :: "string \<Rightarrow> bool" where
  "shPlain v \<longleftrightarrow> (\<forall>c \<in> set v. c \<notin> {CHR 0x0A, CHR 0x22, CHR ''$'', CHR 0x60, CHR 0x5C})"

definition shName :: "string \<Rightarrow> bool" where
  "shName v \<longleftrightarrow> v \<noteq> [] \<and> (\<forall>c \<in> set v. isAlnum c \<or> c = CHR ''_'')"

definition shLine :: "string \<Rightarrow> (string \<rightharpoonup> string) \<Rightarrow> (string \<rightharpoonup> string)" where
  "shLine l m =
     (if HasPrefix l ''export ''
      then (case cutAt (''='' @ dq) (drop 7 l) of
              Some (v, rest) \<Rightarrow> if rest \<noteq> [] \<and> last rest = CHR 0x22 then m(v \<mapsto> butlast rest) else m
            | None \<Rightarrow> m)
      else if HasPrefix l ''unset '' then m(drop 6 l := None)
      else m)"

definition shEval :: "string \<Rightarrow> (string \<rightharpoonup> string) \<Rightarrow> (string \<rightharpoonup> string)" where
  "shEval text m = fold shLine (Split text nl) m"

definition bourne :: "string \<Rightarrow> bool" where
  "bourne sh \<longleftrightarrow> sh \<notin> {''fish'', ''powershell'', ''cmd'', ''tcsh'', ''emacs''}"

text \<open>The variables a template mentions, in order.\<close>

definition envVars :: "shellConfig \<Rightarrow> (string \<times> string) list" where
  "envVars c = [(''PODMAN_USER'', PodmanUser c), (''PODMAN_HOST'', PodmanHost c), (''PODMAN_PORT'', Itoa (PodmanPort c)),
       (''PODMAN_IDENTITY_FILE'', IdentityFile c),
       if KnownHosts c \<noteq> [] then (''PODMAN_KNOWN_HOSTS'', KnownHosts c) else (''PODMAN_IGNORE_HOSTS'', ''true''),
       (''PODMAN_MACHINE_NAME'', sc_MachineName c)] @
     (if ComposePathsVar c then [(''COMPOSE_CONVERT_WINDOWS_PATHS'', ''true'')] else []) @
     (if NoProxyVar c \<noteq> [] then [(NoProxyVar c, NoProxyValue c)] else [])"

lemma envTmpl_lines: "envTmpl c = concat (map (\<lambda>(v, x). envLine c v x) (envVars c)) @ UsageHint c"
  by (simp add: envTmpl_def envVars_def)

lemma shEval_step: "CHR 0x0A \<notin> set l \<Longrightarrow> shEval (l @ nl @ rest) m = shEval rest (shLine l m)"
  by (simp add: shEval_def Split_single_step)

lemma shName_no_newline: "shName v \<Longrightarrow> CHR 0x0A \<notin> set v"
  by (auto simp: shName_def isAlnum_def less_eq_char_def)

lemma shName_no_equals: "shName v \<Longrightarrow> CHR ''='' \<notin> set v"
  by (auto simp: shName_def isAlnum_def less_eq_char_def)

lemma cutAt_append_sep: "a \<notin> set v \<Longrightarrow> cutAt (a # s) (v @ (a # s) @ r) = Some (v, r)"
  by (induction v) (auto simp: HasPrefix_def)

lemma shLine_export: "shName v \<Longrightarrow> shLine (''export '' @ v @ ''='' @ dq @ x @ dq) m = m(v \<mapsto> x)"
  using cutAt_append_sep [of "CHR ''=''" v dq "x @ dq"] shName_no_equals
  by (simp add: shLine_def HasPrefix_def)

lemma shLine_unset: "shLine (''unset '' @ v) m = m(v := None)"
  by (simp add: shLine_def HasPrefix_def)

lemma shEval_exports:
  assumes "\<forall>(v, x) \<in> set vs. shName v \<and> shPlain x"
  shows "shEval (concat (map (\<lambda>(v, x). ''export '' @ v @ ''='' @ dq @ x @ dq @ nl) vs) @ rest) m =
         shEval rest (fold (\<lambda>(v, x) m. m(v \<mapsto> x)) vs m)"
  using assms
proof (induction vs arbitrary: m)
  case (Cons p vs)
  obtain v x where p: "p = (v, x)" by force
  with Cons.prems have vx: "shName v" "shPlain x" by auto
  let ?l = "''export '' @ v @ ''='' @ dq @ x @ dq"
  have "CHR 0x0A \<notin> set ?l" using vx shName_no_newline by (auto simp: shPlain_def)
  note step = shEval_step [OF this]
  let ?f = "\<lambda>(v, x). ''export '' @ v @ ''='' @ dq @ x @ dq @ nl"
  have "concat (map ?f (p # vs)) @ rest = ?l @ nl @ (concat (map ?f vs) @ rest)" by (simp add: p)
  then have "shEval (concat (map ?f (p # vs)) @ rest) m = shEval (concat (map ?f vs) @ rest) (m(v \<mapsto> x))"
    by (simp only: step shLine_export [OF vx(1)])
  also have "\<dots> = shEval rest (fold (\<lambda>(v, x) m. m(v \<mapsto> x)) vs (m(v \<mapsto> x)))"
    using Cons.prems by (intro Cons.IH) simp
  finally show ?case by (simp only: p fold.simps case_prod_conv o_apply)
qed simp

lemma Join_no_char: "\<forall>x \<in> set xs. c \<notin> set x \<Longrightarrow> c \<notin> set sep \<Longrightarrow> c \<notin> set (Join xs sep)"
  by (induction xs sep rule: Join.induct) auto

lemma GenerateUsageHint_inert:
  assumes "bourne sh" and "GenerateUsageHint sh args w = (Ok hint, w')" and "\<forall>a \<in> set args. CHR 0x0A \<notin> set a"
  shows "shEval hint m = m"
proof -
  obtain cl where h: "hint = ''# Run this command to configure your shell: '' @ nl @ (''# eval $('' @ cl @ '')'') @ nl @ []"
    and cl: "CHR 0x0A \<notin> set cl"
  proof -
    obtain p rest where a: "args = p # rest" using assms(2) by (cases args) (auto simp: GenerateUsageHint_def panic_def)
    have "CHR 0x0A \<notin> set (Join (x # rest) '' '')" if "CHR 0x0A \<notin> set x" for x
      using assms(3) a that by (intro Join_no_char) auto
    then show thesis
      using that assms by (auto simp: GenerateUsageHint_def bourne_def a Let_def ret_def split: if_splits)
  qed
  have e: "shEval [] m = m" by (simp add: shEval_def Split_single_none shLine_def HasPrefix_def)
  have c: "shLine (CHR ''#'' # s) m = m" for s by (simp add: shLine_def HasPrefix_def)
  show ?thesis
    unfolding h by (subst shEval_step, simp, subst shEval_step) (use cl in \<open>simp_all add: c e\<close>)
qed

lemma setSyntax_bourne:
  "bourne sh \<Longrightarrow> envLine (setSyntax sh c) v x = ''export '' @ v @ ''='' @ dq @ x @ dq @ nl"
  by (simp add: bourne_def setSyntax_def envLine_def)

lemma unsetSyntax_bourne: "bourne sh \<Longrightarrow> envLine (unsetSyntax sh c) v x = ''unset '' @ v @ x @ nl"
  by (simp add: bourne_def unsetSyntax_def envLine_def)

lemma syntax_keeps_vars [simp]:
  "envVars (setSyntax sh c) = envVars c" "envVars (unsetSyntax sh c) = envVars c"
  "UsageHint (setSyntax sh c) = UsageHint c" "UsageHint (unsetSyntax sh c) = UsageHint c"
  by (simp_all add: setSyntax_def unsetSyntax_def envVars_def)

lemma shEval_unsets:
  assumes "\<forall>(v, x) \<in> set vs. CHR 0x0A \<notin> set v \<and> CHR 0x0A \<notin> set x"
  shows "shEval (concat (map (\<lambda>(v, x). ''unset '' @ v @ x @ nl) vs) @ rest) m =
         shEval rest (fold (\<lambda>(v, x) m. m(v @ x := None)) vs m)"
  using assms
proof (induction vs arbitrary: m)
  case (Cons p vs)
  obtain v x where p: "p = (v, x)" by force
  let ?l = "''unset '' @ (v @ x)" and ?f = "\<lambda>(v, x). ''unset '' @ v @ x @ nl"
  have "CHR 0x0A \<notin> set ?l" using Cons.prems p by auto
  note step = shEval_step [OF this]
  have "concat (map ?f (p # vs)) @ rest = ?l @ nl @ (concat (map ?f vs) @ rest)" by (simp add: p)
  then have "shEval (concat (map ?f (p # vs)) @ rest) m = shEval (concat (map ?f vs) @ rest) (m(v @ x := None))"
    by (simp only: step shLine_unset)
  also have "\<dots> = shEval rest (fold (\<lambda>(v, x) m. m(v @ x := None)) vs (m(v @ x := None)))"
    using Cons.prems by (intro Cons.IH) simp
  finally show ?case by (simp only: p fold.simps case_prod_conv o_apply)
qed simp

text \<open>Adding an address twice is adding it once.\<close>

lemma addNoProxy_idem: "addNoProxy (addNoProxy v ip) ip = addNoProxy v ip"
proof -
  have "Contains (v @ '','' @ ip) ip" "Contains ip ip"
    unfolding Contains_iff by (metis append.right_neutral append_assoc) (metis append.right_neutral append_Nil)
  then show ?thesis by (auto simp: addNoProxy_def)
qed

section \<open>Properties\<close>

text \<open>C36: evaluating what \<open>env\<close> prints for a Bourne shell gives every variable of the machine its value and changes no
  other, when no value has a character that is special between double quotes.\<close>

theorem env_sets_variables:
  assumes "bourne sh" and "GenerateUsageHint sh args w = (Ok (UsageHint c), w')" and "\<forall>a \<in> set args. CHR 0x0A \<notin> set a"
    and "\<forall>(v, x) \<in> set (envVars c). shName v \<and> shPlain x"
  shows "shEval (envTmpl (setSyntax sh c)) m = fold (\<lambda>(v, x) m. m(v \<mapsto> x)) (envVars c) m"
  using shEval_exports [OF assms(4), of "UsageHint c" m] GenerateUsageHint_inert [OF assms(1-3)]
  by (simp add: envTmpl_lines setSyntax_bourne [OF assms(1)])

theorem env_sets_variables_witness:
  "shEval (envTmpl (setSyntax ''bash'' (zeroShellConfig\<lparr>PodmanUser := ''root'', PodmanHost := ''1.2.3.4'', PodmanPort := 22, sc_MachineName := ''box'',
      UsageHint := ''# Run this command to configure your shell: '' @ nl @ ''# eval $(machine env)'' @ nl\<rparr>))) Map.empty ''PODMAN_PORT'' = Some ''22''"
proof -
  let ?c = "zeroShellConfig\<lparr>PodmanUser := ''root'', PodmanHost := ''1.2.3.4'', PodmanPort := 22, sc_MachineName := ''box'',
      UsageHint := ''# Run this command to configure your shell: '' @ nl @ ''# eval $(machine env)'' @ nl\<rparr>"
  have h: "GenerateUsageHint ''bash'' [''machine'', ''env''] () = (Ok (UsageHint ?c), ())" by code_simp
  have b: "bourne ''bash''" by code_simp
  have v: "\<forall>(v, x) \<in> set (envVars ?c). shName v \<and> shPlain x" by code_simp
  have i: "Itoa 22 = ''22''" by code_simp
  have "shEval (envTmpl (setSyntax ''bash'' ?c)) Map.empty = fold (\<lambda>(v, x) m. m(v \<mapsto> x)) (envVars ?c) Map.empty"
    by (rule env_sets_variables [OF b h _ v]) simp
  then show ?thesis by (simp add: envVars_def i zeroShellConfig_def)
qed

text \<open>\<open>env --unset\<close> for a Bourne shell does not undo \<open>env\<close>: the template prints the values also where only names belong,
  so that the variable of the port and the one that tells to ignore host keys keep their values.\<close>

theorem env_unset_keeps_port:
  assumes "bourne sh" and "GenerateUsageHint sh args w = (Ok (UsageHint c), w')" and "\<forall>a \<in> set args. CHR 0x0A \<notin> set a"
    and "c = zeroShellConfig\<lparr>UsageHint := UsageHint c\<rparr>"
  shows "shEval (envTmpl (unsetSyntax sh c)) m =
     m(''PODMAN_USER'' := None, ''PODMAN_HOST'' := None, ''PODMAN_PORT0'' := None, ''PODMAN_IDENTITY_FILE'' := None,
       ''PODMAN_IGNORE_HOSTStrue'' := None, ''PODMAN_MACHINE_NAME'' := None)"
proof -
  have "Itoa 0 = ''0''" by code_simp
  then have vs: "envVars c = [(''PODMAN_USER'', []), (''PODMAN_HOST'', []), (''PODMAN_PORT'', ''0''), (''PODMAN_IDENTITY_FILE'', []),
      (''PODMAN_IGNORE_HOSTS'', ''true''), (''PODMAN_MACHINE_NAME'', [])]"
    by (subst assms(4)) (simp add: envVars_def zeroShellConfig_def)
  have "shEval (envTmpl (unsetSyntax sh c)) m = fold (\<lambda>(v, x) m. m(v @ x := None)) (envVars c) m"
    using shEval_unsets [of "envVars c" "UsageHint c" m] GenerateUsageHint_inert [OF assms(1-3)]
    by (simp add: envTmpl_lines unsetSyntax_bourne [OF assms(1)] vs)
  then show ?thesis by (simp add: vs fun_upd_def fun_eq_iff)
qed

theorem env_unset_keeps_port_witness:
  "shEval (envTmpl (unsetSyntax ''bash'' (zeroShellConfig\<lparr>UsageHint := ''# Run this command to configure your shell: '' @ nl @ ''# eval $(machine)'' @ nl\<rparr>)))
     [''PODMAN_PORT'' \<mapsto> ''22''] ''PODMAN_PORT'' = Some ''22''"
proof -
  let ?c = "zeroShellConfig\<lparr>UsageHint := ''# Run this command to configure your shell: '' @ nl @ ''# eval $(machine)'' @ nl\<rparr>"
  have h: "GenerateUsageHint ''bash'' [''machine''] () = (Ok (UsageHint ?c), ())" by code_simp
  have b: "bourne ''bash''" by code_simp
  have "shEval (envTmpl (unsetSyntax ''bash'' ?c)) [''PODMAN_PORT'' \<mapsto> ''22''] = [''PODMAN_PORT'' \<mapsto> ''22''](''PODMAN_USER'' := None, ''PODMAN_HOST'' := None,
     ''PODMAN_PORT0'' := None, ''PODMAN_IDENTITY_FILE'' := None, ''PODMAN_IGNORE_HOSTStrue'' := None, ''PODMAN_MACHINE_NAME'' := None)"
    by (rule env_unset_keeps_port [OF b h]) simp_all
  then show ?thesis by simp
qed

end
