(* ===== verification/Scp.thy ===== *)
theory Scp
  imports Commands
begin

text \<open>
  \<open>commands/scp.go\<close> and \<open>commands/mount.go\<close>: the command lines of \<open>scp\<close>, \<open>rsync\<close> and \<open>sshfs\<close> for paths on machines.
  A path has the form \<open>user@machine:path\<close>, in which user and machine may be missing.
\<close>

section \<open>Locations\<close>

definition errWrongNumberArguments :: gerror where
  "errWrongNumberArguments = ErrorString ''Improper number of arguments''"

definition scp_baseSSHArgs :: "string list" where
  "scp_baseSSHArgs = [''-o'', ''StrictHostKeyChecking=no'', ''-o'', ''UserKnownHostsFile=/dev/null'', ''-o'', ''LogLevel=quiet'']"

definition storeHostInfoLoader_load :: "('w, 'c) host_env \<Rightarrow> 'w api \<Rightarrow> string \<Rightarrow> ('w, 'w driver) io" where
  "storeHostInfoLoader_load H api name =
     bindP (wrapErr (errorf ''Error loading host: '') (api_Load api name)) (\<lambda>h. driverOf H h)"

text \<open>The machine of a location (none for a local path), the user if one is given, the path, and the options for it.\<close>

record 'w location =
  loc_host :: "'w driver option"
  loc_user :: string
  loc_path :: string
  loc_opts :: "string list"

text \<open>The error of \<open>GetSSHPort\<close> is kept in the named result of the caller, whose bare \<open>return\<close> returns it; the verb \<open>%q\<close> quotes
  the identity file for \<open>scp\<close> only.\<close>

definition hostOpts :: "(string \<Rightarrow> string) \<Rightarrow> 'w driver \<Rightarrow> ('w, string list \<times> gerror option) io" where
  "hostOpts q d =
     bindP (GetSSHPort d) (\<lambda>(port, err).
     bindP (GetSSHKeyPath d) (\<lambda>k.
     bindP (if k = [] then ret [] else bindP (GetSSHKeyPath d) (\<lambda>key. ret [''-o'', ''IdentityFile='' @ q key])) (\<lambda>keyArgs.
     ret ((if err = None \<and> port > 0 then [''-o'', ''Port='' @ Itoa port] else []) @ keyArgs, err))))"

definition getInfoForScpArg :: "(string \<Rightarrow> ('w, 'w driver) io) \<Rightarrow> string \<Rightarrow> ('w, 'w location) io" where
  "getInfoForScpArg load hostAndPath =
     (case cutAt '':'' hostAndPath of
        None \<Rightarrow> ret \<lparr>loc_host = None, loc_user = [], loc_path = hostAndPath, loc_opts = []\<rparr>
      | Some (host, path) \<Rightarrow>
          (let (user, hostName) = (case cutAt ''@'' host of None \<Rightarrow> ([], host) | Some (u, h) \<Rightarrow> (u, h))
           in if hostName = ''localhost'' then ret \<lparr>loc_host = None, loc_user = [], loc_path = path, loc_opts = []\<rparr>
              else bindP (wrapErr (errorf ''Error loading host: '') (load hostName)) (\<lambda>d.
                   bindP (orErr (hostOpts Quote d)) (\<lambda>opts.
                   ret \<lparr>loc_host = Some d, loc_user = user, loc_path = path, loc_opts = opts\<rparr>))))"

definition generateLocationArg :: "'w driver option \<Rightarrow> string \<Rightarrow> string \<Rightarrow> ('w, string) io" where
  "generateLocationArg hostInfo user path =
     (case hostInfo of
        None \<Rightarrow> ret path
      | Some d \<Rightarrow>
          bindP (orErr (GetSSHHostname d)) (\<lambda>hostname.
          bindP (if user = [] then GetSSHUsername d else ret user) (\<lambda>u.
          ret (u @ ''@'' @ hostname @ '':'' @ path))))"

definition missesExplicitSSHKey :: "'w driver option \<Rightarrow> ('w, bool) io" where
  "missesExplicitSSHKey hostInfo =
     (case hostInfo of None \<Rightarrow> ret False | Some d \<Rightarrow> bindP (GetSSHKeyPath d) (\<lambda>k. ret (k = [])))"

section \<open>scp and rsync\<close>

definition scpFlags :: "bool \<Rightarrow> bool \<Rightarrow> bool \<Rightarrow> string list" where
  "scpFlags recursive delta quiet =
     (if delta then [] else [''-3''] @ (if recursive then [''-r''] else []) @ (if quiet then [''-q''] else []))"

text \<open>For \<open>rsync\<close> everything that \<open>ssh\<close> needs goes into one argument.\<close>

definition deltaArgs :: "bool \<Rightarrow> bool \<Rightarrow> bool \<Rightarrow> string list \<Rightarrow> string list" where
  "deltaArgs recursive delta quiet sshArgs =
     (if \<not> delta then sshArgs
      else (if quiet then [] else [''--progress'']) @ [''-e'', ''ssh '' @ Join sshArgs '' ''] @ (if recursive then [''-r''] else []))"

definition getScpCmd ::
  "(string \<Rightarrow> ('w, string) io) \<Rightarrow> (string \<Rightarrow> ('w, 'w driver) io) \<Rightarrow> string \<Rightarrow> string \<Rightarrow> bool \<Rightarrow> bool \<Rightarrow> bool \<Rightarrow> ('w, string \<times> string list) io" where
  "getScpCmd look load src dest recursive delta quiet =
     bindP (if \<not> delta
            then wrapErr (\<lambda>_. ErrorString ''You must have a copy of the scp binary locally to use the scp feature'') (look ''scp'')
            else wrapErr (\<lambda>_. ErrorString ''You must have a copy of the rsync binary locally to use the --delta option'') (look ''rsync'')) (\<lambda>cmdPath.
     bindP (getInfoForScpArg load src) (\<lambda>s.
     bindP (getInfoForScpArg load dest) (\<lambda>t.
     bindP (missesExplicitSSHKey (loc_host s)) (\<lambda>sMisses.
     bindP (if sMisses then ret True else missesExplicitSSHKey (loc_host t)) (\<lambda>misses.
     let sshArgs = scp_baseSSHArgs @ scpFlags recursive delta quiet @ (if \<not> misses then [''-o'', ''IdentitiesOnly=yes''] else []) @
           loc_opts s @ loc_opts t
     in bindP (generateLocationArg (loc_host s) (loc_user s) (loc_path s)) (\<lambda>srcArg.
        bindP (generateLocationArg (loc_host t) (loc_user t) (loc_path t)) (\<lambda>destArg.
        ret (cmdPath, deltaArgs recursive delta quiet sshArgs @ [srcArg, destArg]))))))))"

definition cmdScp :: "('v os_world_scheme, 'c) cmd_env \<Rightarrow> 'v os_world_scheme commandLine \<Rightarrow> 'v os_world_scheme api \<Rightarrow>
    ('v os_world_scheme, unit) io" where
  "cmdScp Z c api =
     (case cl_Args c of
        [src, dest] \<Rightarrow>
          bindP (getScpCmd (lookPath (pe_ssh (he_prov (ce_host Z)))) (storeHostInfoLoader_load (ce_host Z) api) src dest
                   (cl_Bool c ''recursive'') (cl_Bool c ''delta'') (cl_Bool c ''quiet'')) (\<lambda>(cmd, args).
          runStdio (pe_ssh (he_prov (ce_host Z))) cmd args)
      | _ \<Rightarrow> bindP (ShowHelp c) (\<lambda>_. throw errWrongNumberArguments))"

text \<open>On Windows the command line is one string, made of the path and the arguments of the command, whose first is the path again.  \<open>runLine\<close> starts the
  program at a path with a command line.\<close>

definition scpCommandLine :: "string \<Rightarrow> string list \<Rightarrow> string" where
  "scpCommandLine path args = path @ '' '' @ Join (path # args) '' ''"

definition cmdScp_windows :: "(string \<Rightarrow> string \<Rightarrow> ('v os_world_scheme, unit) io) \<Rightarrow> ('v os_world_scheme, 'c) cmd_env \<Rightarrow>
    'v os_world_scheme commandLine \<Rightarrow> 'v os_world_scheme api \<Rightarrow> ('v os_world_scheme, unit) io" where
  "cmdScp_windows runLine Z c api =
     (case cl_Args c of
        [src, dest] \<Rightarrow>
          bindP (getScpCmd (lookPath (pe_ssh (he_prov (ce_host Z)))) (storeHostInfoLoader_load (ce_host Z) api) src dest
                   (cl_Bool c ''recursive'') (cl_Bool c ''delta'') (cl_Bool c ''quiet'')) (\<lambda>(cmd, args).
          runLine cmd (scpCommandLine cmd args))
      | _ \<Rightarrow> bindP (ShowHelp c) (\<lambda>_. throw errWrongNumberArguments))"

section \<open>sshfs\<close>

text \<open>A path without a machine is on the default machine.\<close>

definition getInfoForSshfsArg :: "(string \<Rightarrow> ('w, 'w driver) io) \<Rightarrow> string \<Rightarrow> ('w, 'w driver \<times> 'w location) io" where
  "getInfoForSshfsArg load hostAndPath =
     (let (host, path) = (case cutAt '':'' hostAndPath of None \<Rightarrow> (defaultMachineName, hostAndPath) | Some hp \<Rightarrow> hp);
          (user, hostName) = (case cutAt ''@'' host of None \<Rightarrow> ([], host) | Some (u, h) \<Rightarrow> (u, h))
      in bindP (wrapErr (errorf ''Error loading host: '') (load hostName)) (\<lambda>d.
         bindP (hostOpts (\<lambda>k. k) d) (\<lambda>(opts, err).
         bindP (if user = [] then GetSSHUsername d else ret user) (\<lambda>u.
           case err of
             None \<Rightarrow> ret (d, \<lparr>loc_host = Some d, loc_user = u, loc_path = path, loc_opts = opts\<rparr>)
           | Some e \<Rightarrow> throw e))))"

definition getMountCmd ::
  "(string \<Rightarrow> ('w, string) io) \<Rightarrow> (string \<Rightarrow> ('w, 'w driver) io) \<Rightarrow> string \<Rightarrow> string \<Rightarrow> bool \<Rightarrow> ('w, string \<times> string list) io" where
  "getMountCmd look load src dest unmount =
     bindP (if \<not> unmount
            then wrapErr (\<lambda>_. ErrorString ''You must have a copy of the sshfs binary locally to use the mount feature'') (look ''sshfs'')
            else wrapErr (\<lambda>_. ErrorString ''You must have a copy of the fusermount binary locally to use the unmount option'') (look ''fusermount'')) (\<lambda>cmdPath.
     bindP (getInfoForSshfsArg load src) (\<lambda>(d, s).
     let dest' = (if dest = [] then loc_path s else dest)
     in bindP (GetSSHKeyPath d) (\<lambda>k.
        bindP (generateLocationArg (Some d) (loc_user s) (loc_path s)) (\<lambda>locationArg.
        ret (cmdPath,
             if unmount then [''-u'', dest']
             else scp_baseSSHArgs @ (if k \<noteq> [] then [''-o'', ''IdentitiesOnly=yes''] else []) @ loc_opts s @ [locationArg, dest'])))))"

definition cmdMount :: "('v os_world_scheme, 'c) cmd_env \<Rightarrow> 'v os_world_scheme commandLine \<Rightarrow> 'v os_world_scheme api \<Rightarrow>
    ('v os_world_scheme, unit) io" where
  "cmdMount Z c api =
     (case cl_Args c of
        src # rest \<Rightarrow>
          if length rest \<le> 1
          then bindP (getMountCmd (lookPath (pe_ssh (he_prov (ce_host Z)))) (storeHostInfoLoader_load (ce_host Z) api) src
                       (case rest of [] \<Rightarrow> [] | dest # _ \<Rightarrow> dest) (cl_Bool c ''unmount'')) (\<lambda>(cmd, args).
               runStdio (pe_ssh (he_prov (ce_host Z))) cmd args)
          else bindP (ShowHelp c) (\<lambda>_. throw errWrongNumberArguments)
      | [] \<Rightarrow> bindP (ShowHelp c) (\<lambda>_. throw errWrongNumberArguments))"

section \<open>Lemmas\<close>

text \<open>Read back at the blanks, the command line of Windows has the path of the program twice: the program gets its own path as first argument.\<close>

lemma Split_Join_char: "xs \<noteq> [] \<Longrightarrow> (\<And>x. x \<in> set xs \<Longrightarrow> c \<notin> set x) \<Longrightarrow> Split (Join xs [c]) [c] = xs"
proof (induction xs)
  case (Cons x xs)
  then show ?case by (cases "xs = []") (simp_all add: Split_single_none Join_Cons Split_single_step)
qed simp

lemma scpCommandLine_repeats:
  assumes "CHR '' '' \<notin> set path" and "\<And>a. a \<in> set args \<Longrightarrow> CHR '' '' \<notin> set a"
  shows "Split (scpCommandLine path args) '' '' = path # path # args"
proof -
  have "Split (Join (path # args) '' '') '' '' = path # args" by (rule Split_Join_char) (use assms in auto)
  then show ?thesis using assms(1) by (simp add: scpCommandLine_def Split_single_step)
qed

text \<open>A driver that answers the questions about SSH.\<close>

definition answersSSH :: "'w driver \<Rightarrow> string \<Rightarrow> int \<Rightarrow> string \<Rightarrow> string \<Rightarrow> bool" where
  "answersSSH d host port user key \<longleftrightarrow> GetSSHHostname d = valOk host \<and> GetSSHPort d = valOk port \<and> GetSSHUsername d = ret user \<and>
     GetSSHKeyPath d = ret key"

text \<open>The two ways to write a path on a machine.\<close>

definition remotePath :: "string \<Rightarrow> string \<Rightarrow> string \<Rightarrow> string" where
  "remotePath user machine path = (if user = [] then machine else user @ ''@'' @ machine) @ '':'' @ path"

lemma hostOpts_answers:
  "answersSSH d host port user key \<Longrightarrow>
   hostOpts q d = ret ((if port > 0 then [''-o'', ''Port='' @ Itoa port] else []) @ (if key = [] then [] else [''-o'', ''IdentityFile='' @ q key]), None)"
  by (simp add: hostOpts_def answersSSH_def valOk_def)

lemma cutAt_no: "c \<notin> set s \<Longrightarrow> cutAt [c] s = None"
  by (simp add: cutAt_single)

lemma remotePath_cut:
  assumes "CHR '':'' \<notin> set user" "CHR '':'' \<notin> set machine"
  shows "cutAt '':'' (remotePath user machine path) = Some (if user = [] then machine else user @ ''@'' @ machine, path)"
  using assms cutAt_until [of "CHR '':''" machine path] cutAt_until [of "CHR '':''" "user @ ''@'' @ machine" path]
  by (auto simp: remotePath_def)

lemma user_cut:
  assumes "CHR ''@'' \<notin> set user" "CHR ''@'' \<notin> set machine"
  shows "(case cutAt ''@'' (if user = [] then machine else user @ ''@'' @ machine) of None \<Rightarrow> ([], if user = [] then machine else user @ ''@'' @ machine)
          | Some (u, h) \<Rightarrow> (u, h)) = (user, machine)"
  using assms cutAt_until [of "CHR ''@''" user machine] by (auto simp: cutAt_no)

lemma getInfoForScpArg_remote:
  assumes "answersSSH d host port u key" and "load machine w = (Ok d, w')" and "machine \<noteq> ''localhost''"
    and "CHR '':'' \<notin> set user" "CHR '':'' \<notin> set machine" "CHR ''@'' \<notin> set user" "CHR ''@'' \<notin> set machine"
  shows "getInfoForScpArg load (remotePath user machine path) w =
    (Ok \<lparr>loc_host = Some d, loc_user = user, loc_path = path,
         loc_opts = (if port > 0 then [''-o'', ''Port='' @ Itoa port] else []) @ (if key = [] then [] else [''-o'', ''IdentityFile='' @ Quote key])\<rparr>, w')"
  unfolding getInfoForScpArg_def remotePath_cut [OF assms(4,5)] option.case prod.case user_cut [OF assms(6,7)] Let_def
  using assms(2,3) by (simp add: hostOpts_answers [OF assms(1)] orErr_def bindP_def wrapErr_def ret_def)

lemma getInfoForScpArg_local:
  "CHR '':'' \<notin> set p \<Longrightarrow> getInfoForScpArg load p = ret \<lparr>loc_host = None, loc_user = [], loc_path = p, loc_opts = []\<rparr>"
  by (simp add: getInfoForScpArg_def cutAt_no)

section \<open>Properties\<close>

text \<open>copying a local file to a path on a machine runs \<open>scp\<close> with the options of that machine (its port and its identity
  file, and no other identities when it has one), the local path first and the remote path, with the user given or that
  of the driver, last.\<close>

theorem getScpCmd_upload:
  assumes "answersSSH d host port u key" and "look ''scp'' w = (Ok bin, w1)" and "load machine w1 = (Ok d, w')"
    and "machine \<noteq> ''localhost''" and "CHR '':'' \<notin> set src"
    and "CHR '':'' \<notin> set user" "CHR '':'' \<notin> set machine" "CHR ''@'' \<notin> set user" "CHR ''@'' \<notin> set machine"
  shows "getScpCmd look load src (remotePath user machine path) recursive False quiet w =
    (Ok (bin, scp_baseSSHArgs @ [''-3''] @ (if recursive then [''-r''] else []) @ (if quiet then [''-q''] else []) @
         (if key = [] then [] else [''-o'', ''IdentitiesOnly=yes'']) @
         (if port > 0 then [''-o'', ''Port='' @ Itoa port] else []) @ (if key = [] then [] else [''-o'', ''IdentityFile='' @ Quote key]) @
         [src, (if user = [] then u else user) @ ''@'' @ host @ '':'' @ path]), w')"
  using assms(1,2) getInfoForScpArg_remote [where load = load and path = path, OF assms(1,3,4,6-9)]
  by (simp add: getScpCmd_def getInfoForScpArg_local [OF assms(5)] missesExplicitSSHKey_def generateLocationArg_def answersSSH_def
      orErr_def valOk_def scpFlags_def deltaArgs_def bindP_def wrapErr_def ret_def Let_def)

theorem getScpCmd_upload_witness:
  "\<exists>args. getScpCmd ret (\<lambda>n. ret ((errDriver ''x'')\<lparr>GetSSHHostname := valOk ''1.2.3.4'', GetSSHPort := valOk 22\<rparr>)) ''a'' (remotePath ''u'' ''box'' ''/b'')
     False False False () = (Ok (''scp'', args @ [''a'', ''u@1.2.3.4:/b'']), ())"
proof -
  let ?d = "(errDriver ''x'')\<lparr>GetSSHHostname := valOk ''1.2.3.4'', GetSSHPort := valOk 22\<rparr> :: unit driver"
  have "answersSSH ?d ''1.2.3.4'' 22 [] []" by (simp add: answersSSH_def) (simp add: errDriver_def)
  from getScpCmd_upload [OF this, of ret "()" "''scp''" "()" "\<lambda>n. ret ?d" "''box''" "()" "''a''" "''u''" "''/b''" False False]
  show ?thesis by (simp add: ret_def)
qed

text \<open>\<open>mount\<close> without a destination mounts at the path of the source, and \<open>mount --unmount\<close> of the same argument
  unmounts that very path.\<close>

theorem getMountCmd_same_path:
  assumes "answersSSH d host port u key" and "\<And>p v. look p v = (Ok p, v)" and "load machine w = (Ok d, w')"
    and "CHR '':'' \<notin> set user" "CHR '':'' \<notin> set machine" "CHR ''@'' \<notin> set user" "CHR ''@'' \<notin> set machine"
  shows "\<exists>opts. getMountCmd look load (remotePath user machine path) [] False w =
           (Ok (''sshfs'', opts @ [(if user = [] then u else user) @ ''@'' @ host @ '':'' @ path, path]), w') \<and>
         getMountCmd look load (remotePath user machine path) [] True w = (Ok (''fusermount'', [''-u'', path]), w')"
proof -
  let ?opts = "(if port > 0 then [''-o'', ''Port='' @ Itoa port] else []) @ (if key = [] then [] else [''-o'', ''IdentityFile='' @ key])"
  let ?u = "if user = [] then u else user"
  have info: "getInfoForSshfsArg load (remotePath user machine path) w =
      (Ok (d, \<lparr>loc_host = Some d, loc_user = ?u, loc_path = path, loc_opts = ?opts\<rparr>), w')"
    unfolding getInfoForSshfsArg_def remotePath_cut [OF assms(4,5)] option.case prod.case Let_def user_cut [OF assms(6,7)]
    using assms(1,3) by (simp add: hostOpts_answers [OF assms(1)] answersSSH_def bindP_def wrapErr_def ret_def)
  show ?thesis
    using assms(1,2) info
    by (auto simp: getMountCmd_def generateLocationArg_def answersSSH_def orErr_def valOk_def bindP_def wrapErr_def ret_def Let_def)
qed

theorem getMountCmd_same_path_witness:
  "getMountCmd ret (\<lambda>n. ret ((errDriver ''x'')\<lparr>GetSSHHostname := valOk ''1.2.3.4'', GetSSHPort := valOk 22\<rparr>)) (remotePath [] ''box'' ''/b'') [] True () =
     (Ok (''fusermount'', [''-u'', ''/b'']), ())"
proof -
  let ?d = "(errDriver ''x'')\<lparr>GetSSHHostname := valOk ''1.2.3.4'', GetSSHPort := valOk 22\<rparr> :: unit driver"
  have "answersSSH ?d ''1.2.3.4'' 22 [] []" by (simp add: answersSSH_def) (simp add: errDriver_def)
  from getMountCmd_same_path [OF this, of ret "\<lambda>n. ret ?d" "''box''" "()" "()" "[]" "''/b''"]
  show ?thesis by (simp add: ret_def)
qed

end
