(* ===== verification/Cli.thy ===== *)
theory Cli
  imports Ls Env Scp Log
begin

text \<open>
  The command line of the program: the table of commands with their flags (\<open>commands/commands.go\<close>), the wrapper that
  gives every command its client, and the outer command of \<open>create\<close>, which asks the plugin of the driver for its flags
  and then runs the application again (\<open>commands/create.go\<close>).

  The library \<open>urfave/cli\<close>, which reads the arguments, is outside: the flags are data, the values it has read are the
  record \<open>commandLine\<close>, and running an application is an argument of the model.
\<close>

section \<open>Tables\<close>

text \<open>A table names the handler of a command; \<open>handler\<close> below gives the handler its meaning.\<close>

datatype action =
    ActActive | ActConfig | ActCreateOuter | ActCreateInner | ActEnv | ActInspect | ActIP | ActKill | ActLs | ActProvision
  | ActRegenerateCerts | ActRestart | ActRm | ActSSH | ActScp | ActMount | ActStart | ActStatus | ActStop | ActUpgrade | ActURL
  | ActVersion

record cliCommand =
  cmd_Name :: string
  cmd_Usage :: string
  cmd_Description :: string
  cmd_Flags :: "cliFlag list"
  cmd_SkipFlagParsing :: bool
  cmd_Action :: action

record cliApp =
  app_Name :: string
  app_Author :: string
  app_Email :: string
  app_Commands :: "cliCommand list"
  app_Usage :: string
  app_Version :: string
  app_Flags :: "cliFlag list"

text \<open>What the library hands to an action.\<close>

record 'w cliContext =
  ctx_CommandLine :: "'w commandLine"
  ctx_GlobalBool :: "string \<Rightarrow> bool"

definition activeDefaultTimeout :: int where
  "activeDefaultTimeout = 10"

definition lsDefaultTimeout :: int where
  "lsDefaultTimeout = 10"

definition SharedCreateFlags :: "cliFlag list" where
  "SharedCreateFlags = [
     CliString ''driver, d'' ''Driver to create machine with.'' ''MACHINE_DRIVER'' ''virtualbox'',
     CliString ''engine-install-url'' ''Custom URL to use for engine installation'' ''MACHINE_PODMAN_INSTALL_URL'' DefaultEngineInstallURL,
     CliStringSlice ''engine-opt'' ''Specify arbitrary flags to include with the created engine in the form flag=value'' [] [],
     CliStringSlice ''engine-insecure-registry'' ''Specify insecure registries to allow with the created engine'' [] [],
     CliStringSlice ''engine-registry-mirror'' ''Specify registry mirrors to use'' ''ENGINE_REGISTRY_MIRROR'' [],
     CliStringSlice ''engine-label'' ''Specify labels for the created engine'' [] [],
     CliString ''engine-storage-driver'' ''Specify a storage driver to use with the engine'' [] [],
     CliStringSlice ''engine-env'' ''Specify environment variables to set in the engine'' [] [],
     CliStringSlice ''tls-san'' ''Support extra SANs for TLS certs'' [] []]"

definition plainCommand :: "string \<Rightarrow> string \<Rightarrow> string \<Rightarrow> cliFlag list \<Rightarrow> action \<Rightarrow> cliCommand" where
  "plainCommand name usage description flags act =
     \<lparr>cmd_Name = name, cmd_Usage = usage, cmd_Description = description, cmd_Flags = flags, cmd_SkipFlagParsing = False,
      cmd_Action = act\<rparr>"

text \<open>The table; \<open>arg0\<close> is the name the program was called with.\<close>

definition commandsToProvision :: "string \<Rightarrow> cliCommand list" where
  "commandsToProvision arg0 = [
     plainCommand ''active'' ''Print which machine is active'' [] [
         CliInt ''timeout, t'' (''Timeout in seconds, default to '' @ Itoa activeDefaultTimeout @ ''s'') [] activeDefaultTimeout] ActActive,
     plainCommand ''config'' ''Print the connection config for machine'' ''Argument is a machine name.'' [] ActConfig,
     \<lparr>cmd_Name = ''create'', cmd_Usage = ''Create a machine'',
        cmd_Description = ''Run '' @ [CHR 0x27] @ arg0 @ '' create --driver name --help'' @ [CHR 0x27] @ '' to include the create flags for that driver in the help text.'',
        cmd_Flags = SharedCreateFlags, cmd_SkipFlagParsing = True, cmd_Action = ActCreateOuter\<rparr>,
     plainCommand ''env'' ''Display the commands to set up the environment for the Podman client'' ''Argument is a machine name.'' [
         CliBool ''varlink'' ''Set varlink bridge, instead of podman variables'' [],
         CliString ''shell'' ''Force environment to be configured for a specified shell: [fish, cmd, powershell, tcsh, emacs], default is auto-detect'' [] [],
         CliBool ''unset, u'' ''Unset variables instead of setting them'' [],
         CliBool ''no-proxy'' ''Add machine IP to NO_PROXY environment variable'' []] ActEnv,
     plainCommand ''inspect'' ''Inspect information about a machine'' ''Argument is a machine name.'' [
         CliString ''format, f'' ''Format the output using the given go template.'' [] []] ActInspect,
     plainCommand ''ip'' ''Get the IP address of a machine'' ''Argument(s) are one or more machine names.'' [] ActIP,
     plainCommand ''kill'' ''Kill a machine'' ''Argument(s) are one or more machine names.'' [] ActKill,
     plainCommand ''ls'' ''List machines'' [] [
         CliBool ''quiet, q'' ''Enable quiet mode'' [],
         CliStringSlice ''filter'' ''Filter output based on conditions provided'' [] [],
         CliInt ''timeout, t'' (''Timeout in seconds, default to '' @ Itoa lsDefaultTimeout @ ''s'') [] lsDefaultTimeout,
         CliString ''format, f'' ''Pretty-print machines using a Go template'' [] []] ActLs,
     plainCommand ''provision'' ''Re-provision existing machines'' [] [] ActProvision]"

definition commandsFromRegenerate :: "cliCommand list" where
  "commandsFromRegenerate = [
     plainCommand ''regenerate-certs'' ''Regenerate TLS Certificates for a machine'' ''Argument(s) are one or more machine names.'' [
         CliBool ''force, f'' ''Force rebuild and do not prompt'' [],
         CliBool ''client-certs'' ''Also regenerate client certificates and CA.'' []] ActRegenerateCerts,
     plainCommand ''restart'' ''Restart a machine'' ''Argument(s) are one or more machine names.'' [] ActRestart,
     plainCommand ''rm'' ''Remove a machine'' ''Argument(s) are one or more machine names.'' [
         CliBool ''force, f'' ''Remove local configuration even if machine cannot be removed, also implies an automatic yes (`-y`)'' [],
         CliBool ''y'' ''Assumes automatic yes to proceed with remove, without prompting further user confirmation'' []] ActRm,
     \<lparr>cmd_Name = ''ssh'', cmd_Usage = ''Log into or run a command on a machine with SSH.'', cmd_Description = ''Arguments are [machine-name] [command]'',
        cmd_Flags = [], cmd_SkipFlagParsing = True, cmd_Action = ActSSH\<rparr>,
     plainCommand ''scp'' ''Copy files between machines'' ''Arguments are [[user@]machine:][path] [[user@]machine:][path].'' [
         CliBool ''recursive, r'' ''Copy files recursively (required to copy directories)'' [],
         CliBool ''delta, d'' ''Reduce amount of data sent over network by sending only the differences (uses rsync)'' [],
         CliBool ''quiet, q'' ''Disables the progress meter as well as warning and diagnostic messages from ssh'' []] ActScp,
     plainCommand ''mount'' ''Mount or unmount a directory from a machine with SSHFS.'' ''Arguments are [machine:][path] [mountpoint]'' [
         CliBool ''unmount, u'' ''Unmount instead of mount'' []] ActMount,
     plainCommand ''start'' ''Start a machine'' ''Argument(s) are one or more machine names.'' [] ActStart,
     plainCommand ''status'' ''Get the status of a machine'' ''Argument is a machine name.'' [] ActStatus,
     plainCommand ''stop'' ''Stop a machine'' ''Argument(s) are one or more machine names.'' [] ActStop,
     plainCommand ''upgrade'' ''Upgrade a machine to the latest version of Podman'' ''Argument(s) are one or more machine names.'' [] ActUpgrade,
     plainCommand ''url'' ''Get the URL of a machine'' ''Argument is a machine name.'' [] ActURL,
     plainCommand ''version'' ''Show the Podman Machine version or a machine podman version'' [] [] ActVersion]"

definition Commands :: "string \<Rightarrow> cliCommand list" where
  "Commands arg0 = commandsToProvision arg0 @ commandsFromRegenerate"

lemmas commands_table_defs = Commands_def commandsToProvision_def commandsFromRegenerate_def

text \<open>The flags that come before the name of a command (\<open>cmd/podman-machine/machine.go\<close>).\<close>

definition globalFlags :: "string \<Rightarrow> cliFlag list" where
  "globalFlags dir = [
     CliBool ''debug, D'' ''Enable debug mode'' [],
     CliString ''storage-path, s'' ''Configures storage path'' ''MACHINE_STORAGE_PATH'' dir,
     CliString ''tls-ca-cert'' ''CA to verify remotes against'' ''MACHINE_TLS_CA_CERT'' [],
     CliString ''tls-ca-key'' ''Private key to generate certificates'' ''MACHINE_TLS_CA_KEY'' [],
     CliString ''tls-client-cert'' ''Client cert to use for TLS'' ''MACHINE_TLS_CLIENT_CERT'' [],
     CliString ''tls-client-key'' ''Private key used in client TLS auth'' ''MACHINE_TLS_CLIENT_KEY'' [],
     CliString ''github-api-token'' ''Token to use for requests to the Github API'' ''MACHINE_GITHUB_API_TOKEN'' [],
     CliBool ''native-ssh'' ''Use the native (Go-based) SSH implementation.'' ''MACHINE_NATIVE_SSH'']"

section \<open>The environment of the application\<close>

text \<open>
  \<open>ae_cmd\<close>, \<open>ae_ls\<close> and \<open>ae_detect\<close> are the outside of the commands; \<open>ae_newDriver\<close>, \<open>ae_stdLock\<close> and \<open>ae_codec\<close> that of the
  client; \<open>ae_close\<close> closes the plugins that were opened.  \<open>ae_flagText\<close> is the help line of a flag, and \<open>ae_run\<close> runs an
  application on arguments: its value is the exit code, 0 when the run comes back without an error.
\<close>

record ('w, 'c) app_env =
  ae_cmd :: "('w, 'c) cmd_env"
  ae_ls :: "'w ls_env"
  ae_detect :: "('w, string) io"
  ae_newDriver :: "string \<Rightarrow> string \<Rightarrow> ('w, 'w driver) io"
  ae_stdLock :: "('w, bool) lens"
  ae_codec :: "'w codec"
  ae_close :: "('w, unit) io"
  ae_flagText :: "cliFlag \<Rightarrow> string"
  ae_run :: "cliApp \<Rightarrow> string list \<Rightarrow> ('w, nat) io"

section \<open>Creating: the outer command\<close>

text \<open>\<open>ByFlagName\<close> compares the help lines.\<close>

definition ByFlagName_Less :: "(cliFlag \<Rightarrow> string) \<Rightarrow> cliFlag \<Rightarrow> cliFlag \<Rightarrow> bool" where
  "ByFlagName_Less txt f g \<longleftrightarrow> txt f < txt g"

definition addDriverFlagsToCommand :: "(cliFlag \<Rightarrow> string) \<Rightarrow> cliFlag list \<Rightarrow> cliCommand \<Rightarrow> cliCommand" where
  "addDriverFlagsToCommand txt cliFlags cmd =
     cmd\<lparr>cmd_Flags := sort_key txt (SharedCreateFlags @ cliFlags), cmd_SkipFlagParsing := False, cmd_Action := ActCreateInner\<rparr>"

definition withDriverFlags :: "(cliFlag \<Rightarrow> string) \<Rightarrow> cliFlag list \<Rightarrow> cliApp \<Rightarrow> cliApp" where
  "withDriverFlags txt cliFlags app =
     app\<lparr>app_Commands := map (\<lambda>cmd. if cmd_Name cmd = ''create'' then addDriverFlagsToCommand txt cliFlags cmd else cmd) (app_Commands app)\<rparr>"

text \<open>When the second run ends the process, its exit code is that of a failed command.\<close>

definition cmdCreateOuter :: "('v os_world_scheme, 'c) app_env \<Rightarrow> cliApp \<Rightarrow> ('v os_world_scheme, 'c) cmd_env \<Rightarrow> 'v os_world_scheme api \<Rightarrow>
    ('v os_world_scheme, unit) io" where
  "cmdCreateOuter E app Z api =
     bindP (cmdCreateOuterFlags Z api) (\<lambda>cliFlags.
     bindP (ae_run E (withDriverFlags (ae_flagText E) cliFlags app) (osArgs Z)) (\<lambda>code.
       if code = 0 then ret () else throw (ErrorString (''exit status '' @ natDec code))))"

section \<open>Running a command\<close>

definition handler :: "('v os_world_scheme, 'c) app_env \<Rightarrow> cliApp \<Rightarrow> action \<Rightarrow> ('v os_world_scheme, 'c) cmd_env \<Rightarrow>
    'v os_world_scheme commandLine \<Rightarrow> 'v os_world_scheme api \<Rightarrow> ('v os_world_scheme, unit) io" where
  "handler E app act Z c api = (case act of
       ActActive \<Rightarrow> cmdActive (ae_ls E) Z c api
     | ActConfig \<Rightarrow> cmdConfig Z c api
     | ActCreateOuter \<Rightarrow> cmdCreateOuter E app Z api
     | ActCreateInner \<Rightarrow> cmdCreateInner Z c api
     | ActEnv \<Rightarrow> cmdEnv (ae_detect E) Z c api
     | ActInspect \<Rightarrow> cmdInspect Z c api
     | ActIP \<Rightarrow> cmdIP Z c api
     | ActKill \<Rightarrow> cmdKill Z c api
     | ActLs \<Rightarrow> cmdLs (ae_ls E) Z c api
     | ActProvision \<Rightarrow> cmdProvision Z c api
     | ActRegenerateCerts \<Rightarrow> cmdRegenerateCerts Z c api
     | ActRestart \<Rightarrow> cmdRestart Z c api
     | ActRm \<Rightarrow> cmdRm Z c api
     | ActSSH \<Rightarrow> cmdSSH Z c api
     | ActScp \<Rightarrow> cmdScp Z c api
     | ActMount \<Rightarrow> cmdMount Z c api
     | ActStart \<Rightarrow> cmdStart Z c api
     | ActStatus \<Rightarrow> cmdStatus Z c api
     | ActStop \<Rightarrow> cmdStop Z c api
     | ActUpgrade \<Rightarrow> cmdUpgrade Z c api
     | ActURL \<Rightarrow> cmdURL Z c api
     | ActVersion \<Rightarrow> printVersion Z c api)"

text \<open>\<open>libmachine.NewClient\<close>.\<close>

definition Client_new :: "('v os_world_scheme, 'c) app_env \<Rightarrow> string \<Rightarrow> string \<Rightarrow> ('v os_world_scheme, 'c) client" where
  "Client_new E path certs =
     \<lparr>certsDir = certs, cl_Filestore = NewFilestore path certs certs, newRPCClientDriver = ae_newDriver E,
      stdLock = ae_stdLock E, cl_host = ce_host (ae_cmd E), cl_codec = ae_codec E\<rparr>"

text \<open>The package variables that the wrapper sets: the base directory and the kind of the SSH clients.\<close>

definition setGlobals :: "string \<Rightarrow> clientType \<Rightarrow> 'v os_world_scheme \<Rightarrow> ('v os_world_scheme, 'c) cmd_env \<Rightarrow> ('v os_world_scheme, 'c) cmd_env" where
  "setGlobals path t w Z =
     (let H = ce_host Z; P = he_prov H
      in Z\<lparr>BaseDir := path,
           ce_host := H\<lparr>he_prov := P\<lparr>pe_ssh := SetDefaultClient t (pe_ssh P), baseDir := GetBaseDir (Z\<lparr>BaseDir := path\<rparr>) w\<rparr>\<rparr>\<rparr>)"

definition commandClient :: "('v os_world_scheme, 'c) app_env \<Rightarrow> 'v os_world_scheme cliContext \<Rightarrow> 'v os_world_scheme \<Rightarrow>
    ('v os_world_scheme, 'c) cmd_env \<times> ('v os_world_scheme, 'c) client" where
  "commandClient E ctx w =
     (let Z = ae_cmd E; path = cl_GlobalString (ctx_CommandLine ctx) ''storage-path'';
          api = Client_new E (GetBaseDir Z w) (GetMachineCertDir Z w);
          t = (if ctx_GlobalBool ctx ''native-ssh'' then Native else External);
          Z' = setGlobals path t w Z
      in (Z', api\<lparr>cl_Filestore := (cl_Filestore api)\<lparr>st_Path := path\<rparr>, cl_host := ce_host Z'\<rparr>))"

definition execCommand :: "('v os_world_scheme, 'c) app_env \<Rightarrow> cliApp \<Rightarrow> action \<Rightarrow> 'v os_world_scheme cliContext \<Rightarrow> ('v os_world_scheme, nat) io" where
  "execCommand E app act ctx = (\<lambda>w.
     let (Z, client) = commandClient E ctx w
     in runCommand (ae_close E) (handler E app act Z (ctx_CommandLine ctx) (Client_api client)) w)"

section \<open>Agreement of two command lines\<close>

text \<open>The names of a flag are separated by commas.\<close>

definition namesOf :: "string \<Rightarrow> string list" where
  "namesOf name = map TrimSpace (Split name '','')"

text \<open>Two command lines that give a declared flag the same value, under all its names and at its type.\<close>

fun sameFlag :: "'w commandLine \<Rightarrow> 'w commandLine \<Rightarrow> cliFlag \<Rightarrow> bool" where
  "sameFlag a b (CliBool n u e) \<longleftrightarrow> list_all (\<lambda>m. cl_Bool a m = cl_Bool b m) (namesOf n)"
| "sameFlag a b (CliInt n u e v) \<longleftrightarrow> list_all (\<lambda>m. cl_Int a m = cl_Int b m) (namesOf n)"
| "sameFlag a b (CliString n u e v) \<longleftrightarrow> list_all (\<lambda>m. cl_String a m = cl_String b m) (namesOf n)"
| "sameFlag a b (CliStringSlice n u e v) \<longleftrightarrow> list_all (\<lambda>m. cl_StringSlice a m = cl_StringSlice b m) (namesOf n)"

fun sameGlobal :: "'w commandLine \<Rightarrow> 'w commandLine \<Rightarrow> cliFlag \<Rightarrow> bool" where
  "sameGlobal a b (CliString n u e v) \<longleftrightarrow> list_all (\<lambda>m. cl_GlobalString a m = cl_GlobalString b m) (namesOf n)"
| "sameGlobal a b f \<longleftrightarrow> True"

definition sameArgs :: "'w commandLine \<Rightarrow> 'w commandLine \<Rightarrow> bool" where
  "sameArgs a b \<longleftrightarrow> cl_Args a = cl_Args b \<and> ShowHelp a = ShowHelp b \<and> ShowVersion a = ShowVersion b"

text \<open>The flags of the driver are read by the names that the library lists.\<close>

definition sameDriverFlags :: "'w commandLine \<Rightarrow> 'w commandLine \<Rightarrow> bool" where
  "sameDriverFlags a b \<longleftrightarrow> cl_FlagNames a = cl_FlagNames b \<and>
     list_all (\<lambda>n. cl_Generic a n = cl_Generic b n \<and> cl_IsSet a n = cl_IsSet b n \<and> cl_StringSlice a n = cl_StringSlice b n) (cl_FlagNames a)"

lemma namesOf_flags [simp]:
  "namesOf ''timeout, t'' = [''timeout'', ''t'']" "namesOf ''varlink'' = [''varlink'']" "namesOf ''shell'' = [''shell'']"
  "namesOf ''unset, u'' = [''unset'', ''u'']" "namesOf ''no-proxy'' = [''no-proxy'']" "namesOf ''format, f'' = [''format'', ''f'']"
  "namesOf ''quiet, q'' = [''quiet'', ''q'']" "namesOf ''filter'' = [''filter'']" "namesOf ''force, f'' = [''force'', ''f'']"
  "namesOf ''client-certs'' = [''client-certs'']" "namesOf ''y'' = [''y'']" "namesOf ''recursive, r'' = [''recursive'', ''r'']"
  "namesOf ''delta, d'' = [''delta'', ''d'']" "namesOf ''unmount, u'' = [''unmount'', ''u'']" "namesOf ''driver, d'' = [''driver'', ''d'']"
  "namesOf ''engine-install-url'' = [''engine-install-url'']" "namesOf ''engine-opt'' = [''engine-opt'']"
  "namesOf ''engine-insecure-registry'' = [''engine-insecure-registry'']" "namesOf ''engine-registry-mirror'' = [''engine-registry-mirror'']"
  "namesOf ''engine-label'' = [''engine-label'']" "namesOf ''engine-storage-driver'' = [''engine-storage-driver'']"
  "namesOf ''engine-env'' = [''engine-env'']" "namesOf ''tls-san'' = [''tls-san'']" "namesOf ''storage-path, s'' = [''storage-path'', ''s'']"
  "namesOf ''tls-ca-cert'' = [''tls-ca-cert'']" "namesOf ''tls-ca-key'' = [''tls-ca-key'']" "namesOf ''tls-client-cert'' = [''tls-client-cert'']"
  "namesOf ''tls-client-key'' = [''tls-client-key'']" "namesOf ''github-api-token'' = [''github-api-token'']"
  by code_simp+

text \<open>What a command reads of the command line.\<close>

lemma runAction_args: "cl_Args a = cl_Args b \<Longrightarrow> runAction Z n a api = runAction Z n b api"
  by (simp add: runAction_def targetHost_def)

lemma loadTarget_args: "cl_Args a = cl_Args b \<Longrightarrow> loadTarget a api = loadTarget b api"
  by (simp add: loadTarget_def targetHost_def)

lemma targetHost_args: "cl_Args a = cl_Args b \<Longrightarrow> targetHost a api = targetHost b api"
  by (simp add: targetHost_def)

lemmas action_defs = cmdStart_def cmdStop_def cmdKill_def cmdRestart_def cmdUpgrade_def cmdIP_def cmdProvision_def

lemma addDriverFlags_agree:
  "list_all P (cmd_Flags (addDriverFlagsToCommand txt flags cmd)) \<longleftrightarrow> list_all P SharedCreateFlags \<and> list_all P flags"
  by (auto simp: addDriverFlagsToCommand_def list_all_iff)

lemma handler_agree_plain:
  assumes "sameArgs a b" and "cmd \<in> set (Commands arg0)" and "list_all (sameFlag a b) (cmd_Flags cmd)"
  shows "handler E app (cmd_Action cmd) Z a api = handler E app (cmd_Action cmd) Z b api"
proof -
  have c: "cl_Args a = cl_Args b" "ShowHelp a = ShowHelp b" "ShowVersion a = ShowVersion b" using assms(1) by (simp_all add: sameArgs_def)
  note args = runAction_args [OF c(1)] loadTarget_args [OF c(1)] targetHost_args [OF c(1)]
  show ?thesis
    using assms(2,3) c
    apply (simp add: commands_table_defs)
    apply (elim disjE)
    apply (simp_all add: plainCommand_def handler_def action_defs args)
    subgoal by (simp add: cmdActive_def cong: if_cong list.case_cong)
    subgoal by (simp add: cmdConfig_def args cong: if_cong list.case_cong)
    subgoal by (simp add: cmdEnv_def shellCfgUnset_def shellCfgSet_def args cong: if_cong driverSlot.case_cong)
    subgoal by (simp add: cmdInspect_def args cong: if_cong list.case_cong)
    subgoal by (simp add: cmdLs_def cong: if_cong option.case_cong)
    subgoal by (simp add: cmdRegenerateCerts_def args cong: if_cong list.case_cong)
    subgoal by (simp add: cmdRm_def cong: if_cong list.case_cong)
    subgoal by (simp add: cmdSSH_def args cong: if_cong list.case_cong)
    subgoal by (simp add: cmdScp_def cong: if_cong list.case_cong)
    subgoal by (simp add: cmdMount_def cong: if_cong list.case_cong)
    subgoal by (simp add: cmdStatus_def args cong: if_cong list.case_cong)
    subgoal by (simp add: cmdURL_def args cong: if_cong list.case_cong)
    subgoal by (simp add: printVersion_def cong: if_cong list.case_cong)
    done
qed

lemma getDriverOpts_agree: "sameDriverFlags a b \<Longrightarrow> getDriverOpts a fl = getDriverOpts b fl"
proof -
  assume ab: "sameDriverFlags a b"
  have "fold (flagGiven a) (cl_FlagNames a) v = fold (flagGiven b) (cl_FlagNames a) v" for v
    using ab by (intro fold_cong) (auto simp: sameDriverFlags_def list_all_iff flagGiven_def fun_eq_iff split: option.splits)
  then show ?thesis using ab by (simp add: getDriverOpts_def sameDriverFlags_def)
qed

lemma cmdCreateInner_agree:
  assumes "sameArgs a b" and "list_all (sameGlobal a b) (globalFlags dir)" and "list_all (sameFlag a b) SharedCreateFlags"
    and "sameDriverFlags a b"
  shows "cmdCreateInner Z a api = cmdCreateInner Z b api"
proof -
  have g: "cl_GlobalString a n = cl_GlobalString b n"
    if "n \<in> {''storage-path'', ''tls-ca-cert'', ''tls-ca-key'', ''tls-client-cert'', ''tls-client-key''}" for n
    using assms(2) that by (auto simp: globalFlags_def)
  then have "tlsPath Z a w n d = tlsPath Z b w n d" if "n \<in> {''tls-ca-cert'', ''tls-ca-key'', ''tls-client-cert'', ''tls-client-key''}" for w n d
    using that by (auto simp: tlsPath_def)
  then have "createOptions Z a w name = createOptions Z b w name" for w name
    using assms(3) by (simp add: createOptions_def SharedCreateFlags_def)
  moreover have "cl_String a ''driver'' = cl_String b ''driver''" using assms(3) by (simp add: SharedCreateFlags_def)
  ultimately show ?thesis
    using assms(1) g [of "''storage-path''"] getDriverOpts_agree [OF assms(4)] by (simp add: cmdCreateInner_def sameArgs_def cong: if_cong)
qed

lemma handler_added: "handler E app (cmd_Action (addDriverFlagsToCommand txt fl cmd)) Z c api = cmdCreateInner Z c api"
  by (simp add: handler_def addDriverFlagsToCommand_def)

text \<open>The commands have different names, and adding the flags of a driver changes only \<open>create\<close>.\<close>

lemma Commands_distinct: "distinct (map cmd_Name (Commands arg0))"
  by (simp add: commands_table_defs plainCommand_def)

lemma withDriverFlags_names: "map cmd_Name (app_Commands (withDriverFlags txt fl app)) = map cmd_Name (app_Commands app)"
  by (simp add: withDriverFlags_def addDriverFlagsToCommand_def)

lemma sort_key_Less_sorted: "sorted_wrt (\<lambda>f g. \<not> ByFlagName_Less txt g f) (sort_key txt fl)"
  by (simp add: ByFlagName_Less_def not_less sorted_wrt_map [symmetric])

text \<open>What the documentation of the library says of a run: it calls the action of the command that the arguments name, with
  the context it has read for it.\<close>

definition runsNamed :: "('v os_world_scheme, 'c) app_env \<Rightarrow> string \<Rightarrow> (cliApp \<Rightarrow> 'v os_world_scheme cliContext) \<Rightarrow> bool" where
  "runsNamed E name ctxOf \<longleftrightarrow>
     (\<forall>app cmd. find (\<lambda>c. cmd_Name c = name) (app_Commands app) = Some cmd \<longrightarrow>
        ae_run E app (osArgs (ae_cmd E)) = execCommand E app (cmd_Action cmd) (ctxOf app))"

lemma find_create: "\<exists>cmd. find (\<lambda>c. cmd_Name c = ''create'') (Commands arg0) = Some cmd \<and> cmd_Action cmd = ActCreateOuter"
  by (simp add: commands_table_defs plainCommand_def)

lemma find_map_create:
  "find (\<lambda>c. cmd_Name c = ''create'') cs = Some cmd \<Longrightarrow>
   find (\<lambda>c. cmd_Name c = ''create'') (map (\<lambda>cmd. if cmd_Name cmd = ''create'' then addDriverFlagsToCommand txt fl cmd else cmd) cs) =
     Some (addDriverFlagsToCommand txt fl cmd)"
  by (induction cs) (auto simp: addDriverFlagsToCommand_def split: if_splits)

lemma find_withDriverFlags:
  "find (\<lambda>c. cmd_Name c = ''create'') (app_Commands app) = Some cmd \<Longrightarrow>
   find (\<lambda>c. cmd_Name c = ''create'') (app_Commands (withDriverFlags txt fl app)) = Some (addDriverFlagsToCommand txt fl cmd)"
  unfolding withDriverFlags_def by (simp add: find_map_create)

lemma osArgs_commandClient [simp]: "osArgs (fst (commandClient E ctx w)) = osArgs (ae_cmd E)"
  by (simp add: commandClient_def setGlobals_def Let_def)

lemma execCommand_apply:
  "execCommand E app act ctx w =
     runCommand (ae_close E) (handler E app act (fst (commandClient E ctx w)) (ctx_CommandLine ctx) (Client_api (snd (commandClient E ctx w)))) w"
  by (simp add: execCommand_def split: prod.splits)

section \<open>Properties\<close>

text \<open>C30: every command reads only flags that its table declares, each with the getter of the type it is declared with:
  two command lines that agree on the arguments, on the declared flags of the command and on those of the application run
  the command in the same way.  For \<open>create\<close>, whose table is completed at run time, they also agree on the flags of the driver.\<close>

theorem commands_read_as_declared:
  assumes "sameArgs a b" and "list_all (sameGlobal a b) (globalFlags dir)"
  shows "(\<forall>cmd \<in> set (Commands arg0). list_all (sameFlag a b) (cmd_Flags cmd) \<longrightarrow>
            handler E app (cmd_Action cmd) Z a api = handler E app (cmd_Action cmd) Z b api) \<and>
         (\<forall>cmd txt fl. list_all (sameFlag a b) (cmd_Flags (addDriverFlagsToCommand txt fl cmd)) \<and> sameDriverFlags a b \<longrightarrow>
            handler E app (cmd_Action (addDriverFlagsToCommand txt fl cmd)) Z a api =
            handler E app (cmd_Action (addDriverFlagsToCommand txt fl cmd)) Z b api)"
proof (intro conjI allI ballI impI)
  show "handler E app (cmd_Action cmd) Z a api = handler E app (cmd_Action cmd) Z b api"
    if "cmd \<in> set (Commands arg0)" "list_all (sameFlag a b) (cmd_Flags cmd)" for cmd
    using handler_agree_plain [OF assms(1) that] .
qed (simp add: handler_added addDriverFlags_agree cmdCreateInner_agree [OF assms])

definition demoFlagLine :: "string \<Rightarrow> 'w commandLine" where
  "demoFlagLine other = (demoLine [''m''] [])\<lparr>cl_String := (\<lambda>n. if n = ''undeclared'' then other else [])\<rparr>"

theorem commands_read_as_declared_witness:
  "(\<forall>(E :: (unit os_world_scheme, unit) app_env) app d. handler E app ActEnv demoCmdEnv (demoFlagLine ''x'') (demoApi d) =
      handler E app ActEnv demoCmdEnv (demoFlagLine ''y'') (demoApi d)) \<and>
   cl_String (demoFlagLine ''x'' :: unit os_world_scheme commandLine) ''undeclared'' \<noteq>
   cl_String (demoFlagLine ''y'' :: unit os_world_scheme commandLine) ''undeclared''"
proof
  let ?a = "demoFlagLine ''x'' :: unit os_world_scheme commandLine" and ?b = "demoFlagLine ''y'' :: unit os_world_scheme commandLine"
  have "sameArgs ?a ?b" by (simp add: sameArgs_def demoFlagLine_def)
  moreover have "list_all (sameGlobal ?a ?b) (globalFlags [])" by (simp add: globalFlags_def demoFlagLine_def)
  moreover have "Commands [] ! 3 \<in> set (Commands [])" by (rule nth_mem) (simp add: commands_table_defs)
  moreover have "cmd_Action (Commands [] ! 3) = ActEnv" "list_all (sameFlag ?a ?b) (cmd_Flags (Commands [] ! 3))"
    by (simp_all add: commands_table_defs plainCommand_def demoFlagLine_def)
  ultimately show "\<forall>(E :: (unit os_world_scheme, unit) app_env) app d. handler E app ActEnv demoCmdEnv ?a (demoApi d) = handler E app ActEnv demoCmdEnv ?b (demoApi d)"
    using commands_read_as_declared [of ?a ?b "[]" "[]"] by fastforce
  show "cl_String ?a ''undeclared'' \<noteq> cl_String ?b ''undeclared''" by (simp add: demoFlagLine_def)
qed

text \<open>C16: a \<open>create\<close> runs in two passes of one process: the outer command asks the driver for its flags and runs the
  application again, whose table now has the shared flags and those of the driver for \<open>create\<close> and the inner command as its
  action.  The process ends with 1 exactly as the inner command fails, and with 0 after it succeeded and the plugins are closed.\<close>

theorem create_runs_inner:
  assumes run: "runsNamed E ''create'' ctxOf" and app: "app_Commands app = Commands arg0"
    and flags: "cmdCreateOuterFlags (fst (commandClient E (ctxOf app) w)) (Client_api (snd (commandClient E (ctxOf app) w))) w = (Ok fl, w1)"
    and app2: "app2 = withDriverFlags (ae_flagText E) fl app"
    and inner: "cmdCreateInner (fst (commandClient E (ctxOf app2) w1)) (ctx_CommandLine (ctxOf app2))
                  (Client_api (snd (commandClient E (ctxOf app2) w1))) w1 = (r, w2)"
  shows "(\<forall>e. r = Err e \<longrightarrow> ae_run E app (osArgs (ae_cmd E)) w = (Ok 1, w2)) \<and>
         (\<forall>w3 w4. r = Ok () \<and> ae_close E w2 = (Ok (), w3) \<and> ae_close E w3 = (Ok (), w4) \<longrightarrow>
            ae_run E app (osArgs (ae_cmd E)) w = (Ok 0, w4))"
proof -
  obtain cmd where cmd: "find (\<lambda>c. cmd_Name c = ''create'') (app_Commands app) = Some cmd" "cmd_Action cmd = ActCreateOuter"
    using find_create app by metis
  have outer: "ae_run E app (osArgs (ae_cmd E)) = execCommand E app ActCreateOuter (ctxOf app)"
    using run cmd unfolding runsNamed_def by metis
  have "ae_run E app2 (osArgs (ae_cmd E)) = execCommand E app2 (cmd_Action (addDriverFlagsToCommand (ae_flagText E) fl cmd)) (ctxOf app2)"
    using run find_withDriverFlags [OF cmd(1)] unfolding runsNamed_def app2 by metis
  then have "ae_run E app2 (osArgs (ae_cmd E)) w1 = runCommand (ae_close E) (\<lambda>_. (r, w2)) w1"
    using inner by (simp add: execCommand_apply handler_added runCommand_def)
  then show ?thesis
    using flags by (auto simp: outer execCommand_apply handler_def cmdCreateOuter_def runCommand_def bindP_def app2 tryP_def ret_def throw_def)
qed

text \<open>A library that runs \<open>create\<close>, on a command line without arguments.\<close>

definition demoApp :: "('v os_world_scheme driver) \<Rightarrow> (cliApp \<Rightarrow> string list \<Rightarrow> ('v os_world_scheme, nat) io) \<Rightarrow> ('v os_world_scheme, unit) app_env" where
  "demoApp d run = \<lparr>ae_cmd = demoCmdEnv, ae_ls = demoLs, ae_detect = ret [], ae_newDriver = (\<lambda>n r. ret d),
     ae_stdLock = constL False, ae_codec = demoCodec, ae_close = ret (), ae_flagText = (\<lambda>f. []), ae_run = run\<rparr>"

definition demoContext :: "'w cliContext" where
  "demoContext = \<lparr>ctx_CommandLine = demoLine [] [], ctx_GlobalBool = (\<lambda>n. False)\<rparr>"

definition demoRunWith :: "('v os_world_scheme, unit) app_env \<Rightarrow> cliApp \<Rightarrow> string list \<Rightarrow> ('v os_world_scheme, nat) io" where
  "demoRunWith E app args = (case find (\<lambda>c. cmd_Name c = ''create'') (app_Commands app) of
       Some cmd \<Rightarrow> execCommand E app (cmd_Action cmd) demoContext
     | None \<Rightarrow> ret 1)"

definition demoNoRun :: "cliApp \<Rightarrow> string list \<Rightarrow> ('v os_world_scheme, nat) io" where
  "demoNoRun app args = ret 1"

definition demoRunner :: "'v os_world_scheme driver \<Rightarrow> cliApp \<Rightarrow> string list \<Rightarrow> ('v os_world_scheme, nat) io" where
  "demoRunner d = demoRunWith (demoApp d (demoRunWith (demoApp d demoNoRun)))"

lemma demoApp_select [simp]:
  "ae_run (demoApp d r) = r" "ae_flagText (demoApp d r) = (\<lambda>f. [])" "ae_close (demoApp d r) = ret ()" "ae_cmd (demoApp d r) = demoCmdEnv"
  by (simp_all add: demoApp_def)

lemma commandClient_demo: "commandClient (demoApp d r) = commandClient (demoApp d r')"
  by (simp add: commandClient_def Client_new_def demoApp_def fun_eq_iff Let_def)

lemma execCommand_demo: "act \<noteq> ActCreateOuter \<Longrightarrow> execCommand (demoApp d r) app act ctx = execCommand (demoApp d r') app act ctx"
  by (cases act) (simp_all add: execCommand_def commandClient_def Client_new_def handler_def demoApp_def fun_eq_iff Let_def)

lemma demoRunWith_inner:
  assumes "find (\<lambda>c. cmd_Name c = ''create'') (app_Commands app) = Some cmd"
  shows "demoRunWith (demoApp d r) (withDriverFlags txt fl app) args = demoRunWith (demoApp d r') (withDriverFlags txt fl app) args"
  using find_withDriverFlags [OF assms, of "txt" fl] execCommand_demo [of ActCreateInner d r "withDriverFlags txt fl app" demoContext r']
  by (simp add: demoRunWith_def addDriverFlagsToCommand_def)

lemma demoRunner_runsNamed: "runsNamed (demoApp d (demoRunner d)) ''create'' (\<lambda>app. demoContext)"
  unfolding runsNamed_def
proof (intro allI impI)
  fix app :: cliApp and cmd
  assume f: "find (\<lambda>c. cmd_Name c = ''create'') (app_Commands app) = Some cmd"
  have "execCommand (demoApp d (demoRunWith (demoApp d demoNoRun))) app ActCreateOuter demoContext =
        execCommand (demoApp d (demoRunner d)) app ActCreateOuter demoContext"
    unfolding execCommand_apply fun_eq_iff commandClient_demo [of d "demoRunner d" "demoRunWith (demoApp d demoNoRun)"]
    by (simp add: handler_def cmdCreateOuter_def demoRunner_def
        demoRunWith_inner [OF f, of d "demoRunWith (demoApp d demoNoRun)" _ _ _ demoNoRun])
  then have "execCommand (demoApp d (demoRunWith (demoApp d demoNoRun))) app (cmd_Action cmd) demoContext =
        execCommand (demoApp d (demoRunner d)) app (cmd_Action cmd) demoContext"
    by (cases "cmd_Action cmd = ActCreateOuter") (simp_all add: execCommand_demo)
  then show "ae_run (demoApp d (demoRunner d)) app (osArgs (ae_cmd (demoApp d (demoRunner d)))) =
      execCommand (demoApp d (demoRunner d)) app (cmd_Action cmd) demoContext"
    using f by (simp add: demoApp_def demoRunner_def demoRunWith_def)
qed

theorem create_runs_inner_witness:
  "\<exists>w. ae_run (demoApp (FakeDriver moreL) (demoRunner (FakeDriver moreL)))
      \<lparr>app_Name = ''m'', app_Author = [], app_Email = [], app_Commands = Commands ''m'', app_Usage = [], app_Version = [], app_Flags = []\<rparr>
      [] (plainWorld [] (demoFake Running)) = (Ok 1, w)"
proof -
  let ?d = "FakeDriver moreL :: fakeDriver os_world_scheme driver"
  let ?E = "demoApp ?d (demoRunner ?d)" and ?w = "plainWorld [] (demoFake Running)"
  let ?app = "\<lparr>app_Name = ''m'', app_Author = [], app_Email = [], app_Commands = Commands ''m'', app_Usage = [], app_Version = [], app_Flags = []\<rparr>"
  let ?c = "\<lambda>w. commandClient ?E demoContext w"
  have d: "GetMachineName ?d ?w = (Ok (MockName (demoFake Running)), ?w)" "DriverName ?d ?w = (Ok ''Driver'', ?w)" "GetCreateFlags ?d ?w = (Ok [], ?w)"
    by (simp_all add: FakeDriver_def reader_def ret_def moreL_def plainWorld_def)
  have "\<exists>fl. cmdCreateOuterFlags (fst (?c ?w)) (Client_api (snd (?c ?w))) ?w = (Ok fl, ?w)"
    by (simp add: cmdCreateOuterFlags_def Client_api_def Client_NewHost_def commandClient_def Client_new_def demoApp_def
        bindP_def getW_def ret_def driverOf_def Let_def d)
  then obtain fl where fl: "cmdCreateOuterFlags (fst (?c ?w)) (Client_api (snd (?c ?w))) ?w = (Ok fl, ?w)" by blast
  have "cmdCreateInner Z (ctx_CommandLine demoContext) api ?w = (Err errNoMachineName, ?w)" for Z :: "(_, unit) cmd_env" and api
    by (simp add: cmdCreateInner_def demoContext_def demoLine_def bindP_def ret_def throw_def)
  with create_runs_inner [OF demoRunner_runsNamed _ fl refl] have "ae_run ?E ?app (osArgs (ae_cmd ?E)) ?w = (Ok 1, ?w)" by simp
  then show ?thesis by (simp add: demoApp_def demoCmdEnv_def)
qed

end
