(* ===== verification/Local_Plugin.thy ===== *)
theory Local_Plugin
  imports Rpc "HOL-Library.Sublist"
begin

text \<open>
  \<open>drivers/plugin/localbinary/plugin.go\<close>: the process of a driver plugin as its client sees it.  \<open>Serve\<close> starts the process,
  reads the address from its first line and then copies its output to the log until it is told to stop.  Three goroutines
  take part, one for each stream and the loop itself, and they talk over channels without a buffer; their steps and those of
  the process are the step relation \<open>plugin_step\<close>.
\<close>

section \<open>The address\<close>

text \<open>The channel for the address holds one value; \<open>Waiting\<close> has the time in milliseconds at which it gets it, if it ever does.\<close>

datatype addrChan = Waiting "(nat \<times> string) option" | ChanClosed

record localPlugin =
  lp_Addr :: string
  lp_addrCh :: addrChan
  lp_timeout :: nat

definition defaultTimeout :: nat where
  "defaultTimeout = 10000"

definition addressTimeout :: "(nat \<Rightarrow> string) \<Rightarrow> nat \<Rightarrow> gerror" where
  "addressTimeout showDuration ms = ErrorString (''Failed to dial the plugin server in '' @ showDuration ms)"

text \<open>A closed channel yields the empty string at once, and closing it again panics.\<close>

definition localPlugin_Address :: "(nat \<Rightarrow> string) \<Rightarrow> localPlugin \<Rightarrow> (gerror, string) result \<times> localPlugin" where
  "localPlugin_Address showDuration p =
     (if lp_Addr p \<noteq> [] then (Ok (lp_Addr p), p)
      else let p1 = (if lp_timeout p = 0 then p\<lparr>lp_timeout := defaultTimeout\<rparr> else p)
           in case lp_addrCh p1 of
                ChanClosed \<Rightarrow> (Panic ''close of closed channel'', p1)
              | Waiting (Some (at, a)) \<Rightarrow>
                  (if at < lp_timeout p1 then (Ok a, p1\<lparr>lp_Addr := a, lp_addrCh := ChanClosed\<rparr>)
                   else (Err (addressTimeout showDuration (lp_timeout p1)), p1))
              | Waiting None \<Rightarrow> (Err (addressTimeout showDuration (lp_timeout p1)), p1))"

section \<open>The process\<close>

text \<open>The pipes of the process, its start from a path, and the wait for its end.\<close>

record 'w exec_env =
  stdoutPipe :: "('w, unit) io"
  stderrPipe :: "('w, unit) io"
  startBinary :: "string \<Rightarrow> ('w, unit) io"
  waitBinary :: "('w, unit) io"

definition PluginEnvKey :: string where
  "PluginEnvKey = ''MACHINE_PLUGIN_TOKEN''"

definition PluginEnvVal :: string where
  "PluginEnvVal = ''42''"

definition PluginEnvDriverName :: string where
  "PluginEnvDriverName = ''MACHINE_PLUGIN_DRIVER_NAME''"

definition Setenv :: "string \<Rightarrow> string \<Rightarrow> ('v os_world_scheme, unit) io" where
  "Setenv k v = modifyW (\<lambda>w. w\<lparr>environ := AList.update k v (environ w)\<rparr>)"

text \<open>The plugin learns its task from variables that are set in the client itself and stay there.\<close>

definition Executor_Start :: "'v os_world_scheme exec_env \<Rightarrow> string \<Rightarrow> string \<Rightarrow> ('v os_world_scheme, unit) io" where
  "Executor_Start X binaryPath driverName =
     bindP (wrapErr (errorf ''Error getting cmd stdout pipe: '') (stdoutPipe X)) (\<lambda>_.
     bindP (wrapErr (errorf ''Error getting cmd stderr pipe: '') (stderrPipe X)) (\<lambda>_.
     bindP (Setenv PluginEnvKey PluginEnvVal) (\<lambda>_.
     bindP (Setenv PluginEnvDriverName driverName) (\<lambda>_.
     wrapErr (errorf ''Error starting plugin binary: '') (startBinary X binaryPath)))))"

definition Executor_Close :: "'w exec_env \<Rightarrow> ('w, unit) io" where
  "Executor_Close X = wrapErr (errorf ''Error waiting for binary close: '') (waitBinary X)"

section \<open>The server loop\<close>

datatype serveState = Launching | Looping | ServeFailed gerror | ServeDone

text \<open>
  \<open>ps_out\<close> and \<open>ps_err\<close> are the lines of the process that nobody has read yet, \<open>ps_outHeld\<close> and \<open>ps_errHeld\<close> the lines that the two
  stream goroutines wait to send, \<open>ps_stop\<close> whether \<open>Close\<close> waits to send on the stop channel, \<open>ps_log\<close> the lines that were
  logged, those of the standard output with \<open>True\<close>, \<open>ps_ended\<close> whether the process has closed its standard output.  \<open>ps_printed\<close> and
  \<open>ps_printedErr\<close> record all lines of the process.
\<close>

record plugin_sys =
  ps_serve :: serveState
  ps_addr :: "string option"
  ps_out :: "string list"
  ps_err :: "string list"
  ps_outHeld :: "string option"
  ps_errHeld :: "string option"
  ps_stop :: bool
  ps_ended :: bool
  ps_log :: "(bool \<times> string) list"
  ps_printed :: "string list"
  ps_printedErr :: "string list"

definition plugin_init :: plugin_sys where
  "plugin_init = \<lparr>ps_serve = Launching, ps_addr = None, ps_out = [], ps_err = [], ps_outHeld = None, ps_errHeld = None, ps_stop = False, ps_ended = False,
     ps_log = [], ps_printed = [], ps_printedErr = []\<rparr>"

definition trimLine :: "string \<Rightarrow> string" where
  "trimLine l = TrimF (\<lambda>c. c = CHR 0x0A) l"

inductive plugin_step :: "plugin_sys \<Rightarrow> plugin_sys \<Rightarrow> bool" where
  print: "\<not> ps_ended s \<Longrightarrow> plugin_step s (s\<lparr>ps_out := ps_out s @ [l], ps_printed := ps_printed s @ [l]\<rparr>)"
| printErr: "plugin_step s (s\<lparr>ps_err := ps_err s @ [l], ps_printedErr := ps_printedErr s @ [l]\<rparr>)"
| processEnds: "plugin_step s (s\<lparr>ps_ended := True\<rparr>)"
| startFails: "ps_serve s = Launching \<Longrightarrow> plugin_step s (s\<lparr>ps_serve := ServeFailed e\<rparr>)"
| address: "ps_serve s = Launching \<Longrightarrow> ps_out s = l # ls \<Longrightarrow>
     plugin_step s (s\<lparr>ps_serve := Looping, ps_addr := Some (TrimSpace l), ps_out := ls\<rparr>)"
| noAddress: "ps_serve s = Launching \<Longrightarrow> ps_out s = [] \<Longrightarrow> ps_ended s \<Longrightarrow> plugin_step s (s\<lparr>ps_serve := Looping, ps_addr := Some []\<rparr>)"
| readOut: "ps_serve s \<in> {Looping, ServeDone} \<Longrightarrow> ps_outHeld s = None \<Longrightarrow> ps_out s = l # ls \<Longrightarrow>
     plugin_step s (s\<lparr>ps_outHeld := Some (trimLine l), ps_out := ls\<rparr>)"
| readErr: "ps_serve s \<in> {Looping, ServeDone} \<Longrightarrow> ps_errHeld s = None \<Longrightarrow> ps_err s = l # ls \<Longrightarrow>
     plugin_step s (s\<lparr>ps_errHeld := Some (trimLine l), ps_err := ls\<rparr>)"
| logOut: "ps_serve s = Looping \<Longrightarrow> ps_outHeld s = Some l \<Longrightarrow>
     plugin_step s (s\<lparr>ps_outHeld := None, ps_log := ps_log s @ [(True, l)]\<rparr>)"
| logErr: "ps_serve s = Looping \<Longrightarrow> ps_errHeld s = Some l \<Longrightarrow>
     plugin_step s (s\<lparr>ps_errHeld := None, ps_log := ps_log s @ [(False, l)]\<rparr>)"
| close: "plugin_step s (s\<lparr>ps_stop := True\<rparr>)"
| stop: "ps_serve s = Looping \<Longrightarrow> ps_stop s \<Longrightarrow> plugin_step s (s\<lparr>ps_serve := ServeDone, ps_stop := False\<rparr>)"

inductive_cases plugin_stepE: "plugin_step s t"

section \<open>Lemmas\<close>

definition heldLines :: "string option \<Rightarrow> string list" where
  "heldLines h = (case h of None \<Rightarrow> [] | Some l \<Rightarrow> [l])"

definition logged :: "bool \<Rightarrow> plugin_sys \<Rightarrow> string list" where
  "logged b s = map snd (filter (\<lambda>(k, l). k = b) (ps_log s))"

definition firstAddress :: "string list \<Rightarrow> string" where
  "firstAddress ls = (case ls of [] \<Rightarrow> [] | l # _ \<Rightarrow> TrimSpace l)"

text \<open>When the process is started it finds its driver in the environment, and runs it if it is a core driver.\<close>

lemma Executor_Start_environment:
  assumes "stdoutPipe X w = (Ok (), w)" and "stderrPipe X w = (Ok (), w)"
  shows "\<exists>w'. Executor_Start X binaryPath driverName w = wrapErr (errorf ''Error starting plugin binary: '') (startBinary X binaryPath) w' \<and>
    Getenv w' PluginEnvKey = PluginEnvVal \<and> Getenv w' PluginEnvDriverName = driverName"
proof -
  let ?w = "w\<lparr>environ := AList.update PluginEnvDriverName driverName (AList.update PluginEnvKey PluginEnvVal (environ w))\<rparr>"
  have "PluginEnvKey \<noteq> PluginEnvDriverName" by (simp add: PluginEnvKey_def PluginEnvDriverName_def)
  then show ?thesis
    using assms by (intro exI [of _ ?w]) (simp add: Executor_Start_def bindP_def wrapErr_def Setenv_def modifyW_def Getenv_def update_conv')
qed

text \<open>No line is lost, doubled or moved on its way from the process to the log.\<close>

definition plugin_inv :: "plugin_sys \<Rightarrow> bool" where
  "plugin_inv s \<longleftrightarrow>
     (case ps_addr s of
        None \<Rightarrow> ps_printed s = ps_out s \<and> ps_serve s \<in> {Launching} \<union> range ServeFailed \<and> ps_outHeld s = None \<and> ps_errHeld s = None \<and> ps_log s = []
      | Some a \<Rightarrow> (ps_printed s = [] \<longrightarrow> ps_ended s) \<and> a = firstAddress (ps_printed s) \<and> ps_serve s \<in> {Looping, ServeDone} \<and>
          map trimLine (tl (ps_printed s)) = logged True s @ heldLines (ps_outHeld s) @ map trimLine (ps_out s)) \<and>
     map trimLine (ps_printedErr s) = logged False s @ heldLines (ps_errHeld s) @ map trimLine (ps_err s)"

lemma plugin_inv_init: "plugin_inv plugin_init"
  by (simp add: plugin_inv_def plugin_init_def logged_def heldLines_def)

lemma plugin_step_inv: "plugin_step s t \<Longrightarrow> plugin_inv s \<Longrightarrow> plugin_inv t"
  by (erule plugin_stepE) (auto simp: plugin_inv_def logged_def heldLines_def firstAddress_def split: option.splits list.splits)

lemma plugin_run_inv: "plugin_step\<^sup>*\<^sup>* s t \<Longrightarrow> plugin_inv s \<Longrightarrow> plugin_inv t"
  by (induction rule: rtranclp_induct) (auto intro: plugin_step_inv)

lemma Close_stuck_step:
  "plugin_step s t \<Longrightarrow> ps_serve s = ServeDone \<or> (\<exists>e. ps_serve s = ServeFailed e) \<Longrightarrow> ps_stop s \<Longrightarrow>
     ps_serve t = ps_serve s \<and> ps_stop t"
  by (erule plugin_stepE) auto

lemma Close_stuck_run:
  "plugin_step\<^sup>*\<^sup>* s t \<Longrightarrow> ps_serve s = ServeDone \<or> (\<exists>e. ps_serve s = ServeFailed e) \<Longrightarrow> ps_stop s \<Longrightarrow> ps_serve t = ps_serve s \<and> ps_stop t"
proof (induction rule: rtranclp_induct)
  case (step t u)
  then have t: "ps_serve t = ps_serve s" "ps_stop t" by simp_all
  then show ?case using Close_stuck_step [OF step.hyps(2)] step.prems by metis
qed simp

section \<open>Properties\<close>

text \<open>C14: whatever the interleaving of the process, the two stream goroutines and the loop, the address is the first line
  that the plugin printed, and what has been logged of each stream is an initial part of the later lines in their order.\<close>

theorem plugin_output_in_order:
  assumes "plugin_step\<^sup>*\<^sup>* plugin_init s"
  shows "(\<forall>a. ps_addr s = Some a \<longrightarrow> a = firstAddress (ps_printed s)) \<and>
         prefix (logged True s) (map trimLine (tl (ps_printed s))) \<and> prefix (logged False s) (map trimLine (ps_printedErr s))"
proof -
  have "plugin_inv s" using plugin_run_inv [OF assms plugin_inv_init] .
  then show ?thesis by (cases "ps_addr s") (auto simp: plugin_inv_def logged_def)
qed

definition demoRun :: plugin_sys where
  "demoRun = plugin_init\<lparr>ps_serve := Looping, ps_addr := Some ''127.0.0.1:99'', ps_log := [(True, ''hello'')], ps_printed := ['' 127.0.0.1:99'', ''hello'']\<rparr>"

theorem plugin_output_in_order_witness:
  "prefix (logged True demoRun) (map trimLine (tl (ps_printed demoRun)))"
proof -
  let ?a = "plugin_init\<lparr>ps_out := ['' 127.0.0.1:99''], ps_printed := ['' 127.0.0.1:99'']\<rparr>"
  let ?b = "?a\<lparr>ps_out := ['' 127.0.0.1:99'', ''hello''], ps_printed := ['' 127.0.0.1:99'', ''hello'']\<rparr>"
  let ?c = "?b\<lparr>ps_serve := Looping, ps_addr := Some ''127.0.0.1:99'', ps_out := [''hello'']\<rparr>"
  let ?d = "?c\<lparr>ps_outHeld := Some ''hello'', ps_out := []\<rparr>"
  have t: "TrimSpace '' 127.0.0.1:99'' = ''127.0.0.1:99''" "trimLine ''hello'' = ''hello''" by code_simp+
  have "plugin_step plugin_init ?a" using plugin_step.print [of plugin_init "'' 127.0.0.1:99''"] by (simp add: plugin_init_def)
  moreover have "plugin_step ?a ?b" using plugin_step.print [of ?a "''hello''"] by (simp add: plugin_init_def)
  moreover have "plugin_step ?b ?c" using plugin_step.address [of ?b "'' 127.0.0.1:99''" "[''hello'']"] t by (simp add: plugin_init_def)
  moreover have "plugin_step ?c ?d" using plugin_step.readOut [of ?c "''hello''" "[]"] t by (simp add: plugin_init_def)
  moreover have "plugin_step ?d demoRun" using plugin_step.logOut [of ?d "''hello''"] by (simp add: plugin_init_def demoRun_def)
  ultimately have "plugin_step\<^sup>*\<^sup>* plugin_init demoRun" by (meson converse_rtranclp_into_rtranclp rtranclp.rtrancl_refl)
  from plugin_output_in_order [OF this] show ?thesis by blast
qed

text \<open>C15: \<open>Close\<close> of a plugin returns exactly when the server loop is there to take its message: a step that lets it return
  is possible while the loop runs, and after the plugin could not be started, or when it has been closed before, \<open>Close\<close> waits
  for ever.\<close>

theorem Close_needs_loop:
  assumes "ps_stop s"
  shows "((\<exists>t. plugin_step s t \<and> \<not> ps_stop t) \<longleftrightarrow> ps_serve s = Looping) \<and>
         (ps_serve s = ServeDone \<or> (\<exists>e. ps_serve s = ServeFailed e) \<longrightarrow> (\<forall>t. plugin_step\<^sup>*\<^sup>* s t \<longrightarrow> ps_stop t))"
proof
  show "(\<exists>t. plugin_step s t \<and> \<not> ps_stop t) \<longleftrightarrow> ps_serve s = Looping"
  proof
    assume "\<exists>t. plugin_step s t \<and> \<not> ps_stop t"
    then show "ps_serve s = Looping" using assms by (auto elim!: plugin_stepE)
  next
    assume "ps_serve s = Looping"
    then have "plugin_step s (s\<lparr>ps_serve := ServeDone, ps_stop := False\<rparr>)" using assms by (rule plugin_step.stop)
    then show "\<exists>t. plugin_step s t \<and> \<not> ps_stop t" by force
  qed
qed (use assms Close_stuck_run in blast)

theorem Close_needs_loop_witness:
  "\<nexists>t. plugin_step\<^sup>*\<^sup>* (plugin_init\<lparr>ps_serve := ServeFailed (OsErr ''exec format error''), ps_stop := True\<rparr>) t \<and> \<not> ps_stop t"
  using Close_needs_loop [of "plugin_init\<lparr>ps_serve := ServeFailed (OsErr ''exec format error''), ps_stop := True\<rparr>"] by auto

text \<open>An address that was read once is kept; after an empty one the next question panics.\<close>

theorem localPlugin_Address_again:
  assumes "localPlugin_Address showDuration p = (Ok a, p')"
  shows "(a \<noteq> [] \<longrightarrow> localPlugin_Address showDuration p' = (Ok a, p')) \<and>
         (a = [] \<longrightarrow> localPlugin_Address showDuration p' = (Panic ''close of closed channel'', p'))"
  using assms by (auto simp: localPlugin_Address_def defaultTimeout_def Let_def split: if_splits addrChan.splits option.splits prod.splits)

end
