(* ===== verification/Podman_Machine.thy ===== *)
theory Podman_Machine
  imports Cli Local_Plugin
begin

text \<open>
  \<open>cmd/podman-machine/machine.go\<close>, \<open>version\<close> and \<open>drivers/plugin/register_driver.go\<close>: the entry of the program.  The same binary
  is the client, which runs the application, and the process of a core driver, which serves one driver over RPC until
  the client closes it or its heartbeats stop.
\<close>

section \<open>The environment\<close>

text \<open>
  \<open>me_logger\<close> is where the world keeps the logger, whose stream \<open>StderrWriter\<close> is the standard error of the process;
  \<open>me_listen\<close> opens the port of the RPC server and yields its address; \<open>me_arrivals\<close> are the tokens that reach the loop of the
  plugin, each with the time since the one before, in milliseconds.
\<close>

record ('w, 'c) main_env =
  me_app :: "('w, 'c) app_env"
  me_logger :: "('w, fmtMachineLogger) lens"
  me_listen :: "('w, string) io"
  me_arrivals :: "(nat \<times> pluginEvent) list"

definition Version :: string where
  "Version = ''dev''"

definition GitCommit :: string where
  "GitCommit = ''HEAD''"

definition FullVersion :: string where
  "FullVersion = Version @ '', build '' @ GitCommit"

definition withLogger :: "('w, fmtMachineLogger) lens \<Rightarrow> (fmtMachineLogger \<Rightarrow> fmtMachineLogger) \<Rightarrow> ('w, unit) io" where
  "withLogger L f = modifyW (\<lambda>w. lput L (f (lget L w)) w)"

definition toStderr :: "('w, 'c) main_env \<Rightarrow> string \<Rightarrow> ('w, unit) io" where
  "toStderr M s = withLogger (me_logger M) (Fprint StderrWriter s)"

section \<open>The plugin process\<close>

definition heartbeatTimeout :: nat where
  "heartbeatTimeout = 10000"

definition heartbeatInterval :: nat where
  "heartbeatInterval = 5000"

text \<open>What the \<open>select\<close> of the loop sees: the tokens while they come in time, then its timer.\<close>

fun pluginEvents :: "(nat \<times> pluginEvent) list \<Rightarrow> pluginEvent list" where
  "pluginEvents [] = [EvHeartbeatTimeout]"
| "pluginEvents ((d, e) # as) = (if d < heartbeatTimeout then e # pluginEvents as else [EvHeartbeatTimeout])"

definition registerHelp :: string where
  "registerHelp = ''This is a Podman Machine plugin binary.'' @ nl @ ''Plugin binaries are not intended to be invoked directly.'' @ nl @
     ''Please use this plugin through the main '' @ [CHR 0x27] @ ''podman-machine'' @ [CHR 0x27] @ '' binary.'' @ nl @
     ''(API version: '' @ Itoa APIVersion @ '')'' @ nl"

text \<open>The exit code of the process; the loop ends because the timer ends it.\<close>

definition RegisterDriver :: "('v os_world_scheme, 'c) main_env \<Rightarrow> ('v os_world_scheme, nat) io" where
  "RegisterDriver M =
     bindP getW (\<lambda>w.
       if Getenv w PluginEnvKey \<noteq> PluginEnvVal then bindP (toStderr M registerHelp) (\<lambda>_. ret 1)
       else
         bindP (withLogger (me_logger M) (ml_SetDebug True)) (\<lambda>_.
         bindP (Setenv ''MACHINE_DEBUG'' ''1'') (\<lambda>_.
         bindP (tryP (me_listen M)) (\<lambda>r. case r of
             Inl e \<Rightarrow> bindP (toStderr M (''Error loading RPC server: '' @ Error e @ nl)) (\<lambda>_. ret 1)
           | Inr addr \<Rightarrow>
               bindP (Println addr) (\<lambda>_.
               case registerLoop (pluginEvents (me_arrivals M)) of
                 Some code \<Rightarrow> bindP (if code = 0 then withLogger (me_logger M) (logWith (LogDebug [AString ''Closing plugin on server side'']))
                                    else ret ()) (\<lambda>_. ret code)
               | None \<Rightarrow> blocked)))))"

definition runDriverProcess :: "('v os_world_scheme, 'c) main_env \<Rightarrow> string \<Rightarrow> ('v os_world_scheme, nat) io" where
  "runDriverProcess M driverName = (case runDriver driverName of
       Some d \<Rightarrow> RegisterDriver M
     | None \<Rightarrow> bindP (toStderr M (''Unsupported driver: '' @ driverName @ nl)) (\<lambda>_. ret 1))"

section \<open>The client process\<close>

text \<open>\<open>strconv.ParseBool\<close>.\<close>

definition ParseBool :: "string \<Rightarrow> bool option" where
  "ParseBool s =
     (if s \<in> {''1'', ''t'', ''T'', ''true'', ''TRUE'', ''True''} then Some True
      else if s \<in> {''0'', ''f'', ''F'', ''false'', ''FALSE'', ''False''} then Some False else None)"

text \<open>The value is the exit code when the process ends here.\<close>

definition setDebugOutputLevel :: "('v os_world_scheme, 'c) main_env \<Rightarrow> ('v os_world_scheme, nat option) io" where
  "setDebugOutputLevel M =
     bindP (forEach (osArgs (ae_cmd (me_app M))) (\<lambda>f.
              if f = ''-D'' \<or> f = ''--debug'' \<or> f = ''-debug'' then withLogger (me_logger M) (ml_SetDebug True) else ret ())) (\<lambda>_.
     bindP getW (\<lambda>w.
       let debugEnv = Getenv w ''MACHINE_DEBUG''
       in if debugEnv = [] then ret None
          else case ParseBool debugEnv of
            None \<Rightarrow> bindP (toStderr M (''Error parsing boolean value from MACHINE_DEBUG: strconv.ParseBool: parsing '' @ Quote debugEnv @
                      '': invalid syntax'' @ nl)) (\<lambda>_. ret (Some 1))
          | Some showDebug \<Rightarrow> bindP (withLogger (me_logger M) (ml_SetDebug showDebug)) (\<lambda>_. ret None)))"

definition mainApp :: "('v os_world_scheme, 'c) cmd_env \<Rightarrow> 'v os_world_scheme \<Rightarrow> cliApp" where
  "mainApp Z w =
     (let arg0 = (case osArgs Z of [] \<Rightarrow> [] | a # as \<Rightarrow> a)
      in \<lparr>app_Name = pathBase arg0, app_Author = ''Podman Machine Contributors'', app_Email = ''https://github.com/thelonelyghost/p2box'',
          app_Commands = Commands arg0, app_Usage = ''Create and manage machines running Podman.'', app_Version = FullVersion,
          app_Flags = globalFlags (GetBaseDir Z w)\<rparr>)"

text \<open>An error of the run is only logged: the process then ends with 0.\<close>

definition main :: "('v os_world_scheme, 'c) main_env \<Rightarrow> ('v os_world_scheme, nat) io" where
  "main M =
     bindP getW (\<lambda>w.
       if Getenv w PluginEnvKey = PluginEnvVal then runDriverProcess M (Getenv w PluginEnvDriverName)
       else
         bindP (setDebugOutputLevel M) (\<lambda>exit. case exit of
             Some code \<Rightarrow> ret code
           | None \<Rightarrow>
               bindP (withLogger (me_logger M) (logWith (LogDebug [AString ''Podman Machine Version: '', AString FullVersion]))) (\<lambda>_.
               bindP (tryP (ae_run (me_app M) (mainApp (ae_cmd (me_app M)) w) (osArgs (ae_cmd (me_app M))))) (\<lambda>r. case r of
                   Inl e \<Rightarrow> bindP (withLogger (me_logger M) (logWith (LogError [AValue ''error'' (Error e)]))) (\<lambda>_. ret 0)
                 | Inr code \<Rightarrow> ret code))))"

text \<open>A command the table does not have.\<close>

definition cmdNotFound :: "('v os_world_scheme, 'c) main_env \<Rightarrow> cliApp \<Rightarrow> string \<Rightarrow> ('v os_world_scheme, nat) io" where
  "cmdNotFound M app command =
     bindP (withLogger (me_logger M) (logWith (LogErrorf
       (''%s: '' @ [CHR 0x27] @ ''%s'' @ [CHR 0x27] @ '' is not a %s command. See '' @ [CHR 0x27] @ ''%s --help'' @ [CHR 0x27] @ ''.'')
       [AString (app_Name app), AString command, AString (app_Name app),
        AString (case osArgs (ae_cmd (me_app M)) of [] \<Rightarrow> [] | a # as \<Rightarrow> a)]))) (\<lambda>_. ret 1)"

section \<open>Lemmas\<close>

lemma registerLoop_beats:
  "list_all (\<lambda>d. d < heartbeatTimeout) ds \<Longrightarrow>
   registerLoop (pluginEvents (map (\<lambda>d. (d, EvHeartbeat)) ds @ as)) = registerLoop (pluginEvents as)"
  by (induction ds) simp_all

text \<open>The loop always ends.\<close>

lemma registerLoop_ends: "\<exists>code. registerLoop (pluginEvents as) = Some code \<and> code \<le> 1"
proof (induction as rule: pluginEvents.induct)
  case (2 d e as)
  then show ?case by (cases e) auto
qed simp

lemma withLogger_apply: "withLogger L f w = (Ok (), lput L (f (lget L w)) w)"
  by (simp add: withLogger_def modifyW_def)

lemma RegisterDriver_serves:
  fixes M :: "(fmtMachineLogger os_world_scheme, 'c) main_env"
  assumes "me_logger M = moreL" and "\<And>w. me_listen M w = (Ok addr, w)" and "Getenv p PluginEnvKey = PluginEnvVal"
  shows "\<exists>code p'. RegisterDriver M p = (Ok code, p') \<and> registerLoop (pluginEvents (me_arrivals M)) = Some code \<and> stdout p' = stdout p @ [addr]"
proof -
  obtain code where "registerLoop (pluginEvents (me_arrivals M)) = Some code" using registerLoop_ends by blast
  then show ?thesis
    using assms by (auto simp: RegisterDriver_def bindP_def getW_def withLogger_apply Setenv_def modifyW_def tryP_def Println_def moreL_def ret_def)
qed

lemma Getenv_plugin:
  "Getenv (p\<lparr>environ := AList.update PluginEnvDriverName d (AList.update PluginEnvKey PluginEnvVal e)\<rparr>) PluginEnvKey = PluginEnvVal"
  "Getenv (p\<lparr>environ := AList.update PluginEnvDriverName d (AList.update PluginEnvKey PluginEnvVal e)\<rparr>) PluginEnvDriverName = d"
  by (simp_all add: Getenv_def update_conv' PluginEnvKey_def PluginEnvDriverName_def)

section \<open>Properties\<close>

text \<open>C11: the process that the client starts for a core driver serves it: with the environment that \<open>Executor.Start\<close> sets it
  prints the address of its server as the first line, which is what the client reads, and then runs until its loop
  ends.  The exception is \<open>none\<close>, which the client counts among the core drivers: its process ends with 1 and prints nothing.\<close>

theorem plugin_process_announces:
  fixes M :: "(fmtMachineLogger os_world_scheme, 'c) main_env"
  assumes "me_logger M = moreL" and "\<And>w. me_listen M w = (Ok addr, w)" and "TrimSpace addr = addr" and "d \<in> set CoreDrivers"
    and "stdout p = []" and "environ p = AList.update PluginEnvDriverName d (AList.update PluginEnvKey PluginEnvVal e)"
  shows "\<exists>code p'. main M p = (Ok code, p') \<and>
    (if d = ''none'' then code = 1 \<and> stdout p' = []
     else firstAddress (stdout p') = addr \<and> registerLoop (pluginEvents (me_arrivals M)) = Some code)"
proof -
  have env: "Getenv p PluginEnvKey = PluginEnvVal" "Getenv p PluginEnvDriverName = d"
    using Getenv_plugin [of d e p] assms(6) by (simp_all add: Getenv_def)
  then have m: "main M p = runDriverProcess M d p" by (simp add: main_def bindP_def getW_def)
  show ?thesis
  proof (cases "d = ''none''")
    case True
    then show ?thesis using assms(1,5)
      by (simp add: m runDriverProcess_def runDriver_def toStderr_def withLogger_apply bindP_def ret_def moreL_def)
  next
    case False
    with assms(4) have "runDriver d = Some d" by (auto simp: CoreDrivers_def runDriver_def)
    then show ?thesis
      using RegisterDriver_serves [OF assms(1,2) env(1)] False assms(3,5) by (auto simp: m runDriverProcess_def firstAddress_def)
  qed
qed

definition demoListen :: "(fmtMachineLogger os_world_scheme, string) io" where
  "demoListen = ret ''127.0.0.1:40001''"

theorem plugin_process_announces_witness:
  "\<forall>E :: (fmtMachineLogger os_world_scheme, unit) app_env. \<exists>p'.
     main \<lparr>me_app = E, me_logger = moreL, me_listen = demoListen, me_arrivals = [(5000, EvHeartbeat), (100, EvClose)]\<rparr>
       (plainWorld [] NewFmtMachineLogger\<lparr>environ := [(PluginEnvKey, PluginEnvVal), (PluginEnvDriverName, ''qemu'')]\<rparr>) = (Ok 0, p') \<and>
     firstAddress (stdout p') = ''127.0.0.1:40001''"
proof
  fix E :: "(fmtMachineLogger os_world_scheme, unit) app_env"
  let ?M = "\<lparr>me_app = E, me_logger = moreL, me_listen = demoListen, me_arrivals = [(5000, EvHeartbeat), (100, EvClose)]\<rparr>"
  let ?p = "plainWorld [] NewFmtMachineLogger\<lparr>environ := [(PluginEnvKey, PluginEnvVal), (PluginEnvDriverName, ''qemu'')]\<rparr>"
  have t: "TrimSpace ''127.0.0.1:40001'' = ''127.0.0.1:40001''" by code_simp
  have e: "environ ?p = AList.update PluginEnvDriverName ''qemu'' (AList.update PluginEnvKey PluginEnvVal [])"
    by (simp add: PluginEnvKey_def PluginEnvDriverName_def)
  have r: "registerLoop (pluginEvents (me_arrivals ?M)) = Some 0" by (simp add: heartbeatTimeout_def)
  have "\<exists>code p'. main ?M ?p = (Ok code, p') \<and> (if ''qemu'' = ''none'' then code = 1 \<and> stdout p' = []
     else firstAddress (stdout p') = ''127.0.0.1:40001'' \<and> registerLoop (pluginEvents (me_arrivals ?M)) = Some code)"
    by (rule plugin_process_announces [OF _ _ t _ _ e]) (simp_all add: demoListen_def ret_def CoreDrivers_def plainWorld_def)
  then show "\<exists>p'. main ?M ?p = (Ok 0, p') \<and> firstAddress (stdout p') = ''127.0.0.1:40001''" using r by auto
qed

text \<open>a plugin process lives as long as its client: beats that are less than ten seconds apart keep it alive, and those of
  the client are, it then ends with 0 when the client closes it, and with 1 when the beats stop.\<close>

theorem plugin_lifetime:
  assumes "list_all (\<lambda>d. d < heartbeatTimeout) ds"
  shows "heartbeatInterval < heartbeatTimeout \<and>
    registerLoop (map (\<lambda>d. EvHeartbeat) ds) = None \<and>
    registerLoop (pluginEvents (map (\<lambda>d. (d, EvHeartbeat)) ds)) = Some 1 \<and>
    (\<forall>d < heartbeatTimeout. registerLoop (pluginEvents (map (\<lambda>d. (d, EvHeartbeat)) ds @ (d, EvClose) # as)) = Some 0)"
proof -
  have "registerLoop (map (\<lambda>d. EvHeartbeat) ds) = None" by (induction ds) simp_all
  then show ?thesis
    using registerLoop_beats [OF assms, of "[]"] registerLoop_beats [OF assms]
    by (simp add: heartbeatInterval_def heartbeatTimeout_def)
qed

theorem plugin_lifetime_witness:
  "registerLoop (pluginEvents [(5000, EvHeartbeat), (5000, EvHeartbeat), (200, EvClose)]) = Some 0"
  using plugin_lifetime [of "[5000, 5000]" "[]"] by (simp add: heartbeatTimeout_def)

text \<open>when the run of the application fails, for instance on a flag that is not declared, the error is logged and the process
  ends with 0 all the same.\<close>

theorem main_run_error_exits_zero:
  fixes M :: "(fmtMachineLogger os_world_scheme, 'c) main_env"
  assumes "me_logger M = moreL" and "Getenv p PluginEnvKey \<noteq> PluginEnvVal" and "setDebugOutputLevel M p = (Ok None, p1)"
    and "\<And>w. ae_run (me_app M) (mainApp (ae_cmd (me_app M)) p) (osArgs (ae_cmd (me_app M))) w = (Err e, w)"
  shows "\<exists>p'. main M p = (Ok 0, p') \<and> last (ml_History (os_world.more p')) = Error e"
  using assms fmtlog.history_emit
  by (simp add: main_def bindP_def getW_def withLogger_apply tryP_def moreL_def ret_def logger_defs)

definition demoFailingApp :: "(fmtMachineLogger os_world_scheme, unit) app_env" where
  "demoFailingApp = \<lparr>ae_cmd = demoCmdEnv, ae_ls = demoLs, ae_detect = ret [], ae_newDriver = (\<lambda>n r. throw (NotLoadable n)),
     ae_stdLock = constL False, ae_codec = demoCodec, ae_close = ret (), ae_flagText = (\<lambda>f. []),
     ae_run = (\<lambda>app args. throw (ErrorString ''flag provided but not defined: -x''))\<rparr>"

theorem main_run_error_exits_zero_witness:
  "\<exists>p'. main \<lparr>me_app = demoFailingApp, me_logger = moreL, me_listen = demoListen, me_arrivals = []\<rparr> (plainWorld [] NewFmtMachineLogger) = (Ok 0, p') \<and>
     last (ml_History (os_world.more p')) = ''flag provided but not defined: -x''"
proof -
  let ?M = "\<lparr>me_app = demoFailingApp, me_logger = moreL, me_listen = demoListen, me_arrivals = []\<rparr>"
  let ?p = "plainWorld [] NewFmtMachineLogger"
  have "\<exists>p'. main ?M ?p = (Ok 0, p') \<and> last (ml_History (os_world.more p')) = Error (ErrorString ''flag provided but not defined: -x'')"
  proof (rule main_run_error_exits_zero)
    show "Getenv ?p PluginEnvKey \<noteq> PluginEnvVal" by (simp add: Getenv_def plainWorld_def PluginEnvVal_def)
    show "setDebugOutputLevel ?M ?p = (Ok None, ?p)"
      by (simp add: setDebugOutputLevel_def demoFailingApp_def demoCmdEnv_def bindP_def ret_def getW_def Getenv_def plainWorld_def)
  qed (simp_all add: demoFailingApp_def throw_def)
  then show ?thesis by simp
qed

end
