(* ===== verification/Provision_Generic.thy ===== *)
theory Provision_Generic
  imports Provision
begin

text \<open>
  \<open>provision/generic.go\<close> and \<open>provision/systemd.go\<close>: the provisioners that the ones for the known systems embed.  Their methods
  are those of a distribution that does not bring its own.  \<open>DaemonOptionsFile\<close>, which no constructor sets, is an argument.
\<close>

section \<open>The generic provisioner\<close>

definition GenericSSHCommander_SSHCommand ::
  "('v os_world_scheme, 'c) prov_env \<Rightarrow> 'v os_world_scheme driver \<Rightarrow> string \<Rightarrow> ('v os_world_scheme, string) io" where
  "GenericSSHCommander_SSHCommand P d args = RunSSHCommandFromDriver (pe_ssh P) d args"

definition hostsScript :: "string \<Rightarrow> string" where
  "hostsScript hostname =
     (let q = [CHR 0x27]; bs = [CHR 0x5C]; tb = [CHR 0x09]
      in nl @ tb @ tb @ ''if ! grep -xq '' @ q @ ''.*'' @ bs @ ''s'' @ hostname @ q @ '' /etc/hosts; then'' @ nl @
         tb @ tb @ tb @ ''if grep -xq '' @ q @ ''127.0.1.1'' @ bs @ ''s.*'' @ q @ '' /etc/hosts; then'' @ nl @
         tb @ tb @ tb @ tb @ ''sudo sed -i '' @ q @ ''s/^127.0.1.1'' @ bs @ ''s.*/127.0.1.1 '' @ hostname @ ''/g'' @ q @ '' /etc/hosts;'' @ nl @
         tb @ tb @ tb @ ''else '' @ nl @
         tb @ tb @ tb @ tb @ ''echo '' @ q @ ''127.0.1.1 '' @ hostname @ q @ '' | sudo tee -a /etc/hosts; '' @ nl @
         tb @ tb @ tb @ ''fi'' @ nl @ tb @ tb @ ''fi'')"

definition generic_SetHostname ::
  "('v os_world_scheme, 'c) prov_env \<Rightarrow> 'v os_world_scheme provisioner \<Rightarrow> string \<Rightarrow> ('v os_world_scheme, unit) io" where
  "generic_SetHostname P p hostname =
     bindP (runSSH P p (''sudo hostname '' @ hostname @ '' && echo '' @ Quote hostname @ '' | sudo tee /etc/hostname'')) (\<lambda>_.
       runSSH P p (hostsScript hostname))"

definition generic_GetAuthOptions :: "'w provisioner \<Rightarrow> authOptions" where
  "generic_GetAuthOptions p = AuthOptions p"

definition generic_GetOsReleaseInfo :: "'w provisioner \<Rightarrow> osRelease" where
  "generic_GetOsReleaseInfo p = OsReleaseInfo p"

definition generic_GetDriver :: "'w provisioner \<Rightarrow> 'w driver" where
  "generic_GetDriver p = prov_Driver p"

definition genericEngineConfig :: "authOptions \<Rightarrow> engineOptions \<Rightarrow> string" where
  "genericEngineConfig a e =
     nl @ ''ENGINE_OPTS='' @ [CHR 0x27] @ nl @ ''--storage-driver '' @ StorageDriver e @ nl @ ''--tlsverify'' @ nl @
     ''--tlscacert '' @ CaCertRemotePath a @ nl @ ''--tlscert '' @ ServerCertRemotePath a @ nl @ ''--tlskey '' @ ServerKeyRemotePath a @ nl @
     optionItems nl e @ nl @ [CHR 0x27] @ nl @
     concat (map (\<lambda>v. ''export '' @ [CHR 0x5C] @ dq @ Quote v @ [CHR 0x5C] @ dq @ nl) (engine_Env e)) @ nl"

definition generic_GenerateEngineOptions :: "string \<Rightarrow> 'w provisioner \<Rightarrow> ('w, engineOptionsFile \<times> 'w provisioner) io" where
  "generic_GenerateEngineOptions daemonOptionsFile p0 =
     bindP (DriverName (prov_Driver p0)) (\<lambda>name.
     let p = withProviderLabel p0 name
     in ret (\<lparr>EngineOptionsString = genericEngineConfig (AuthOptions p) (EngineOptions p), EngineOptionsPath = daemonOptionsFile\<rparr>, p))"

section \<open>The systemd provisioner\<close>

definition SystemdProvisioner_String :: string where
  "SystemdProvisioner_String = ''redhat''"

definition systemdEngineConfig :: "authOptions \<Rightarrow> engineOptions \<Rightarrow> string" where
  "systemdEngineConfig a e =
     ''--storage-driver '' @ StorageDriver e @ '' --tlsverify --tlscacert '' @ CaCertRemotePath a @ '' --tlscert '' @ ServerCertRemotePath a @
     '' --tlskey '' @ ServerKeyRemotePath a @ '' '' @ optionItems '' '' e @ nl @
     ''Environment='' @ concat (map (\<lambda>v. Quote v @ '' '') (engine_Env e)) @ nl"

definition systemd_GenerateEngineOptions :: "string \<Rightarrow> 'w provisioner \<Rightarrow> ('w, engineOptionsFile \<times> 'w provisioner) io" where
  "systemd_GenerateEngineOptions daemonOptionsFile p0 =
     bindP (DriverName (prov_Driver p0)) (\<lambda>name.
     let p = withProviderLabel p0 name
     in ret (\<lparr>EngineOptionsString = systemdEngineConfig (AuthOptions p) (EngineOptions p), EngineOptionsPath = daemonOptionsFile\<rparr>, p))"

section \<open>The output of netstat\<close>

text \<open>\<open>matchString\<close> is \<open>regexp.MatchString\<close>; an expression that does not compile matches nothing.\<close>

definition matchNetstatOut :: "(string \<Rightarrow> string \<Rightarrow> gerror + bool) \<Rightarrow> string \<Rightarrow> string \<Rightarrow> bool" where
  "matchNetstatOut matchString reDaemonListening netstatOut =
     list_ex (\<lambda>line. (case matchString reDaemonListening line of Inl _ \<Rightarrow> False | Inr match \<Rightarrow> match) \<and> line \<noteq> []) (Split netstatOut nl)"

section \<open>Lemmas\<close>

lemma Contains_append: "Contains s t \<Longrightarrow> Contains (a @ s) t" "Contains s t \<Longrightarrow> Contains (s @ b) t"
  unfolding Contains_iff by (metis append.assoc)+

lemma Contains_refl: "Contains s s"
  unfolding Contains_iff by (metis append_Nil append_Nil2)

lemma Contains_item:
  assumes "x \<in> set xs"
  shows "Contains (eachItem before after xs) (before @ x @ after)"
proof -
  from assms obtain ys zs where "xs = ys @ x # zs" by (auto dest: split_list)
  then have "eachItem before after xs = eachItem before after ys @ (before @ x @ after) @ eachItem before after zs"
    by (simp add: eachItem_def)
  then show ?thesis unfolding Contains_iff by metis
qed

text \<open>The two forms of the options file name every label, registry, mirror and flag of the options.\<close>

lemma optionItems_complete:
  "x \<in> set (Labels e) \<Longrightarrow> Contains (optionItems sep e) (''--label '' @ x @ sep)"
  "x \<in> set (InsecureRegistry e) \<Longrightarrow> Contains (optionItems sep e) (''--insecure-registry '' @ x @ sep)"
  "x \<in> set (RegistryMirror e) \<Longrightarrow> Contains (optionItems sep e) (''--registry-mirror '' @ x @ sep)"
  "x \<in> set (ArbitraryFlags e) \<Longrightarrow> Contains (optionItems sep e) (''--'' @ x @ sep)"
  unfolding optionItems_def
  by (rule Contains_append(2), erule Contains_item)
    (rule Contains_append(1), rule Contains_append(2), erule Contains_item,
     rule Contains_append(1), rule Contains_append(1), rule Contains_append(2), erule Contains_item,
     rule Contains_append(1), rule Contains_append(1), rule Contains_append(1), erule Contains_item)

theorem generic_options_complete:
  assumes "DriverName (prov_Driver p) w = (Ok name, w')" and "x \<in> set (Labels (EngineOptions p)) \<or> x = ''provider='' @ name"
  shows "\<exists>f p'. generic_GenerateEngineOptions path p w = (Ok (f, p'), w') \<and> Contains (EngineOptionsString f) (''--label '' @ x @ nl) \<and>
    EngineOptionsPath f = path"
proof -
  let ?e = "EngineOptions (withProviderLabel p name)"
  have "x \<in> set (Labels ?e)" using assms(2) by (auto simp: withProviderLabel_def)
  then have "Contains (optionItems nl ?e) (''--label '' @ x @ nl)" by (rule optionItems_complete)
  then have "Contains (genericEngineConfig a ?e) (''--label '' @ x @ nl)" for a
    unfolding genericEngineConfig_def by (simp only: append.assoc [symmetric]) (intro Contains_append, simp)
  then show ?thesis using assms(1) by (simp add: generic_GenerateEngineOptions_def bindP_def ret_def Let_def)
qed

end
