(* ===== verification/Test_Doubles.thy ===== *)
theory Test_Doubles
  imports Commands Provision_Generic
begin

text \<open>
  The doubles that the packages of the program offer to tests: stores and clients that keep hosts in memory, a command
  line and driver options over a table of values, a provisioner without effects, commanders with canned answers
  (\<open>persisttest\<close>, \<open>libmachinetest\<close>, \<open>commandstest\<close>, \<open>hosttest\<close>, \<open>provisiontest\<close>, \<open>sshtest\<close>, \<open>provision/fake_provisioner.go\<close>).
  A failed type assertion is a panic.
\<close>

section \<open>The fake store\<close>

record 'w fakeStore =
  st_Hosts :: "'w host list"
  ExistsErr :: "gerror option"
  ListErr :: "gerror option"
  LoadErr :: "gerror option"
  RemoveErr :: "gerror option"
  SaveErr :: "gerror option"

definition FakeStore_Exists :: "string \<Rightarrow> ('w fakeStore, bool) io" where
  "FakeStore_Exists name = (\<lambda>s. case ExistsErr s of
       Some e \<Rightarrow> (Err e, s)
     | None \<Rightarrow> (Ok (list_ex (\<lambda>h. h_Name h = name) (st_Hosts s)), s))"

text \<open>The names come with the error.\<close>

definition FakeStore_List :: "('w fakeStore, string list \<times> gerror option) io" where
  "FakeStore_List = (\<lambda>s. (Ok (map h_Name (st_Hosts s), ListErr s), s))"

text \<open>A host that is not there is a nil pointer, without an error.\<close>

definition FakeStore_Load :: "string \<Rightarrow> ('w fakeStore, 'w host option) io" where
  "FakeStore_Load name = (\<lambda>s. case LoadErr s of
       Some e \<Rightarrow> (Err e, s)
     | None \<Rightarrow> (Ok (find (\<lambda>h. h_Name h = name) (st_Hosts s)), s))"

fun removeFirst :: "string \<Rightarrow> 'w host list \<Rightarrow> 'w host list" where
  "removeFirst name [] = []"
| "removeFirst name (h # hs) = (if h_Name h = name then hs else h # removeFirst name hs)"

definition FakeStore_Remove :: "string \<Rightarrow> ('w fakeStore, unit) io" where
  "FakeStore_Remove name = (\<lambda>s. case RemoveErr s of
       Some e \<Rightarrow> (Err e, s)
     | None \<Rightarrow> (Ok (), s\<lparr>st_Hosts := removeFirst name (st_Hosts s)\<rparr>))"

definition FakeStore_Save :: "'w host \<Rightarrow> ('w fakeStore, unit) io" where
  "FakeStore_Save h = (\<lambda>s. case SaveErr s of
       None \<Rightarrow> (Ok (), s\<lparr>st_Hosts := st_Hosts s @ [h]\<rparr>)
     | Some e \<Rightarrow> (Err e, s))"

section \<open>The fake client\<close>

record 'w fakeAPI =
  fa_Hosts :: "'w host list"

definition FakeAPI_Exists :: "string \<Rightarrow> ('w fakeAPI, bool) io" where
  "FakeAPI_Exists name = (\<lambda>a. (Ok (list_ex (\<lambda>h. name = h_Name h) (fa_Hosts a)), a))"

definition FakeAPI_List :: "('w fakeAPI, string list) io" where
  "FakeAPI_List = ret []"

definition FakeAPI_Load :: "string \<Rightarrow> ('w fakeAPI, 'w host) io" where
  "FakeAPI_Load name = (\<lambda>a. case find (\<lambda>h. name = h_Name h) (fa_Hosts a) of
       Some h \<Rightarrow> (Ok h, a) | None \<Rightarrow> (Err (ErrHostDoesNotExist name), a))"

definition FakeAPI_Remove :: "string \<Rightarrow> ('w fakeAPI, unit) io" where
  "FakeAPI_Remove name = modifyW (\<lambda>a. a\<lparr>fa_Hosts := filter (\<lambda>h. name \<noteq> h_Name h) (fa_Hosts a)\<rparr>)"

definition FakeAPI_Save :: "'w host \<Rightarrow> ('w fakeAPI, unit) io" where
  "FakeAPI_Save h = ret ()"

definition FakeAPI_Create :: "'w host \<Rightarrow> ('w fakeAPI, unit) io" where
  "FakeAPI_Create h = ret ()"

text \<open>The host is a nil pointer.\<close>

definition FakeAPI_NewHost :: "string \<Rightarrow> string \<Rightarrow> ('w fakeAPI, 'w host option) io" where
  "FakeAPI_NewHost driverName rawDriver = ret None"

definition FakeAPI_NewPluginDriver :: "string \<Rightarrow> string \<Rightarrow> ('w fakeAPI, 'w driver option) io" where
  "FakeAPI_NewPluginDriver driverName rawDriver = ret None"

definition FakeAPI_Close :: "('w fakeAPI, unit) io" where
  "FakeAPI_Close = ret ()"

definition FakeAPI_GetMachinesDir :: string where
  "FakeAPI_GetMachinesDir = []"

text \<open>Both helpers drop the errors: a host that cannot be loaded is a nil pointer.\<close>

definition libmachinetest_State :: "('w, 'c) host_env \<Rightarrow> 'w fakeAPI \<Rightarrow> string \<Rightarrow> ('w, state) io" where
  "libmachinetest_State H a name =
     (case fst (FakeAPI_Load name a) of
        Ok h \<Rightarrow> bindP (driverOf H h) (\<lambda>d. bindP (GetState d) (\<lambda>(s, err). ret s))
      | _ \<Rightarrow> panic nilDeref)"

definition libmachinetest_Exists :: "'w fakeAPI \<Rightarrow> string \<Rightarrow> bool" where
  "libmachinetest_Exists a name = (case fst (FakeAPI_Exists name a) of Ok b \<Rightarrow> b | _ \<Rightarrow> False)"

section \<open>Flags and command lines\<close>

definition assertString :: "flagval \<Rightarrow> (gerror, string) result" where
  "assertString v = (case v of VString s \<Rightarrow> Ok s | _ \<Rightarrow> Panic ''interface conversion'')"

definition assertSlice :: "flagval \<Rightarrow> (gerror, string list) result" where
  "assertSlice v = (case v of VSlice s \<Rightarrow> Ok s | _ \<Rightarrow> Panic ''interface conversion'')"

definition assertInt :: "flagval \<Rightarrow> (gerror, int) result" where
  "assertInt v = (case v of VInt i \<Rightarrow> Ok i | _ \<Rightarrow> Panic ''interface conversion'')"

definition assertBool :: "flagval \<Rightarrow> (gerror, bool) result" where
  "assertBool v = (case v of VBool b \<Rightarrow> Ok b | _ \<Rightarrow> Panic ''interface conversion'')"

type_synonym flagger = "(string \<times> flagval) list"

definition FakeFlagger_String :: "flagger \<Rightarrow> string \<Rightarrow> (gerror, string) result" where
  "FakeFlagger_String ff key = (case map_of ff key of Some v \<Rightarrow> assertString v | None \<Rightarrow> Ok [])"

definition FakeFlagger_StringSlice :: "flagger \<Rightarrow> string \<Rightarrow> (gerror, string list) result" where
  "FakeFlagger_StringSlice ff key = (case map_of ff key of Some v \<Rightarrow> assertSlice v | None \<Rightarrow> Ok [])"

definition FakeFlagger_Int :: "flagger \<Rightarrow> string \<Rightarrow> (gerror, int) result" where
  "FakeFlagger_Int ff key = (case map_of ff key of Some v \<Rightarrow> assertInt v | None \<Rightarrow> Ok 0)"

definition FakeFlagger_Bool :: "flagger \<Rightarrow> string \<Rightarrow> (gerror, bool) result" where
  "FakeFlagger_Bool ff key = (case map_of ff key of Some v \<Rightarrow> assertBool v | None \<Rightarrow> Ok False)"

text \<open>The tables are pointers and may be nil.\<close>

record fakeCommandLine =
  LocalFlags :: "flagger option"
  GlobalFlags :: "flagger option"
  HelpShown :: bool
  VersionShown :: bool
  CliArgs :: "string list"

definition derefFlags :: "flagger option \<Rightarrow> (flagger \<Rightarrow> (gerror, 'a) result) \<Rightarrow> (gerror, 'a) result" where
  "derefFlags p f = (case p of None \<Rightarrow> Panic nilDeref | Some ff \<Rightarrow> f ff)"

definition FakeCommandLine_IsSet :: "fakeCommandLine \<Rightarrow> string \<Rightarrow> (gerror, bool) result" where
  "FakeCommandLine_IsSet c key = derefFlags (LocalFlags c) (\<lambda>ff. Ok (map_of ff key \<noteq> None))"

definition FakeCommandLine_String :: "fakeCommandLine \<Rightarrow> string \<Rightarrow> (gerror, string) result" where
  "FakeCommandLine_String c key = derefFlags (LocalFlags c) (\<lambda>ff. FakeFlagger_String ff key)"

definition FakeCommandLine_StringSlice :: "fakeCommandLine \<Rightarrow> string \<Rightarrow> (gerror, string list) result" where
  "FakeCommandLine_StringSlice c key = derefFlags (LocalFlags c) (\<lambda>ff. FakeFlagger_StringSlice ff key)"

definition FakeCommandLine_Int :: "fakeCommandLine \<Rightarrow> string \<Rightarrow> (gerror, int) result" where
  "FakeCommandLine_Int c key = derefFlags (LocalFlags c) (\<lambda>ff. FakeFlagger_Int ff key)"

definition FakeCommandLine_Bool :: "fakeCommandLine \<Rightarrow> string \<Rightarrow> (gerror, bool) result" where
  "FakeCommandLine_Bool c key = (case LocalFlags c of None \<Rightarrow> Ok False | Some ff \<Rightarrow> FakeFlagger_Bool ff key)"

definition FakeCommandLine_GlobalString :: "fakeCommandLine \<Rightarrow> string \<Rightarrow> (gerror, string) result" where
  "FakeCommandLine_GlobalString c key = derefFlags (GlobalFlags c) (\<lambda>ff. FakeFlagger_String ff key)"

definition FakeCommandLine_Generic :: "fakeCommandLine \<Rightarrow> string \<Rightarrow> (gerror, flagval) result" where
  "FakeCommandLine_Generic c name = derefFlags (LocalFlags c) (\<lambda>ff. Ok (case map_of ff name of Some v \<Rightarrow> v | None \<Rightarrow> VNil))"

text \<open>The keys, in the order in which a run ranges over the map.\<close>

definition FakeCommandLine_FlagNames :: "fakeCommandLine \<Rightarrow> (gerror, string list) result" where
  "FakeCommandLine_FlagNames c = derefFlags (LocalFlags c) (\<lambda>ff. Ok (remdups (map fst ff)))"

definition FakeCommandLine_ShowHelp :: "fakeCommandLine \<Rightarrow> fakeCommandLine" where
  "FakeCommandLine_ShowHelp c = c\<lparr>HelpShown := True\<rparr>"

definition FakeCommandLine_ShowVersion :: "fakeCommandLine \<Rightarrow> fakeCommandLine" where
  "FakeCommandLine_ShowVersion c = c\<lparr>VersionShown := True\<rparr>"

definition FakeCommandLine_Args :: "fakeCommandLine \<Rightarrow> string list" where
  "FakeCommandLine_Args c = CliArgs c"

section \<open>The default test host\<close>

definition DefaultHostName :: string where
  "DefaultHostName = ''test-host''"

definition HostTestCaCert :: string where
  "HostTestCaCert = ''test-cert''"

definition HostTestPrivateKey :: string where
  "HostTestPrivateKey = ''test-key''"

text \<open>A missing key is nil, which no assertion accepts.\<close>

definition mockGet :: "flagger \<Rightarrow> string \<Rightarrow> flagval" where
  "mockGet d key = (case map_of d key of Some v \<Rightarrow> v | None \<Rightarrow> VNil)"

definition DriverOptionsMock_String :: "flagger \<Rightarrow> string \<Rightarrow> (gerror, string) result" where
  "DriverOptionsMock_String d key = assertString (mockGet d key)"

definition DriverOptionsMock_StringSlice :: "flagger \<Rightarrow> string \<Rightarrow> (gerror, string list) result" where
  "DriverOptionsMock_StringSlice d key = assertSlice (mockGet d key)"

definition DriverOptionsMock_Int :: "flagger \<Rightarrow> string \<Rightarrow> (gerror, int) result" where
  "DriverOptionsMock_Int d key = assertInt (mockGet d key)"

definition DriverOptionsMock_Bool :: "flagger \<Rightarrow> string \<Rightarrow> (gerror, bool) result" where
  "DriverOptionsMock_Bool d key = assertBool (mockGet d key)"

definition GetTestDriverFlags :: flagger where
  "GetTestDriverFlags = [(''name'', VString DefaultHostName), (''url'', VString ''unix:///var/run/podman.sock'')]"

text \<open>\<open>SetConfigFromFlags\<close> of the \<open>none\<close> driver reads one string from the mock; its assertion comes first.\<close>

definition GetDefaultTestHost :: "(string \<Rightarrow> gerror + string) \<Rightarrow> ('w, noneDriver) lens \<Rightarrow> ('w, 'w host) io" where
  "GetDefaultTestHost parseHost L =
     bindP (modifyW (lput L (none_NewDriver DefaultHostName ''/tmp/artifacts''))) (\<lambda>_.
     case DriverOptionsMock_String GetTestDriverFlags ''url'' of
       Ok url \<Rightarrow>
         bindP (SetConfigFromFlags (NoneDriver parseHost L)
                  \<lparr>optString = (\<lambda>n. url), optStringSlice = (\<lambda>n. []), optInt = (\<lambda>n. 0), optBool = (\<lambda>n. False)\<rparr>) (\<lambda>_.
         ret \<lparr>h_ConfigVersion = ConfigVersion, h_Driver = LiveDriver (NoneDriver parseHost L), h_DriverName = ''none'',
              h_HostOptions = Some \<lparr>ho_Driver = [], ho_Memory = 0, ho_Disk = 0, ho_EngineOptions = Some zeroEngineOptions,
                ho_AuthOptions = Some (zeroAuthOptions\<lparr>CaCertPath := HostTestCaCert, CaPrivateKeyPath := HostTestPrivateKey\<rparr>)\<rparr>,
              h_Name = DefaultHostName, h_RawDriver = []\<rparr>)
     | Err e \<Rightarrow> throw e
     | Panic s \<Rightarrow> panic s
     | Blocked \<Rightarrow> blocked)"

section \<open>Commands with canned answers\<close>

definition NewFakeSSHCommander :: "string \<Rightarrow> (string \<times> string) list" where
  "NewFakeSSHCommander fsType =
     [(''stat -f -c %T /var/lib'', (if fsType = [] then ''ext4'' else fsType) @ nl)]"

definition FakeSSHCommander_SSHCommand :: "(string \<times> string) list \<Rightarrow> string \<Rightarrow> ('w, string) io" where
  "FakeSSHCommander_SSHCommand responses args = (case map_of responses args of
       Some r \<Rightarrow> ret r | None \<Rightarrow> throw (ErrorString ''Command not registered in FakeSSHCommander''))"

record fakeClient =
  ActivatedShell :: "string list"
  Outputs :: "(string \<times> (string \<times> gerror option)) list"

definition FakeClient_Output :: "fakeClient \<Rightarrow> string \<Rightarrow> string \<times> gerror option" where
  "FakeClient_Output c command = (case map_of (Outputs c) command of Some r \<Rightarrow> r | None \<Rightarrow> ([], None))"

definition FakeClient_Shell :: "string list \<Rightarrow> fakeClient \<Rightarrow> fakeClient" where
  "FakeClient_Shell args c = c\<lparr>ActivatedShell := args\<rparr>"

text \<open>Both streams are nil.\<close>

definition FakeClient_Start :: "string \<Rightarrow> string option \<times> string option \<times> gerror option" where
  "FakeClient_Start command = (None, None, None)"

definition FakeClient_Wait :: "gerror option" where
  "FakeClient_Wait = None"

section \<open>Provisioners without effects\<close>

text \<open>The methods of the interface; nil pointers are \<open>None\<close>.\<close>

record 'w provisionerMethods =
  pm_String :: string
  pm_SSHCommand :: "string \<Rightarrow> ('w, string) io"
  pm_GenerateEngineOptions :: "('w, engineOptionsFile option) io"
  pm_GetEngineOptionsDir :: string
  pm_GetAuthOptions :: authOptions
  pm_Package :: "string \<Rightarrow> packageAction \<Rightarrow> ('w, unit) io"
  pm_Hostname :: "('w, string) io"
  pm_SetHostname :: "string \<Rightarrow> ('w, unit) io"
  pm_CompatibleWithHost :: bool
  pm_Provision :: "authOptions \<Rightarrow> engineOptions \<Rightarrow> ('w, unit) io"
  pm_Service :: "string \<Rightarrow> serviceAction \<Rightarrow> ('w, unit) io"
  pm_GetDriver :: "'w driver option"
  pm_SetOsReleaseInfo :: "osRelease \<Rightarrow> ('w, unit) io"
  pm_GetOsReleaseInfo :: "('w, osRelease option) io"

definition FakeProvisioner :: "'w provisionerMethods" where
  "FakeProvisioner = \<lparr>
     pm_String = ''fakeprovisioner'',
     pm_SSHCommand = (\<lambda>args. ret []),
     pm_GenerateEngineOptions = ret None,
     pm_GetEngineOptionsDir = [],
     pm_GetAuthOptions = zeroAuthOptions,
     pm_Package = (\<lambda>name action. ret ()),
     pm_Hostname = ret [],
     pm_SetHostname = (\<lambda>hostname. ret ()),
     pm_CompatibleWithHost = True,
     pm_Provision = (\<lambda>auth eng. ret ()),
     pm_Service = (\<lambda>name action. ret ()),
     pm_GetDriver = None,
     pm_SetOsReleaseInfo = (\<lambda>info. ret ()),
     pm_GetOsReleaseInfo = ret None\<rparr>"

definition NewFakeProvisioner :: "'w driver \<Rightarrow> 'w provisionerMethods" where
  "NewFakeProvisioner d = FakeProvisioner"

definition FakeDetector_DetectProvisioner :: "'w provisionerMethods \<Rightarrow> 'w driver \<Rightarrow> ('w, 'w provisionerMethods) io" where
  "FakeDetector_DetectProvisioner p d = ret p"

definition netstatOutput :: string where
  "netstatOutput = Join [
     ''Active Internet connections (servers and established)'',
     ''Proto Recv-Q Send-Q Local Address           Foreign Address         State'',
     ''tcp        0      0 0.0.0.0:ssh             0.0.0.0:*               LISTEN'',
     ''tcp        0     72 192.168.25.141:ssh      192.168.25.1:63235      ESTABLISHED'',
     ''tcp        0      0 :::ssh                  :::*                    LISTEN'',
     ''Active UNIX domain sockets (servers and established)'',
     ''Proto RefCnt Flags       Type       State         I-Node Path'',
     ''unix  2      [ ACC ]     STREAM     LISTENING      17990 /var/run/acpid.socket'',
     ''unix  2      [ ACC ]     SEQPACKET  LISTENING      14233 /run/udev/control'',
     ''unix  2      [ ACC ]     STREAM     LISTENING      19365 /var/run/podman.sock'',
     ''unix  3      [ ]         STREAM     CONNECTED      19774'',
     ''unix  3      [ ]         STREAM     CONNECTED      19775'',
     ''unix  3      [ ]         DGRAM                     14243'',
     ''unix  3      [ ]         DGRAM                     14242''] nl"

definition NewNetstatProvisioner :: "'w provisionerMethods" where
  "NewNetstatProvisioner = FakeProvisioner\<lparr>pm_SSHCommand := (\<lambda>args. ret netstatOutput)\<rparr>"

section \<open>Properties of the doubles\<close>

text \<open>The fake store keeps one entry for every save: a host that was saved twice, as the commands do, still exists after it
  has been removed.  The file store forgets it.\<close>

theorem FakeStore_remove_leaves_copy:
  assumes "ExistsErr s = None" and "RemoveErr s = None" and "SaveErr s = None"
  shows "fst (bindP (FakeStore_Save h) (\<lambda>_. bindP (FakeStore_Save h) (\<lambda>_. bindP (FakeStore_Remove (h_Name h)) (\<lambda>_.
           FakeStore_Exists (h_Name h)))) s) = Ok True"
proof -
  have "list_ex (\<lambda>k. h_Name k = h_Name h) (removeFirst (h_Name h) (hs @ [h, h]))" for hs :: "'a host list"
    by (induction hs) auto
  then show ?thesis
    using assms by (simp add: bindP_def FakeStore_Save_def FakeStore_Remove_def FakeStore_Exists_def)
qed

text \<open>The fake client is a map from names that can only shrink.\<close>

lemma FakeAPI_Remove_forgets:
  assumes "FakeAPI_Remove name a = (Ok (), a')"
  shows "fst (FakeAPI_Exists k a') = Ok (k \<noteq> name \<and> list_ex (\<lambda>h. k = h_Name h) (fa_Hosts a))"
    and "fst (FakeAPI_Load name a') = Err (ErrHostDoesNotExist name)"
proof -
  have a': "fa_Hosts a' = filter (\<lambda>h. name \<noteq> h_Name h) (fa_Hosts a)" using assms by (auto simp: FakeAPI_Remove_def modifyW_def)
  have "list_ex (\<lambda>h. k = h_Name h) (filter (\<lambda>h. name \<noteq> h_Name h) hs) \<longleftrightarrow> k \<noteq> name \<and> list_ex (\<lambda>h. k = h_Name h) hs" for hs :: "'a host list"
    by (induction hs) auto
  then show "fst (FakeAPI_Exists k a') = Ok (k \<noteq> name \<and> list_ex (\<lambda>h. k = h_Name h) (fa_Hosts a))" by (simp add: FakeAPI_Exists_def a')
  have "find (\<lambda>h. name = h_Name h) (filter (\<lambda>h. name \<noteq> h_Name h) hs) = None" for hs :: "'a host list"
    by (induction hs) auto
  then show "fst (FakeAPI_Load name a') = Err (ErrHostDoesNotExist name)" by (simp add: FakeAPI_Load_def a')
qed

text \<open>The default test host is ready: its options do not panic and its driver has the URL of the flags.\<close>

lemma GetDefaultTestHost_ready:
  fixes w :: "noneDriver os_world_scheme"
  assumes "parseHost ''unix:///var/run/podman.sock'' = Inr ip"
  shows "\<exists>h w'. GetDefaultTestHost parseHost moreL w = (Ok h, w') \<and> h_Name h = DefaultHostName \<and> URL (os_world.more w') = ''unix:///var/run/podman.sock''"
  using assms
  by (simp add: GetDefaultTestHost_def GetTestDriverFlags_def DriverOptionsMock_String_def mockGet_def assertString_def DefaultHostName_def
      NoneDriver_def none_SetConfigFromFlags_def moreL_def bindP_def modifyW_def ret_def Let_def)

lemma FakeSSHCommander_type:
  "FakeSSHCommander_SSHCommand (NewFakeSSHCommander t) ''stat -f -c %T /var/lib'' w = (Ok ((if t = [] then ''ext4'' else t) @ nl), w)"
  by (simp add: FakeSSHCommander_SSHCommand_def NewFakeSSHCommander_def ret_def)

end
