(* ===== verification/Ssh_Stream.thy ===== *)
theory Ssh_Stream
  imports Ssh_Client
begin

text \<open>
  \<open>libmachine/ssh/client.go\<close>: commands whose output is streamed (\<open>Start\<close> and \<open>Wait\<close> of both clients), over a world that records
  the handles that are open: connections, sessions and pipes.  Any of the calls may fail.
\<close>

section \<open>Handles\<close>

record handles =
  hs_open :: "nat list"
  hs_next :: nat

definition opened :: "handles os_world_scheme \<Rightarrow> nat list" where
  "opened w = hs_open (os_world.more w)"

definition acquire :: "(handles os_world_scheme, nat) io" where
  "acquire = osCall (\<lambda>w. let h = os_world.more w
     in (Ok (hs_next h), os_world.more_update (\<lambda>_. \<lparr>hs_open = hs_next h # hs_open h, hs_next = Suc (hs_next h)\<rparr>) w))"

text \<open>A handle is gone after \<open>Close\<close>, whatever it returns.\<close>

definition forget :: "nat list \<Rightarrow> handles os_world_scheme \<Rightarrow> handles os_world_scheme" where
  "forget is w = os_world.more_update (\<lambda>h. h\<lparr>hs_open := filter (\<lambda>j. j \<notin> set is) (hs_open h)\<rparr>) w"

definition release :: "nat \<Rightarrow> (handles os_world_scheme, unit) io" where
  "release i = (\<lambda>w. osCall (ret ()) (forget [i] w))"

text \<open>A call that opens and closes nothing.\<close>

definition plainCall :: "(handles os_world_scheme, unit) io" where
  "plainCall = osCall (ret ())"

definition closeConn :: "nat \<Rightarrow> (handles os_world_scheme, unit) io" where
  "closeConn i = bindP (tryP (release i)) (\<lambda>_. ret ())"

section \<open>The native client\<close>

record nativeStream =
  openClient :: "nat option"
  openSession :: "nat option"

definition stream_dialSuccess :: "(handles os_world_scheme, bool) io" where
  "stream_dialSuccess = bindP (tryP acquire) (\<lambda>r. case r of Inl e \<Rightarrow> ret False | Inr conn \<Rightarrow> bindP (closeConn conn) (\<lambda>_. ret True))"

text \<open>When the session cannot be opened the caller gets the error and drops the connection.\<close>

definition stream_session :: "(nat \<Rightarrow> handles os_world_scheme \<Rightarrow> handles os_world_scheme) \<Rightarrow> (handles os_world_scheme, nat \<times> nat) io" where
  "stream_session sleep =
     bindP (wrapErr (errorf ''Error attempting SSH client dial: '') (WaitFor sleep stream_dialSuccess)) (\<lambda>_.
     bindP (wrapErr (errorf ''Mysterious error dialing TCP for SSH (we already succeeded at least once) : '') acquire) (\<lambda>conn.
     bindP acquire (\<lambda>sess. ret (conn, sess))))"

definition NativeClient_Start ::
  "(nat \<Rightarrow> handles os_world_scheme \<Rightarrow> handles os_world_scheme) \<Rightarrow> nativeStream \<Rightarrow> (handles os_world_scheme, nativeStream) io" where
  "NativeClient_Start sleep c =
     bindP (stream_session sleep) (\<lambda>(conn, sess).
     bindP plainCall (\<lambda>_.
     bindP plainCall (\<lambda>_.
     bindP plainCall (\<lambda>_.
     ret (c\<lparr>openClient := Some conn, openSession := Some sess\<rparr>)))))"

definition nilPointer :: string where
  "nilPointer = ''invalid memory address or nil pointer dereference''"

definition NativeClient_Wait :: "nativeStream \<Rightarrow> (handles os_world_scheme, nativeStream) io" where
  "NativeClient_Wait c =
     (case openSession c of
        None \<Rightarrow> panic nilPointer
      | Some sess \<Rightarrow>
          bindP plainCall (\<lambda>_.
          bindP (tryP (release sess)) (\<lambda>_.
          case openClient c of
            None \<Rightarrow> panic nilPointer
          | Some conn \<Rightarrow> bindP (release conn) (\<lambda>_. ret (c\<lparr>openSession := None, openClient := None\<rparr>)))))"

section \<open>The external client\<close>

text \<open>The pipes of the command that runs.\<close>

record externalStream =
  cmd_pipes :: "(nat \<times> nat) option"

definition closeText :: "gerror + unit \<Rightarrow> string" where
  "closeText r = (case r of Inl e \<Rightarrow> Error e | Inr _ \<Rightarrow> ''%!s(<nil>)'')"

fun isInl :: "'a + 'b \<Rightarrow> bool" where
  "isInl (Inl a) = True"
| "isInl (Inr b) = False"

text \<open>The last part of \<open>Start\<close>, when both pipes are open.\<close>

definition startCommand :: "externalStream \<Rightarrow> nat \<Rightarrow> nat \<Rightarrow> (handles os_world_scheme, externalStream) io" where
  "startCommand c out err =
     bindP (tryP plainCall) (\<lambda>started. case started of
         Inl e \<Rightarrow>
           bindP (tryP (release out)) (\<lambda>c1.
           bindP (tryP (release err)) (\<lambda>c2.
             if isInl c1 \<or> isInl c2 then throw (ErrorString (Error e @ '', '' @ closeText c1 @ '', '' @ closeText c2))
             else throw e))
       | Inr _ \<Rightarrow> ret (c\<lparr>cmd_pipes := Some (out, err)\<rparr>))"

definition ExternalClient_Start :: "externalStream \<Rightarrow> (handles os_world_scheme, externalStream) io" where
  "ExternalClient_Start c =
     bindP acquire (\<lambda>out.
     bindP (tryP acquire) (\<lambda>r. case r of
         Inl e \<Rightarrow> bindP (tryP (release out)) (\<lambda>closed. case closed of
             Inl closeErr \<Rightarrow> throw (ErrorString (Error e @ '', '' @ Error closeErr))
           | Inr _ \<Rightarrow> throw e)
       | Inr err \<Rightarrow> startCommand c out err))"

text \<open>\<open>exec.Cmd.Wait\<close> closes the pipes on every way out; the command is forgotten with its error.\<close>

definition ExternalClient_Wait :: "externalStream \<Rightarrow> (handles os_world_scheme, externalStream \<times> gerror option) io" where
  "ExternalClient_Wait c =
     (case cmd_pipes c of
        None \<Rightarrow> panic nilPointer
      | Some (out, err) \<Rightarrow>
          bindP (tryP plainCall) (\<lambda>r.
          bindP (modifyW (forget [out, err])) (\<lambda>_.
          ret (c\<lparr>cmd_pipes := None\<rparr>, case r of Inl e \<Rightarrow> Some e | Inr _ \<Rightarrow> None))))"

section \<open>Lemmas\<close>

text \<open>Handles are numbered upwards.\<close>

definition tidy :: "handles os_world_scheme \<Rightarrow> bool" where
  "tidy w \<longleftrightarrow> (\<forall>i \<in> set (opened w). i < hs_next (os_world.more w))"

lemma more_faults [simp]: "os_world.more (w\<lparr>faults := fl\<rparr>) = os_world.more w"
  by (cases w) simp

lemma plainCall_same: "plainCall w = (r, w') \<Longrightarrow> os_world.more w' = os_world.more w"
  by (auto simp: plainCall_def osCall_def ret_def split: list.splits option.splits)

lemma acquire_Ok:
  assumes "acquire w = (Ok i, w')" and "tidy w"
  shows "opened w' = i # opened w \<and> i \<notin> set (opened w) \<and> tidy w'"
  using assms unfolding acquire_def osCall_def tidy_def opened_def
  by (auto simp: Let_def less_SucI split: list.splits option.splits)

lemma acquire_Err: "acquire w = (Err e, w') \<Longrightarrow> os_world.more w' = os_world.more w"
  by (auto simp: acquire_def osCall_def Let_def split: list.splits option.splits)

lemma acquire_total: "acquire w = (r, w') \<Longrightarrow> (\<exists>i. r = Ok i) \<or> (\<exists>e. r = Err e)"
  by (auto simp: acquire_def osCall_def Let_def split: list.splits option.splits)

lemma forget_opened: "opened (forget is w) = filter (\<lambda>j. j \<notin> set is) (opened w)" "tidy w \<Longrightarrow> tidy (forget is w)"
  by (auto simp: forget_def opened_def tidy_def)

lemma release_opened: "release i w = (r, w') \<Longrightarrow> os_world.more w' = os_world.more (forget [i] w)"
  by (auto simp: release_def osCall_def ret_def split: list.splits option.splits)

lemma more_opened: "os_world.more a = os_world.more b \<Longrightarrow> opened a = opened b" "os_world.more a = os_world.more b \<Longrightarrow> tidy a = tidy b"
  by (simp_all add: opened_def tidy_def)

lemma release_total: "release i w = (r, w') \<Longrightarrow> r = Ok () \<or> (\<exists>e. r = Err e)"
  by (auto simp: release_def osCall_def ret_def split: list.splits option.splits)

lemma release_acquired:
  assumes "opened w = i # hs" and "i \<notin> set hs" and "tidy w" and "release i w = (r, w')"
  shows "opened w' = hs \<and> tidy w'"
proof -
  have m: "os_world.more w' = os_world.more (forget [i] w)" by (rule release_opened [OF assms(4)])
  have "opened (forget [i] w) = hs" using assms(1,2) by (simp add: forget_opened(1)) (auto simp: filter_id_conv)
  then show ?thesis using more_opened [OF m] forget_opened(2) [OF assms(3), of "[i]"] by simp
qed

lemma closeConn_apply: "closeConn i w = (Ok (), snd (release i w))"
  using release_total [of i w] by (auto simp: closeConn_def bindP_def tryP_def ret_def split: prod.splits)

lemma dialSuccess_keeps:
  assumes "tidy w"
  shows "opened (snd (stream_dialSuccess w)) = opened w \<and> tidy (snd (stream_dialSuccess w))"
proof -
  obtain r w1 where a: "acquire w = (r, w1)" by force
  from acquire_total [OF this] show ?thesis
  proof
    assume "\<exists>i. r = Ok i"
    then obtain i where r: "r = Ok i" by blast
    with a acquire_Ok assms have "opened w1 = i # opened w" "i \<notin> set (opened w)" "tidy w1" by blast+
    moreover obtain r2 w2 where rel: "release i w1 = (r2, w2)" by force
    ultimately have "opened w2 = opened w \<and> tidy w2" by (intro release_acquired)
    moreover have "snd (stream_dialSuccess w) = w2"
      using a r rel by (simp add: stream_dialSuccess_def bindP_def tryP_def closeConn_apply ret_def)
    ultimately show ?thesis by simp
  next
    assume "\<exists>e. r = Err e"
    then obtain e where r: "r = Err e" by blast
    then have "snd (stream_dialSuccess w) = w1" using a by (simp add: stream_dialSuccess_def bindP_def tryP_def ret_def)
    then show ?thesis using more_opened [OF acquire_Err] a r assms by simp
  qed
qed

lemma waitLoop_keeps:
  assumes "\<And>w. I w \<Longrightarrow> I (snd (f w))" and "\<And>w. I w \<Longrightarrow> I (sleep iv w)" and "I w"
  shows "I (snd (waitLoop sleep f k m iv w))"
  using assms(3)
proof (induction k arbitrary: w)
  case 0
  then show ?case by (simp add: throw_def)
next
  case (Suc k)
  have "I (snd (f w))" using assms(1) Suc.prems by blast
  then show ?case
    using Suc.IH [OF assms(2)] by (cases "f w"; cases "fst (f w)") (auto simp: bindP_def ret_def modifyW_def)
qed

lemma stream_session_Ok:
  assumes "stream_session sleep w = (Ok (conn, sess), w')" and "tidy w" and "\<And>n v. os_world.more (sleep n v) = os_world.more v"
  shows "opened w' = sess # conn # opened w \<and> sess \<notin> set (conn # opened w) \<and> conn \<notin> set (opened w) \<and> tidy w'"
proof -
  from assms(1) obtain w1 w2 where w1: "WaitFor sleep stream_dialSuccess w = (Ok (), w1)" and c: "acquire w1 = (Ok conn, w2)"
    and s: "acquire w2 = (Ok sess, w')" by (auto simp: stream_session_def ret_def elim!: bindP_OkE)
  let ?I = "\<lambda>v. opened v = opened w \<and> tidy v"
  have "?I (snd (WaitFor sleep stream_dialSuccess w))"
    unfolding WaitFor_def WaitForSpecific_def WaitForSpecificOrError_def
    using assms(2) dialSuccess_keeps more_opened [OF assms(3)] by (intro waitLoop_keeps [of ?I]) auto
  then have "?I w1" using w1 by simp
  then show ?thesis using acquire_Ok [OF c] acquire_Ok [OF s] by auto
qed

lemma NativeClient_Start_OkE:
  assumes "NativeClient_Start sleep c w = (Ok c', w')"
  obtains conn sess w1 where "stream_session sleep w = (Ok (conn, sess), w1)" "os_world.more w' = os_world.more w1"
    "openClient c' = Some conn" "openSession c' = Some sess"
proof -
  from assms obtain conn sess w1 w2 w3 where "stream_session sleep w = (Ok (conn, sess), w1)" "plainCall w1 = (Ok (), w2)"
    "plainCall w2 = (Ok (), w3)" "plainCall w3 = (Ok (), w')" "c' = c\<lparr>openClient := Some conn, openSession := Some sess\<rparr>"
    unfolding NativeClient_Start_def by (auto simp: ret_def elim!: bindP_OkE)
  then show thesis using that plainCall_same by (metis nativeStream.ext_inject nativeStream.surjective nativeStream.update_convs(1,2))
qed

lemma forget_two:
  assumes "opened w = b # a # hs" and "b \<notin> set (a # hs)" and "a \<notin> set hs"
  shows "opened (forget [a, b] w) = hs"
  using assms by (auto simp: forget_opened filter_id_conv)

lemma plainCall_total: "plainCall w = (r, w') \<Longrightarrow> r = Ok () \<or> (\<exists>e. r = Err e)"
  by (auto simp: plainCall_def osCall_def ret_def split: list.splits option.splits)

lemma external_start_last:
  assumes "opened v = err # out # hs" and "err \<notin> set (out # hs)" and "tidy v" and "out \<notin> set hs" and "startCommand c out err v = (r, w1)"
  shows "(\<forall>e. r = Err e \<longrightarrow> opened w1 = hs) \<and>
         (\<forall>c'. r = Ok c' \<longrightarrow> (\<exists>c2 e w2. ExternalClient_Wait c' w1 = (Ok (c2, e), w2) \<and> opened w2 = hs \<and> cmd_pipes c2 = None))"
proof -
  obtain q v1 where p: "plainCall v = (q, v1)" by force
  have o: "opened v1 = err # out # hs" "tidy v1" using more_opened [OF plainCall_same [OF p]] assms(1,3) by simp_all
  show ?thesis
  proof (cases "q = Ok ()")
    case True
    then have r: "r = Ok (c\<lparr>cmd_pipes := Some (out, err)\<rparr>)" "w1 = v1" using assms(5) p by (auto simp: startCommand_def bindP_def tryP_def ret_def)
    obtain q2 v2 where p2: "plainCall v1 = (q2, v2)" by force
    have "opened v2 = err # out # hs" using more_opened [OF plainCall_same [OF p2]] o by simp
    then have "opened (forget [out, err] v2) = hs" by (rule forget_two) (use assms(2,4) in auto)
    then show ?thesis using r p2 plainCall_total [OF p2] by (auto simp: ExternalClient_Wait_def bindP_def tryP_def modifyW_def ret_def)
  next
    case False
    then obtain e where e: "q = Err e" using plainCall_total [OF p] by blast
    obtain q1 v2 where r1: "release out v1 = (q1, v2)" by force
    obtain q2 v3 where r2: "release err v2 = (q2, v3)" by force
    have "opened v3 = opened (forget [err] (forget [out] v1))"
      using more_opened [OF release_opened [OF r2]] more_opened [OF release_opened [OF r1]] by (simp add: forget_opened)
    also have "\<dots> = opened (forget [out, err] v1)" by (simp add: forget_opened conj_commute)
    also have "\<dots> = hs" using o(1) by (rule forget_two) (use assms(2,4) in auto)
    finally have "opened v3 = hs" .
    moreover have "(\<exists>e'. r = Err e') \<and> w1 = v3"
      using assms(5) p e r1 r2 release_total [OF r1] release_total [OF r2]
      by (auto simp: startCommand_def bindP_def tryP_def throw_def split: if_splits)
    ultimately show ?thesis by auto
  qed
qed

section \<open>Properties\<close>

text \<open>C33: a streamed command of the native client holds a connection and a session; a wait that succeeds gives both back, but
  when the command fails, for instance with an exit code, the wait returns early and both stay open.\<close>

theorem native_stream_handles:
  assumes start: "NativeClient_Start sleep c w = (Ok c', w1)" and wait: "NativeClient_Wait c' w1 = (r, w2)"
    and "tidy w" and "\<And>n v. os_world.more (sleep n v) = os_world.more v"
  shows "length (opened w1) = length (opened w) + 2 \<and> (\<forall>c2. r = Ok c2 \<longrightarrow> opened w2 = opened w) \<and>
         (\<forall>s fl. faults w1 = Some s # fl \<longrightarrow> r = Err (OsErr s) \<and> opened w2 = opened w1)"
proof -
  from NativeClient_Start_OkE [OF start] obtain conn sess v where v: "stream_session sleep w = (Ok (conn, sess), v)"
    "os_world.more w1 = os_world.more v" and c': "openClient c' = Some conn" "openSession c' = Some sess" .
  with stream_session_Ok [OF v(1) assms(3,4)] more_opened [OF v(2)]
  have o: "opened w1 = sess # conn # opened w" "sess \<notin> set (conn # opened w)" "conn \<notin> set (opened w)" "tidy w1" by auto
  have "opened w2 = opened w" if r: "r = Ok c2" for c2
  proof -
    from wait r c' obtain v1 v2 q where 1: "plainCall w1 = (Ok (), v1)" and 2: "release sess v1 = (q, v2)" and 3: "release conn v2 = (Ok (), w2)"
      by (auto simp: NativeClient_Wait_def tryP_def ret_def elim!: bindP_OkE split: prod.splits result.splits)
    have "opened v1 = sess # conn # opened w" "tidy v1" using more_opened [OF plainCall_same [OF 1]] o by auto
    with release_acquired [OF _ o(2) _ 2] have "opened v2 = conn # opened w" "tidy v2" by auto
    with release_acquired [OF _ o(3) _ 3] show ?thesis by auto
  qed
  moreover have "r = Err (OsErr s) \<and> opened w2 = opened w1" if "faults w1 = Some s # fl" for s fl
    using that wait c' by (auto simp: NativeClient_Wait_def bindP_def plainCall_def osCall_def opened_def)
  ultimately show ?thesis using o(1) by simp
qed

definition demoHandles :: "string option list \<Rightarrow> handles os_world_scheme" where
  "demoHandles fl = (plainWorld [] \<lparr>hs_open = [], hs_next = 0\<rparr>)\<lparr>faults := fl\<rparr>"

theorem native_stream_handles_witness:
  "\<exists>c' w1 r w2. NativeClient_Start (\<lambda>n v. v) \<lparr>openClient = None, openSession = None\<rparr>
       (demoHandles [None, None, None, None, None, None, None, Some ''exit status 1'']) = (Ok c', w1) \<and>
     NativeClient_Wait c' w1 = (Err (OsErr ''exit status 1''), w2) \<and> length (opened w2) = 2"
proof -
  let ?c = "\<lparr>openClient = None, openSession = None\<rparr>" and ?w = "demoHandles [None, None, None, None, None, None, None, Some ''exit status 1'']"
  have "fst (NativeClient_Start (\<lambda>n v. v) ?c ?w) = Ok \<lparr>openClient = Some 1, openSession = Some 2\<rparr> \<and>
        faults (snd (NativeClient_Start (\<lambda>n v. v) ?c ?w)) = [Some ''exit status 1'']"
    by code_simp
  then obtain w1 where s: "NativeClient_Start (\<lambda>n v. v) ?c ?w = (Ok \<lparr>openClient = Some 1, openSession = Some 2\<rparr>, w1)"
    and f: "faults w1 = [Some ''exit status 1'']" by (metis prod.collapse)
  obtain r w2 where r: "NativeClient_Wait \<lparr>openClient = Some 1, openSession = Some 2\<rparr> w1 = (r, w2)" by force
  have o: "opened ?w = []" by (simp add: demoHandles_def opened_def plainWorld_def)
  from native_stream_handles [OF s r] f o show ?thesis using s r by (simp add: tidy_def)
qed



end
