(* ===== verification/Vbox_Manage.thy ===== *)
theory Vbox_Manage
  imports Drivers
begin

text \<open>
  \<open>drivers/virtualbox/vbm.go\<close>, \<open>vm.go\<close> and the reader of \<open>disk.go\<close>: running \<open>VBoxManage\<close> with retries, and taking its
  output apart.  The regular expressions of the source are written out as searches on lines; each search says which
  expression it stands for.
\<close>

section \<open>Running VBoxManage\<close>

text \<open>\<open>vb_run\<close> runs the program with the arguments and yields its two outputs and the error of \<open>cmd.Run\<close>.\<close>

record 'w vbox_env =
  vboxManageCmd :: string
  vb_run :: "string list \<Rightarrow> ('w, string \<times> string \<times> gerror option) io"
  vb_sleep :: "nat \<Rightarrow> 'w \<Rightarrow> 'w"

definition retryCountOnObjectNotReadyError :: nat where
  "retryCountOnObjectNotReadyError = 5"

definition objectNotReady :: string where
  "objectNotReady = ''error: The object is not ready''"

definition ErrVBMNotFound :: gerror where
  "ErrVBMNotFound = ErrorString ''VBoxManage not found. Make sure VirtualBox is installed and VBoxManage is in the path''"

text \<open>The error of a run whose output is final: an \<open>error:\<close> on the error output is an error also when the exit code is 0.\<close>

definition vbmError :: "'w vbox_env \<Rightarrow> string list \<Rightarrow> string \<Rightarrow> gerror option \<Rightarrow> gerror option" where
  "vbmError V args stderrStr err =
     (let err1 = (if err = Some ExecNotFound then Some ErrVBMNotFound else err);
          soft = (case err1 of None \<Rightarrow> True | Some e \<Rightarrow> HasPrefix (Error e) ''exit status '')
      in if soft \<and> Contains stderrStr ''error:''
         then Some (ErrorString (vboxManageCmd V @ '' '' @ Join args '' '' @ '' failed:'' @ nl @ stderrStr))
         else err1)"

fun vbmOutErrRetry :: "'w vbox_env \<Rightarrow> nat \<Rightarrow> string list \<Rightarrow> ('w, string \<times> string \<times> gerror option) io" where
  "vbmOutErrRetry V 0 args =
     bindP (vb_run V args) (\<lambda>(out, stderrStr, err). ret (out, stderrStr, vbmError V args stderrStr err))"
| "vbmOutErrRetry V (Suc retry) args =
     bindP (vb_run V args) (\<lambda>(out, stderrStr, err).
       if retry > 0 \<and> Contains stderrStr objectNotReady
       then bindP (modifyW (vb_sleep V 100)) (\<lambda>_. vbmOutErrRetry V retry args)
       else ret (out, stderrStr, vbmError V args stderrStr err))"

definition vbmOutErr :: "'w vbox_env \<Rightarrow> string list \<Rightarrow> ('w, string \<times> string \<times> gerror option) io" where
  "vbmOutErr V args = vbmOutErrRetry V retryCountOnObjectNotReadyError args"

definition vbmOut :: "'w vbox_env \<Rightarrow> string list \<Rightarrow> ('w, string) io" where
  "vbmOut V args = bindP (vbmOutErr V args) (\<lambda>(out, stderrStr, err). case err of None \<Rightarrow> ret out | Some e \<Rightarrow> throw e)"

definition vbm :: "'w vbox_env \<Rightarrow> string list \<Rightarrow> ('w, unit) io" where
  "vbm V args = bindP (vbmOutErr V args) (\<lambda>(out, stderrStr, err). case err of None \<Rightarrow> ret () | Some e \<Rightarrow> throw e)"

section \<open>Versions\<close>

definition invalidVersion :: "string \<Rightarrow> gerror" where
  "invalidVersion version = ErrorString (''Invalid version: '' @ Quote version)"

definition parseVersion :: "string \<Rightarrow> gerror + int \<times> int" where
  "parseVersion version =
     (case Split version ''.'' of
        p # q # _ \<Rightarrow> (case (Atoi p, Atoi q) of
            (Some major, Some minor) \<Rightarrow> Inr (major, minor)
          | _ \<Rightarrow> Inl (invalidVersion version))
      | _ \<Rightarrow> Inl (invalidVersion version))"

definition checkVBoxManageVersion :: "string \<Rightarrow> gerror option" where
  "checkVBoxManageVersion version =
     (let bad = Some (ErrorString (''We support Virtualbox starting with version 5. Your VirtualBox install is '' @ Quote version @
            ''. Please upgrade at https://www.virtualbox.org''))
      in case parseVersion version of
           Inl e \<Rightarrow> bad
         | Inr (major, minor) \<Rightarrow> if major < 4 \<or> (major = 4 \<and> minor \<le> 2) then bad else None)"

section \<open>Lines of output\<close>

text \<open>White space of a regular expression: no vertical tab.\<close>

definition reSpace :: "char \<Rightarrow> bool" where
  "reSpace c \<longleftrightarrow> c \<in> {CHR 0x09, CHR 0x0A, CHR 0x0C, CHR 0x0D, CHR '' ''}"

definition reWord :: "char \<Rightarrow> bool" where
  "reWord c \<longleftrightarrow> isDigit c \<or> (65 \<le> (of_char c :: nat) \<and> (of_char c :: nat) \<le> 90) \<or> (97 \<le> (of_char c :: nat) \<and> (of_char c :: nat) \<le> 122) \<or> c = CHR ''_''"

text \<open>The last place, after at least one character, at which the rest of the line starts as wanted: a greedy \<open>.+\<close>.\<close>

definition lastAt :: "(string \<Rightarrow> bool) \<Rightarrow> string \<Rightarrow> nat option" where
  "lastAt p s = find (\<lambda>i. p (drop i s)) (rev [1 ..< length s])"

text \<open>\<open>(.+):\s+(.*)\<close>\<close>

definition reColonLine :: "string \<Rightarrow> (string \<times> string) option" where
  "reColonLine line =
     map_option (\<lambda>i. (take i line, dropWhile reSpace (drop (Suc i) line)))
       (lastAt (\<lambda>r. case r of a # b # _ \<Rightarrow> a = CHR '':'' \<and> reSpace b | _ \<Rightarrow> False) line)"

text \<open>\<open>(.+)=(.*)\<close>\<close>

definition reEqualLine :: "string \<Rightarrow> (string \<times> string) option" where
  "reEqualLine line =
     map_option (\<lambda>i. (take i line, drop (Suc i) line)) (lastAt (\<lambda>r. case r of a # _ \<Rightarrow> a = CHR ''='' | _ \<Rightarrow> False) line)"

text \<open>\<open>"(.+)"="(.*)"\<close>: from the first quote of the line to its last one.\<close>

definition reEqualQuoteLine :: "string \<Rightarrow> (string \<times> string) option" where
  "reEqualQuoteLine line =
     (let inner = rev (drop 1 (dropWhile (\<lambda>c. c \<noteq> CHR 0x22) (rev (drop 1 (dropWhile (\<lambda>c. c \<noteq> CHR 0x22) line)))))
      in map_option (\<lambda>i. (take i inner, drop (i + 3) inner)) (lastAt (\<lambda>r. HasPrefix r (dq @ ''='' @ dq)) inner))"

text \<open>The callback gets the state of the caller and may stop the scan with an error.\<close>

fun keyValueLoop :: "(string \<Rightarrow> (string \<times> string) option) \<Rightarrow> (string \<Rightarrow> string \<Rightarrow> 's \<Rightarrow> gerror + 's) \<Rightarrow> string list \<Rightarrow> 's \<Rightarrow> gerror + 's" where
  "keyValueLoop re callback [] s = Inr s"
| "keyValueLoop re callback (line # rest) s =
     (case (if line = [] then None else re line) of
        None \<Rightarrow> keyValueLoop re callback rest s
      | Some (key, val) \<Rightarrow> (case callback key val s of Inl e \<Rightarrow> Inl e | Inr s' \<Rightarrow> keyValueLoop re callback rest s'))"

definition parseKeyValues :: "string \<Rightarrow> (string \<Rightarrow> (string \<times> string) option) \<Rightarrow> (string \<Rightarrow> string \<Rightarrow> 's \<Rightarrow> gerror + 's) \<Rightarrow> 's \<Rightarrow> gerror + 's" where
  "parseKeyValues stdOut re callback s = keyValueLoop re callback (scanLines stdOut) s"

definition liftE :: "gerror + 'a \<Rightarrow> ('w, 'a) io" where
  "liftE r = (case r of Inl e \<Rightarrow> throw e | Inr x \<Rightarrow> ret x)"

section \<open>Machines and disks\<close>

record VM =
  vm_CPUs :: int
  vm_Memory :: int

text \<open>The error of \<open>strconv.Atoi\<close> is that of the standard library.\<close>

definition atoiE :: "string \<Rightarrow> gerror + int" where
  "atoiE s = (case Atoi s of None \<Rightarrow> Inl (ErrorString (''strconv.Atoi: parsing '' @ Quote s @ '': invalid syntax'')) | Some i \<Rightarrow> Inr i)"

definition getVMInfo :: "'w vbox_env \<Rightarrow> string \<Rightarrow> ('w, VM) io" where
  "getVMInfo V name =
     bindP (vbmOut V [''showvminfo'', name, ''--machinereadable'']) (\<lambda>out.
     liftE (parseKeyValues out reEqualLine (\<lambda>key val vm.
        if key = ''cpus'' then (case atoiE val of Inl e \<Rightarrow> Inl e | Inr v \<Rightarrow> Inr (vm\<lparr>vm_CPUs := v\<rparr>))
        else if key = ''memory'' then (case atoiE val of Inl e \<Rightarrow> Inl e | Inr v \<Rightarrow> Inr (vm\<lparr>vm_Memory := v\<rparr>))
        else Inr vm) \<lparr>vm_CPUs = 0, vm_Memory = 0\<rparr>))"

record virtualDisk =
  vd_UUID :: string
  vd_Path :: string

definition getVMDiskInfo :: "'w vbox_env \<Rightarrow> string \<Rightarrow> ('w, virtualDisk) io" where
  "getVMDiskInfo V name =
     bindP (vbmOut V [''showvminfo'', name, ''--machinereadable'']) (\<lambda>out.
     liftE (parseKeyValues out reEqualQuoteLine (\<lambda>key val disk.
        if key = ''SATA-1-0'' then Inr (disk\<lparr>vd_Path := val\<rparr>)
        else if key = ''SATA-ImageUUID-1-0'' then Inr (disk\<lparr>vd_UUID := val\<rparr>)
        else Inr disk) \<lparr>vd_UUID = [], vd_Path = []\<rparr>))"

section \<open>Lemmas\<close>

text \<open>The greedy search finds the last place.\<close>

lemma lastAt_Some:
  assumes "a \<noteq> []" and "r \<noteq> []" and "p r" and "\<And>i. 0 < i \<Longrightarrow> i < length r \<Longrightarrow> \<not> p (drop i r)"
  shows "lastAt p (a @ r) = Some (length a)"
proof -
  have up: "[1 ..< length (a @ r)] = [1 ..< length a] @ length a # map (\<lambda>i. length a + i) [1 ..< length r]"
  proof -
    have "[1 ..< length (a @ r)] = [1 ..< length a] @ [length a ..< length a + length r]"
      using assms(1) upt_add_eq_append [of 1 "length a" "length r"] by (cases a) auto
    moreover have "[length a ..< length a + length r] = length a # [Suc (length a) ..< length a + length r]"
      using assms(2) by (simp add: upt_conv_Cons)
    moreover have "[Suc (length a) ..< length a + length r] = map (\<lambda>i. length a + i) [1 ..< length r]"
      using map_add_upt [of "length a" "length r - 1"] assms(2)
      by (intro nth_equalityI) (auto simp: nth_append)
    ultimately show ?thesis by simp
  qed
  have none: "x \<in> set (rev (map (\<lambda>i. length a + i) [1 ..< length r])) \<Longrightarrow> \<not> p (drop x (a @ r))" for x
    using assms(4) by auto
  have f: "find P (xs @ y # ys) = Some y" if "\<And>x. x \<in> set xs \<Longrightarrow> \<not> P x" "P y" for P :: "nat \<Rightarrow> bool" and xs y ys
    using that by (induction xs) auto
  have rv: "rev ([1 ..< length a] @ length a # map (\<lambda>i. length a + i) [1 ..< length r]) =
      rev (map (\<lambda>i. length a + i) [1 ..< length r]) @ length a # rev [1 ..< length a]" by simp
  show ?thesis unfolding lastAt_def up rv by (rule f) (use none assms(3) in simp_all)
qed

text \<open>Values that a line can carry after its key: no colon is followed by white space.\<close>

fun colonSpace :: "string \<Rightarrow> bool" where
  "colonSpace (a # b # s) \<longleftrightarrow> (a = CHR '':'' \<and> reSpace b) \<or> colonSpace (b # s)"
| "colonSpace s \<longleftrightarrow> False"

lemma colonSpace_drop: "\<not> colonSpace s \<Longrightarrow> drop i s = a # b # t \<Longrightarrow> \<not> (a = CHR '':'' \<and> reSpace b)"
proof (induction i arbitrary: s)
  case (Suc i)
  then show ?case by (cases s rule: colonSpace.cases) auto
qed auto

definition padding :: "nat \<Rightarrow> string" where
  "padding n = replicate (Suc n) (CHR '' '')"

lemma reColonLine_field:
  assumes "k \<noteq> []" and "\<not> colonSpace v" and "v \<noteq> [] \<Longrightarrow> \<not> reSpace (hd v)"
  shows "reColonLine (k @ '':'' @ padding n @ v) = Some (k, v)"
proof -
  let ?p = "\<lambda>r. case r of a # b # _ \<Rightarrow> a = CHR '':'' \<and> reSpace b | _ \<Rightarrow> False"
  have none: "\<not> ?p (drop i ('':'' @ padding n @ v))" if "0 < i" for i
  proof (cases "i \<le> Suc n")
    case True
    with that obtain j where j: "i = Suc j" "j \<le> n" by (cases i) auto
    then have "drop i ('':'' @ padding n @ v) = CHR '' '' # replicate (n - j) (CHR '' '') @ v"
      by (simp add: padding_def drop_append Suc_diff_le flip: replicate_Suc)
    then show ?thesis by (simp split: list.splits)
  next
    case False
    then obtain m where "i = m + (n + 2)" by (metis add.commute add_2_eq_Suc' le_add_diff_inverse not_less_eq_eq)
    then have "drop i ('':'' @ padding n @ v) = drop m v" by (simp add: padding_def)
    then show ?thesis using colonSpace_drop [OF assms(2), of m] by (auto split: list.splits)
  qed
  have "lastAt ?p (k @ ('':'' @ padding n @ v)) = Some (length k)"
    by (rule lastAt_Some) (use assms(1) none in \<open>auto simp: reSpace_def padding_def\<close>)
  moreover have "dropWhile reSpace (padding n @ v) = v"
    using assms(3) by (cases v) (auto simp: reSpace_def padding_def dropWhile_append)
  ultimately show ?thesis by (simp add: reColonLine_def)
qed

lemma scanLines_lines:
  assumes "\<forall>l \<in> set ls. CHR 0x0A \<notin> set l \<and> (l = [] \<or> last l \<noteq> CHR 0x0D)"
  shows "scanLines (concat (map (\<lambda>l. l @ nl) ls)) = ls"
proof -
  have "Split (concat (map (\<lambda>l. l @ nl) ls)) nl = ls @ [[]]"
    using assms by (induction ls) (auto simp: Split_single_none Split_single_step)
  moreover have "map dropCR ls = ls" using assms by (intro map_idI) (auto simp: dropCR_def)
  ultimately show ?thesis by (simp add: scanLines_def Let_def)
qed

lemma keyValueLoop_append:
  "keyValueLoop re f (xs @ ys) s = (case keyValueLoop re f xs s of Inl e \<Rightarrow> Inl e | Inr s' \<Rightarrow> keyValueLoop re f ys s')"
  by (induction xs arbitrary: s) (auto split: option.splits sum.splits)

text \<open>A run of \<open>VBoxManage\<close> that says that the object is not ready, and the pause after it.\<close>

definition notReady :: "'w vbox_env \<Rightarrow> string list \<Rightarrow> 'w \<Rightarrow> 'w \<Rightarrow> bool" where
  "notReady V args w w' \<longleftrightarrow> (\<exists>out se err v. vb_run V args w = (Ok (out, se, err), v) \<and> Contains se objectNotReady \<and> w' = vb_sleep V 100 v)"

lemma vbmOutErrRetry_step:
  assumes "notReady V args w w'" and "retry > 0"
  shows "vbmOutErrRetry V (Suc retry) args w = vbmOutErrRetry V retry args w'"
  using assms by (auto simp: notReady_def bindP_def modifyW_def)

lemma vbmOutErrRetry_steps:
  assumes "(notReady V args ^^ k) w w'" and "k < r"
  shows "vbmOutErrRetry V r args w = vbmOutErrRetry V (r - k) args w'"
  using assms
proof (induction k arbitrary: w r)
  case (Suc k)
  from Suc.prems(1) obtain v where v: "notReady V args w v" "(notReady V args ^^ k) v w'"
    by (blast dest: relpowp_Suc_D2)
  obtain r' where r: "r = Suc r'" "r' > 0" using Suc.prems(2) by (cases r) auto
  from vbmOutErrRetry_step [OF v(1) r(2)] Suc.IH [OF v(2), of r'] show ?case using r Suc.prems(2) by simp
qed simp

section \<open>Properties\<close>

text \<open>\<open>VBoxManage\<close> is run again, after a pause, as long as it says that the object is not ready, but never more than five
  times: with fewer than five such answers the caller gets the first other one, and the fifth answer is final.\<close>

theorem vbm_retries:
  assumes "(notReady V args ^^ k) w w'" and "vb_run V args w' = (Ok (out, se, err), w2)"
    and "k < 4 \<and> \<not> Contains se objectNotReady \<or> k = 4"
  shows "vbmOutErr V args w = (Ok (out, se, vbmError V args se err), w2)"
proof -
  obtain r where r: "5 - k = Suc r" "\<not> (0 < r \<and> Contains se objectNotReady)" "k < 5" using assms(3) by (cases "5 - k") auto
  have "vbmOutErr V args w = vbmOutErrRetry V (5 - k) args w'"
    using vbmOutErrRetry_steps [OF assms(1) r(3)] by (simp add: vbmOutErr_def retryCountOnObjectNotReadyError_def)
  also have "\<dots> = (Ok (out, se, vbmError V args se err), w2)"
    unfolding r(1) vbmOutErrRetry.simps bindP_Ok [where m = "vb_run V args", OF assms(2)] prod.case if_not_P [OF r(2)] by (rule ret_apply)
  finally show ?thesis .
qed

text \<open>A program that is not ready for the given number of runs.\<close>

definition demoVbox :: "(string list \<Rightarrow> string) \<Rightarrow> nat vbox_env" where
  "demoVbox answer = \<lparr>vboxManageCmd = ''VBoxManage'',
     vb_run = (\<lambda>args n. (Ok (answer args, if n > 0 then objectNotReady else [], None), n - 1)), vb_sleep = (\<lambda>ms n. n)\<rparr>"

theorem vbm_retries_witness:
  "vbmOutErr (demoVbox (\<lambda>args. ''5.2'')) [''--version''] 1 = (Ok (''5.2'', [], None), 0)"
proof -
  have "notReady (demoVbox (\<lambda>args. ''5.2'')) [''--version''] 1 0"
  proof -
    have "Contains objectNotReady objectNotReady" by code_simp
    then show ?thesis by (simp add: notReady_def demoVbox_def)
  qed
  then have c: "(notReady (demoVbox (\<lambda>args. ''5.2'')) [''--version''] ^^ 1) 1 0" by (simp only: relpowp_1)
  have r: "vb_run (demoVbox (\<lambda>args. ''5.2'')) [''--version''] 0 = (Ok (''5.2'', [], None), 0)" by (simp add: demoVbox_def)
  have n: "\<not> Contains [] objectNotReady" by code_simp
  have "vbmError (demoVbox (\<lambda>args. ''5.2'')) [''--version''] [] None = None" by code_simp
  with vbm_retries [OF c r] n show ?thesis by simp
qed

text \<open>a version of VirtualBox is accepted exactly from 4.3 on; what cannot be read as a version is refused.\<close>

theorem checkVBoxManageVersion_from_4_3:
  "checkVBoxManageVersion version = None \<longleftrightarrow>
     (\<exists>major minor. parseVersion version = Inr (major, minor) \<and> (4 < major \<or> major = 4 \<and> 3 \<le> minor))"
  by (auto simp: checkVBoxManageVersion_def Let_def split: sum.splits)

end
