(* ===== verification/Net.thy ===== *)
theory Net
  imports Core_Types "HOL-Library.Word"
begin

unbundle bit_operations_syntax

text \<open>
  The part of the standard package \<open>net\<close> that the VirtualBox driver uses: addresses and masks as slices of bytes (the
  empty slice is nil), their text forms, and networks.  The text form of an IPv6 address that is no IPv4 address is a
  pair of arguments, \<open>parse6\<close> and \<open>show6\<close>.
\<close>

type_synonym netIP = "8 word list"

type_synonym netMask = "8 word list"

record ipNet =
  net_IP :: netIP
  net_Mask :: netMask

record textIPv6 =
  parse6 :: "string \<Rightarrow> netIP"
  show6 :: "netIP \<Rightarrow> string"

section \<open>Addresses\<close>

definition v4InV6Prefix :: netIP where
  "v4InV6Prefix = replicate 10 0 @ [255, 255]"

definition IPv4 :: "8 word \<Rightarrow> 8 word \<Rightarrow> 8 word \<Rightarrow> 8 word \<Rightarrow> netIP" where
  "IPv4 a b c d = v4InV6Prefix @ [a, b, c, d]"

definition To4 :: "netIP \<Rightarrow> netIP" where
  "To4 ip = (if length ip = 4 then ip else if length ip = 16 \<and> take 12 ip = v4InV6Prefix then drop 12 ip else [])"

definition IP_Equal :: "netIP \<Rightarrow> netIP \<Rightarrow> bool" where
  "IP_Equal ip x \<longleftrightarrow>
     (if length ip = length x then ip = x
      else if length ip = 4 \<and> length x = 16 then take 12 x = v4InV6Prefix \<and> ip = drop 12 x
      else if length ip = 16 \<and> length x = 4 then take 12 ip = v4InV6Prefix \<and> drop 12 ip = x
      else False)"

definition IP_Mask :: "netIP \<Rightarrow> netMask \<Rightarrow> netIP" where
  "IP_Mask ip msk =
     (let m = (if length msk = 16 \<and> length ip = 4 \<and> take 12 msk = replicate 12 255 then drop 12 msk else msk);
          i = (if length m = 4 \<and> length ip = 16 \<and> take 12 ip = v4InV6Prefix then drop 12 ip else ip)
      in if length i \<noteq> length m then [] else map2 (\<lambda>a b. a AND b) i m)"

section \<open>Masks\<close>

definition byteBits :: "8 word \<Rightarrow> bool list" where
  "byteBits b = map (\<lambda>i. bit b i) (rev [0 ..< 8])"

definition maskBits :: "netMask \<Rightarrow> bool list" where
  "maskBits m = concat (map byteBits m)"

text \<open>The number of leading ones, unless a one follows a zero.\<close>

definition simpleMaskLength :: "netMask \<Rightarrow> nat option" where
  "simpleMaskLength m =
     (let bs = maskBits m; n = length (takeWhile id bs) in if True \<in> set (drop n bs) then None else Some n)"

definition Mask_Size :: "netMask \<Rightarrow> nat \<times> nat" where
  "Mask_Size m = (case simpleMaskLength m of None \<Rightarrow> (0, 0) | Some n \<Rightarrow> (n, 8 * length m))"

definition byteOfBits :: "bool list \<Rightarrow> 8 word" where
  "byteOfBits bs = word_of_nat (foldl (\<lambda>acc b. 2 * acc + (if b then 1 else 0)) 0 bs)"

text \<open>The byte at place \<open>i\<close> of a mask with \<open>ones\<close> leading ones.\<close>

definition CIDRMask :: "nat \<Rightarrow> nat \<Rightarrow> netMask" where
  "CIDRMask ones bits =
     map (\<lambda>i. let k = min 8 (ones - 8 * i) in byteOfBits (replicate k True @ replicate (8 - k) False)) [0 ..< bits div 8]"

section \<open>Text\<close>

definition hexByte :: "8 word \<Rightarrow> string" where
  "hexByte b = (let d = (\<lambda>n. if n < 10 then digitC n else char_of (87 + n)) in [d (unat b div 16), d (unat b mod 16)])"

definition hexString :: "8 word list \<Rightarrow> string" where
  "hexString bs = concat (map hexByte bs)"

definition Mask_String :: "netMask \<Rightarrow> string" where
  "Mask_String m = (if m = [] then ''<nil>'' else hexString m)"

definition dotted :: "8 word list \<Rightarrow> string" where
  "dotted bs = Join (map (\<lambda>b. natDec (unat b)) bs) ''.''"

definition IP_String :: "textIPv6 \<Rightarrow> netIP \<Rightarrow> string" where
  "IP_String X ip =
     (if ip = [] then ''<nil>'' else if To4 ip \<noteq> [] then dotted (To4 ip)
      else if length ip \<noteq> 16 then ''?'' @ hexString ip else show6 X ip)"

fun octets :: "string list \<Rightarrow> 8 word list option" where
  "octets [] = Some []"
| "octets (p # ps) = (case parseDigits p of
       None \<Rightarrow> None
     | Some n \<Rightarrow> if n > 255 then None else map_option (\<lambda>bs. word_of_nat n # bs) (octets ps))"

definition parseIPv4 :: "string \<Rightarrow> netIP" where
  "parseIPv4 s = (case octets (Split s ''.'') of Some [a, b, c, d] \<Rightarrow> IPv4 a b c d | _ \<Rightarrow> [])"

text \<open>The first dot or colon decides which form it is.\<close>

definition ParseIP :: "textIPv6 \<Rightarrow> string \<Rightarrow> netIP" where
  "ParseIP X s = (case find (\<lambda>c. c = CHR ''.'' \<or> c = CHR '':'') s of
       Some c \<Rightarrow> if c = CHR ''.'' then parseIPv4 s else parse6 X s
     | None \<Rightarrow> [])"

text \<open>The network of an address keeps its own masked address; the address itself is returned beside it.\<close>

definition ParseCIDR :: "textIPv6 \<Rightarrow> string \<Rightarrow> gerror + netIP \<times> ipNet" where
  "ParseCIDR X s =
     (let bad = Inl (ErrorString (''invalid CIDR address: '' @ s))
      in case cutAt ''/'' s of
           None \<Rightarrow> bad
         | Some (addr, msk) \<Rightarrow>
             (let ip4 = parseIPv4 addr; len = (if ip4 \<noteq> [] then 4 else 16); ip = (if ip4 \<noteq> [] then ip4 else parse6 X addr)
              in case parseDigits msk of
                   None \<Rightarrow> bad
                 | Some n \<Rightarrow> if ip = [] \<or> n > 8 * len then bad
                            else (let m = CIDRMask n (8 * len) in Inr (ip, \<lparr>net_IP = IP_Mask ip m, net_Mask = m\<rparr>))))"

definition IPNet_String :: "textIPv6 \<Rightarrow> ipNet \<Rightarrow> string" where
  "IPNet_String X n =
     (let ip = (if To4 (net_IP n) \<noteq> [] then To4 (net_IP n) else net_IP n);
          m = (if length (net_Mask n) = 16 \<and> length ip = 4 then drop 12 (net_Mask n) else net_Mask n)
      in if (length ip \<noteq> 4 \<and> length ip \<noteq> 16) \<or> length m \<noteq> length ip then ''<nil>''
         else IP_String X ip @ ''/'' @ (case simpleMaskLength m of None \<Rightarrow> hexString m | Some l \<Rightarrow> natDec l))"

section \<open>Hardware addresses\<close>

definition hexVal :: "char \<Rightarrow> nat option" where
  "hexVal c = (let n = of_char c :: nat
     in if isDigit c then Some (n - 48) else if 97 \<le> n \<and> n \<le> 102 then Some (n - 87) else if 65 \<le> n \<and> n \<le> 70 then Some (n - 55) else None)"

fun hexBytes :: "string \<Rightarrow> 8 word list option" where
  "hexBytes [] = Some []"
| "hexBytes [c] = None"
| "hexBytes (a # b # s) = (case (hexVal a, hexVal b, hexBytes s) of
       (Some x, Some y, Some bs) \<Rightarrow> Some (word_of_nat (16 * x + y) # bs)
     | _ \<Rightarrow> None)"

text \<open>Two digits per group between colons or dashes, or four between dots; 6, 8 or 20 bytes.\<close>

definition ParseMAC :: "string \<Rightarrow> gerror + 8 word list" where
  "ParseMAC s =
     (let bad = Inl (ErrorString (''address '' @ s @ '': invalid MAC address''));
          groups = (\<lambda>c k. let gs = Split s [c] in if \<forall>g \<in> set gs. length g = k then hexBytes (concat gs) else None);
          bs = (if length s < 14 then None
                else if s ! 2 = CHR '':'' then groups (CHR '':'') 2
                else if s ! 2 = CHR ''-'' then groups (CHR ''-'') 2
                else if s ! 4 = CHR ''.'' then groups (CHR ''.'') 4 else None)
      in case bs of None \<Rightarrow> bad | Some b \<Rightarrow> if length b \<in> {6, 8, 20} then Inr b else bad)"

section \<open>Lemmas\<close>

lemma length_v4InV6Prefix [simp]: "length v4InV6Prefix = 12"
  by (simp add: v4InV6Prefix_def)

lemma To4_IPv4 [simp]: "To4 (IPv4 a b c d) = [a, b, c, d]"
  by (simp add: To4_def IPv4_def)

lemma IPv4_eq [simp]: "IPv4 a b c d = IPv4 a' b' c' d' \<longleftrightarrow> a = a' \<and> b = b' \<and> c = c' \<and> d = d'"
  by (simp add: IPv4_def)

lemma IPv4_not_Nil [simp]: "IPv4 a b c d \<noteq> []"
  by (simp add: IPv4_def)

lemma IP_Equal_IPv4 [simp]:
  "IP_Equal (IPv4 a b c d) (IPv4 a' b' c' d') \<longleftrightarrow> a = a' \<and> b = b' \<and> c = c' \<and> d = d'"
  "IP_Equal (IPv4 a b c d) [a', b', c', d'] \<longleftrightarrow> a = a' \<and> b = b' \<and> c = c' \<and> d = d'"
  by (auto simp: IP_Equal_def IPv4_def)

lemma IP_Mask_IPv4 [simp]:
  "IP_Mask (IPv4 a b c d) [m0, m1, m2, m3] = [a AND m0, b AND m1, c AND m2, d AND m3]"
  "IP_Mask [a, b, c, d] [m0, m1, m2, m3] = [a AND m0, b AND m1, c AND m2, d AND m3]"
  by (simp_all add: IP_Mask_def IPv4_def)

text \<open>Printed addresses are read back.\<close>

lemma unat_byte: "unat (b :: 8 word) < 256"
  using unsigned_less [of b] by simp

lemma octets_natDec: "octets (map (\<lambda>b. natDec (unat b)) bs) = Some bs"
proof (induction bs)
  case (Cons b bs)
  have "\<not> unat b > 255" using unat_byte [of b] by simp
  with Cons show ?case by simp
qed simp

lemma natDec_digit_only: "c \<in> set (natDec n) \<Longrightarrow> isDigit c"
  using natDec_digits by blast

lemma natDec_no [simp]: "CHR ''.'' \<notin> set (natDec n)" "CHR '':'' \<notin> set (natDec n)" "CHR ''/'' \<notin> set (natDec n)"
  by (auto dest: natDec_digit_only simp: isDigit_def)

lemma Split_dotted: "Split (dotted [a, b, c, d]) ''.'' = map (\<lambda>x. natDec (unat x)) [a, b, c, d]"
  by (simp add: dotted_def Split_single_step Split_single_none)

lemma parseIPv4_dotted: "parseIPv4 (dotted [a, b, c, d]) = IPv4 a b c d"
  using octets_natDec [of "[a, b, c, d]"] by (simp add: parseIPv4_def Split_dotted)

lemma find_after: "(\<And>x. x \<in> set xs \<Longrightarrow> \<not> P x) \<Longrightarrow> P y \<Longrightarrow> find P (xs @ y # ys) = Some y"
  by (induction xs) auto

lemma find_dotted: "find (\<lambda>x. x = CHR ''.'' \<or> x = CHR '':'') (dotted [a, b, c, d]) = Some (CHR ''.'')"
  unfolding dotted_def list.map Join.simps append_assoc append_Cons append_Nil
  by (rule find_after) (metis natDec_no(1,2), simp)

lemma ParseIP_dotted [simp]: "ParseIP X (dotted [a, b, c, d]) = IPv4 a b c d"
  by (simp add: ParseIP_def find_dotted parseIPv4_dotted)

text \<open>Masks of a given length.\<close>

lemma CIDRMask_32: "n \<le> 32 \<Longrightarrow> Mask_Size (CIDRMask n 32) = (n, 32)"
proof -
  have "\<forall>n \<in> set [0 ..< 33]. Mask_Size (CIDRMask n 32) = (n, 32)" by code_simp
  then show "n \<le> 32 \<Longrightarrow> ?thesis" by simp
qed

lemma CIDRMask_bytes: "\<exists>m0 m1 m2 m3. CIDRMask n 32 = [m0, m1, m2, m3]"
  by (simp add: CIDRMask_def upt_rec)

lemma CIDRMask_24: "n \<le> 24 \<Longrightarrow> \<exists>m0 m1 m2. CIDRMask n 32 = [m0, m1, m2, 0]"
proof -
  have "\<forall>n \<in> set [0 ..< 25]. last (CIDRMask n 32) = 0" by code_simp
  then have "n \<le> 24 \<Longrightarrow> last (CIDRMask n 32) = 0" by simp
  then show "n \<le> 24 \<Longrightarrow> ?thesis" using CIDRMask_bytes [of n] by auto
qed

text \<open>Both addresses have the same network part.\<close>

definition inNet :: "ipNet \<Rightarrow> netIP \<Rightarrow> bool" where
  "inNet n ip \<longleftrightarrow> IP_Mask ip (net_Mask n) = IP_Mask (net_IP n) (net_Mask n)"

definition cidrText :: "8 word \<Rightarrow> 8 word \<Rightarrow> 8 word \<Rightarrow> 8 word \<Rightarrow> nat \<Rightarrow> string" where
  "cidrText a b c d n = dotted [a, b, c, d] @ ''/'' @ natDec n"

lemma ParseCIDR_text:
  assumes "n \<le> 32"
  shows "ParseCIDR X (cidrText a b c d n) =
    Inr (IPv4 a b c d, \<lparr>net_IP = IP_Mask (IPv4 a b c d) (CIDRMask n 32), net_Mask = CIDRMask n 32\<rparr>)"
proof -
  have "CHR ''/'' \<notin> set (dotted [a, b, c, d])" by (simp add: dotted_def)
  then have "cutAt ''/'' (cidrText a b c d n) = Some (dotted [a, b, c, d], natDec n)"
    using cutAt_until [of "CHR ''/''" "dotted [a, b, c, d]" "natDec n"] by (simp add: cidrText_def)
  then show ?thesis using assms by (simp add: ParseCIDR_def parseIPv4_dotted Let_def)
qed

text \<open>Hardware addresses of six bytes.\<close>

definition macText :: "8 word list \<Rightarrow> string" where
  "macText bs = Join (map hexByte bs) '':''"

lemma hexVal_digit: "n < 16 \<Longrightarrow> hexVal (if n < 10 then digitC n else char_of (87 + n)) = Some n"
  by (simp add: hexVal_def isDigit_def digitC_def Let_def)

lemma hexBytes_hex: "hexBytes (concat (map hexByte bs)) = Some bs"
proof (induction bs)
  case (Cons b bs)
  have "unat b div 16 < 16" "unat b mod 16 < 16" using unat_byte [of b] by simp_all
  then show ?case using Cons by (simp add: hexByte_def Let_def hexVal_digit)
qed simp

lemma hexDigit_not_colon: "n < 16 \<Longrightarrow> (if n < 10 then digitC n else char_of (87 + n)) \<noteq> CHR '':''"
  using hexVal_digit [of n] by (auto simp: hexVal_def isDigit_def)

lemma hexByte_no_colon: "CHR '':'' \<notin> set (hexByte b)" "length (hexByte b) = 2"
proof -
  have "unat b div 16 < 16" "unat b mod 16 < 16" using unat_byte [of b] by simp_all
  then show "CHR '':'' \<notin> set (hexByte b)"
    using hexDigit_not_colon [of "unat b div 16"] hexDigit_not_colon [of "unat b mod 16"]
    unfolding hexByte_def Let_def by (simp only: list.set insert_iff empty_iff simp_thms) metis
  show "length (hexByte b) = 2" by (simp add: hexByte_def Let_def)
qed

lemma ParseMAC_text: "ParseMAC (macText [a, b, c, d, e, f]) = Inr [a, b, c, d, e, f]"
proof -
  let ?bs = "[a, b, c, d, e, f]"
  have sp: "Split (macText ?bs) '':'' = map hexByte ?bs"
    by (simp add: macText_def Split_single_step Split_single_none hexByte_no_colon)
  have "macText ?bs ! 2 = CHR '':''" "length (macText ?bs) = 17"
    by (simp_all add: macText_def nth_append hexByte_no_colon)
  moreover have "\<forall>g \<in> set (map hexByte ?bs). length g = 2" by (simp add: hexByte_no_colon)
  ultimately show ?thesis using hexBytes_hex [of ?bs] by (simp add: ParseMAC_def sp Let_def)
qed

end
