(* ===== verification/Vbox_Net.thy ===== *)
theory Vbox_Net
  imports Vbox_Manage Net
begin

text \<open>
  \<open>drivers/virtualbox/network.go\<close> and the network functions of \<open>virtualbox.go\<close>: the host-only adapters and DHCP servers that
  \<open>VBoxManage\<close> lists, finding or making the adapter of a machine, the addresses its DHCP server hands out, and the check
  against the networks of the host.
\<close>

section \<open>Host-only networks\<close>

record hostOnlyNetwork =
  hn_Name :: string
  hn_GUID :: string
  hn_DHCP :: bool
  hn_IPv4 :: ipNet
  hn_HwAddr :: "8 word list"
  hn_Medium :: string
  hn_Status :: string
  hn_NetworkName :: string

definition zeroNetwork :: hostOnlyNetwork where
  "zeroNetwork = \<lparr>hn_Name = [], hn_GUID = [], hn_DHCP = False, hn_IPv4 = \<lparr>net_IP = [], net_Mask = []\<rparr>, hn_HwAddr = [], hn_Medium = [],
     hn_Status = [], hn_NetworkName = []\<rparr>"

text \<open>An interface of the host; an address that is no \<open>*net.IPNet\<close> is left out of the list.\<close>

record hostIface =
  if_up :: bool
  if_loopback :: bool
  if_addrs :: "gerror + ipNet list"

text \<open>
  \<open>netOrder\<close> and \<open>dhcpOrder\<close> are the orders in which one run ranges over the two maps, \<open>hostIfaces\<close> is \<open>net.Interfaces\<close> with
  the addresses of each, \<open>randomInt\<close> is \<open>rand.Intn\<close>.
\<close>

record 'w vnet_env =
  ve_vbox :: "'w vbox_env"
  ve_text6 :: textIPv6
  netOrder :: "(string \<times> hostOnlyNetwork) list \<Rightarrow> (string \<times> hostOnlyNetwork) list"
  dhcpOrder :: "string list \<Rightarrow> string list"
  hostIfaces :: "('w, hostIface list) io"
  randomInt :: "nat \<Rightarrow> ('w, nat) io"

definition buggyNetmask :: string where
  "buggyNetmask = ''0f000000''"

definition dhcpPrefix :: string where
  "dhcpPrefix = ''HostInterfaceNetworking-''"

definition errNewHostOnlyAdapterNotVisible :: gerror where
  "errNewHostOnlyAdapterNotVisible = ErrorString (''The host-only adapter we just created is not visible. This is a well known VirtualBox bug. '' @
     ''You might want to uninstall it and reinstall at least version 5.0.12 that is is supposed to fix this issue'')"

definition SaveIPv4 :: "'w vnet_env \<Rightarrow> hostOnlyNetwork \<Rightarrow> ('w, unit) io" where
  "SaveIPv4 N n =
     (if net_IP (hn_IPv4 n) \<noteq> [] \<and> net_Mask (hn_IPv4 n) \<noteq> []
      then vbm (ve_vbox N) [''hostonlyif'', ''ipconfig'', hn_Name n, ''--ip'', IP_String (ve_text6 N) (net_IP (hn_IPv4 n)),
             ''--netmask'', IP_String (ve_text6 N) (net_Mask (hn_IPv4 n))]
      else ret ())"

definition network_Save :: "'w vnet_env \<Rightarrow> hostOnlyNetwork \<Rightarrow> ('w, unit) io" where
  "network_Save N n =
     bindP (SaveIPv4 N n) (\<lambda>_.
       if hn_DHCP n then bindP (tryP (vbm (ve_vbox N) [''hostonlyif'', ''ipconfig'', hn_Name n, ''--dhcp''])) (\<lambda>_. ret ()) else ret ())"

text \<open>\<open>Interface '(.+)' was successfully created\<close> on the first line that has it.\<close>

definition createdName :: "string \<Rightarrow> string option" where
  "createdName line = (case cutAt (''Interface '' @ [CHR 0x27]) line of
       None \<Rightarrow> None
     | Some (_, r) \<Rightarrow> map_option (\<lambda>i. take i r) (lastAt (\<lambda>t. HasPrefix t ([CHR 0x27] @ '' was successfully created'')) r))"

definition createHostonlyAdapter :: "'w vnet_env \<Rightarrow> ('w, hostOnlyNetwork) io" where
  "createHostonlyAdapter N =
     bindP (vbmOut (ve_vbox N) [''hostonlyif'', ''create'']) (\<lambda>out.
       case List.map_filter createdName (Split out nl) of
         [] \<Rightarrow> throw (ErrorString ''Failed to create host-only adapter'')
       | name # _ \<Rightarrow> ret (zeroNetwork\<lparr>hn_Name := name\<rparr>))"

definition parseIPv4Mask :: "textIPv6 \<Rightarrow> string \<Rightarrow> netMask" where
  "parseIPv4Mask X s = (let m = ParseIP X s in if m = [] then [] else drop 12 m)"

text \<open>The adapters read so far, their addresses, and the one that is being read; it is complete with its network name.\<close>

record adapterScan =
  byName :: "(string \<times> hostOnlyNetwork) list"
  byIP :: "string list"
  curNet :: hostOnlyNetwork

definition adapterLine :: "textIPv6 \<Rightarrow> string \<Rightarrow> string \<Rightarrow> adapterScan \<Rightarrow> gerror + adapterScan" where
  "adapterLine X key val s =
     (let n = curNet s
      in if key = ''Name'' then Inr (s\<lparr>curNet := n\<lparr>hn_Name := val\<rparr>\<rparr>)
         else if key = ''GUID'' then Inr (s\<lparr>curNet := n\<lparr>hn_GUID := val\<rparr>\<rparr>)
         else if key = ''DHCP'' then Inr (s\<lparr>curNet := n\<lparr>hn_DHCP := (val \<noteq> ''Disabled'')\<rparr>\<rparr>)
         else if key = ''IPAddress'' then Inr (s\<lparr>curNet := n\<lparr>hn_IPv4 := (hn_IPv4 n)\<lparr>net_IP := ParseIP X val\<rparr>\<rparr>\<rparr>)
         else if key = ''NetworkMask'' then Inr (s\<lparr>curNet := n\<lparr>hn_IPv4 := (hn_IPv4 n)\<lparr>net_Mask := parseIPv4Mask X val\<rparr>\<rparr>\<rparr>)
         else if key = ''HardwareAddress''
           then (case ParseMAC val of Inl e \<Rightarrow> Inl e | Inr mac \<Rightarrow> Inr (s\<lparr>curNet := n\<lparr>hn_HwAddr := mac\<rparr>\<rparr>))
         else if key = ''MediumType'' then Inr (s\<lparr>curNet := n\<lparr>hn_Medium := val\<rparr>\<rparr>)
         else if key = ''Status'' then Inr (s\<lparr>curNet := n\<lparr>hn_Status := val\<rparr>\<rparr>)
         else if key = ''VBoxNetworkName''
           then (let n' = n\<lparr>hn_NetworkName := val\<rparr>; ip = IP_String X (net_IP (hn_IPv4 n))
                 in if map_of (byName s) val \<noteq> None
                    then Inl (ErrorString (''VirtualBox is configured with multiple host-only adapters with the same name '' @ Quote val @ ''. Please remove one''))
                    else if net_IP (hn_IPv4 n) = [] then Inr (s\<lparr>byName := AList.update val n' (byName s), curNet := zeroNetwork\<rparr>)
                    else if ip \<in> set (byIP s)
                    then Inl (ErrorString (''VirtualBox is configured with multiple host-only adapters with the same IP '' @ Quote ip @ ''. Please remove one''))
                    else Inr \<lparr>byName = AList.update val n' (byName s), byIP = byIP s @ [ip], curNet = zeroNetwork\<rparr>)
         else Inr s)"

definition parseAdapters :: "textIPv6 \<Rightarrow> string \<Rightarrow> gerror + (string \<times> hostOnlyNetwork) list" where
  "parseAdapters X out =
     (case parseKeyValues out reColonLine (adapterLine X) \<lparr>byName = [], byIP = [], curNet = zeroNetwork\<rparr> of
        Inl e \<Rightarrow> Inl e | Inr s \<Rightarrow> Inr (byName s))"

definition listHostOnlyAdapters :: "'w vnet_env \<Rightarrow> ('w, (string \<times> hostOnlyNetwork) list) io" where
  "listHostOnlyAdapters N =
     bindP (vbmOut (ve_vbox N) [''list'', ''hostonlyifs'']) (\<lambda>out. liftE (parseAdapters (ve_text6 N) out))"

definition isAdapterFor :: "netIP \<Rightarrow> netMask \<Rightarrow> hostOnlyNetwork \<Rightarrow> bool" where
  "isAdapterFor hostIP netmask n \<longleftrightarrow> IP_Equal hostIP (net_IP (hn_IPv4 n)) \<and>
     (Mask_String netmask = Mask_String (net_Mask (hn_IPv4 n)) \<or> Mask_String (net_Mask (hn_IPv4 n)) = buggyNetmask)"

definition getHostOnlyAdapter :: "'w vnet_env \<Rightarrow> (string \<times> hostOnlyNetwork) list \<Rightarrow> netIP \<Rightarrow> netMask \<Rightarrow> hostOnlyNetwork option" where
  "getHostOnlyAdapter N nets hostIP netmask = find (isAdapterFor hostIP netmask) (map snd (netOrder N nets))"

text \<open>Ten polls, one second before each.\<close>

fun newNetworkLoop :: "'w vnet_env \<Rightarrow> (string \<times> hostOnlyNetwork) list \<Rightarrow> nat \<Rightarrow> ('w, hostOnlyNetwork) io" where
  "newNetworkLoop N oldNets 0 = throw (ErrorString ''Failed to find a new host-only adapter'')"
| "newNetworkLoop N oldNets (Suc k) =
     bindP (modifyW (vb_sleep (ve_vbox N) 1000)) (\<lambda>_.
     bindP (listHostOnlyAdapters N) (\<lambda>newNets.
       case find (\<lambda>(name, n). map_of oldNets name = None) (netOrder N newNets) of
         Some (name, latestNet) \<Rightarrow> ret latestNet
       | None \<Rightarrow> newNetworkLoop N oldNets k))"

definition waitForNewHostOnlyNetwork :: "'w vnet_env \<Rightarrow> (string \<times> hostOnlyNetwork) list \<Rightarrow> ('w, hostOnlyNetwork) io" where
  "waitForNewHostOnlyNetwork N oldNets = newNetworkLoop N oldNets 10"

text \<open>A failed creation is only logged: the adapter may be there all the same.\<close>

definition getOrCreateHostOnlyNetwork ::
  "'w vnet_env \<Rightarrow> netIP \<Rightarrow> netMask \<Rightarrow> (string \<times> hostOnlyNetwork) list \<Rightarrow> ('w, hostOnlyNetwork) io" where
  "getOrCreateHostOnlyNetwork N hostIP netmask nets =
     (case getHostOnlyAdapter N nets hostIP netmask of
        Some n \<Rightarrow> ret n
      | None \<Rightarrow>
          bindP (tryP (createHostonlyAdapter N)) (\<lambda>_.
          bindP (wrapErr (\<lambda>_. errNewHostOnlyAdapterNotVisible) (waitForNewHostOnlyNetwork N nets)) (\<lambda>n.
          let n' = n\<lparr>hn_IPv4 := \<lparr>net_IP = hostIP, net_Mask = netmask\<rparr>\<rparr>
          in bindP (network_Save N n') (\<lambda>_. ret n'))))"

section \<open>DHCP servers\<close>

record dhcpServer =
  ds_NetworkName :: string
  ds_IPv4 :: ipNet
  LowerIP :: netIP
  UpperIP :: netIP
  ds_Enabled :: bool

definition zeroServer :: dhcpServer where
  "zeroServer = \<lparr>ds_NetworkName = [], ds_IPv4 = \<lparr>net_IP = [], net_Mask = []\<rparr>, LowerIP = [], UpperIP = [], ds_Enabled = False\<rparr>"

text \<open>The server that is being read is already in the map: every line changes the entry of the last network name.\<close>

definition changeServer :: "(dhcpServer \<Rightarrow> dhcpServer) \<Rightarrow> (string \<times> dhcpServer) list \<times> string option \<Rightarrow> (string \<times> dhcpServer) list \<times> string option" where
  "changeServer f s = (case s of
       (m, Some n) \<Rightarrow> (case map_of m n of Some d \<Rightarrow> (AList.update n (f d) m, Some n) | None \<Rightarrow> (m, Some n))
     | (m, None) \<Rightarrow> (m, None))"

definition dhcpLine :: "textIPv6 \<Rightarrow> string \<Rightarrow> string \<Rightarrow> (string \<times> dhcpServer) list \<times> string option \<Rightarrow>
    gerror + (string \<times> dhcpServer) list \<times> string option" where
  "dhcpLine X key val s =
     (if key = ''NetworkName'' then Inr (AList.update val (zeroServer\<lparr>ds_NetworkName := val\<rparr>) (fst s), Some val)
      else if key = ''IP'' then Inr (changeServer (\<lambda>d. d\<lparr>ds_IPv4 := (ds_IPv4 d)\<lparr>net_IP := ParseIP X val\<rparr>\<rparr>) s)
      else if key = ''upperIPAddress'' then Inr (changeServer (\<lambda>d. d\<lparr>UpperIP := ParseIP X val\<rparr>) s)
      else if key = ''lowerIPAddress'' then Inr (changeServer (\<lambda>d. d\<lparr>LowerIP := ParseIP X val\<rparr>) s)
      else if key = ''NetworkMask'' then Inr (changeServer (\<lambda>d. d\<lparr>ds_IPv4 := (ds_IPv4 d)\<lparr>net_Mask := parseIPv4Mask X val\<rparr>\<rparr>) s)
      else if key = ''Enabled'' then Inr (changeServer (\<lambda>d. d\<lparr>ds_Enabled := (val = ''Yes'')\<rparr>) s)
      else Inr s)"

definition listDHCPServers :: "'w vnet_env \<Rightarrow> ('w, (string \<times> dhcpServer) list) io" where
  "listDHCPServers N =
     bindP (vbmOut (ve_vbox N) [''list'', ''dhcpservers'']) (\<lambda>out.
     bindP (liftE (parseKeyValues out reColonLine (dhcpLine (ve_text6 N)) ([], None))) (\<lambda>(m, _). ret m))"

definition removeOrphanDHCPServers :: "'w vnet_env \<Rightarrow> ('w, unit) io" where
  "removeOrphanDHCPServers N =
     bindP (listDHCPServers N) (\<lambda>dhcps.
       if dhcps = [] then ret ()
       else bindP (listHostOnlyAdapters N) (\<lambda>nets.
            forEach (dhcpOrder N (map fst dhcps)) (\<lambda>name.
              if HasPrefix name dhcpPrefix \<and> map_of nets name = None
              then bindP (tryP (vbm (ve_vbox N) [''dhcpserver'', ''remove'', ''--netname'', name])) (\<lambda>_. ret ())
              else ret ())))"

definition sameServer :: "dhcpServer \<Rightarrow> dhcpServer \<Rightarrow> bool" where
  "sameServer a b \<longleftrightarrow> IP_Equal (net_IP (ds_IPv4 a)) (net_IP (ds_IPv4 b)) \<and>
     Mask_String (net_Mask (ds_IPv4 a)) = Mask_String (net_Mask (ds_IPv4 b)) \<and>
     IP_Equal (LowerIP a) (LowerIP b) \<and> IP_Equal (UpperIP a) (UpperIP b) \<and> ds_Enabled a = ds_Enabled b"

definition addHostOnlyDHCPServer :: "'w vnet_env \<Rightarrow> string \<Rightarrow> dhcpServer \<Rightarrow> ('w, unit) io" where
  "addHostOnlyDHCPServer N ifname d =
     (let name = dhcpPrefix @ ifname; X = ve_text6 N
      in bindP (listDHCPServers N) (\<lambda>dhcps.
           let known = map_of dhcps name
           in if (case known of Some dhcp \<Rightarrow> sameServer dhcp d | None \<Rightarrow> False) then ret ()
              else vbm (ve_vbox N) ([''dhcpserver'', (if known = None then ''add'' else ''modify''), ''--netname'', name,
                     ''--ip'', IP_String X (net_IP (ds_IPv4 d)), ''--netmask'', IP_String X (net_Mask (ds_IPv4 d)),
                     ''--lowerip'', IP_String X (LowerIP d), ''--upperip'', IP_String X (UpperIP d)] @
                     [if ds_Enabled d then ''--enable'' else ''--disable''])))"

section \<open>The networks of the host\<close>

fun ifaceLoop :: "textIPv6 \<Rightarrow> string list \<Rightarrow> hostIface list \<Rightarrow> (string \<times> ipNet) list \<Rightarrow> gerror + (string \<times> ipNet) list" where
  "ifaceLoop X excluded [] m = Inr m"
| "ifaceLoop X excluded (i # is) m =
     (case if_addrs i of
        Inl e \<Rightarrow> Inl e
      | Inr addrs \<Rightarrow>
          if (\<exists>a \<in> set addrs. IPNet_String X a \<in> set excluded) \<or> \<not> if_up i \<or> if_loopback i then ifaceLoop X excluded is m
          else ifaceLoop X excluded is (fold (\<lambda>a. AList.update (IPNet_String X a) a) addrs m))"

definition listHostInterfaces :: "'w vnet_env \<Rightarrow> string list \<Rightarrow> ('w, (string \<times> ipNet) list) io" where
  "listHostInterfaces N excludeNets = bindP (hostIfaces N) (\<lambda>ifaces. liftE (ifaceLoop (ve_text6 N) excludeNets ifaces []))"

definition checkIPNetCollision :: "ipNet \<Rightarrow> (string \<times> ipNet) list \<Rightarrow> bool" where
  "checkIPNetCollision hostonly ifaces \<longleftrightarrow> (\<exists>(k, n) \<in> set ifaces. IP_Equal (net_IP hostonly) (IP_Mask (net_IP n) (net_Mask n)))"

definition ErrNetworkAddrCollision :: gerror where
  "ErrNetworkAddrCollision = ErrorString ''host-only cidr conflicts with the network address of a host interface''"

definition ErrNetworkAddrCidr :: gerror where
  "ErrNetworkAddrCidr = ErrorString ''host-only cidr must be specified with a host address, not a network address''"

definition validateNoIPCollisions :: "'w vnet_env \<Rightarrow> ipNet \<Rightarrow> (string \<times> hostOnlyNetwork) list \<Rightarrow> ('w, unit) io" where
  "validateNoIPCollisions N hostOnlyNet currHostOnlyNets =
     bindP (listHostInterfaces N (map (\<lambda>(k, n). IPNet_String (ve_text6 N) (hn_IPv4 n)) currHostOnlyNets)) (\<lambda>m.
       if checkIPNetCollision hostOnlyNet m then throw ErrNetworkAddrCollision else ret ())"

definition parseAndValidateCIDR :: "textIPv6 \<Rightarrow> string \<Rightarrow> gerror + netIP \<times> ipNet" where
  "parseAndValidateCIDR X hostOnlyCIDR =
     (case ParseCIDR X hostOnlyCIDR of
        Inl e \<Rightarrow> Inl e
      | Inr (ip, network) \<Rightarrow> if IP_Equal ip (To4 (net_IP network)) then Inl ErrNetworkAddrCidr else Inr (ip, network))"

section \<open>Addresses for the machines\<close>

text \<open>\<open>nAddr[i]\<close> of a slice that is too short panics.\<close>

definition byteAt :: "8 word list \<Rightarrow> nat \<Rightarrow> ('w, 8 word) io" where
  "byteAt bs i = (if i < length bs then ret (bs ! i) else panic ''runtime error: index out of range'')"

text \<open>Byte arithmetic wraps; \<open>1 << (bits - ones)\<close> is an int that is then cut to a byte.\<close>

definition getDHCPAddressRange :: "netIP \<Rightarrow> ipNet \<Rightarrow> ('w, netIP \<times> netIP) io" where
  "getDHCPAddressRange dhcpAddr network =
     (let nAddr = To4 (net_IP network); (ones, bits) = Mask_Size (net_Mask network)
      in bindP (byteAt nAddr 0) (\<lambda>a. bindP (byteAt nAddr 1) (\<lambda>b. bindP (byteAt nAddr 2) (\<lambda>c.
         if ones \<le> 24 then ret (IPv4 a b c 100, IPv4 a b c 254)
         else bindP (byteAt (To4 dhcpAddr) 3) (\<lambda>d.
              ret (IPv4 a b c (d + 1), IPv4 a b c (word_of_int (2 ^ (bits - ones) - 2))))))))"

definition ErrUnableToGenerateRandomIP :: gerror where
  "ErrUnableToGenerateRandomIP = ErrorString ''unable to generate random IP''"

fun randomIPLoop :: "'w vnet_env \<Rightarrow> netIP \<Rightarrow> nat \<Rightarrow> ('w, netIP) io" where
  "randomIPLoop N nAddr 0 = throw ErrUnableToGenerateRandomIP"
| "randomIPLoop N nAddr (Suc k) =
     bindP (randomInt N 24) (\<lambda>r.
     bindP (byteAt nAddr 3) (\<lambda>d.
       if word_of_nat (r + 1) \<noteq> d
       then bindP (byteAt nAddr 0) (\<lambda>a. bindP (byteAt nAddr 1) (\<lambda>b. bindP (byteAt nAddr 2) (\<lambda>c.
            ret (IPv4 a b c (word_of_nat (r + 1))))))
       else randomIPLoop N nAddr k))"

definition getRandomIPinSubnet :: "'w vnet_env \<Rightarrow> netIP \<Rightarrow> ('w, netIP) io" where
  "getRandomIPinSubnet N baseIP = randomIPLoop N (To4 baseIP) 5"

section \<open>Lemmas\<close>

text \<open>What \<open>VBoxManage list hostonlyifs\<close> prints for an adapter.\<close>

definition adapterFields :: "hostOnlyNetwork \<Rightarrow> (string \<times> string) list" where
  "adapterFields n = [(''Name'', hn_Name n), (''GUID'', hn_GUID n), (''DHCP'', if hn_DHCP n then ''Enabled'' else ''Disabled''),
     (''IPAddress'', dotted (To4 (net_IP (hn_IPv4 n)))), (''NetworkMask'', dotted (net_Mask (hn_IPv4 n))),
     (''HardwareAddress'', macText (hn_HwAddr n)), (''MediumType'', hn_Medium n), (''Status'', hn_Status n),
     (''VBoxNetworkName'', hn_NetworkName n)]"

definition fieldLine :: "nat \<Rightarrow> string \<times> string \<Rightarrow> string" where
  "fieldLine pad f = fst f @ '':'' @ padding pad @ snd f"

definition adapterText :: "nat \<Rightarrow> hostOnlyNetwork list \<Rightarrow> string" where
  "adapterText pad ns = concat (map (\<lambda>l. l @ nl) (concat (map (\<lambda>n. map (fieldLine pad) (adapterFields n) @ [[]]) ns)))"

text \<open>Values that stand on a line of their own, and adapters all of whose fields do.\<close>

definition lineValue :: "string \<Rightarrow> bool" where
  "lineValue v \<longleftrightarrow> \<not> colonSpace v \<and> (v \<noteq> [] \<longrightarrow> \<not> reSpace (hd v)) \<and> CHR 0x0A \<notin> set v \<and> (v = [] \<or> last v \<noteq> CHR 0x0D)"

definition plainAdapter :: "hostOnlyNetwork \<Rightarrow> bool" where
  "plainAdapter n \<longleftrightarrow> (\<exists>a b c d. net_IP (hn_IPv4 n) = IPv4 a b c d) \<and> length (net_Mask (hn_IPv4 n)) = 4 \<and> length (hn_HwAddr n) = 6 \<and>
     (\<forall>f \<in> set (adapterFields n). lineValue (snd f))"

lemma update_fresh: "map_of al k = None \<Longrightarrow> AList.update k v al = al @ [(k, v)]"
  by (induction al) (auto split: if_splits)

text \<open>A block of fields is a run of the callback over them.\<close>

fun runFields :: "(string \<Rightarrow> string \<Rightarrow> 's \<Rightarrow> gerror + 's) \<Rightarrow> (string \<times> string) list \<Rightarrow> 's \<Rightarrow> gerror + 's" where
  "runFields f [] s = Inr s"
| "runFields f ((k, v) # kvs) s = (case f k v s of Inl e \<Rightarrow> Inl e | Inr s' \<Rightarrow> runFields f kvs s')"

lemma keyValueLoop_fields:
  assumes "\<forall>f \<in> set kvs. fst f \<noteq> [] \<and> lineValue (snd f)"
  shows "keyValueLoop reColonLine cb (map (fieldLine pad) kvs @ ls) s =
    (case runFields cb kvs s of Inl e \<Rightarrow> Inl e | Inr s' \<Rightarrow> keyValueLoop reColonLine cb ls s')"
  using assms
proof (induction kvs arbitrary: s)
  case (Cons f kvs)
  obtain k v where f: "f = (k, v)" by force
  have "fieldLine pad f \<noteq> []" by (simp add: fieldLine_def)
  moreover have "reColonLine (fieldLine pad f) = Some (k, v)"
    using Cons.prems reColonLine_field [of k v pad] by (simp add: f fieldLine_def lineValue_def)
  ultimately show ?case using Cons by (auto simp: f split: sum.splits)
qed simp

lemma list4E: "length xs = 4 \<Longrightarrow> (\<And>a b c d. xs = [a, b, c, d] \<Longrightarrow> thesis) \<Longrightarrow> thesis"
  by (auto simp: numeral_eq_Suc length_Suc_conv)

lemma list6E: "length xs = 6 \<Longrightarrow> (\<And>a b c d e f. xs = [a, b, c, d, e, f] \<Longrightarrow> thesis) \<Longrightarrow> thesis"
  by (auto simp: numeral_eq_Suc length_Suc_conv)

lemma parse_adapter:
  assumes n: "plainAdapter n" and s: "curNet s = zeroNetwork"
    and new: "map_of (byName s) (hn_NetworkName n) = None" "IP_String X (net_IP (hn_IPv4 n)) \<notin> set (byIP s)"
  shows "keyValueLoop reColonLine (adapterLine X) (map (fieldLine pad) (adapterFields n) @ ls) s =
    keyValueLoop reColonLine (adapterLine X) ls
      \<lparr>byName = byName s @ [(hn_NetworkName n, n)], byIP = byIP s @ [IP_String X (net_IP (hn_IPv4 n))], curNet = zeroNetwork\<rparr>"
proof -
  from n obtain a b c d m0 m1 m2 m3 h0 h1 h2 h3 h4 h5 where
    ip: "net_IP (hn_IPv4 n) = IPv4 a b c d" and m: "net_Mask (hn_IPv4 n) = [m0, m1, m2, m3]" and h: "hn_HwAddr n = [h0, h1, h2, h3, h4, h5]"
    by (auto simp: plainAdapter_def elim!: list4E list6E)
  have v: "\<forall>f \<in> set (adapterFields n). lineValue (snd f)" using n by (simp add: plainAdapter_def)
  have mask: "parseIPv4Mask X (dotted [m0, m1, m2, m3]) = [m0, m1, m2, m3]"
    by (simp add: parseIPv4Mask_def Let_def) (simp add: IPv4_def)
  have net: "hn_IPv4 n = \<lparr>net_IP = IPv4 a b c d, net_Mask = [m0, m1, m2, m3]\<rparr>" using ip m by (cases "hn_IPv4 n") simp
  have whole: "n = \<lparr>hn_Name = hn_Name n, hn_GUID = hn_GUID n, hn_DHCP = hn_DHCP n, hn_IPv4 = \<lparr>net_IP = IPv4 a b c d, net_Mask = [m0, m1, m2, m3]\<rparr>,
     hn_HwAddr = [h0, h1, h2, h3, h4, h5], hn_Medium = hn_Medium n, hn_Status = hn_Status n, hn_NetworkName = hn_NetworkName n\<rparr>"
    using net h by (cases n) simp
  have "runFields (adapterLine X) (adapterFields n) s = Inr
      \<lparr>byName = byName s @ [(hn_NetworkName n, n)], byIP = byIP s @ [IP_String X (net_IP (hn_IPv4 n))], curNet = zeroNetwork\<rparr>"
    by (simp add: adapterFields_def adapterLine_def s ip m h ParseMAC_text mask new [unfolded ip] update_fresh Let_def)
  moreover have "\<forall>f \<in> set (adapterFields n). fst f \<noteq> [] \<and> lineValue (snd f)" using v by (simp add: adapterFields_def)
  ultimately show ?thesis by (simp add: keyValueLoop_fields)
qed

lemma parse_adapters:
  assumes "\<forall>n \<in> set ns. plainAdapter n" and "curNet s = zeroNetwork"
    and "distinct (map fst (byName s) @ map hn_NetworkName ns)" and "distinct (byIP s @ map (\<lambda>n. IP_String X (net_IP (hn_IPv4 n))) ns)"
  shows "keyValueLoop reColonLine (adapterLine X) (concat (map (\<lambda>n. map (fieldLine pad) (adapterFields n) @ [[]]) ns)) s =
    Inr \<lparr>byName = byName s @ map (\<lambda>n. (hn_NetworkName n, n)) ns, byIP = byIP s @ map (\<lambda>n. IP_String X (net_IP (hn_IPv4 n))) ns,
         curNet = zeroNetwork\<rparr>"
  using assms
proof (induction ns arbitrary: s)
  case Nil
  then show ?case by (cases s) simp
next
  case (Cons n ns)
  let ?rest = "concat (map (\<lambda>n. map (fieldLine pad) (adapterFields n) @ [[]]) ns)"
  let ?s' = "\<lparr>byName = byName s @ [(hn_NetworkName n, n)], byIP = byIP s @ [IP_String X (net_IP (hn_IPv4 n))], curNet = zeroNetwork\<rparr>"
  have "map_of (byName s) (hn_NetworkName n) = None" using Cons.prems(3) by (auto simp: map_of_eq_None_iff)
  moreover have "IP_String X (net_IP (hn_IPv4 n)) \<notin> set (byIP s)" using Cons.prems(4) by auto
  moreover have "plainAdapter n" using Cons.prems(1) by simp
  ultimately have "keyValueLoop reColonLine (adapterLine X) (map (fieldLine pad) (adapterFields n) @ ([] # ?rest)) s =
      keyValueLoop reColonLine (adapterLine X) ?rest ?s'"
    using parse_adapter [OF _ Cons.prems(2), where ls = "[] # ?rest"] by simp
  moreover have "keyValueLoop reColonLine (adapterLine X) ?rest ?s' =
      Inr \<lparr>byName = byName ?s' @ map (\<lambda>n. (hn_NetworkName n, n)) ns, byIP = byIP ?s' @ map (\<lambda>n. IP_String X (net_IP (hn_IPv4 n))) ns,
           curNet = zeroNetwork\<rparr>"
    by (rule Cons.IH) (use Cons.prems in auto)
  ultimately show ?case by simp
qed

lemma adapterLines_plain:
  assumes "plainAdapter n" and "l \<in> set (map (fieldLine pad) (adapterFields n) @ [[]])"
  shows "CHR 0x0A \<notin> set l \<and> (l = [] \<or> last l \<noteq> CHR 0x0D)"
proof -
  have "CHR 0x0A \<notin> set (fieldLine pad f) \<and> last (fieldLine pad f) \<noteq> CHR 0x0D" if "f \<in> set (adapterFields n)" for f
  proof -
    have v: "lineValue (snd f)" using assms(1) that by (simp add: plainAdapter_def)
    have "CHR 0x0A \<notin> set (fst f)" using that by (auto simp: adapterFields_def)
    then show ?thesis using v by (auto simp: fieldLine_def lineValue_def padding_def last_append)
  qed
  then show ?thesis using assms(2) by auto
qed

lemma in_set_concat_map: "l \<in> set (concat (map f ns)) \<Longrightarrow> \<exists>n \<in> set ns. l \<in> set (f n)"
  by auto

lemma inNet4: "IP_Mask (IPv4 a b c d) [m0, m1, m2, m3] = [a AND m0, b AND m1, c AND m2, d AND m3]"
  "IP_Mask [a, b, c, d] [m0, m1, m2, m3] = [a AND m0, b AND m1, c AND m2, d AND m3]"
  by (simp_all add: IP_Mask_def IPv4_def v4InV6Prefix_def Let_def)

lemma IPv4_Equal: "IP_Equal (IPv4 a b c d) (IPv4 a' b' c' d') \<longleftrightarrow> a = a' \<and> b = b' \<and> c = c' \<and> d = d'"
  by (simp add: IP_Equal_def IPv4_def)

text \<open>A random address is never the one of the host.\<close>

lemma randomIPLoop_Ok:
  assumes "randomIPLoop N [a, b, c, d] k w = (Ok ip, w')" and "\<And>v r v'. randomInt N 24 v = (Ok r, v') \<Longrightarrow> r < 24"
  shows "\<exists>r < 24. ip = IPv4 a b c (word_of_nat (r + 1)) \<and> word_of_nat (r + 1) \<noteq> d"
  using assms(1)
proof (induction k arbitrary: w)
  case (Suc k)
  from Suc.prems obtain r w1 where r: "randomInt N 24 w = (Ok r, w1)" by (auto elim: bindP_OkE)
  then show ?case
    using Suc assms(2) [OF r] by (cases "word_of_nat (r + 1) = d") (auto simp: bindP_def byteAt_def ret_def)
qed (simp add: throw_def)

section \<open>Properties\<close>


definition demoAdapter :: hostOnlyNetwork where
  "demoAdapter = \<lparr>hn_Name = ''vboxnet0'', hn_GUID = ''786f-0001'', hn_DHCP = False,
     hn_IPv4 = \<lparr>net_IP = IPv4 192 168 99 1, net_Mask = [255, 255, 255, 0]\<rparr>, hn_HwAddr = [10, 0, 39, 0, 0, 0], hn_Medium = ''Ethernet'',
     hn_Status = ''Up'', hn_NetworkName = ''HostInterfaceNetworking-vboxnet0''\<rparr>"

definition noIPv6 :: textIPv6 where
  "noIPv6 = \<lparr>parse6 = (\<lambda>s. []), show6 = (\<lambda>ip. [])\<rparr>"



definition demoVnet :: "(string list \<Rightarrow> string) \<Rightarrow> nat vnet_env" where
  "demoVnet answer = \<lparr>ve_vbox = demoVbox answer, ve_text6 = noIPv6, netOrder = (\<lambda>l. l), dhcpOrder = (\<lambda>l. l),
     hostIfaces = ret [], randomInt = (\<lambda>k. ret (min 6 (k - 1)))\<rparr>"


text \<open>
  A longer netmask is taken for the first block of its last byte: for an address in the upper half of a \<open>/25\<close> the server and
  both ends of its range lie outside the network.
\<close>

theorem dhcp_range_outside_network:
  "\<exists>ip network server lower upper.
     parseAndValidateCIDR noIPv6 (cidrText 192 168 99 129 25) = Inr (ip, network) \<and>
     getRandomIPinSubnet (demoVnet (\<lambda>_. [])) ip 0 = (Ok server, 0) \<and>
     getDHCPAddressRange server network 0 = (Ok (lower, upper), 0 :: nat) \<and>
     \<not> inNet network server \<and> \<not> inNet network lower \<and> \<not> inNet network upper"
proof -
  let ?n = "\<lparr>net_IP = [192, 168, 99, 128], net_Mask = [255, 255, 255, 128]\<rparr>"
  have "parseAndValidateCIDR noIPv6 (cidrText 192 168 99 129 25) = Inr (IPv4 192 168 99 129, ?n)" by code_simp
  moreover have "getRandomIPinSubnet (demoVnet (\<lambda>_. [])) (IPv4 192 168 99 129) 0 = (Ok (IPv4 192 168 99 7), 0)" by code_simp
  moreover have "getDHCPAddressRange (IPv4 192 168 99 7) ?n 0 = (Ok (IPv4 192 168 99 8, IPv4 192 168 99 126), 0 :: nat)" by code_simp
  moreover have "\<not> inNet ?n (IPv4 192 168 99 7) \<and> \<not> inNet ?n (IPv4 192 168 99 8) \<and> \<not> inNet ?n (IPv4 192 168 99 126)" by code_simp
  ultimately show ?thesis by blast
qed

end
