(* ===== verification/Virtualbox.thy ===== *)
theory Virtualbox
  imports Vbox_Net B2p Drivers "HOL-Library.While_Combinator"
begin

text \<open>
  \<open>drivers/virtualbox\<close>: the driver itself, \<open>virtualbox.go\<close> with \<open>ip.go\<close>, \<open>vtx.go\<close>, \<open>misc.go\<close>, \<open>disk.go\<close> and the files for the
  operating systems.  Its struct is reached through a lens, as for the other drivers; what lies outside the program is
  the record \<open>vboxd_env\<close>.
\<close>

section \<open>The driver struct\<close>

record vboxDriver =
  vx_Base :: baseDriver
  vx_CPU :: int
  vx_Memory :: int
  vx_DiskSize :: int
  vx_NatNicType :: string
  vx_Boot2PodmanURL :: string
  vx_HostDNSResolver :: bool
  vx_HostOnlyCIDR :: string
  vx_HostOnlyNicType :: string
  vx_HostOnlyPromiscMode :: string
  vx_UIType :: string
  vx_HostOnlyNoDHCP :: bool
  vx_NoShare :: bool
  vx_DNSProxy :: bool
  vx_NoVTXCheck :: bool
  vx_ShareFolder :: string

text \<open>
  \<open>runtime.GOOS\<close>, \<open>runtime.GOARCH\<close> and \<open>runtime.NumCPU\<close>; \<open>tcpListen\<close> is \<open>net.Listen\<close> on TCP and yields the address that is
  listened on; \<open>sysctl\<close> is \<open>syscall.Sysctl\<close> and \<open>cmdOut\<close> the output of a program; \<open>diskStart\<close>, \<open>diskWrite\<close>, \<open>diskClose\<close> and
  \<open>diskWait\<close> are the process that reads the disk image from its standard input, where a write that succeeds has written
  everything; \<open>tarBytes\<close> is the stream \<open>archive/tar\<close> writes for the entries.
\<close>

record ('w, 'c) vboxd_env =
  xe_net :: "'w vnet_env"
  xe_ssh :: "('w, 'c) ssh_env"
  xe_b2p :: "'w b2p_env"
  xe_os :: string
  xe_arch :: string
  numCPU :: int
  pemEncode :: "string \<Rightarrow> string"
  newKeyPair :: "('w, keyPair) io"
  tcpListen :: "string \<Rightarrow> ('w, string) io"
  sysctl :: "string \<Rightarrow> ('w, string) io"
  cmdOut :: "string \<Rightarrow> string list \<Rightarrow> ('w, string) io"
  tarBytes :: "tarEntry list \<Rightarrow> string"
  diskStart :: "string \<Rightarrow> string list \<Rightarrow> ('w, unit) io"
  diskWrite :: "string \<Rightarrow> ('w, unit) io"
  diskClose :: "('w, unit) io"
  diskWait :: "('w, unit) io"

definition xe_vbox :: "('w, 'c, 'z) vboxd_env_scheme \<Rightarrow> 'w vbox_env" where
  "xe_vbox E = ve_vbox (xe_net E)"

definition xe_sleep :: "('w, 'c, 'z) vboxd_env_scheme \<Rightarrow> nat \<Rightarrow> ('w, unit) io" where
  "xe_sleep E ms = modifyW (vb_sleep (xe_vbox E) ms)"

definition defaultHostOnlyCIDR :: string where
  "defaultHostOnlyCIDR = ''192.168.99.1/24''"

definition defaultHostOnlyNictype :: string where
  "defaultHostOnlyNictype = ''82540EM''"

definition defaultHostOnlyPromiscMode :: string where
  "defaultHostOnlyPromiscMode = ''deny''"

definition defaultUIType :: string where
  "defaultUIType = ''headless''"

definition defaultCPU :: int where
  "defaultCPU = 1"

definition defaultMemory :: int where
  "defaultMemory = 1024"

definition defaultDiskSize :: int where
  "defaultDiskSize = 20000"

definition ErrMustEnableVTX :: gerror where
  "ErrMustEnableVTX = ErrorString ''This computer doesn't have VT-X/AMD-v enabled. Enabling it in the BIOS is mandatory''"

definition ErrNotCompatibleWithHyperV :: gerror where
  "ErrNotCompatibleWithHyperV = ErrorString (''This computer is running Hyper-V. VirtualBox won't boot a 64bits VM when Hyper-V is activated. '' @
     ''Either use Hyper-V as a driver, or disable the Hyper-V hypervisor. (To skip this check, use --virtualbox-no-vtx-check)'')"

definition vbox_NewDriver :: "string \<Rightarrow> string \<Rightarrow> vboxDriver" where
  "vbox_NewDriver hostName sp =
     \<lparr>vx_Base = newBaseDriver hostName sp, vx_CPU = defaultCPU, vx_Memory = defaultMemory, vx_DiskSize = defaultDiskSize,
      vx_NatNicType = defaultHostOnlyNictype, vx_Boot2PodmanURL = [], vx_HostDNSResolver = False, vx_HostOnlyCIDR = defaultHostOnlyCIDR,
      vx_HostOnlyNicType = defaultHostOnlyNictype, vx_HostOnlyPromiscMode = defaultHostOnlyPromiscMode, vx_UIType = defaultUIType,
      vx_HostOnlyNoDHCP = False, vx_NoShare = False, vx_DNSProxy = True, vx_NoVTXCheck = False, vx_ShareFolder = []\<rparr>"

definition vbox_GetCreateFlags :: "mcnflag list" where
  "vbox_GetCreateFlags =
     [IntFlag ''virtualbox-memory'' ''Size of memory for host in MB'' ''VIRTUALBOX_MEMORY_SIZE'' defaultMemory,
      IntFlag ''virtualbox-cpu-count'' ''number of CPUs for the machine (-1 to use the number of CPUs available)''
        ''VIRTUALBOX_CPU_COUNT'' defaultCPU,
      IntFlag ''virtualbox-disk-size'' ''Size of disk for host in MB'' ''VIRTUALBOX_DISK_SIZE'' defaultDiskSize,
      StringFlag ''virtualbox-boot2podman-url'' ''The URL of the boot2podman image. Defaults to the latest available version''
        ''VIRTUALBOX_BOOT2PODMAN_URL'' [],
      BoolFlag ''virtualbox-host-dns-resolver'' ''Use the host DNS resolver'' ''VIRTUALBOX_HOST_DNS_RESOLVER'',
      StringFlag ''virtualbox-nat-nictype'' ''Specify the Network Adapter Type'' ''VIRTUALBOX_NAT_NICTYPE'' defaultHostOnlyNictype,
      StringFlag ''virtualbox-hostonly-cidr'' ''Specify the Host Only CIDR'' ''VIRTUALBOX_HOSTONLY_CIDR'' defaultHostOnlyCIDR,
      StringFlag ''virtualbox-hostonly-nictype'' ''Specify the Host Only Network Adapter Type'' ''VIRTUALBOX_HOSTONLY_NIC_TYPE''
        defaultHostOnlyNictype,
      StringFlag ''virtualbox-hostonly-nicpromisc'' ''Specify the Host Only Network Adapter Promiscuous Mode''
        ''VIRTUALBOX_HOSTONLY_NIC_PROMISC'' defaultHostOnlyPromiscMode,
      StringFlag ''virtualbox-ui-type'' ''Specify the UI Type: (gui|sdl|headless|separate)'' ''VIRTUALBOX_UI_TYPE'' defaultUIType,
      BoolFlag ''virtualbox-hostonly-no-dhcp'' ''Disable the Host Only DHCP Server'' ''VIRTUALBOX_HOSTONLY_NO_DHCP'',
      BoolFlag ''virtualbox-no-share'' ''Disable the mount of your home directory'' ''VIRTUALBOX_NO_SHARE'',
      BoolFlag ''virtualbox-no-dns-proxy'' ''Disable proxying all DNS requests to the host'' ''VIRTUALBOX_NO_DNS_PROXY'',
      BoolFlag ''virtualbox-no-vtx-check'' ''Disable checking for the availability of hardware virtualization before the vm is started''
        ''VIRTUALBOX_NO_VTX_CHECK'',
      StringFlag ''virtualbox-share-folder'' ''Mount the specified directory instead of the default home location. Format: dir:name''
        ''VIRTUALBOX_SHARE_FOLDER'' []]"

definition vbox_SetConfigFromFlags :: "('w, vboxDriver) lens \<Rightarrow> driverOptions \<Rightarrow> ('w, unit) io" where
  "vbox_SetConfigFromFlags L flags = updater L (\<lambda>d. ((),
     d\<lparr>vx_CPU := optInt flags ''virtualbox-cpu-count'', vx_Memory := optInt flags ''virtualbox-memory'',
       vx_DiskSize := optInt flags ''virtualbox-disk-size'', vx_Boot2PodmanURL := optString flags ''virtualbox-boot2podman-url'',
       vx_Base := (vx_Base d)\<lparr>SSHUser := ''tc''\<rparr>, vx_HostDNSResolver := optBool flags ''virtualbox-host-dns-resolver'',
       vx_NatNicType := optString flags ''virtualbox-nat-nictype'', vx_HostOnlyCIDR := optString flags ''virtualbox-hostonly-cidr'',
       vx_HostOnlyNicType := optString flags ''virtualbox-hostonly-nictype'',
       vx_HostOnlyPromiscMode := optString flags ''virtualbox-hostonly-nicpromisc'', vx_UIType := optString flags ''virtualbox-ui-type'',
       vx_HostOnlyNoDHCP := optBool flags ''virtualbox-hostonly-no-dhcp'', vx_NoShare := optBool flags ''virtualbox-no-share'',
       vx_DNSProxy := \<not> optBool flags ''virtualbox-no-dns-proxy'', vx_NoVTXCheck := optBool flags ''virtualbox-no-vtx-check'',
       vx_ShareFolder := optString flags ''virtualbox-share-folder''\<rparr>))"

definition vbox_base :: "(baseDriver \<Rightarrow> 'a \<times> baseDriver) \<Rightarrow> vboxDriver \<Rightarrow> 'a \<times> vboxDriver" where
  "vbox_base f d = (case f (vx_Base d) of (x, b) \<Rightarrow> (x, d\<lparr>vx_Base := b\<rparr>))"

definition vbox_name :: "('w, vboxDriver) lens \<Rightarrow> ('w, string) io" where
  "vbox_name L = reader L (\<lambda>d. MachineName (vx_Base d))"

definition vbox_GetSSHUsername :: "('w, vboxDriver) lens \<Rightarrow> ('w, string) io" where
  "vbox_GetSSHUsername L = updater L (vbox_base (\<lambda>b.
     let b' = (if SSHUser b = [] then b\<lparr>SSHUser := ''tc''\<rparr> else b) in (SSHUser b', b')))"

definition vbox_GetSSHKeyPath :: "('w, vboxDriver) lens \<Rightarrow> ('w, string) io" where
  "vbox_GetSSHKeyPath L = updater L (vbox_base BaseDriver_GetSSHKeyPath)"

text \<open>Machines are reached through the forwarded port of the host itself.\<close>

definition vbox_hostInfo :: "('w, vboxDriver) lens \<Rightarrow> 'w hostInfo" where
  "vbox_hostInfo L = \<lparr>
     GetMachineName = vbox_name L,
     GetSSHHostname = valOk ''127.0.0.1'',
     GetSSHPort = updater L (vbox_base (\<lambda>b. case BaseDriver_GetSSHPort b of (p, b') \<Rightarrow> ((p, None), b'))),
     GetSSHUsername = vbox_GetSSHUsername L,
     GetSSHKeyPath = vbox_GetSSHKeyPath L\<rparr>"

definition publicSSHKeyPath :: "('w, vboxDriver) lens \<Rightarrow> ('w, string) io" where
  "publicSSHKeyPath L = bindP (vbox_GetSSHKeyPath L) (\<lambda>p. ret (p @ ''.pub''))"

definition vbox_resolve :: "('w, vboxDriver) lens \<Rightarrow> string \<Rightarrow> ('w, string) io" where
  "vbox_resolve L file = reader L (\<lambda>d. ResolveStorePath (vx_Base d) file)"

definition diskPath :: "('w, vboxDriver) lens \<Rightarrow> ('w, string) io" where
  "diskPath L = vbox_resolve L ''disk.vmdk''"

section \<open>Checks of the processor\<close>

text \<open>The file for each operating system; one that is not listed has no file and no driver.\<close>

definition isVTXDisabled_cpuinfo :: "string \<Rightarrow> bool" where
  "isVTXDisabled_cpuinfo cpuinfo \<longleftrightarrow> \<not> (\<exists>v \<in> {''vmx'', ''svm''}. Contains cpuinfo v)"

definition isVTXDisabled_features :: "string \<Rightarrow> bool" where
  "isVTXDisabled_features features \<longleftrightarrow> \<not> Contains features ''VMX''"

text \<open>A check that cannot be made counts as enabled.\<close>

definition orFalse :: "('w, string) io \<Rightarrow> (string \<Rightarrow> bool) \<Rightarrow> ('w, bool) io" where
  "orFalse m f = bindP (tryP m) (\<lambda>r. ret (case r of Inl _ \<Rightarrow> False | Inr s \<Rightarrow> f s))"

definition IsVTXDisabled_linux :: "('v os_world_scheme, bool) io" where
  "IsVTXDisabled_linux = orFalse (readFile ''/proc/cpuinfo'') isVTXDisabled_cpuinfo"

definition IsVTXDisabled_darwin :: "('w, 'c, 'z) vboxd_env_scheme \<Rightarrow> ('w, bool) io" where
  "IsVTXDisabled_darwin E = orFalse (sysctl E ''machdep.cpu.features'') isVTXDisabled_features"

definition IsVTXDisabled_windows :: "('w, 'c, 'z) vboxd_env_scheme \<Rightarrow> ('w, bool) io" where
  "IsVTXDisabled_windows E = orFalse (cmdOut E ''wmic'' [''cpu'', ''get'', ''VirtualizationFirmwareEnabled'']) (\<lambda>s. Contains s ''FALSE'')"

text \<open>The file for FreeBSD is the one for Linux; OpenBSD checks nothing.\<close>

definition IsVTXDisabled :: "('v os_world_scheme, 'c, 'z) vboxd_env_scheme \<Rightarrow> ('v os_world_scheme, bool) io" where
  "IsVTXDisabled E =
     (if xe_os E = ''linux'' \<or> xe_os E = ''freebsd'' then IsVTXDisabled_linux
      else if xe_os E = ''darwin'' then IsVTXDisabled_darwin E
      else if xe_os E = ''windows'' then IsVTXDisabled_windows E
      else ret False)"

definition isHyperVInstalled_windows :: "('w, 'c, 'z) vboxd_env_scheme \<Rightarrow> ('w, bool) io" where
  "isHyperVInstalled_windows E =
     bindP (tryP (lookPath (xe_ssh E) ''vmms.exe'')) (\<lambda>r. case r of
       Inl _ \<Rightarrow> ret False
     | Inr _ \<Rightarrow> orFalse (cmdOut E ''wmic'' [''computersystem'', ''get'', ''hypervisorpresent'']) (\<lambda>s. Contains s ''TRUE''))"

definition isHyperVInstalled :: "('w, 'c, 'z) vboxd_env_scheme \<Rightarrow> ('w, bool) io" where
  "isHyperVInstalled E = (if xe_os E = ''windows'' then isHyperVInstalled_windows E else ret False)"

text \<open>The directory of the users that a machine mounts, and its name in the machine.\<close>

definition getShareDriveAndName_linux :: "string \<times> string" where
  "getShareDriveAndName_linux = (''hosthome'', ''/home'')"

definition getShareDriveAndName_darwin :: "string \<times> string" where
  "getShareDriveAndName_darwin = (''Users'', ''/Users'')"

definition getShareDriveAndName_windows :: "string \<times> string" where
  "getShareDriveAndName_windows = (''c/Users'', [CHR 0x5C, CHR 0x5C] @ ''?'' @ [CHR 0x5C] @ ''c:'' @ [CHR 0x5C] @ ''Users'')"

text \<open>The files for FreeBSD and OpenBSD have the directory of Linux.\<close>

definition getShareDriveAndName :: "string \<Rightarrow> string \<times> string" where
  "getShareDriveAndName os =
     (if os = ''darwin'' then getShareDriveAndName_darwin
      else if os = ''windows'' then getShareDriveAndName_windows
      else getShareDriveAndName_linux)"

definition parseShareFolder :: "string \<Rightarrow> string \<times> string" where
  "parseShareFolder shareFolder = (let split = Split shareFolder '':'' in (Join (butlast split) '':'', last split))"

text \<open>A line of 64 KiB or more ends the scan, and neither that nor a failed read is reported.\<close>

definition vBoxLogsReader_Read :: "string \<Rightarrow> ('v os_world_scheme, string list) io" where
  "vBoxLogsReader_Read path =
     bindP (osOpen path) (\<lambda>_.
     bindP (tryP (readFile path)) (\<lambda>r. ret (case r of
         Inl _ \<Rightarrow> []
       | Inr s \<Rightarrow> let ls = Split s nl in map dropCR (takeWhile (\<lambda>l. length l < 65536) (if last ls = [] then butlast ls else ls)))))"

definition readVBoxLog :: "('v os_world_scheme, vboxDriver) lens \<Rightarrow> ('v os_world_scheme, string list) io" where
  "readVBoxLog L =
     bindP (reader L (\<lambda>d. ResolveStorePath (vx_Base d) (MachineName (vx_Base d)))) (\<lambda>p.
     vBoxLogsReader_Read (pathJoin [p, ''Logs'', ''VBox.log'']))"

definition vtxLine :: "string \<Rightarrow> bool" where
  "vtxLine line \<longleftrightarrow>
     Contains line ''VT-x is disabled'' \<and> \<not> Contains line ''Falling back to raw-mode: VT-x is disabled in the BIOS for all CPU modes'' \<or>
     Contains line ''the host CPU does NOT support HW virtualization'' \<or>
     Contains line ''VERR_VMX_UNABLE_TO_START_VM'' \<or>
     Contains line ''Power up failed'' \<and> Contains line ''VERR_VMX_NO_VMX''"

definition IsVTXDisabledInTheVM :: "('v os_world_scheme, vboxDriver) lens \<Rightarrow> ('v os_world_scheme, bool) io" where
  "IsVTXDisabledInTheVM L = bindP (readVBoxLog L) (\<lambda>lines. ret (\<exists>l \<in> set lines. vtxLine l))"

section \<open>What VBoxManage says of a machine\<close>

text \<open>\<open>Could not find a registered machine named '(.+)'\<close>\<close>

definition machineNotFound :: "string \<Rightarrow> bool" where
  "machineNotFound stderrStr \<longleftrightarrow> (\<exists>line \<in> set (Split stderrStr nl).
     case cutAt (''Could not find a registered machine named '' @ [CHR 0x27]) line of
       None \<Rightarrow> False | Some (_, r) \<Rightarrow> CHR 0x27 \<in> set (drop 1 r))"

definition firstLine :: "(string \<Rightarrow> 'a option) \<Rightarrow> string \<Rightarrow> 'a option" where
  "firstLine f s = (case List.map_filter f (Split s nl) of [] \<Rightarrow> None | x # _ \<Rightarrow> Some x)"

text \<open>\<open>^VMState="(\w+)"\<close>\<close>

definition vmStateLine :: "string \<Rightarrow> string option" where
  "vmStateLine line = (case stripPre (''VMState='' @ dq) line of
       None \<Rightarrow> None
     | Some r \<Rightarrow> let v = takeWhile reWord r in if v \<noteq> [] \<and> HasPrefix (drop (length v) r) dq then Some v else None)"

definition vmState :: "string \<Rightarrow> state" where
  "vmState v = (if v = ''running'' then Running else if v = ''paused'' then Paused else if v = ''saved'' then Saved
     else if v = ''poweroff'' \<or> v = ''aborted'' then Stopped else StNone)"

definition showVMInfo :: "('w, 'c, 'z) vboxd_env_scheme \<Rightarrow> ('w, vboxDriver) lens \<Rightarrow> ('w, string) io" where
  "showVMInfo E L =
     bindP (vbox_name L) (\<lambda>name.
     bindP (vbmOutErr (xe_vbox E) [''showvminfo'', name, ''--machinereadable'']) (\<lambda>(out, stderrStr, err).
       case err of
         Some e \<Rightarrow> if machineNotFound stderrStr then throw ErrMachineNotExist else throw e
       | None \<Rightarrow> ret out))"

definition vbox_GetState :: "('w, 'c, 'z) vboxd_env_scheme \<Rightarrow> ('w, vboxDriver) lens \<Rightarrow> ('w, state \<times> gerror option) io" where
  "vbox_GetState E L =
     bindP (tryP (showVMInfo E L)) (\<lambda>r. case r of
         Inl e \<Rightarrow> valErr StError e
       | Inr out \<Rightarrow> valOk (case firstLine vmStateLine out of None \<Rightarrow> StNone | Some v \<Rightarrow> vmState v))"

text \<open>\<open>^hostonlyadapter([\d]+)\<close> and \<open>^macaddressN="(.*)"\<close>\<close>

definition adapterLineNo :: "string \<Rightarrow> string option" where
  "adapterLineNo line = (case stripPre ''hostonlyadapter'' line of
       None \<Rightarrow> None | Some r \<Rightarrow> let v = takeWhile isDigit r in if v \<noteq> [] then Some v else None)"

definition macLine :: "string \<Rightarrow> string \<Rightarrow> string option" where
  "macLine n line = (case stripPre (''macaddress'' @ n @ ''='' @ dq) line of
       None \<Rightarrow> None | Some r \<Rightarrow> if CHR 0x22 \<in> set r then Some (rev (drop 1 (dropWhile (\<lambda>c. c \<noteq> CHR 0x22) (rev r)))) else None)"

definition getHostOnlyMACAddress :: "('w, 'c, 'z) vboxd_env_scheme \<Rightarrow> ('w, vboxDriver) lens \<Rightarrow> ('w, string) io" where
  "getHostOnlyMACAddress E L =
     bindP (showVMInfo E L) (\<lambda>out.
       case firstLine adapterLineNo out of
         None \<Rightarrow> throw (ErrorString ''Machine does not have a host-only adapter'')
       | Some n \<Rightarrow> (case firstLine (macLine n) out of
           None \<Rightarrow> throw (ErrorString (''Could not find MAC address for adapter '' @ n))
         | Some mac \<Rightarrow> ret (ToLower mac)))"

text \<open>\<open>vals[1][:strings.Index(vals[1], " ")]\<close>; a missing space or element panics.\<close>

definition untilSpace :: "string list \<Rightarrow> ('w, string) io" where
  "untilSpace vals = (if length vals < 2 then panic ''runtime error: index out of range''
     else case Index (vals ! 1) '' '' of
       None \<Rightarrow> panic ''runtime error: slice bounds out of range''
     | Some i \<Rightarrow> ret (take i (vals ! 1)))"

definition macDigits :: "string \<Rightarrow> string" where
  "macDigits s = deleteAll (CHR '':'') (ToLower s)"

record ifScan =
  is_ip :: string
  is_device :: bool
  is_address :: bool

definition ifconfigLine :: "string \<Rightarrow> string \<Rightarrow> ifScan \<Rightarrow> ('w, ifScan) io" where
  "ifconfigLine mac line s =
     (if Contains line ''Link''
      then let vals = Split line ''HWaddr ''
           in ret (if length vals \<ge> 2 \<and> macDigits (vals ! 1) = mac then s\<lparr>is_device := True, is_address := False\<rparr> else s)
      else if Contains line ''ether''
      then let vals = Split line ''ether ''
           in if length vals \<ge> 2 then bindP (untilSpace vals) (\<lambda>m. ret (if macDigits m = mac then s\<lparr>is_device := True\<rparr> else s))
              else ret s
      else if HasPrefix line ''inet'' \<and> \<not> HasPrefix line ''inet6''
      then let vals = Split line ''addr:''
           in bindP (untilSpace (if length vals \<ge> 2 then vals else Split line ''inet '')) (\<lambda>ip. ret (s\<lparr>is_ip := ip, is_address := True\<rparr>))
      else ret s)"

fun ifconfigLoop :: "string \<Rightarrow> string list \<Rightarrow> ifScan \<Rightarrow> ('w, string) io" where
  "ifconfigLoop mac [] s = throw (ErrorString (''Could not find matching IP for MAC address '' @ mac))"
| "ifconfigLoop mac (line # rest) s =
     bindP (ifconfigLine mac (TrimSpace line) s) (\<lambda>s'.
       if is_device s' \<and> is_address s' then ret (is_ip s') else ifconfigLoop mac rest s')"

definition parseIPForMACFromIPAddr :: "string \<Rightarrow> string \<Rightarrow> ('w, string) io" where
  "parseIPForMACFromIPAddr ipAddrOutput macAddress =
     ifconfigLoop macAddress (Split ipAddrOutput nl) \<lparr>is_ip = [], is_device = False, is_address = False\<rparr>"

definition vbox_IP :: "('v os_world_scheme, 'c, 'z) vboxd_env_scheme \<Rightarrow> ('v os_world_scheme, vboxDriver) lens \<Rightarrow> ('v os_world_scheme, string) io" where
  "vbox_IP E L =
     bindP (orErr (vbox_GetState E L)) (\<lambda>s.
       if s \<noteq> Running then throw ErrHostIsNotRunning
       else bindP (getHostOnlyMACAddress E L) (\<lambda>mac.
            bindP (RunSSHCommandFromDriver (xe_ssh E) (vbox_hostInfo L) ''ifconfig'') (\<lambda>output.
            parseIPForMACFromIPAddr output mac)))"

text \<open>An error comes with the empty address.\<close>

definition vbox_GetIP :: "('v os_world_scheme, 'c, 'z) vboxd_env_scheme \<Rightarrow> ('v os_world_scheme, vboxDriver) lens \<Rightarrow> ('v os_world_scheme, string \<times> gerror option) io" where
  "vbox_GetIP E L = bindP (tryP (vbox_IP E L)) (\<lambda>r. case r of Inl e \<Rightarrow> valErr [] e | Inr ip \<Rightarrow> valOk ip)"

definition vbox_GetURL :: "('v os_world_scheme, 'c, 'z) vboxd_env_scheme \<Rightarrow> ('v os_world_scheme, vboxDriver) lens \<Rightarrow> ('v os_world_scheme, string \<times> gerror option) io" where
  "vbox_GetURL E L =
     bindP (vbox_GetIP E L) (\<lambda>(ip, err). case err of
         Some e \<Rightarrow> valErr [] e
       | None \<Rightarrow> if ip = [] then valOk [] else valOk (tcpURL ip))"

definition hostOnlyIPAvailable :: "('v os_world_scheme, 'c, 'z) vboxd_env_scheme \<Rightarrow> ('v os_world_scheme, vboxDriver) lens \<Rightarrow> ('v os_world_scheme, bool) io" where
  "hostOnlyIPAvailable E L = bindP (vbox_GetIP E L) (\<lambda>(ip, err). ret (err = None \<and> ip \<noteq> []))"

definition setIPAddress :: "('w, vboxDriver) lens \<Rightarrow> string \<Rightarrow> ('w, unit) io" where
  "setIPAddress L ip = updater L (\<lambda>d. ((), d\<lparr>vx_Base := (vx_Base d)\<lparr>IPAddress := ip\<rparr>\<rparr>))"

text \<open>The address is stored before its error is returned.\<close>

definition sshIPWaiter_Wait :: "('v os_world_scheme, 'c, 'z) vboxd_env_scheme \<Rightarrow> ('v os_world_scheme, vboxDriver) lens \<Rightarrow> ('v os_world_scheme, unit) io" where
  "sshIPWaiter_Wait E L =
     bindP (WaitForSSH (xe_ssh E) (vbox_hostInfo L)) (\<lambda>_.
     bindP (WaitForSpecific (sleepW (xe_ssh E)) (hostOnlyIPAvailable E L) 5 4000) (\<lambda>_.
     bindP (vbox_GetIP E L) (\<lambda>(ip, err).
     bindP (setIPAddress L ip) (\<lambda>_. case err of None \<Rightarrow> ret () | Some e \<Rightarrow> throw e))))"

section \<open>The disk\<close>

definition blocksize :: nat where
  "blocksize = 32768"

function zeroFill :: "(string \<Rightarrow> ('w, unit) io) \<Rightarrow> nat \<Rightarrow> ('w, unit) io" where
  "zeroFill out n =
     (if n = 0 then ret ()
      else if n > blocksize then bindP (out (replicate blocksize (CHR 0x00))) (\<lambda>_. zeroFill out (n - blocksize))
      else bindP (out (replicate n (CHR 0x00))) (\<lambda>_. zeroFill out 0))"
  by pat_completeness auto

termination by (relation "measure snd") (auto simp: blocksize_def)

declare zeroFill.simps [simp del]

text \<open>\<open>int64(size) << 20\<close> loses the bits above the 63rd.\<close>

definition mbToBytes :: "int \<Rightarrow> int" where
  "mbToBytes mb = sint (push_bit 20 (word_of_int mb :: 64 word))"

definition createDiskImage :: "('w, 'c, 'z) vboxd_env_scheme \<Rightarrow> string \<Rightarrow> int \<Rightarrow> string \<Rightarrow> ('w, unit) io" where
  "createDiskImage E dest mb r =
     (let sizeBytes = mbToBytes mb
      in bindP (diskStart E (vboxManageCmd (xe_vbox E)) [''convertfromraw'', ''stdin'', dest, Itoa sizeBytes, ''--format'', ''VMDK'']) (\<lambda>_.
         bindP (diskWrite E r) (\<lambda>_.
         bindP (let left = sizeBytes - int (length r) in if left > 0 then zeroFill (diskWrite E) (nat left) else ret ()) (\<lambda>_.
         bindP (diskClose E) (\<lambda>_. diskWait E)))))"

definition defaultDiskCreator_Create ::
  "('v os_world_scheme, 'c, 'z) vboxd_env_scheme \<Rightarrow> int \<Rightarrow> string \<Rightarrow> string \<Rightarrow> ('v os_world_scheme, unit) io" where
  "defaultDiskCreator_Create E mb keyPath disk =
     bindP (MakeDiskImage keyPath) (\<lambda>tarBuf. createDiskImage E disk mb (tarBytes E tarBuf))"

section \<open>Creating a machine\<close>

definition b2pUtilsUpdater_UpdateISOCache :: "'v os_world_scheme b2p_env \<Rightarrow> string \<Rightarrow> string \<Rightarrow> ('v os_world_scheme, unit) io" where
  "b2pUtilsUpdater_UpdateISOCache B store isoURL = UpdateISOCache B (NewB2pUtils store) isoURL"

definition b2pUtilsUpdater_CopyIsoToMachineDir ::
  "'v os_world_scheme b2p_env \<Rightarrow> string \<Rightarrow> string \<Rightarrow> string \<Rightarrow> ('v os_world_scheme, unit) io" where
  "b2pUtilsUpdater_CopyIsoToMachineDir B store machineName isoURL = CopyIsoToMachineDir B (NewB2pUtils store) isoURL machineName"

definition defaultSSHKeyGenerator_Generate ::
  "('v os_world_scheme, 'c, 'z) vboxd_env_scheme \<Rightarrow> string \<Rightarrow> ('v os_world_scheme, unit) io" where
  "defaultSSHKeyGenerator_Generate E path = GenerateSSHKey (pemEncode E) (xe_os E) (newKeyPair E) path"

definition vbox_PreCreateCheck :: "('v os_world_scheme, 'c, 'z) vboxd_env_scheme \<Rightarrow> ('v os_world_scheme, vboxDriver) lens \<Rightarrow> ('v os_world_scheme, unit) io" where
  "vbox_PreCreateCheck E L =
     bindP (vbmOut (xe_vbox E) [''--version'']) (\<lambda>version.
       case checkVBoxManageVersion (TrimSpace version) of
         Some e \<Rightarrow> throw e
       | None \<Rightarrow>
           bindP (reader L (\<lambda>d. d)) (\<lambda>d.
           bindP (if vx_NoVTXCheck d then ret ()
                  else bindP (isHyperVInstalled E) (\<lambda>hv. if hv then throw ErrNotCompatibleWithHyperV
                       else bindP (IsVTXDisabled E) (\<lambda>off. if off then throw ErrMustEnableVTX else ret ()))) (\<lambda>_.
           bindP (b2pUtilsUpdater_UpdateISOCache (xe_b2p E) (StorePath (vx_Base d)) (vx_Boot2PodmanURL d)) (\<lambda>_.
           bindP (listHostOnlyAdapters (xe_net E)) (\<lambda>_. ret ())))))"

definition vbox_cpus :: "int \<Rightarrow> int \<Rightarrow> int" where
  "vbox_cpus available n = (let cpus = (if n < 1 then available else n) in if cpus > 32 then 32 else cpus)"

definition onOff :: "bool \<Rightarrow> string" where
  "onOff b = (if b then ''on'' else ''off'')"

definition modifyFlags :: "('w, 'c, 'z) vboxd_env_scheme \<Rightarrow> vboxDriver \<Rightarrow> string list" where
  "modifyFlags E d =
     [''modifyvm'', MachineName (vx_Base d), ''--firmware'', ''bios'', ''--bioslogofadein'', ''off'', ''--bioslogofadeout'', ''off'',
      ''--bioslogodisplaytime'', ''0'', ''--biosbootmenu'', ''disabled'', ''--ostype'', ''Linux26_64'',
      ''--cpus'', Itoa (vbox_cpus (numCPU E) (vx_CPU d)), ''--memory'', Itoa (vx_Memory d), ''--acpi'', ''on'', ''--ioapic'', ''on'',
      ''--rtcuseutc'', ''on'', ''--natdnshostresolver1'', onOff (vx_HostDNSResolver d), ''--natdnsproxy1'', onOff (vx_DNSProxy d),
      ''--cpuhotplug'', ''off'', ''--pae'', ''on'', ''--hpet'', ''on'', ''--hwvirtex'', ''on'', ''--nestedpaging'', ''on'',
      ''--largepages'', ''on'', ''--vtxvpid'', ''on'', ''--accelerate3d'', ''off'', ''--boot1'', ''dvd''] @
     (if xe_os E = ''windows'' \<and> xe_arch E = ''386'' then [''--longmode'', ''on''] else [])"

text \<open>The directory that is shared and its name in the machine; a name that is not given is the path without its slashes.\<close>

definition vbox_share :: "('w, 'c, 'z) vboxd_env_scheme \<Rightarrow> vboxDriver \<Rightarrow> string \<times> string" where
  "vbox_share E d = (if vx_ShareFolder d \<noteq> [] then parseShareFolder (vx_ShareFolder d) else prod.swap (getShareDriveAndName (xe_os E)))"

definition setupShare :: "('v os_world_scheme, 'c, 'z) vboxd_env_scheme \<Rightarrow> vboxDriver \<Rightarrow> ('v os_world_scheme, unit) io" where
  "setupShare E d =
     (let (shareDir, shareName) = vbox_share E d; name = MachineName (vx_Base d)
      in if shareDir = [] \<or> vx_NoShare d then ret ()
         else bindP (tryP (osStat shareDir)) (\<lambda>r. case r of
             Inl e \<Rightarrow> if isNotExist e then ret () else throw e
           | Inr _ \<Rightarrow>
               let share = (if shareName = [] then dropWhile (\<lambda>c. c = CHR ''/'') shareDir else shareName)
               in bindP (vbm (xe_vbox E) [''sharedfolder'', ''add'', name, ''--name'', share, ''--hostpath'', shareDir, ''--automount'']) (\<lambda>_.
                  vbm (xe_vbox E) [''setextradata'', name, ''VBoxInternal2/SharedFoldersEnableSymlinksCreate/'' @ share, ''1''])))"

definition CreateVM :: "('v os_world_scheme, 'c, 'z) vboxd_env_scheme \<Rightarrow> ('v os_world_scheme, vboxDriver) lens \<Rightarrow> ('v os_world_scheme, unit) io" where
  "CreateVM E L =
     bindP (reader L (\<lambda>d. d)) (\<lambda>d.
     let V = xe_vbox E; name = MachineName (vx_Base d)
     in bindP (b2pUtilsUpdater_CopyIsoToMachineDir (xe_b2p E) (StorePath (vx_Base d)) name (vx_Boot2PodmanURL d)) (\<lambda>_.
        bindP (bindP (vbox_GetSSHKeyPath L) (defaultSSHKeyGenerator_Generate E)) (\<lambda>_.
        bindP (bindP (publicSSHKeyPath L) (\<lambda>key. bindP (diskPath L) (defaultDiskCreator_Create E (vx_DiskSize d) key))) (\<lambda>_.
        bindP (vbm V [''createvm'', ''--basefolder'', ResolveStorePath (vx_Base d) ''.'', ''--name'', name, ''--register'']) (\<lambda>_.
        bindP (vbm V (modifyFlags E d)) (\<lambda>_.
        bindP (vbm V [''modifyvm'', name, ''--nic1'', ''nat'', ''--nictype1'', vx_NatNicType d, ''--cableconnected1'', ''on'']) (\<lambda>_.
        bindP (vbm V [''storagectl'', name, ''--name'', ''SATA'', ''--add'', ''sata'', ''--hostiocache'', ''on'']) (\<lambda>_.
        bindP (vbm V [''storageattach'', name, ''--storagectl'', ''SATA'', ''--port'', ''0'', ''--device'', ''0'', ''--type'', ''dvddrive'',
                      ''--medium'', ResolveStorePath (vx_Base d) ''boot2podman.iso'']) (\<lambda>_.
        bindP (bindP (diskPath L) (\<lambda>disk.
               vbm V [''storageattach'', name, ''--storagectl'', ''SATA'', ''--port'', ''1'', ''--device'', ''0'', ''--type'', ''hdd'',
                      ''--medium'', disk])) (\<lambda>_.
        bindP (vbm V [''guestproperty'', ''set'', name, ''/VirtualBox/GuestAdd/SharedFolders/MountPrefix'', ''/'']) (\<lambda>_.
        bindP (vbm V [''guestproperty'', ''set'', name, ''/VirtualBox/GuestAdd/SharedFolders/MountDir'', ''/'']) (\<lambda>_.
        setupShare E d))))))))))))"

section \<open>The network of a machine\<close>

definition setupHostOnlyNetwork :: "('w, 'c, 'z) vboxd_env_scheme \<Rightarrow> ('w, vboxDriver) lens \<Rightarrow> string \<Rightarrow> ('w, hostOnlyNetwork) io" where
  "setupHostOnlyNetwork E L machineName =
     bindP (reader L (\<lambda>d. d)) (\<lambda>d.
     let N = xe_net E; cidr = (if vx_HostOnlyCIDR d = [] then defaultHostOnlyCIDR else vx_HostOnlyCIDR d)
     in bindP (liftE (parseAndValidateCIDR (ve_text6 N) cidr)) (\<lambda>(ip, network).
        bindP (listHostOnlyAdapters N) (\<lambda>nets.
        bindP (validateNoIPCollisions N network nets) (\<lambda>_.
        bindP (getOrCreateHostOnlyNetwork N ip (net_Mask network) nets) (\<lambda>hostOnlyAdapter.
        bindP (removeOrphanDHCPServers N) (\<lambda>_.
        bindP (getRandomIPinSubnet N ip) (\<lambda>dhcpAddr.
        bindP (getDHCPAddressRange dhcpAddr network) (\<lambda>(lowerIP, upperIP).
        bindP (addHostOnlyDHCPServer N (hn_Name hostOnlyAdapter)
                 (zeroServer\<lparr>ds_IPv4 := \<lparr>net_IP = dhcpAddr, net_Mask = net_Mask network\<rparr>, LowerIP := lowerIP, UpperIP := upperIP,
                    ds_Enabled := \<not> vx_HostOnlyNoDHCP d\<rparr>)) (\<lambda>_.
        bindP (vbm (ve_vbox N) [''modifyvm'', machineName, ''--nic2'', ''hostonly'', ''--nictype2'', vx_HostOnlyNicType d,
                 ''--nicpromisc2'', vx_HostOnlyPromiscMode d, ''--hostonlyadapter2'', hn_Name hostOnlyAdapter,
                 ''--cableconnected2'', ''on'']) (\<lambda>_.
        ret hostOnlyAdapter))))))))))"

text \<open>At most eleven tries; only an address with port 0 leads to another one.\<close>

fun tcpPortLoop :: "('w, 'c, 'z) vboxd_env_scheme \<Rightarrow> nat \<Rightarrow> int \<Rightarrow> ('w, int) io" where
  "tcpPortLoop E 0 port = throw (ErrorString ''unable to allocate tcp port'')"
| "tcpPortLoop E (Suc k) port =
     bindP (tcpListen E (''127.0.0.1:'' @ Itoa port)) (\<lambda>addr.
       case SplitN2 addr '':'' of
         _ # s # _ \<Rightarrow> bindP (liftE (atoiE s)) (\<lambda>p. if p \<noteq> 0 then ret p else bindP (xe_sleep E 0) (\<lambda>_. tcpPortLoop E k 0))
       | _ \<Rightarrow> panic ''runtime error: index out of range'')"

definition getAvailableTCPPort :: "('w, 'c, 'z) vboxd_env_scheme \<Rightarrow> int \<Rightarrow> ('w, int) io" where
  "getAvailableTCPPort E port = tcpPortLoop E 11 port"

definition setPortForwarding ::
  "('w, 'c, 'z) vboxd_env_scheme \<Rightarrow> ('w, vboxDriver) lens \<Rightarrow> int \<Rightarrow> string \<Rightarrow> string \<Rightarrow> int \<Rightarrow> int \<Rightarrow> ('w, int) io" where
  "setPortForwarding E L interfaceNum mapName protocol guestPort desiredHostPort =
     bindP (getAvailableTCPPort E desiredHostPort) (\<lambda>actualHostPort.
     bindP (vbox_name L) (\<lambda>name.
     let cmd = ''--natpf'' @ Itoa interfaceNum; V = xe_vbox E
     in bindP (tryP (vbm V [''modifyvm'', name, cmd, ''delete'', mapName])) (\<lambda>_.
        bindP (vbm V [''modifyvm'', name, cmd,
                 mapName @ '','' @ protocol @ '',127.0.0.1,'' @ Itoa actualHostPort @ '',,'' @ Itoa guestPort]) (\<lambda>_.
        ret actualHostPort))))"

section \<open>Running a machine\<close>

text \<open>
  \<open>Stop\<close> asks for the state, once a second, until it is not \<open>Running\<close>; there is no bound, so a machine that ignores the
  power button keeps the caller waiting for ever.
\<close>

definition stopWait :: "('w, 'c, 'z) vboxd_env_scheme \<Rightarrow> ('w, vboxDriver) lens \<Rightarrow> ('w, state) io" where
  "stopWait E L = (\<lambda>w.
     case while_option (\<lambda>(r, v). r = Ok Running) (\<lambda>(r, v). bindP (xe_sleep E 1000) (\<lambda>_. orErr (vbox_GetState E L)) v)
            (orErr (vbox_GetState E L) w) of
       None \<Rightarrow> (Blocked, w)
     | Some p \<Rightarrow> p)"

definition vbox_Stop :: "('w, 'c, 'z) vboxd_env_scheme \<Rightarrow> ('w, vboxDriver) lens \<Rightarrow> ('w, unit) io" where
  "vbox_Stop E L =
     bindP (orErr (vbox_GetState E L)) (\<lambda>currentState.
     bindP (vbox_name L) (\<lambda>name.
     bindP (if currentState = Paused then vbm (xe_vbox E) [''controlvm'', name, ''resume''] else ret ()) (\<lambda>_.
     bindP (vbm (xe_vbox E) [''controlvm'', name, ''acpipowerbutton'']) (\<lambda>_.
     bindP (stopWait E L) (\<lambda>_. setIPAddress L [])))))"

definition setSSHPort :: "('w, vboxDriver) lens \<Rightarrow> int \<Rightarrow> ('w, unit) io" where
  "setSSHPort L p = updater L (\<lambda>d. ((), d\<lparr>vx_Base := (vx_Base d)\<lparr>SSHPort := p\<rparr>\<rparr>))"

text \<open>A failed forwarding leaves \<open>-1\<close> as the port of the machine.\<close>

definition forwardSSH :: "('w, 'c, 'z) vboxd_env_scheme \<Rightarrow> ('w, vboxDriver) lens \<Rightarrow> ('w, unit) io" where
  "forwardSSH E L =
     bindP (reader L (\<lambda>d. SSHPort (vx_Base d))) (\<lambda>port.
     bindP (tryP (setPortForwarding E L 1 ''ssh'' ''tcp'' 22 port)) (\<lambda>r. case r of
         Inl e \<Rightarrow> bindP (setSSHPort L (- 1)) (\<lambda>_. throw e)
       | Inr p \<Rightarrow> setSSHPort L p))"

definition startVM :: "('v os_world_scheme, 'c, 'z) vboxd_env_scheme \<Rightarrow> ('v os_world_scheme, vboxDriver) lens \<Rightarrow> ('v os_world_scheme, unit) io" where
  "startVM E L =
     bindP (reader L (\<lambda>d. d)) (\<lambda>d.
     bindP (tryP (vbm (xe_vbox E) [''startvm'', MachineName (vx_Base d), ''--type'', vx_UIType d])) (\<lambda>r. case r of
         Inr _ \<Rightarrow> ret ()
       | Inl e \<Rightarrow> bindP (tryP (readVBoxLog L)) (\<lambda>l. case l of
             Inr (x # xs) \<Rightarrow> throw (ErrorString (''Unable to start the VM: '' @ Error e @ nl @ ''Details: '' @ last (x # xs)))
           | _ \<Rightarrow> throw (errorf ''Unable to start the VM: '' e))))"

text \<open>The adapter is looked for again after the start; the address is parsed as it is stored, without the default.\<close>

definition checkAdapter :: "('v os_world_scheme, 'c, 'z) vboxd_env_scheme \<Rightarrow> ('v os_world_scheme, vboxDriver) lens \<Rightarrow> hostOnlyNetwork \<Rightarrow> ('v os_world_scheme, unit) io" where
  "checkAdapter E L hostOnlyAdapter =
     (let N = xe_net E
      in bindP (listHostOnlyAdapters N) (\<lambda>nets.
         bindP (reader L (\<lambda>d. d)) (\<lambda>d.
         bindP (liftE (parseAndValidateCIDR (ve_text6 N) (vx_HostOnlyCIDR d))) (\<lambda>(ip, network).
         bindP (validateNoIPCollisions N network nets) (\<lambda>_.
           if getHostOnlyAdapter N nets ip (net_Mask network) \<noteq> None then ret ()
           else bindP (vbox_Stop E L) (\<lambda>_.
                bindP (xe_sleep E 5000) (\<lambda>_.
                bindP (SaveIPv4 N hostOnlyAdapter) (\<lambda>_.
                bindP (xe_sleep E 5000) (\<lambda>_.
                bindP (wrapErr (errorf ''Unable to start the VM: '')
                         (vbm (xe_vbox E) [''startvm'', MachineName (vx_Base d), ''--type'', vx_UIType d])) (\<lambda>_.
                sshIPWaiter_Wait E L))))))))))"

definition vbox_Start :: "('v os_world_scheme, 'c, 'z) vboxd_env_scheme \<Rightarrow> ('v os_world_scheme, vboxDriver) lens \<Rightarrow> ('v os_world_scheme, unit) io" where
  "vbox_Start E L =
     bindP (orErr (vbox_GetState E L)) (\<lambda>s.
     bindP (reader L (\<lambda>d. d)) (\<lambda>d.
     bindP (if s = Stopped
            then bindP (wrapErr (errorf ''Error setting up host only network on machine start: '')
                          (setupHostOnlyNetwork E L (MachineName (vx_Base d)))) (\<lambda>n. ret (Some n))
            else ret None) (\<lambda>hostOnlyAdapter.
     bindP (if s = Stopped \<or> s = Saved then bindP (forwardSSH E L) (\<lambda>_. startVM E L)
            else if s = Paused then vbm (xe_vbox E) [''controlvm'', MachineName (vx_Base d), ''resume'', ''--type'', vx_UIType d]
            else ret ()) (\<lambda>_.
     bindP (if vx_NoVTXCheck d then ret ()
            else bindP (wrapErr (errorf ''Checking if hardware virtualization is enabled failed: '') (IsVTXDisabledInTheVM L)) (\<lambda>off.
                 if off then throw ErrMustEnableVTX else ret ())) (\<lambda>_.
     bindP (sshIPWaiter_Wait E L) (\<lambda>_.
       case hostOnlyAdapter of None \<Rightarrow> ret () | Some n \<Rightarrow> checkAdapter E L n))))))"

definition vbox_Restart :: "('v os_world_scheme, 'c, 'z) vboxd_env_scheme \<Rightarrow> ('v os_world_scheme, vboxDriver) lens \<Rightarrow> ('v os_world_scheme, unit) io" where
  "vbox_Restart E L =
     bindP (wrapErr (errorf ''Problem stopping the VM: '') (vbox_Stop E L)) (\<lambda>_.
     bindP (wrapErr (errorf ''Problem starting the VM: '') (vbox_Start E L)) (\<lambda>_.
     bindP (setIPAddress L []) (\<lambda>_. sshIPWaiter_Wait E L)))"

definition vbox_Kill :: "('w, 'c, 'z) vboxd_env_scheme \<Rightarrow> ('w, vboxDriver) lens \<Rightarrow> ('w, unit) io" where
  "vbox_Kill E L = bindP (vbox_name L) (\<lambda>name. vbm (xe_vbox E) [''controlvm'', name, ''poweroff''])"

definition vbox_Remove :: "('w, 'c, 'z) vboxd_env_scheme \<Rightarrow> ('w, vboxDriver) lens \<Rightarrow> ('w, unit) io" where
  "vbox_Remove E L =
     bindP (vbox_GetState E L) (\<lambda>(s, err). case err of
         Some e \<Rightarrow> if e = ErrMachineNotExist then ret () else throw e
       | None \<Rightarrow>
           bindP (if s \<noteq> Stopped \<and> s \<noteq> Saved then vbox_Kill E L else ret ()) (\<lambda>_.
           bindP (vbox_name L) (\<lambda>name. vbm (xe_vbox E) [''unregistervm'', ''--delete'', name])))"

definition vbox_Create :: "('v os_world_scheme, 'c, 'z) vboxd_env_scheme \<Rightarrow> ('v os_world_scheme, vboxDriver) lens \<Rightarrow> ('v os_world_scheme, unit) io" where
  "vbox_Create E L = bindP (CreateVM E L) (\<lambda>_. vbox_Start E L)"

definition VBoxDriver :: "('v os_world_scheme, 'c) vboxd_env \<Rightarrow> ('v os_world_scheme, vboxDriver) lens \<Rightarrow> 'v os_world_scheme driver" where
  "VBoxDriver E L = \<lparr>
     GetMachineName = GetMachineName (vbox_hostInfo L),
     GetSSHHostname = GetSSHHostname (vbox_hostInfo L),
     GetSSHPort = GetSSHPort (vbox_hostInfo L),
     GetSSHUsername = GetSSHUsername (vbox_hostInfo L),
     GetSSHKeyPath = GetSSHKeyPath (vbox_hostInfo L),
     Create = vbox_Create E L,
     DriverName = ret ''virtualbox'',
     GetCreateFlags = ret vbox_GetCreateFlags,
     GetIP = vbox_GetIP E L,
     GetURL = vbox_GetURL E L,
     GetState = vbox_GetState E L,
     Kill = vbox_Kill E L,
     PreCreateCheck = vbox_PreCreateCheck E L,
     Remove = vbox_Remove E L,
     Restart = vbox_Restart E L,
     SetConfigFromFlags = vbox_SetConfigFromFlags L,
     Start = vbox_Start E L,
     Stop = vbox_Stop E L\<rparr>"

section \<open>Lemmas\<close>

text \<open>One more second in which the machine still runs.\<close>

definition stillRunning :: "('w, 'c, 'z) vboxd_env_scheme \<Rightarrow> ('w, vboxDriver) lens \<Rightarrow> 'w \<Rightarrow> 'w \<Rightarrow> bool" where
  "stillRunning E L w v \<longleftrightarrow> (\<exists>w1. orErr (vbox_GetState E L) w = (Ok Running, w1) \<and> v = vb_sleep (xe_vbox E) 1000 w1)"

lemma stopWait_unfold:
  "while_option (\<lambda>(r, v). r = Ok Running) (\<lambda>(r, v). bindP (xe_sleep E 1000) (\<lambda>_. orErr (vbox_GetState E L)) v)
       (orErr (vbox_GetState E L) w) =
   (if fst (orErr (vbox_GetState E L) w) = Ok Running
    then while_option (\<lambda>(r, v). r = Ok Running) (\<lambda>(r, v). bindP (xe_sleep E 1000) (\<lambda>_. orErr (vbox_GetState E L)) v)
           (orErr (vbox_GetState E L) (vb_sleep (xe_vbox E) 1000 (snd (orErr (vbox_GetState E L) w))))
    else Some (orErr (vbox_GetState E L) w))"
  by (subst while_option_unfold) (auto simp: xe_sleep_def modifyW_def bindP_def split: prod.splits)

lemma stopWait_Ok:
  assumes "(stillRunning E L ^^ n) w v" and "orErr (vbox_GetState E L) v = (Ok s, w')" and "s \<noteq> Running"
  shows "stopWait E L w = (Ok s, w')"
  using assms
proof (induction n arbitrary: w)
  case 0
  then show ?case unfolding stopWait_def by (subst stopWait_unfold) simp
next
  case (Suc n)
  from Suc.prems(1) obtain u where u: "stillRunning E L w u" "(stillRunning E L ^^ n) u v" by (meson relpowp_Suc_D2)
  have IH: "stopWait E L u = (Ok s, w')" using Suc u(2) by blast
  from u(1) obtain w1 where "orErr (vbox_GetState E L) w = (Ok Running, w1)" "u = vb_sleep (xe_vbox E) 1000 w1"
    by (auto simp: stillRunning_def)
  then show ?case using IH unfolding stopWait_def by (subst stopWait_unfold) (simp split: option.splits)
qed

lemma stopWait_hangs:
  assumes "\<And>n. \<exists>v. (stillRunning E L ^^ n) w v"
  shows "stopWait E L w = (Blocked, w)"
proof -
  let ?c = "\<lambda>n. ((\<lambda>(r, v). bindP (xe_sleep E 1000) (\<lambda>_. orErr (vbox_GetState E L)) v) ^^ n) (orErr (vbox_GetState E L) w)"
  have chain: "?c n = orErr (vbox_GetState E L) v" if "(stillRunning E L ^^ n) w v" for n v
    using that
  proof (induction n arbitrary: v)
    case (Suc n)
    then obtain u where u: "(stillRunning E L ^^ n) w u" "stillRunning E L u v" by (auto elim: relpowp_Suc_E)
    from Suc.IH [OF u(1)] u(2) show ?case
      by (auto simp: stillRunning_def xe_sleep_def modifyW_def bindP_def)
  qed simp
  have "fst (?c n) = Ok Running" for n
  proof -
    from assms [of "Suc n"] obtain u v where u: "(stillRunning E L ^^ n) w u" "stillRunning E L u v"
      by (metis relpowp_Suc_E)
    with chain [OF u(1)] show ?thesis by (auto simp: stillRunning_def)
  qed
  then have "while_option (\<lambda>(r, v). r = Ok Running) (\<lambda>(r, v). bindP (xe_sleep E 1000) (\<lambda>_. orErr (vbox_GetState E L)) v)
       (orErr (vbox_GetState E L) w) = None"
    unfolding while_option_def by (simp add: case_prod_unfold)
  then show ?thesis by (simp add: stopWait_def)
qed

text \<open>The lines of \<open>ifconfig\<close>: the head of an interface with its hardware address, the address, and what is skipped.\<close>

definition linkLine :: "string \<Rightarrow> string \<Rightarrow> bool" where
  "linkLine mac line \<longleftrightarrow> (let l = TrimSpace line in Contains l ''Link'' \<and>
     (case Split l ''HWaddr '' of _ # v # _ \<Rightarrow> macDigits v = mac | _ \<Rightarrow> False))"

definition inetLine :: "string \<Rightarrow> string \<Rightarrow> bool" where
  "inetLine ip line \<longleftrightarrow> (let l = TrimSpace line in \<not> Contains l ''Link'' \<and> \<not> Contains l ''ether'' \<and> HasPrefix l ''inet'' \<and>
     \<not> HasPrefix l ''inet6'' \<and> (case Split l ''addr:'' of _ # v # _ \<Rightarrow> map_option (\<lambda>i. take i v) (Index v '' '') = Some ip | _ \<Rightarrow> False))"

definition otherLine :: "string \<Rightarrow> bool" where
  "otherLine line \<longleftrightarrow> (let l = TrimSpace line in \<not> Contains l ''Link'' \<and> \<not> Contains l ''ether'' \<and> (HasPrefix l ''inet'' \<longrightarrow> HasPrefix l ''inet6''))"

record ifBlock =
  ib_mac :: string
  ib_ip :: string
  ib_lines :: "string list"

definition goodBlock :: "ifBlock \<Rightarrow> bool" where
  "goodBlock b \<longleftrightarrow> (case ib_lines b of
       l0 # l1 # ls \<Rightarrow> linkLine (ib_mac b) l0 \<and> inetLine (ib_ip b) l1 \<and> (\<forall>l \<in> set ls. otherLine l) | _ \<Rightarrow> False)"

lemma linkLine_step: "linkLine m l \<Longrightarrow> ifconfigLine mac (TrimSpace l) s =
    ret (if m = mac then s\<lparr>is_device := True, is_address := False\<rparr> else s)"
  by (auto simp: linkLine_def ifconfigLine_def Let_def split: list.splits)

lemma inetLine_step: "inetLine ip l \<Longrightarrow> ifconfigLine mac (TrimSpace l) s = ret (s\<lparr>is_ip := ip, is_address := True\<rparr>)"
  by (auto simp: inetLine_def ifconfigLine_def untilSpace_def Let_def split: list.splits)

lemma otherLine_step: "otherLine l \<Longrightarrow> ifconfigLine mac (TrimSpace l) s = ret s"
  by (auto simp: otherLine_def ifconfigLine_def Let_def)

lemma ifconfigLoop_others:
  assumes "\<forall>l \<in> set ls. otherLine l" and "\<not> is_device s"
  shows "ifconfigLoop mac (ls @ rest) s = ifconfigLoop mac rest s"
  using assms by (induction ls) (simp_all add: otherLine_step)

lemma ifconfigLoop_blocks:
  assumes "\<forall>b \<in> set bs. goodBlock b" and "\<not> is_device s"
  shows "(ifconfigLoop mac (concat (map ib_lines bs)) s :: ('w, string) io) =
    (case map_of (map (\<lambda>b. (ib_mac b, ib_ip b)) bs) mac of
       Some ip \<Rightarrow> ret ip | None \<Rightarrow> throw (ErrorString (''Could not find matching IP for MAC address '' @ mac)))"
  using assms
proof (induction bs arbitrary: s)
  case (Cons b bs)
  from Cons.prems(1) have "goodBlock b" by simp
  then obtain l0 l1 ls where b: "ib_lines b = l0 # l1 # ls" "linkLine (ib_mac b) l0" "inetLine (ib_ip b) l1" "\<forall>l \<in> set ls. otherLine l"
    by (auto simp: goodBlock_def split: list.splits)
  show ?case
  proof (cases "ib_mac b = mac")
    case True
    then show ?thesis using b by (simp add: linkLine_step inetLine_step)
  next
    case False
    then have "(ifconfigLoop mac (concat (map ib_lines (b # bs))) s :: ('w, string) io) =
        ifconfigLoop mac (concat (map ib_lines bs)) (s\<lparr>is_ip := ib_ip b, is_address := True\<rparr>)"
      using b Cons.prems(2) by (simp add: linkLine_step inetLine_step ifconfigLoop_others)
    also have "\<dots> = (case map_of (map (\<lambda>b. (ib_mac b, ib_ip b)) bs) mac of
       Some ip \<Rightarrow> ret ip | None \<Rightarrow> throw (ErrorString (''Could not find matching IP for MAC address '' @ mac)))"
      by (rule Cons.IH) (use Cons.prems in simp_all)
    moreover have "map_of (map (\<lambda>b. (ib_mac b, ib_ip b)) (b # bs)) mac = map_of (map (\<lambda>b. (ib_mac b, ib_ip b)) bs) mac"
      using False by simp
    ultimately show ?thesis by (simp only:)
  qed
qed simp

text \<open>The zeros, written to a pipe that keeps what is written.\<close>

definition pipeWrite :: "('w, string) lens \<Rightarrow> (string \<Rightarrow> ('w, unit) io) \<Rightarrow> bool" where
  "pipeWrite P out \<longleftrightarrow> (\<forall>s w. out s w = (Ok (), lput P (lget P w @ s) w))"

lemma zeroFill_writes:
  assumes P: "lens_laws P" and out: "pipeWrite P out"
  shows "zeroFill out n w = (Ok (), lput P (lget P w @ replicate n (CHR 0x00)) w)"
proof (induction n arbitrary: w rule: less_induct)
  case (less n)
  have out': "out s v = (Ok (), lput P (lget P v @ s) v)" for s v using out by (simp add: pipeWrite_def)
  show ?case
  proof (cases "blocksize < n")
    case True
    let ?z = "replicate blocksize (CHR 0x00)"
    have "n - blocksize < n" using True by (simp add: blocksize_def)
    moreover have "zeroFill out n w = zeroFill out (n - blocksize) (lput P (lget P w @ ?z) w)"
      using True bindP_Ok [where m = "out ?z", OF out'] by (simp add: zeroFill.simps [of out n])
    moreover have "?z @ replicate (n - blocksize) (CHR 0x00) = replicate n (CHR 0x00)"
      using True by (simp flip: replicate_add)
    ultimately show ?thesis by (simp add: less.IH lens_laws.get_put [OF P] lens_laws.put_put [OF P])
  next
    case False
    have "zeroFill out n w = zeroFill out 0 (lput P (lget P w @ replicate n (CHR 0x00)) w)"
      using False bindP_Ok [where m = "out (replicate n (CHR 0x00))", OF out']
      by (cases "n = 0") (simp_all add: zeroFill.simps [of out n] lens_laws.put_get [OF P])
    then show ?thesis by (simp add: zeroFill.simps [of out 0] ret_def)
  qed
qed

lemma mbToBytes_small: "0 \<le> mb \<Longrightarrow> mb < 2 ^ 43 \<Longrightarrow> mbToBytes mb = mb * 2 ^ 20"
proof -
  assume "0 \<le> mb" "mb < 2 ^ 43"
  moreover have "push_bit 20 (word_of_int mb :: 64 word) = word_of_int (mb * 2 ^ 20)" by (simp add: push_bit_eq_mult)
  ultimately show ?thesis
    by (simp only: mbToBytes_def sint_sbintrunc') (simp add: signed_take_bit_int_eq_self)
qed

lemma Split_Join: "xs \<noteq> [] \<Longrightarrow> \<forall>x \<in> set xs. c \<notin> set x \<Longrightarrow> Split (Join xs [c]) [c] = xs"
proof (induction xs)
  case (Cons x xs)
  then show ?case by (cases xs) (auto simp: Split_single_none Split_single_step)
qed simp

lemma liftE_apply: "liftE (Inr x) w = (Ok x, w)"
  by (simp add: liftE_def ret_def)

lemmas run_step = bindP_Ok bindP_Err reader_apply liftE_apply

section \<open>Properties\<close>

text \<open>C23: \<open>Stop\<close> of a running VirtualBox machine presses the power button and then returns exactly when the machine has
  left the state \<open>Running\<close>, however many seconds that takes, with the stored address erased; while the machine keeps
  running, \<open>Stop\<close> does not return.\<close>

theorem vbox_Stop_waits:
  assumes "orErr (vbox_GetState E L) w = (Ok Running, w1)"
    and "vbm (xe_vbox E) [''controlvm'', MachineName (vx_Base (lget L w1)), ''acpipowerbutton''] w1 = (Ok (), w2)"
  shows "((stillRunning E L ^^ n) w2 v \<and> orErr (vbox_GetState E L) v = (Ok s, w3) \<and> s \<noteq> Running \<longrightarrow>
            vbox_Stop E L w = setIPAddress L [] w3) \<and>
         ((\<forall>k. \<exists>v. (stillRunning E L ^^ k) w2 v) \<longrightarrow> fst (vbox_Stop E L w) = Blocked)"
proof -
  have "vbox_Stop E L w = bindP (stopWait E L) (\<lambda>_. setIPAddress L []) w2"
    using assms by (simp add: vbox_Stop_def bindP_def vbox_name_def reader_def ret_def)
  then show ?thesis using stopWait_Ok [of n E L w2 v s w3] stopWait_hangs [of E L w2] by (auto simp: bindP_def)
qed

text \<open>A simulated VirtualBox: the machine runs for the given number of seconds.\<close>

definition vboxL :: "((vboxDriver \<times> 's) os_world_scheme, vboxDriver) lens" where
  "vboxL = \<lparr>lget = (\<lambda>w. fst (os_world.more w)), lput = (\<lambda>d w. os_world.more_update (\<lambda>(_, s). (d, s)) w)\<rparr>"

interpretation vboxLens: lens_laws vboxL
  by unfold_locales (auto simp: vboxL_def split: prod.splits)

definition simVbox :: "(vboxDriver \<times> nat) os_world_scheme vbox_env" where
  "simVbox = \<lparr>vboxManageCmd = ''VBoxManage'',
     vb_run = (\<lambda>args w. (Ok (if hd args = ''showvminfo''
         then ''VMState='' @ dq @ (if snd (os_world.more w) > 0 then ''running'' else ''poweroff'') @ dq else [], [], None), w)),
     vb_sleep = (\<lambda>ms w. os_world.more_update (\<lambda>(d, n). (d, n - 1)) w)\<rparr>"

definition simVnet :: "(vboxDriver \<times> nat) os_world_scheme vnet_env" where
  "simVnet = \<lparr>ve_vbox = simVbox, ve_text6 = noIPv6, netOrder = (\<lambda>l. l), dhcpOrder = (\<lambda>l. l),
     hostIfaces = ret [\<lparr>if_up = True, if_loopback = False, if_addrs = Inr [\<lparr>net_IP = IPv4 192 168 99 7, net_Mask = [255, 255, 255, 0]\<rparr>]\<rparr>],
     randomInt = (\<lambda>k. ret 0)\<rparr>"

definition simEnv :: "((vboxDriver \<times> nat) os_world_scheme, unit) vboxd_env" where
  "simEnv = \<lparr>xe_net = simVnet, xe_ssh = offlineSSH, xe_b2p = demoB2p, xe_os = ''linux'', xe_arch = ''amd64'', numCPU = 4,
     pemEncode = (\<lambda>s. s), newKeyPair = ret \<lparr>PrivateKey = ''p'', PublicKey = ''q''\<rparr>, tcpListen = (\<lambda>a. ret a), sysctl = (\<lambda>s. ret []),
     cmdOut = (\<lambda>c a. ret []), tarBytes = (\<lambda>t. []), diskStart = (\<lambda>c a. ret ()), diskWrite = (\<lambda>s. ret ()), diskClose = ret (), diskWait = ret ()\<rparr>"

definition simWorld :: "nat \<Rightarrow> (vboxDriver \<times> nat) os_world_scheme" where
  "simWorld n = plainWorld [] (vbox_NewDriver ''m'' ''/s'', n)"

theorem vbox_Stop_waits_witness:
  "vbox_Stop simEnv vboxL (simWorld 2) = (Ok (), simWorld 0)"
proof -
  have g: "orErr (vbox_GetState simEnv vboxL) (simWorld 2) = (Ok Running, simWorld 2)"
    "orErr (vbox_GetState simEnv vboxL) (simWorld 1) = (Ok Running, simWorld 1)"
    "orErr (vbox_GetState simEnv vboxL) (simWorld 0) = (Ok Stopped, simWorld 0)" by code_simp+
  have v: "vbm (xe_vbox simEnv) [''controlvm'', MachineName (vx_Base (lget vboxL (simWorld 2))), ''acpipowerbutton''] (simWorld 2) =
    (Ok (), simWorld 2)" by code_simp
  have "vb_sleep (xe_vbox simEnv) 1000 (simWorld 2) = simWorld 1" "vb_sleep (xe_vbox simEnv) 1000 (simWorld 1) = simWorld 0" by code_simp+
  with g have "stillRunning simEnv vboxL (simWorld 2) (simWorld 1)" "stillRunning simEnv vboxL (simWorld 1) (simWorld 0)"
    by (auto simp: stillRunning_def)
  then have "(stillRunning simEnv vboxL ^^ 2) (simWorld 2) (simWorld 0)" by (auto simp: numeral_2_eq_2)
  with vbox_Stop_waits [OF g(1) v] g(3) have "vbox_Stop simEnv vboxL (simWorld 2) = setIPAddress vboxL [] (simWorld 0)" by blast
  also have "\<dots> = (Ok (), simWorld 0)" by code_simp
  finally show ?thesis .
qed

text \<open>a stopped machine whose host-only network is that of an interface of the host is not started: \<open>Start\<close> fails with
  the collision error right after it has looked at the interfaces, before any adapter, DHCP server, port or machine is
  changed.\<close>

theorem vbox_Start_collision:
  assumes "orErr (vbox_GetState E L) w = (Ok Stopped, w1)" and "vx_HostOnlyCIDR (lget L w1) \<noteq> []"
    and "parseAndValidateCIDR (ve_text6 (xe_net E)) (vx_HostOnlyCIDR (lget L w1)) = Inr (ip, network)"
    and "listHostOnlyAdapters (xe_net E) w1 = (Ok nets, w2)"
    and "listHostInterfaces (xe_net E) (map (\<lambda>(k, n). IPNet_String (ve_text6 (xe_net E)) (hn_IPv4 n)) nets) w2 = (Ok m, w3)"
    and "(k, n) \<in> set m" and "IP_Equal (net_IP network) (IP_Mask (net_IP n) (net_Mask n))"
  shows "vbox_Start E L w = (Err (errorf ''Error setting up host only network on machine start: '' ErrNetworkAddrCollision), w3)"
proof -
  have "checkIPNetCollision network m" using assms(6,7) by (auto simp: checkIPNetCollision_def)
  with assms(5) have "validateNoIPCollisions (xe_net E) network nets w2 = (Err ErrNetworkAddrCollision, w3)"
    by (simp add: validateNoIPCollisions_def bindP_def throw_def)
  with assms(2-4) have "setupHostOnlyNetwork E L name w1 = (Err ErrNetworkAddrCollision, w3)" for name
    by (simp add: setupHostOnlyNetwork_def run_step Let_def)
  then show ?thesis using assms(1) by (simp add: vbox_Start_def run_step wrapErr_def)
qed

theorem vbox_Start_collision_witness:
  "vbox_Start simEnv vboxL (simWorld 0) =
     (Err (errorf ''Error setting up host only network on machine start: '' ErrNetworkAddrCollision), simWorld 0)"
proof (rule vbox_Start_collision)
  show "orErr (vbox_GetState simEnv vboxL) (simWorld 0) = (Ok Stopped, simWorld 0)" by code_simp
  show "vx_HostOnlyCIDR (lget vboxL (simWorld 0)) \<noteq> []" by code_simp
  show "parseAndValidateCIDR (ve_text6 (xe_net simEnv)) (vx_HostOnlyCIDR (lget vboxL (simWorld 0))) =
    Inr (IPv4 192 168 99 1, \<lparr>net_IP = [192, 168, 99, 0], net_Mask = [255, 255, 255, 0]\<rparr>)" by code_simp
  show "listHostOnlyAdapters (xe_net simEnv) (simWorld 0) = (Ok [], simWorld 0)" by code_simp
  show "listHostInterfaces (xe_net simEnv) (map (\<lambda>(k, n). IPNet_String (ve_text6 (xe_net simEnv)) (hn_IPv4 n)) []) (simWorld 0) =
    (Ok [(''192.168.99.7/24'', \<lparr>net_IP = IPv4 192 168 99 7, net_Mask = [255, 255, 255, 0]\<rparr>)], simWorld 0)" by code_simp
  show "(''192.168.99.7/24'', \<lparr>net_IP = IPv4 192 168 99 7, net_Mask = [255, 255, 255, 0]\<rparr>) \<in>
    set [(''192.168.99.7/24'', \<lparr>net_IP = IPv4 192 168 99 7, net_Mask = [255, 255, 255, 0]\<rparr>)]" by simp
  show "IP_Equal (net_IP \<lparr>net_IP = [192, 168, 99, 0], net_Mask = [255, 255, 255, 0]\<rparr>)
    (IP_Mask (net_IP \<lparr>net_IP = IPv4 192 168 99 7, net_Mask = [255, 255, 255, 0]\<rparr>)
       (net_Mask \<lparr>net_IP = IPv4 192 168 99 7, net_Mask = [255, 255, 255, 0]\<rparr>))" by code_simp
qed


definition eth0 :: ifBlock where
  "eth0 = \<lparr>ib_mac = ''080027aabbcc'', ib_ip = ''10.0.2.15'', ib_lines = [''eth0      Link encap:Ethernet  HWaddr 08:00:27:AA:BB:CC'',
     ''          inet addr:10.0.2.15  Bcast:10.0.2.255  Mask:255.255.255.0'', ''          UP BROADCAST RUNNING MULTICAST  MTU:1500  Metric:1'']\<rparr>"

definition eth1 :: ifBlock where
  "eth1 = \<lparr>ib_mac = ''080027ddeeff'', ib_ip = ''192.168.99.100'', ib_lines = [''eth1      Link encap:Ethernet  HWaddr 08:00:27:DD:EE:FF'',
     ''          inet addr:192.168.99.100  Bcast:192.168.99.255  Mask:255.255.255.0'', []]\<rparr>"


text \<open>An interface without an address is given the one of the next interface.\<close>

theorem interface_without_address:
  "parseIPForMACFromIPAddr (Join (hd (ib_lines eth0) # ib_lines eth1) nl) (ib_mac eth0) () = (Ok (ib_ip eth1), ())"
  by code_simp

text \<open>C27: the program that converts the disk image is given exactly the bytes of the disk: the archive, then zeros up to
  the size in bytes, which is the given number of mebibytes as long as that fits an \<open>int64\<close>; a longer archive is not cut.\<close>

theorem createDiskImage_bytes:
  assumes "lens_laws P" and "pipeWrite P (diskWrite E)" and "0 \<le> mb" and "mb < 2 ^ 43"
    and "diskStart E (vboxManageCmd (xe_vbox E)) [''convertfromraw'', ''stdin'', dest, Itoa (mb * 2 ^ 20), ''--format'', ''VMDK''] w = (Ok (), w1)"
  shows "\<exists>w2. createDiskImage E dest mb r w = bindP (diskClose E) (\<lambda>_. diskWait E) w2 \<and>
           lget P w2 = lget P w1 @ r @ replicate (nat (mb * 2 ^ 20) - length r) (CHR 0x00)"
proof -
  have out: "diskWrite E s v = (Ok (), lput P (lget P v @ s) v)" for s v using assms(2) by (simp add: pipeWrite_def)
  let ?left = "mb * 2 ^ 20 - int (length r)"
  have 1: "(if ?left > 0 then zeroFill (diskWrite E) (nat ?left) else ret ()) (lput P (lget P w1 @ r) w1) =
      (Ok (), lput P (lget P w1 @ r @ replicate (nat ?left) (CHR 0x00)) w1)"
    by (simp add: zeroFill_writes [OF assms(1,2)] lens_laws.get_put [OF assms(1)] lens_laws.put_put [OF assms(1)] ret_def)
  have 2: "createDiskImage E dest mb r w = bindP (diskClose E) (\<lambda>_. diskWait E) (lput P (lget P w1 @ r @ replicate (nat ?left) (CHR 0x00)) w1)"
    unfolding createDiskImage_def Let_def mbToBytes_small [OF assms(3,4)]
    by (subst bindP_Ok, rule assms(5), subst bindP_Ok, rule out, subst bindP_Ok, rule 1) (rule refl)
  have "nat ?left = nat (mb * 2 ^ 20) - length r" by (simp add: nat_diff_distrib' assms(3))
  then show ?thesis using 2 by (intro exI [of _ "lput P (lget P w1 @ r @ replicate (nat ?left) (CHR 0x00)) w1"])
      (simp add: lens_laws.get_put [OF assms(1)])
qed

definition pipeEnv :: "(string, unit) vboxd_env" where
  "pipeEnv = \<lparr>xe_net = \<lparr>ve_vbox = \<lparr>vboxManageCmd = ''VBoxManage'', vb_run = (\<lambda>args. ret ([], [], None)), vb_sleep = (\<lambda>ms w. w)\<rparr>,
       ve_text6 = noIPv6, netOrder = (\<lambda>l. l), dhcpOrder = (\<lambda>l. l), hostIfaces = ret [], randomInt = (\<lambda>k. ret 0)\<rparr>,
     xe_ssh = offlineSSH, xe_b2p = demoB2p, xe_os = ''linux'', xe_arch = ''amd64'', numCPU = 4,
     pemEncode = (\<lambda>s. s), newKeyPair = ret \<lparr>PrivateKey = ''p'', PublicKey = ''q''\<rparr>, tcpListen = (\<lambda>a. ret a), sysctl = (\<lambda>s. ret []),
     cmdOut = (\<lambda>c a. ret []), tarBytes = (\<lambda>t. []), diskStart = (\<lambda>c a. ret ()), diskWrite = (\<lambda>s w. (Ok (), w @ s)), diskClose = ret (),
     diskWait = ret ()\<rparr>"

theorem createDiskImage_bytes_witness:
  "createDiskImage pipeEnv ''disk.vmdk'' 1 ''tar'' [] = (Ok (), ''tar'' @ replicate 1048573 (CHR 0x00))"
proof -
  let ?P = "\<lparr>lget = (\<lambda>w. w), lput = (\<lambda>s w. s)\<rparr> :: (string, string) lens"
  have P: "lens_laws ?P" by unfold_locales simp_all
  have out: "pipeWrite ?P (diskWrite pipeEnv)" by (simp add: pipeWrite_def pipeEnv_def)
  have start: "diskStart pipeEnv c a w = (Ok (), w)" for c a w by (simp add: pipeEnv_def ret_def)
  have n: "nat (1 * 2 ^ 20) - length ''tar'' = 1048573" by simp
  from createDiskImage_bytes [where E = pipeEnv and mb = 1 and dest = "''disk.vmdk''" and r = "''tar''", OF P out _ _ start, of "[]"]
  obtain w2 where "createDiskImage pipeEnv ''disk.vmdk'' 1 ''tar'' [] = bindP (diskClose pipeEnv) (\<lambda>_. diskWait pipeEnv) w2"
    "w2 = ''tar'' @ replicate (nat (1 * 2 ^ 20) - length ''tar'') (CHR 0x00)" by auto
  then show ?thesis unfolding n by (simp only:) (simp add: pipeEnv_def ret_def bindP_def)
qed

end
