(* ===== verification/Vbox_Hosts.thy ===== *)
theory Vbox_Hosts
  imports Virtualbox
begin

text \<open>
  Where the driver finds \<open>VBoxManage\<close>: the functions \<open>detectVBoxManageCmd\<close> of \<open>drivers/virtualbox/virtualbox_<os>.go\<close>, one for each
  operating system, and \<open>NewVBoxManager\<close>.  \<open>joinWin\<close> is \<open>filepath.Join\<close> of the Windows build; the registry is a parameter.
\<close>

record 'w detect_env =
  dx_os :: string
  dx_lookPath :: "string \<Rightarrow> ('w, string) io"
  joinWin :: "string list \<Rightarrow> string"
  openRegistryKey :: "string \<Rightarrow> ('w, nat) io"
  getStringValue :: "nat \<Rightarrow> string \<Rightarrow> ('w, string) io"
  closeRegistryKey :: "nat \<Rightarrow> 'w \<Rightarrow> 'w"

definition detectVBoxManageCmdInPath :: "('w, 'z) detect_env_scheme \<Rightarrow> ('w, string) io" where
  "detectVBoxManageCmdInPath X =
     (let cmd = ''VBoxManage''
      in bindP (tryP (dx_lookPath X cmd)) (\<lambda>r. ret (case r of Inr path \<Rightarrow> path | Inl _ \<Rightarrow> cmd)))"

definition detectVBoxManageCmd_linux :: "('w, 'z) detect_env_scheme \<Rightarrow> ('w, string) io" where
  "detectVBoxManageCmd_linux X = detectVBoxManageCmdInPath X"

definition detectVBoxManageCmd_darwin :: "('w, 'z) detect_env_scheme \<Rightarrow> ('w, string) io" where
  "detectVBoxManageCmd_darwin X = detectVBoxManageCmdInPath X"

definition detectVBoxManageCmd_freebsd :: "('w, 'z) detect_env_scheme \<Rightarrow> ('w, string) io" where
  "detectVBoxManageCmd_freebsd X = detectVBoxManageCmdInPath X"

definition detectVBoxManageCmd_openbsd :: "('w, 'z) detect_env_scheme \<Rightarrow> ('w, string) io" where
  "detectVBoxManageCmd_openbsd X = detectVBoxManageCmdInPath X"

section \<open>Windows\<close>

definition bslash :: string where
  "bslash = [CHR 0x5C]"

definition findVBoxInstallDirInRegistry :: "('w, 'z) detect_env_scheme \<Rightarrow> ('w, string) io" where
  "findVBoxInstallDirInRegistry X =
     bindP (wrapErr (errorf ''Can't find VirtualBox registry entries, is VirtualBox really installed properly? '')
             (openRegistryKey X (''SOFTWARE'' @ bslash @ ''Oracle'' @ bslash @ ''VirtualBox''))) (\<lambda>registryKey.
     deferP (closeRegistryKey X registryKey)
       (wrapErr (errorf ''Can't find InstallDir registry key within VirtualBox registries entries, is VirtualBox really installed properly? '')
          (getStringValue X registryKey ''InstallDir'')))"

text \<open>A place is tried by looking for the program in it; the next one comes when it is not there.\<close>

definition tryPlace :: "('w, 'z) detect_env_scheme \<Rightarrow> string \<Rightarrow> ('w, string) io \<Rightarrow> ('w, string) io" where
  "tryPlace X dir next =
     bindP (tryP (dx_lookPath X (joinWin X [dir, ''VBoxManage'']))) (\<lambda>r. case r of Inr path \<Rightarrow> ret path | Inl _ \<Rightarrow> next)"

definition tryEnv :: "('v os_world_scheme, 'z) detect_env_scheme \<Rightarrow> string \<Rightarrow> ('v os_world_scheme, string) io \<Rightarrow> ('v os_world_scheme, string) io" where
  "tryEnv X var next = bindP getW (\<lambda>w. let p = Getenv w var in if p \<noteq> [] then tryPlace X p next else next)"

definition defaultInstallDir :: string where
  "defaultInstallDir = ''C:'' @ bslash @ ''Program Files'' @ bslash @ ''Oracle'' @ bslash @ ''VirtualBox''"

definition detectVBoxManageCmd_windows :: "('v os_world_scheme, 'z) detect_env_scheme \<Rightarrow> ('v os_world_scheme, string) io" where
  "detectVBoxManageCmd_windows X =
     tryEnv X ''VBOX_INSTALL_PATH''
    (tryEnv X ''VBOX_MSI_INSTALL_PATH''
    (tryPlace X defaultInstallDir
    (bindP (tryP (findVBoxInstallDirInRegistry X)) (\<lambda>r.
       case r of
         Inr p \<Rightarrow> tryPlace X p (detectVBoxManageCmdInPath X)
       | Inl _ \<Rightarrow> detectVBoxManageCmdInPath X))))"

definition detectVBoxManageCmd :: "('v os_world_scheme, 'z) detect_env_scheme \<Rightarrow> ('v os_world_scheme, string) io" where
  "detectVBoxManageCmd X =
     (if dx_os X = ''windows'' then detectVBoxManageCmd_windows X
      else if dx_os X = ''darwin'' then detectVBoxManageCmd_darwin X
      else if dx_os X = ''freebsd'' then detectVBoxManageCmd_freebsd X
      else if dx_os X = ''openbsd'' then detectVBoxManageCmd_openbsd X
      else detectVBoxManageCmd_linux X)"

text \<open>The variable \<open>vboxManageCmd\<close> of the package is set when the program starts; \<open>NewVBoxManager\<close> runs that program.\<close>

definition NewVBoxManager ::
  "('v os_world_scheme, 'z) detect_env_scheme \<Rightarrow> (string \<Rightarrow> string list \<Rightarrow> ('v os_world_scheme, string \<times> string \<times> gerror option) io) \<Rightarrow>
   (nat \<Rightarrow> 'v os_world_scheme \<Rightarrow> 'v os_world_scheme) \<Rightarrow> ('v os_world_scheme, 'v os_world_scheme vbox_env) io" where
  "NewVBoxManager X cmdRun sleep =
     bindP (detectVBoxManageCmd X) (\<lambda>cmd. ret \<lparr>vboxManageCmd = cmd, vb_run = cmdRun cmd, vb_sleep = sleep\<rparr>)"

section \<open>The output of a Windows program\<close>

text \<open>\<open>run\<close> is \<open>exec.Cmd.Output\<close>, which yields what was written also when the program failed.\<close>

definition cmdOutput :: "(string \<Rightarrow> string list \<Rightarrow> ('w, string \<times> gerror option) io) \<Rightarrow> string \<Rightarrow> string list \<Rightarrow> ('w, string) io" where
  "cmdOutput run name args = bindP (run name args) (\<lambda>(stdout, err). case err of Some e \<Rightarrow> throw e | None \<Rightarrow> ret stdout)"

section \<open>Lemmas\<close>

text \<open>The places in the order of the search, when looking for a program and reading the registry only read.\<close>

definition vboxPlaces :: "('v os_world_scheme, 'z) detect_env_scheme \<Rightarrow> string option \<Rightarrow> 'v os_world_scheme \<Rightarrow> string list" where
  "vboxPlaces X installDir w =
     map (\<lambda>d. joinWin X [d, ''VBoxManage''])
       (filter (\<lambda>p. p \<noteq> []) [Getenv w ''VBOX_INSTALL_PATH'', Getenv w ''VBOX_MSI_INSTALL_PATH''] @ [defaultInstallDir] @
        (case installDir of None \<Rightarrow> [] | Some p \<Rightarrow> [p])) @ [''VBoxManage'']"

fun firstFound :: "(string \<Rightarrow> string option) \<Rightarrow> string list \<Rightarrow> string" where
  "firstFound look [] = ''VBoxManage''"
| "firstFound look (c # cs) = (case look c of Some p \<Rightarrow> p | None \<Rightarrow> firstFound look cs)"

definition readsOnly :: "('w, 'a) io \<Rightarrow> 'a option \<Rightarrow> 'w \<Rightarrow> bool" where
  "readsOnly m r w \<longleftrightarrow> (case r of Some x \<Rightarrow> m w = (Ok x, w) | None \<Rightarrow> (\<exists>e. m w = (Err e, w)))"

lemma readsOnly_tryP:
  "readsOnly m r w \<Longrightarrow> bindP (tryP m) f w = (case r of Some x \<Rightarrow> f (Inr x) w | None \<Rightarrow> (let e = (SOME e. m w = (Err e, w)) in f (Inl e) w))"
  unfolding readsOnly_def by (cases r) (auto simp: bindP_def tryP_def intro: someI2)

lemma tryPlace_reads:
  "readsOnly (dx_lookPath X (joinWin X [dir, ''VBoxManage''])) r w \<Longrightarrow>
   tryPlace X dir next w = (case r of Some p \<Rightarrow> (Ok p, w) | None \<Rightarrow> next w)"
  by (simp add: tryPlace_def readsOnly_tryP ret_def Let_def split: option.splits)

lemma inPath_reads:
  "readsOnly (dx_lookPath X ''VBoxManage'') r w \<Longrightarrow> detectVBoxManageCmdInPath X w = (Ok (case r of Some p \<Rightarrow> p | None \<Rightarrow> ''VBoxManage''), w)"
  by (simp add: detectVBoxManageCmdInPath_def readsOnly_tryP ret_def Let_def split: option.splits)

lemma tryEnv_reads:
  "readsOnly (dx_lookPath X (joinWin X [Getenv w var, ''VBoxManage''])) r w \<Longrightarrow>
   tryEnv X var next w = (if Getenv w var = [] then next w else case r of Some p \<Rightarrow> (Ok p, w) | None \<Rightarrow> next w)"
  by (simp add: tryEnv_def getW_def bindP_def tryPlace_reads)

text \<open>The key of the registry is closed on every way out.\<close>

lemma findVBoxInstallDir_closes:
  assumes "openRegistryKey X (''SOFTWARE'' @ bslash @ ''Oracle'' @ bslash @ ''VirtualBox'') w = (Ok k, w1)"
    and "getStringValue X k ''InstallDir'' w1 = (r, w2)" and "r \<noteq> Blocked"
  shows "snd (findVBoxInstallDirInRegistry X w) = closeRegistryKey X k w2"
  using assms by (cases r) (simp_all add: findVBoxInstallDirInRegistry_def bindP_def wrapErr_def deferP_def)

text \<open>on Windows the program that is run is the first that is found in the places, in this order: the two variables of the
  environment that are set, the default directory of the installation, the directory in the registry, and the search path; and
  it is \<open>VBoxManage\<close> when there is none.  The search never fails.\<close>

theorem detectVBoxManageCmd_first:
  assumes look: "\<And>c. readsOnly (dx_lookPath X c) (look c) w" and reg: "readsOnly (findVBoxInstallDirInRegistry X) installDir w"
    and os: "dx_os X = ''windows''"
  shows "detectVBoxManageCmd X w = (Ok (firstFound look (vboxPlaces X installDir w)), w)"
proof -
  note step = tryEnv_reads [OF look] tryPlace_reads [OF look] inPath_reads [OF look] readsOnly_tryP [OF reg]
  show ?thesis
    by (simp add: detectVBoxManageCmd_def detectVBoxManageCmd_windows_def os vboxPlaces_def step Let_def split: option.splits)
qed

definition demoDetect :: "(nat os_world_scheme) detect_env" where
  "demoDetect = \<lparr>dx_os = ''windows'', dx_lookPath = (\<lambda>c w. if c = ''D/VBoxManage'' then (Ok (c @ ''.exe''), w) else (Err ExecNotFound, w)),
     joinWin = (\<lambda>ps. Join ps ''/''), openRegistryKey = (\<lambda>k w. (Ok 3, os_world.more_update Suc w)),
     getStringValue = (\<lambda>k v. ret ''D''), closeRegistryKey = (\<lambda>k. os_world.more_update (\<lambda>n. n - 1))\<rparr>"

theorem detectVBoxManageCmd_first_witness:
  "detectVBoxManageCmd demoDetect (plainWorld [] 0) = (Ok ''D/VBoxManage.exe'', plainWorld [] 0)"
proof -
  let ?w = "plainWorld [] (0::nat)" and ?look = "\<lambda>c. if c = ''D/VBoxManage'' then Some (c @ ''.exe'') else None"
  have look: "readsOnly (dx_lookPath demoDetect c) (?look c) ?w" for c by (simp add: readsOnly_def demoDetect_def)
  have reg: "readsOnly (findVBoxInstallDirInRegistry demoDetect) (Some ''D'') ?w"
    by (simp add: readsOnly_def demoDetect_def findVBoxInstallDirInRegistry_def bindP_def wrapErr_def deferP_def ret_def plainWorld_def)
  have "dx_os demoDetect = ''windows''" by (simp add: demoDetect_def)
  from detectVBoxManageCmd_first [OF look reg this]
  show ?thesis by (simp add: vboxPlaces_def Getenv_def plainWorld_def demoDetect_def defaultInstallDir_def)
qed

end
