(* ===== verification/Qemu.thy ===== *)
theory Qemu
  imports B2p Drivers "HOL-Library.While_Combinator"
begin

text \<open>
  \<open>drivers/qemu\<close>: the driver that runs machines under QEMU, one process for each, and talks to its monitor over a socket.
  The machine protocol, the process table and the ports of the host are the record \<open>qemu_env\<close>.
\<close>

section \<open>The driver struct\<close>

record qemuDriver =
  qm_Base :: baseDriver
  qm_EnginePort :: int
  qm_FirstQuery :: bool
  qm_Memory :: int
  qm_DiskSize :: int
  qm_CPU :: int
  qm_Program :: string
  qm_Display :: bool
  qm_DisplayType :: string
  qm_NetVlan :: bool
  qm_Nographic :: bool
  qm_VirtioDrives :: bool
  qm_HVF :: bool
  qm_Network :: string
  qm_PrivateNetwork :: string
  qm_Boot2PodmanURL :: string
  qm_NetworkInterface :: string
  qm_NetworkAddress :: string
  qm_NetworkBridge :: string
  qm_DiskPath :: string
  qm_CacheMode :: string
  qm_IOMode :: string
  qm_CloudConfigRoot :: string
  qm_LocalPorts :: string

text \<open>A value of the object a monitor command returns: the source only compares with strings.\<close>

datatype qmpValue = QString string | QOther string

type_synonym qmpMap = "(string \<times> qmpValue) list"

text \<open>
  \<open>intn\<close> is \<open>rand.Intn\<close>, \<open>listenOn\<close> is \<open>net.Listen\<close> and yields the address, \<open>signalPid\<close> is \<open>os.FindProcess\<close> with signal 0, \<open>runOutErr\<close>
  runs a program and yields both outputs and the error.  A connection is dialled, read with a limit, written and closed;
  \<open>decodeReturn\<close> is \<open>json.Unmarshal\<close> of the member \<open>return\<close> into the map of an earlier response, \<open>showMap\<close> prints a map.
\<close>

record ('w, 'k) qemu_env =
  qe_b2p :: "'w b2p_env"
  qe_os :: string
  qe_pem :: "string \<Rightarrow> string"
  qe_keys :: "('w, keyPair) io"
  intn :: "nat \<Rightarrow> ('w, nat) io"
  listenOn :: "string \<Rightarrow> ('w, string) io"
  signalPid :: "int \<Rightarrow> ('w, unit) io"
  runOutErr :: "string \<Rightarrow> string list \<Rightarrow> ('w, string \<times> string \<times> gerror option) io"
  connDial :: "string \<Rightarrow> string \<Rightarrow> ('w, 'k) io"
  connRead :: "'k \<Rightarrow> nat \<Rightarrow> ('w, string) io"
  connWrite :: "'k \<Rightarrow> string \<Rightarrow> ('w, unit) io"
  connClose :: "'k \<Rightarrow> 'w \<Rightarrow> 'w"
  decodeReturn :: "string \<Rightarrow> qmpMap \<Rightarrow> gerror + qmpMap"
  showMap :: "qmpMap \<Rightarrow> string"
  tarStream :: "tarEntry list \<Rightarrow> string"
  qe_sleep :: "nat \<Rightarrow> 'w \<Rightarrow> 'w"

definition defaultSSHUser :: string where
  "defaultSSHUser = ''tc''"

definition privateNetworkName :: string where
  "privateNetworkName = ''podman-machines''"

definition qemu_GetCreateFlags :: "mcnflag list" where
  "qemu_GetCreateFlags =
     [IntFlag ''qemu-memory'' ''Size of memory for host in MB'' [] 1024,
      IntFlag ''qemu-disk-size'' ''Size of disk for host in MB'' [] 20000,
      IntFlag ''qemu-cpu-count'' ''Number of CPUs'' [] 1,
      StringFlag ''qemu-program'' ''Name of program to run'' [] ''qemu-system-x86_64'',
      BoolFlag ''qemu-display'' ''Display video output'' [],
      StringFlag ''qemu-display-type'' ''Select type of display'' ''QEMU_DISPLAY_TYPE'' [],
      BoolFlag ''qemu-net-vlan'' ''Use -net vlan instead of -netdev'' [],
      BoolFlag ''qemu-nographic'' ''Use -nographic instead of -display none'' [],
      BoolFlag ''qemu-virtio-drives'' ''Use virtio for drives (cdrom and disk)'' ''QEMU_VIRTIO_DRIVES'',
      BoolFlag ''qemu-hvf'' ''Use the macOS Hypervisor.framework'' [],
      StringFlag ''qemu-network'' ''Name of network to connect to (user, tap, bridge)'' [] ''user'',
      StringFlag ''qemu-boot2podman-url'' ''The URL of the boot2podman image. Defaults to the latest available version''
        ''QEMU_BOOT2PODMAN_URL'' [],
      StringFlag ''qemu-network-interface'' ''Name of the network interface to be used for networking (for tap)'' [] ''tap0'',
      StringFlag ''qemu-network-address'' ''IP of the network adress to be used for networking (for tap)'' [] [],
      StringFlag ''qemu-network-bridge'' ''Name of the network bridge to be used for networking (for bridge)'' [] ''br0'',
      StringFlag ''qemu-cache-mode'' ''Disk cache mode: default, none, writethrough, writeback, directsync, or unsafe'' [] ''default'',
      StringFlag ''qemu-io-mode'' ''Disk IO mode: threads, native'' [] ''threads'',
      StringFlag ''qemu-ssh-user'' ''SSH username'' ''QEMU_SSH_USER'' defaultSSHUser,
      StringFlag ''qemu-localports'' ''Port range to bind local SSH and engine ports'' ''QEMU_LOCALPORTS'' []]"

definition qemu_NewDriver :: "string \<Rightarrow> string \<Rightarrow> qemuDriver" where
  "qemu_NewDriver hostName sp =
     \<lparr>qm_Base = (newBaseDriver hostName sp)\<lparr>SSHUser := defaultSSHUser\<rparr>, qm_EnginePort = 0, qm_FirstQuery = False, qm_Memory = 0, qm_DiskSize = 0,
      qm_CPU = 0, qm_Program = [], qm_Display = False, qm_DisplayType = [], qm_NetVlan = False, qm_Nographic = False,
      qm_VirtioDrives = False, qm_HVF = False, qm_Network = [], qm_PrivateNetwork = privateNetworkName, qm_Boot2PodmanURL = [],
      qm_NetworkInterface = [], qm_NetworkAddress = [], qm_NetworkBridge = [], qm_DiskPath = [], qm_CacheMode = [], qm_IOMode = [],
      qm_CloudConfigRoot = [], qm_LocalPorts = []\<rparr>"

definition qemu_SetConfigFromFlags :: "('w, qemuDriver) lens \<Rightarrow> driverOptions \<Rightarrow> ('w, unit) io" where
  "qemu_SetConfigFromFlags L flags = updater L (\<lambda>d. ((),
     d\<lparr>qm_Memory := optInt flags ''qemu-memory'', qm_DiskSize := optInt flags ''qemu-disk-size'', qm_CPU := optInt flags ''qemu-cpu-count'',
       qm_Program := optString flags ''qemu-program'', qm_Display := optBool flags ''qemu-display'',
       qm_DisplayType := optString flags ''qemu-display-type'', qm_NetVlan := optBool flags ''qemu-net-vlan'',
       qm_Nographic := optBool flags ''qemu-nographic'', qm_VirtioDrives := optBool flags ''qemu-virtio-drives'',
       qm_HVF := optBool flags ''qemu-hvf'', qm_Network := optString flags ''qemu-network'',
       qm_Boot2PodmanURL := optString flags ''qemu-boot2podman-url'', qm_NetworkInterface := optString flags ''qemu-network-interface'',
       qm_NetworkAddress := optString flags ''qemu-network-address'', qm_NetworkBridge := optString flags ''qemu-network-bridge'',
       qm_CacheMode := optString flags ''qemu-cache-mode'', qm_IOMode := optString flags ''qemu-io-mode'',
       qm_Base := (qm_Base d)\<lparr>SSHUser := optString flags ''qemu-ssh-user'', SSHPort := 22\<rparr>,
       qm_LocalPorts := optString flags ''qemu-localports'', qm_FirstQuery := True,
       qm_DiskPath := ResolveStorePath (qm_Base d) (MachineName (qm_Base d) @ ''.img'')\<rparr>))"

text \<open>The files of a machine.\<close>

definition qemu_file :: "qemuDriver \<Rightarrow> string \<Rightarrow> string" where
  "qemu_file d f = pathJoin [pathJoin [StorePath (qm_Base d), ''machines'', MachineName (qm_Base d)], f]"

definition qemu_sshKeyPath :: "qemuDriver \<Rightarrow> string" where
  "qemu_sshKeyPath d = qemu_file d ''id_rsa''"

definition qemu_publicSSHKeyPath :: "qemuDriver \<Rightarrow> string" where
  "qemu_publicSSHKeyPath d = qemu_sshKeyPath d @ ''.pub''"

definition qemu_diskPath :: "qemuDriver \<Rightarrow> string" where
  "qemu_diskPath d = qemu_file d ''disk.qcow2''"

definition monitorPath :: "qemuDriver \<Rightarrow> string" where
  "monitorPath d = qemu_file d ''monitor''"

definition pidfilePath :: "qemuDriver \<Rightarrow> string" where
  "pidfilePath d = qemu_file d ''qemu.pid''"

definition qemu_GetSSHPort :: "('w, qemuDriver) lens \<Rightarrow> ('w, int \<times> gerror option) io" where
  "qemu_GetSSHPort L = updater L (\<lambda>d.
     let d' = (if SSHPort (qm_Base d) = 0 then d\<lparr>qm_Base := (qm_Base d)\<lparr>SSHPort := 22\<rparr>\<rparr> else d) in ((SSHPort (qm_Base d'), None), d'))"

definition qemu_GetSSHUsername :: "('w, qemuDriver) lens \<Rightarrow> ('w, string) io" where
  "qemu_GetSSHUsername L = updater L (\<lambda>d.
     let d' = (if SSHUser (qm_Base d) = [] then d\<lparr>qm_Base := (qm_Base d)\<lparr>SSHUser := defaultSSHUser\<rparr>\<rparr> else d) in (SSHUser (qm_Base d'), d'))"

definition qemu_hostInfo :: "('w, qemuDriver) lens \<Rightarrow> 'w hostInfo" where
  "qemu_hostInfo L = \<lparr>
     GetMachineName = reader L (\<lambda>d. MachineName (qm_Base d)),
     GetSSHHostname = valOk ''localhost'',
     GetSSHPort = qemu_GetSSHPort L,
     GetSSHUsername = qemu_GetSSHUsername L,
     GetSSHKeyPath = reader L (\<lambda>d. ResolveStorePath (qm_Base d) ''id_rsa'')\<rparr>"

definition qemu_GetIP :: "('w, qemuDriver) lens \<Rightarrow> ('w, string \<times> gerror option) io" where
  "qemu_GetIP L = bindP (reader L (\<lambda>d. if qm_Network d = ''user'' then ''127.0.0.1'' else qm_NetworkAddress d)) valOk"

definition qemu_GetURL :: "('v os_world_scheme, qemuDriver) lens \<Rightarrow> ('v os_world_scheme, string \<times> gerror option) io" where
  "qemu_GetURL L =
     bindP (reader L pidfilePath) (\<lambda>pf.
     bindP (tryP (osStat pf)) (\<lambda>st. case st of
         Inl _ \<Rightarrow> valOk []
       | Inr _ \<Rightarrow> bindP (qemu_GetIP L) (\<lambda>(ip, err). case err of
           Some e \<Rightarrow> valErr [] e
         | None \<Rightarrow> if ip = [] then valOk [] else valOk (tcpURL ip))))"

section \<open>The monitor\<close>

text \<open>\<open>json.Marshal(qmpCommand{...})\<close>; the commands have no character that is escaped.\<close>

definition marshalCommand :: "string \<Rightarrow> string" where
  "marshalCommand c = ''{'' @ dq @ ''execute'' @ dq @ '':'' @ dq @ c @ dq @ ''}''"

definition qmpExchange :: "('w, 'k) qemu_env \<Rightarrow> 'k \<Rightarrow> string \<Rightarrow> qmpMap \<Rightarrow> ('w, qmpMap) io" where
  "qmpExchange Q conn command response =
     bindP (connWrite Q conn (marshalCommand command)) (\<lambda>_.
     bindP (connRead Q conn 1024) (\<lambda>buf.
       case decodeReturn Q buf response of Inl e \<Rightarrow> throw e | Inr r \<Rightarrow> ret r))"

text \<open>Greeting, then command mode, then the command; the response map is used for both answers.\<close>

definition RunQMPCommand :: "('w, 'k) qemu_env \<Rightarrow> ('w, qemuDriver) lens \<Rightarrow> string \<Rightarrow> ('w, qmpMap) io" where
  "RunQMPCommand Q L command =
     bindP (reader L monitorPath) (\<lambda>path.
     bindP (connDial Q ''unix'' path) (\<lambda>conn.
     deferP (connClose Q conn)
      (bindP (connRead Q conn 1024) (\<lambda>greeting.
       bindP (qmpExchange Q conn ''qmp_capabilities'' []) (\<lambda>r.
         if r \<noteq> [] then throw (ErrorString (''qmp_capabilities failed: '' @ showMap Q r))
         else bindP (qmpExchange Q conn command r) (\<lambda>r'.
           if HasPrefix command ''query-'' then ret r'
           else if r' \<noteq> [] then throw (ErrorString (command @ '' failed: '' @ showMap Q r'))
           else ret r'))))))"

definition qemuStatus :: "qmpMap \<Rightarrow> state" where
  "qemuStatus m = (case map_of m ''status'' of
       Some (QString s) \<Rightarrow> if s = ''running'' then Running else if s = ''paused'' then Paused else if s = ''shutdown'' then Stopped else StNone
     | _ \<Rightarrow> StNone)"

text \<open>A pid file whose process is gone is removed; that the removal fails is ignored.\<close>

definition qemu_GetState :: "('v os_world_scheme, 'k) qemu_env \<Rightarrow> ('v os_world_scheme, qemuDriver) lens \<Rightarrow> ('v os_world_scheme, state \<times> gerror option) io" where
  "qemu_GetState Q L =
     bindP (reader L pidfilePath) (\<lambda>pf.
     bindP (tryP (osStat pf)) (\<lambda>st. case st of
         Inl _ \<Rightarrow> valOk Stopped
       | Inr _ \<Rightarrow> bindP (tryP (readFile pf)) (\<lambda>rd. case rd of
           Inl e \<Rightarrow> valErr StError e
         | Inr p \<Rightarrow> (case Atoi (TrimSpace p) of
             None \<Rightarrow> valErr StError (ErrorString (''strconv.Atoi: parsing '' @ Quote (TrimSpace p) @ '': invalid syntax''))
           | Some pid \<Rightarrow> bindP (tryP (signalPid Q pid)) (\<lambda>sg. case sg of
               Inl _ \<Rightarrow> bindP (tryP (osRemove pf)) (\<lambda>_. valOk Stopped)
             | Inr _ \<Rightarrow> bindP (tryP (RunQMPCommand Q L ''query-status'')) (\<lambda>q. case q of
                 Inl e \<Rightarrow> valErr StError e
               | Inr m \<Rightarrow> valOk (qemuStatus m)))))))"

section \<open>Ports\<close>

definition invalidPortRange :: gerror where
  "invalidPortRange = ErrorString ''Invalid port range''"

text \<open>A range without a dash panics at its second half.\<close>

definition parsePortRange :: "string \<Rightarrow> ('w, int \<times> int) io" where
  "parsePortRange rawPortRange =
     (if rawPortRange = [] then ret (0, 65535)
      else let portRange = Split rawPortRange ''-''
           in case Atoi (hd portRange) of
                None \<Rightarrow> throw invalidPortRange
              | Some minPort \<Rightarrow>
                  if length portRange < 2 then panic ''runtime error: index out of range''
                  else (case Atoi (portRange ! 1) of
                    None \<Rightarrow> throw invalidPortRange
                  | Some maxPort \<Rightarrow>
                      if maxPort < minPort then throw invalidPortRange
                      else if maxPort - minPort < 2 then throw (ErrorString ''Port range must be minimum 2 ports'')
                      else ret (minPort, maxPort)))"

definition getRandomPortNumberInRange :: "('w, 'k) qemu_env \<Rightarrow> int \<Rightarrow> int \<Rightarrow> ('w, int) io" where
  "getRandomPortNumberInRange Q lo hi =
     (if hi - lo \<le> 0 then panic ''invalid argument to Intn'' else bindP (intn Q (nat (hi - lo))) (\<lambda>r. ret (int r + lo)))"

definition portOf :: "string \<Rightarrow> ('w, int) io" where
  "portOf addr = (case SplitN2 addr '':'' of
       _ # s # _ \<Rightarrow> (case Atoi s of
           None \<Rightarrow> throw (ErrorString (''strconv.Atoi: parsing '' @ Quote s @ '': invalid syntax'')) | Some p \<Rightarrow> ret p)
     | _ \<Rightarrow> panic ''runtime error: index out of range'')"

text \<open>Eleven tries; a taken port of a range leads to another try at once, port 0 after a nanosecond.\<close>

fun portLoop :: "('w, 'k) qemu_env \<Rightarrow> int \<Rightarrow> int \<Rightarrow> nat \<Rightarrow> ('w, int) io" where
  "portLoop Q minPort maxPort 0 = throw (ErrorString ''unable to allocate tcp port'')"
| "portLoop Q minPort maxPort (Suc k) =
     (let use = (\<lambda>addr. bindP (portOf addr) (\<lambda>p. if p \<noteq> 0 then ret p
                   else bindP (modifyW (qe_sleep Q 0)) (\<lambda>_. portLoop Q minPort maxPort k)))
      in if minPort = 0 \<and> maxPort = 65535 then bindP (listenOn Q ''127.0.0.1:0'') use
         else bindP (getRandomPortNumberInRange Q minPort maxPort) (\<lambda>port.
              bindP (tryP (listenOn Q (''127.0.0.1:'' @ Itoa port))) (\<lambda>r. case r of
                Inl _ \<Rightarrow> portLoop Q minPort maxPort k
              | Inr addr \<Rightarrow> use addr)))"

definition getAvailableTCPPortFromRange :: "('w, 'k) qemu_env \<Rightarrow> int \<Rightarrow> int \<Rightarrow> ('w, int) io" where
  "getAvailableTCPPortFromRange Q minPort maxPort = portLoop Q minPort maxPort 11"

text \<open>Fields are set also when there is an error, to 0.\<close>

definition storePort :: "('w, qemuDriver) lens \<Rightarrow> (int \<Rightarrow> qemuDriver \<Rightarrow> qemuDriver) \<Rightarrow> ('w, int) io \<Rightarrow> ('w, int) io" where
  "storePort L f m = bindP (tryP m) (\<lambda>r. case r of
       Inl e \<Rightarrow> bindP (updater L (\<lambda>d. ((), f 0 d))) (\<lambda>_. throw e)
     | Inr p \<Rightarrow> bindP (updater L (\<lambda>d. ((), f p d))) (\<lambda>_. ret p))"

definition setQemuSSHPort :: "int \<Rightarrow> qemuDriver \<Rightarrow> qemuDriver" where
  "setQemuSSHPort p d = d\<lparr>qm_Base := (qm_Base d)\<lparr>SSHPort := p\<rparr>\<rparr>"

definition setEnginePort :: "int \<Rightarrow> qemuDriver \<Rightarrow> qemuDriver" where
  "setEnginePort p d = d\<lparr>qm_EnginePort := p\<rparr>"

text \<open>The second port is drawn until it differs from the first, without a bound.\<close>

definition enginePortWait :: "('w, 'k) qemu_env \<Rightarrow> ('w, qemuDriver) lens \<Rightarrow> int \<Rightarrow> int \<Rightarrow> int \<Rightarrow> ('w, int) io" where
  "enginePortWait Q L minPort maxPort sshPort = (\<lambda>w.
     let draw = storePort L setEnginePort (getAvailableTCPPortFromRange Q minPort maxPort)
     in case while_option (\<lambda>(r, v). r = Ok sshPort) (\<lambda>(r, v). draw v) (draw w) of None \<Rightarrow> (Blocked, w) | Some p \<Rightarrow> p)"

definition allocatePorts :: "('w, 'k) qemu_env \<Rightarrow> ('w, qemuDriver) lens \<Rightarrow> ('w, unit) io" where
  "allocatePorts Q L =
     bindP (reader L qm_LocalPorts) (\<lambda>ports.
     bindP (parsePortRange ports) (\<lambda>(minPort, maxPort).
     bindP (storePort L setQemuSSHPort (getAvailableTCPPortFromRange Q minPort maxPort)) (\<lambda>sshPort.
     bindP (enginePortWait Q L minPort maxPort sshPort) (\<lambda>_. ret ()))))"

section \<open>Running a machine\<close>

text \<open>\<open>err.(*exec.Error)\<close> is never the sentinel \<open>exec.ErrNotFound\<close> itself, so an error of the run is returned as it is.\<close>

definition cmdOutErr :: "('w, 'k) qemu_env \<Rightarrow> string \<Rightarrow> string list \<Rightarrow> ('w, unit) io" where
  "cmdOutErr Q cmdStr args =
     bindP (runOutErr Q cmdStr args) (\<lambda>(out, stderrStr, err). case err of
         Some e \<Rightarrow> throw e
       | None \<Rightarrow> if Contains stderrStr ''error:'' then throw (ErrorString (cmdStr @ '' '' @ Join args '' '' @ '' failed: '' @ stderrStr)) else ret ())"

definition displayArgs :: "qemuDriver \<Rightarrow> string list" where
  "displayArgs d = (if qm_Display d then (if qm_DisplayType d \<noteq> [] then [''-display'', qm_DisplayType d] else [])
     else if qm_Nographic d then [''-nographic''] else [''-display'', ''none''])"

text \<open>An unknown network is only logged.\<close>

definition networkArgs :: "qemuDriver \<Rightarrow> string list" where
  "networkArgs d =
     (let fwd = ''hostfwd=tcp::'' @ Itoa (SSHPort (qm_Base d)) @ ''-:22,hostname='' @ MachineName (qm_Base d)
      in if qm_NetVlan d then
           (if qm_Network d = ''user'' then [''-net'', ''nic,vlan=0,model=virtio'', ''-net'', ''user,vlan=0,'' @ fwd]
            else if qm_Network d = ''tap'' then [''-net'', ''nic,vlan=0,model=virtio'', ''-net'',
                   ''tap,vlan=0,ifname='' @ qm_NetworkInterface d @ '',script=no,downscript=no'']
            else if qm_Network d = ''bridge'' then [''-net'', ''nic,vlan=0,model=virtio'', ''-net'', ''bridge,vlan=0,br='' @ qm_NetworkBridge d]
            else [])
         else
           (if qm_Network d = ''user'' then [''-device'', ''virtio-net,netdev=n0'', ''-netdev'', ''user,id=n0,'' @ fwd]
            else if qm_Network d = ''tap'' then [''-device'', ''virtio-net,netdev=n0'', ''-netdev'',
                   ''tap,id=n0,ifname='' @ qm_NetworkInterface d @ '',script=no,downscript=no'']
            else if qm_Network d = ''bridge'' then [''-device'', ''virtio-net,netdev=n0'', ''-netdev'', ''bridge,id=n0,br='' @ qm_NetworkBridge d]
            else []))"

definition startArgs :: "qemuDriver \<Rightarrow> bool \<Rightarrow> string list" where
  "startArgs d kvm =
     (let isoPath = qemu_file d defaultISOFilename
      in displayArgs d @
         [''-m'', Itoa (qm_Memory d), ''-smp'', Itoa (qm_CPU d), ''-boot'', ''d''] @
         (if qm_VirtioDrives d then [''-drive'', ''file='' @ isoPath @ '',index=2,media=cdrom,if=virtio''] else [''-cdrom'', isoPath]) @
         [''-qmp'', ''unix:'' @ monitorPath d @ '',server,nowait'', ''-pidfile'', pidfilePath d] @
         networkArgs d @
         [''-daemonize''] @
         (if qm_HVF d then [''-accel'', ''hvf'', ''-cpu'', ''host''] else []) @
         (if kvm then [''-enable-kvm''] else []) @
         (if qm_CloudConfigRoot d \<noteq> [] then [''-fsdev'', ''local,security_model=passthrough,readonly,id=fsdev0,path='' @ qm_CloudConfigRoot d,
            ''-device'', ''virtio-9p-pci,id=fs0,fsdev=fsdev0,mount_tag=config-2''] else []) @
         (if qm_VirtioDrives d then [''-drive'', ''file='' @ qemu_diskPath d @ '',index=0,media=disk,if=virtio''] else [qemu_diskPath d]))"

text \<open>
  One try to read a byte from the port.  A connection that cannot be dialled is tried again at once, one that answers
  nothing after the delay; every connection stays open until the function returns, which the model leaves out.
\<close>

definition tcpProbe :: "('w, 'k) qemu_env \<Rightarrow> string \<Rightarrow> nat \<Rightarrow> ('w, bool) io" where
  "tcpProbe Q addr duration =
     bindP (tryP (connDial Q ''tcp'' addr)) (\<lambda>r. case r of
         Inl _ \<Rightarrow> ret False
       | Inr conn \<Rightarrow> bindP (tryP (connRead Q conn 1)) (\<lambda>b. case b of
           Inl _ \<Rightarrow> bindP (modifyW (qe_sleep Q duration)) (\<lambda>_. ret False)
         | Inr _ \<Rightarrow> ret True))"

definition WaitForTCPWithDelay :: "('w, 'k) qemu_env \<Rightarrow> string \<Rightarrow> nat \<Rightarrow> ('w, unit) io" where
  "WaitForTCPWithDelay Q addr duration = (\<lambda>w.
     case while_option (\<lambda>(r, v). r = Ok False) (\<lambda>(r, v). tcpProbe Q addr duration v) (tcpProbe Q addr duration w) of
       None \<Rightarrow> (Blocked, w)
     | Some (r, v) \<Rightarrow> (case r of Ok _ \<Rightarrow> (Ok (), v) | Err e \<Rightarrow> (Err e, v) | Panic s \<Rightarrow> (Panic s, v) | Blocked \<Rightarrow> (Blocked, v)))"

definition qemu_Start :: "('v os_world_scheme, 'k) qemu_env \<Rightarrow> ('v os_world_scheme, qemuDriver) lens \<Rightarrow> ('v os_world_scheme, unit) io" where
  "qemu_Start Q L =
     bindP (reader L (\<lambda>d. d)) (\<lambda>d.
     bindP (tryP (osStat ''/dev/kvm'')) (\<lambda>kvm.
     bindP (cmdOutErr Q (qm_Program d) (startArgs d (\<not> isl kvm))) (\<lambda>_.
     bindP (qemu_GetSSHUsername L) (\<lambda>_.
     WaitForTCPWithDelay Q (''localhost:'' @ Itoa (SSHPort (qm_Base d))) 1000))))"

definition qemu_Stop :: "('w, 'k) qemu_env \<Rightarrow> ('w, qemuDriver) lens \<Rightarrow> ('w, unit) io" where
  "qemu_Stop Q L = bindP (RunQMPCommand Q L ''system_powerdown'') (\<lambda>_. ret ())"

definition qemu_Kill :: "('w, 'k) qemu_env \<Rightarrow> ('w, qemuDriver) lens \<Rightarrow> ('w, unit) io" where
  "qemu_Kill Q L = bindP (RunQMPCommand Q L ''system_powerdown'') (\<lambda>_. ret ())"

definition qemu_Remove :: "('v os_world_scheme, 'k) qemu_env \<Rightarrow> ('v os_world_scheme, qemuDriver) lens \<Rightarrow> ('v os_world_scheme, unit) io" where
  "qemu_Remove Q L =
     bindP (orErr (qemu_GetState Q L)) (\<lambda>s.
     bindP (if s = Running then qemu_Kill Q L else ret ()) (\<lambda>_.
       if s \<noteq> Stopped then bindP (RunQMPCommand Q L ''quit'') (\<lambda>_. ret ()) else ret ()))"

definition qemu_Restart :: "('v os_world_scheme, 'k) qemu_env \<Rightarrow> ('v os_world_scheme, qemuDriver) lens \<Rightarrow> ('v os_world_scheme, unit) io" where
  "qemu_Restart Q L =
     bindP (orErr (qemu_GetState Q L)) (\<lambda>s.
     bindP (if s = Running then qemu_Stop Q L else ret ()) (\<lambda>_. qemu_Start Q L))"

section \<open>Creating a machine\<close>

text \<open>When the raw image cannot be written, the function returns without an error and without a disk.\<close>

definition generateDiskImage :: "('v os_world_scheme, 'k) qemu_env \<Rightarrow> qemuDriver \<Rightarrow> int \<Rightarrow> ('v os_world_scheme, unit) io" where
  "generateDiskImage Q d mb =
     bindP (readFile (qemu_publicSSHKeyPath d)) (\<lambda>pubKey.
     let image = tarStream Q [TarFile magicString 0 magicString, TarDir ''.ssh'' 448, TarFile ''.ssh/authorized_keys'' 420 pubKey,
           TarFile ''.ssh/authorized_keys2'' 420 pubKey];
         rawFile = qemu_diskPath d @ ''.raw''
     in bindP (tryP (writeFile rawFile image 420)) (\<lambda>r. case r of
          Inl _ \<Rightarrow> ret ()
        | Inr _ \<Rightarrow>
            bindP (cmdOutErr Q ''qemu-img'' [''convert'', ''-f'', ''raw'', ''-O'', ''qcow2'', rawFile, qemu_diskPath d]) (\<lambda>_.
            cmdOutErr Q ''qemu-img'' [''resize'', qemu_diskPath d, ''+'' @ Itoa mb @ ''M''])))"

definition qemu_Create :: "('v os_world_scheme, 'k) qemu_env \<Rightarrow> ('v os_world_scheme, qemuDriver) lens \<Rightarrow> ('v os_world_scheme, unit) io" where
  "qemu_Create Q L =
     bindP (reader L (\<lambda>d. d)) (\<lambda>d.
     bindP (if qm_Network d = ''user'' then allocatePorts Q L else ret ()) (\<lambda>_.
     bindP (CopyIsoToMachineDir (qe_b2p Q) (NewB2pUtils (StorePath (qm_Base d))) (qm_Boot2PodmanURL d) (MachineName (qm_Base d))) (\<lambda>_.
     bindP (GenerateSSHKey (qe_pem Q) (qe_os Q) (qe_keys Q) (qemu_sshKeyPath d)) (\<lambda>_.
     bindP (generateDiskImage Q d (qm_DiskSize d)) (\<lambda>_.
     qemu_Start Q L)))))"

definition QemuDriver :: "('v os_world_scheme, 'k) qemu_env \<Rightarrow> ('v os_world_scheme, qemuDriver) lens \<Rightarrow> 'v os_world_scheme driver" where
  "QemuDriver Q L = \<lparr>
     GetMachineName = GetMachineName (qemu_hostInfo L),
     GetSSHHostname = GetSSHHostname (qemu_hostInfo L),
     GetSSHPort = GetSSHPort (qemu_hostInfo L),
     GetSSHUsername = GetSSHUsername (qemu_hostInfo L),
     GetSSHKeyPath = GetSSHKeyPath (qemu_hostInfo L),
     Create = qemu_Create Q L,
     DriverName = ret ''qemu'',
     GetCreateFlags = ret qemu_GetCreateFlags,
     GetIP = qemu_GetIP L,
     GetURL = qemu_GetURL L,
     GetState = qemu_GetState Q L,
     Kill = qemu_Kill Q L,
     PreCreateCheck = ret (),
     Remove = qemu_Remove Q L,
     Restart = qemu_Restart Q L,
     SetConfigFromFlags = qemu_SetConfigFromFlags L,
     Start = qemu_Start Q L,
     Stop = qemu_Stop Q L\<rparr>"

section \<open>Lemmas\<close>

text \<open>Steps that leave the struct of the driver alone.\<close>

definition keeps :: "('w, 's) lens \<Rightarrow> ('w, 'a) io \<Rightarrow> bool" where
  "keeps L m \<longleftrightarrow> (\<forall>w. lget L (snd (m w)) = lget L w)"

named_theorems keeps_intro

lemma keeps_basic [keeps_intro]: "keeps L (ret x)" "keeps L (throw e)" "keeps L (panic s)" "keeps L (reader L f)"
  by (simp_all add: keeps_def ret_def throw_def panic_def reader_def)

lemma keeps_bindP [keeps_intro]: "keeps L m \<Longrightarrow> (\<And>x. keeps L (f x)) \<Longrightarrow> keeps L (bindP m f)"
  unfolding keeps_def bindP_def by (auto split: prod.splits result.splits) (metis snd_conv)+

lemma keeps_tryP [keeps_intro]: "keeps L m \<Longrightarrow> keeps L (tryP m)"
  unfolding keeps_def tryP_def by (auto split: prod.splits result.splits) (metis snd_conv)+

lemma keepsD: "keeps L m \<Longrightarrow> m w = (r, w') \<Longrightarrow> lget L w' = lget L w"
  by (metis keeps_def snd_conv)

text \<open>What the driver relies on of the ports of the host: a random number below its bound, the address that was asked for,
  and nothing that reaches into the driver.\<close>

definition hostPorts :: "('w, 'k) qemu_env \<Rightarrow> ('w, qemuDriver) lens \<Rightarrow> bool" where
  "hostPorts Q L \<longleftrightarrow>
     (\<forall>n w r w'. intn Q n w = (Ok r, w') \<longrightarrow> r < n) \<and>
     (\<forall>p w addr w'. p \<noteq> 0 \<longrightarrow> listenOn Q (''127.0.0.1:'' @ Itoa p) w = (Ok addr, w') \<longrightarrow> addr = ''127.0.0.1:'' @ Itoa p) \<and>
     (\<forall>n. keeps L (intn Q n)) \<and> (\<forall>a. keeps L (listenOn Q a)) \<and> (\<forall>ms w. lget L (qe_sleep Q ms w) = lget L w)"

lemma portOf_keeps [keeps_intro]: "keeps L (portOf a)"
  unfolding portOf_def by (auto intro!: keeps_intro split: list.splits option.splits)

lemma portLoop_keeps: "hostPorts Q L \<Longrightarrow> keeps L (portLoop Q lo hi k)"
proof (induction k)
  case (Suc k)
  have s: "keeps L (modifyW (qe_sleep Q ms))" for ms using Suc.prems by (simp add: keeps_def modifyW_def hostPorts_def)
  have "keeps L (getRandomPortNumberInRange Q lo hi)" using Suc.prems
    unfolding getRandomPortNumberInRange_def by (auto intro!: keeps_intro simp: hostPorts_def)
  then show ?case using Suc s
    by (auto simp: Let_def hostPorts_def intro!: keeps_intro split: sum.splits)
qed (simp add: keeps_intro)

lemma portOf_Itoa: "inInt64 p \<Longrightarrow> portOf (''127.0.0.1:'' @ Itoa p) w = (Ok p, w)"
proof -
  have "SplitN2 (''127.0.0.1'' @ CHR '':'' # Itoa p) '':'' = [''127.0.0.1'', Itoa p]" by (rule SplitN2_single) simp
  then show "inInt64 p \<Longrightarrow> ?thesis" by (simp add: portOf_def Atoi_Itoa ret_def)
qed

lemma portLoop_range:
  assumes "hostPorts Q L" and "0 < lo" and "inInt64 lo" and "inInt64 hi" and "portLoop Q lo hi k w = (Ok p, w')"
  shows "lo \<le> p \<and> p < hi"
  using assms(5)
proof (induction k arbitrary: w)
  case (Suc k)
  have r: "lo \<le> q \<and> q < hi" if "getRandomPortNumberInRange Q lo hi v = (Ok q, v')" for q v v'
  proof -
    from that obtain n where n: "intn Q (nat (hi - lo)) v = (Ok n, v')" "q = int n + lo"
      by (auto simp: getRandomPortNumberInRange_def panic_def ret_def elim!: bindP_OkE split: if_splits)
    have "n < nat (hi - lo)" using assms(1) n(1) unfolding hostPorts_def by blast
    then show ?thesis using n(2) by linarith
  qed
  from Suc.prems assms(2) obtain q w1 s w2 where q: "getRandomPortNumberInRange Q lo hi w = (Ok q, w1)"
    and l: "tryP (listenOn Q (''127.0.0.1:'' @ Itoa q)) w1 = (Ok s, w2)"
    and next_: "(case s of Inl _ \<Rightarrow> portLoop Q lo hi k | Inr addr \<Rightarrow> bindP (portOf addr) (\<lambda>p. if p \<noteq> 0 then ret p
                   else bindP (modifyW (qe_sleep Q 0)) (\<lambda>_. portLoop Q lo hi k))) w2 = (Ok p, w')"
    by (auto simp: Let_def simp del: append.simps elim!: bindP_OkE)
  note range = r [OF q]
  show ?case
  proof (cases s)
    case (Inl e)
    then show ?thesis using next_ Suc.IH by simp
  next
    case (Inr addr)
    then have "listenOn Q (''127.0.0.1:'' @ Itoa q) w1 = (Ok addr, w2)"
      using l by (auto simp: tryP_def split: prod.splits result.splits)
    then have addr: "addr = ''127.0.0.1:'' @ Itoa q" using assms(1,2) range unfolding hostPorts_def by (metis less_le_not_le)
    have "inInt64 q" using range assms(3,4) by (simp add: inInt64_def)
    then have "portOf addr w2 = (Ok q, w2)" unfolding addr by (rule portOf_Itoa)
    then show ?thesis using next_ Inr range assms(2) by (auto simp: bindP_def ret_def split: if_splits)
  qed
qed (simp add: throw_def)

text \<open>A port that was drawn is the one that is stored.\<close>

lemma storePort_Ok:
  assumes "lens_laws L" and "keeps L m" and "storePort L f m w = (Ok p, w')"
  shows "lget L w' = f p (lget L w) \<and> (\<exists>v. m w = (Ok p, v))"
proof -
  from assms(3) obtain r w1 where m: "tryP m w = (Ok r, w1)"
    and u: "(case r of Inl e \<Rightarrow> bindP (updater L (\<lambda>d. ((), f 0 d))) (\<lambda>_. throw e)
       | Inr p \<Rightarrow> bindP (updater L (\<lambda>d. ((), f p d))) (\<lambda>_. ret p)) w1 = (Ok p, w')"
    unfolding storePort_def by (elim bindP_OkE)
  from u obtain q where "r = Inr q" by (cases r) (auto simp: throw_def elim!: bindP_OkE)
  moreover have "lget L w1 = lget L w" using keepsD [OF keeps_tryP [OF assms(2)] m] .
  ultimately show ?thesis
    using u m by (auto simp: updater_def bindP_def ret_def tryP_def lens_laws.get_put [OF assms(1)] split: prod.splits result.splits)
qed

lemma enginePortWait_Ok:
  assumes L: "lens_laws L" and Q: "hostPorts Q L" and run: "enginePortWait Q L lo hi sshPort w = (Ok p, w')"
  shows "p \<noteq> sshPort \<and> qm_EnginePort (lget L w') = p \<and> qm_Base (lget L w') = qm_Base (lget L w) \<and>
    (\<exists>v v'. getAvailableTCPPortFromRange Q lo hi v = (Ok p, v'))"
proof -
  let ?draw = "storePort L setEnginePort (getAvailableTCPPortFromRange Q lo hi)"
  let ?ok = "\<lambda>(r :: (gerror, int) result, v). \<forall>q. r = Ok q \<longrightarrow> qm_EnginePort (lget L v) = q \<and> qm_Base (lget L v) = qm_Base (lget L w) \<and>
      (\<exists>u u'. getAvailableTCPPortFromRange Q lo hi u = (Ok q, u'))"
  have k: "keeps L (getAvailableTCPPortFromRange Q lo hi)" unfolding getAvailableTCPPortFromRange_def using Q by (rule portLoop_keeps)
  have draw: "?ok (?draw v)" if "qm_Base (lget L v) = qm_Base (lget L w)" for v
    using that storePort_Ok [OF L k, of setEnginePort v] by (cases "?draw v") (auto simp: setEnginePort_def; blast)
  from run have while: "while_option (\<lambda>(r, v). r = Ok sshPort) (\<lambda>(r, v). ?draw v) (?draw w) = Some (Ok p, w')"
    by (auto simp: enginePortWait_def Let_def split: option.splits)
  have "?ok (Ok p, w')"
  proof (rule while_option_rule [where P = ?ok, OF _ while])
    fix s assume "?ok s" and "case s of (r, v) \<Rightarrow> r = Ok sshPort"
    then have "qm_Base (lget L (snd s)) = qm_Base (lget L w)" by (cases s) simp
    from draw [OF this] show "?ok (case s of (r, v) \<Rightarrow> ?draw v)" by (cases s) simp
  qed (rule draw, rule refl)
  moreover have "p \<noteq> sshPort" using while_option_stop [OF while] by simp
  ultimately show ?thesis by simp
qed

lemma parsePortRange_Ok:
  assumes "parsePortRange s w = (Ok (lo, hi), w')"
  shows "w' = w \<and> lo + 2 \<le> hi \<and> inInt64 lo \<and> inInt64 hi"
  using assms unfolding parsePortRange_def
  by (auto simp: Let_def ret_def throw_def panic_def inInt64_def maxInt64_def minInt64_def Atoi_def split: if_splits option.splits)

section \<open>Properties\<close>


definition qemuL :: "(qemuDriver \<times> 's, qemuDriver) lens" where
  "qemuL = \<lparr>lget = fst, lput = (\<lambda>d w. (d, snd w))\<rparr>"

interpretation qemuLens: lens_laws qemuL
  by unfold_locales (simp_all add: qemuL_def)

text \<open>Numbers that count up, and ports that are all free.\<close>

definition demoQemu :: "(qemuDriver \<times> nat, unit) qemu_env" where
  "demoQemu = \<lparr>qe_b2p = demoB2p, qe_os = ''linux'', qe_pem = (\<lambda>s. s), qe_keys = ret \<lparr>PrivateKey = ''p'', PublicKey = ''q''\<rparr>,
     intn = (\<lambda>n (d, k). if n = 0 then (Panic [], (d, k)) else (Ok (k div 2 mod n), (d, Suc k))), listenOn = (\<lambda>a. ret a), signalPid = (\<lambda>p. ret ()),
     runOutErr = (\<lambda>c a. ret ([], [], None)), connDial = (\<lambda>n a. ret ()), connRead = (\<lambda>c n. ret []), connWrite = (\<lambda>c s. ret ()),
     connClose = (\<lambda>c w. w), decodeReturn = (\<lambda>s m. Inr []), showMap = (\<lambda>m. []), tarStream = (\<lambda>t. []), qe_sleep = (\<lambda>ms w. w)\<rparr>"

lemma demoQemu_port:
  "getAvailableTCPPortFromRange demoQemu 5000 5002 (d, k) = (Ok (5000 + int (k div 2 mod 2)), (d, Suc k))"
proof -
  let ?p = "5000 + int (k div 2 mod 2)"
  have r: "getRandomPortNumberInRange demoQemu 5000 5002 (d, k) = (Ok ?p, (d, Suc k))"
    by (simp add: getRandomPortNumberInRange_def demoQemu_def bindP_def ret_def)
  have l: "tryP (listenOn demoQemu a) w = (Ok (Inr a), w)" for a w by (simp add: demoQemu_def tryP_def ret_def)
  have "inInt64 ?p" by (simp add: inInt64_def maxInt64_def minInt64_def)
  note p = portOf_Itoa [OF this]
  have "portLoop demoQemu 5000 5002 (Suc 10) (d, k) = (Ok ?p, (d, Suc k))"
    unfolding portLoop.simps(2) Let_def
    by (simp only: if_False simp_thms zero_neq_numeral numeral_eq_iff num.distinct num.inject,
        subst bindP_Ok, rule r, subst bindP_Ok, rule l, simp only: sum.case, subst bindP_Ok, rule p) (simp add: ret_def)
  then show ?thesis by (simp add: getAvailableTCPPortFromRange_def)
qed


text \<open>the pid file of a QEMU process that is gone does not make a machine look alive: its state is \<open>Stopped\<close>, and the
  file is removed, so that asking again gives the same answer without looking for the process.\<close>

theorem qemu_GetState_stale_pid:
  assumes "faults w = []" and "lookupFs w (pidfilePath (lget L w)) = Some (File m s)" and "Atoi (TrimSpace s) = Some pid"
    and "signalPid Q pid w = (Err e, w)" and "\<And>v. lget L (w\<lparr>fs := v\<rparr>) = lget L w"
  shows "qemu_GetState Q L w = (Ok (Stopped, None), delNode (pidfilePath (lget L w)) w) \<and>
         qemu_GetState Q' L (delNode (pidfilePath (lget L w)) w) = (Ok (Stopped, None), delNode (pidfilePath (lget L w)) w)"
proof -
  have l: "lget L (delNode p w) = lget L w" for p using assms(5) by (simp add: delNode_def)
  have f: "faults (delNode p w) = []" "lookupFs (delNode p w) p = None" for p
    using assms(1) by (simp_all add: delNode_def lookupFs_def delete_conv')
  show ?thesis using assms(1-4) f l
    by (simp add: qemu_GetState_def reader_def osStat_def readFile_def osRemove_def osCall_def bindP_def tryP_def valOk_def ret_def)
qed

definition qemuMoreL :: "(qemuDriver os_world_scheme, qemuDriver) lens" where
  "qemuMoreL = moreL"

definition idleQemu :: "(qemuDriver os_world_scheme, unit) qemu_env" where
  "idleQemu = \<lparr>qe_b2p = demoB2p, qe_os = ''linux'', qe_pem = (\<lambda>s. s), qe_keys = ret \<lparr>PrivateKey = ''p'', PublicKey = ''q''\<rparr>,
     intn = (\<lambda>n. ret 0), listenOn = (\<lambda>a. ret a), signalPid = (\<lambda>p. throw (OsErr ''os: process already finished'')),
     runOutErr = (\<lambda>c a. ret ([], [], None)), connDial = (\<lambda>n a. ret ()), connRead = (\<lambda>c n. ret []), connWrite = (\<lambda>c s. ret ()),
     connClose = (\<lambda>c w. w), decodeReturn = (\<lambda>s m. Inr []), showMap = (\<lambda>m. []), tarStream = (\<lambda>t. []), qe_sleep = (\<lambda>ms w. w)\<rparr>"

theorem qemu_GetState_stale_pid_witness:
  "qemu_GetState idleQemu qemuMoreL (plainWorld [(''/s/machines/m/qemu.pid'', File 420 (''4711'' @ nl))] (qemu_NewDriver ''m'' ''/s'')) =
     (Ok (Stopped, None), plainWorld [] (qemu_NewDriver ''m'' ''/s''))"
proof -
  let ?w = "plainWorld [(''/s/machines/m/qemu.pid'', File 420 (''4711'' @ nl))] (qemu_NewDriver ''m'' ''/s'')"
  have "faults ?w = []" by code_simp
  moreover have "lookupFs ?w (pidfilePath (lget qemuMoreL ?w)) = Some (File 420 (''4711'' @ nl))" by code_simp
  moreover have "Atoi (TrimSpace (''4711'' @ nl)) = Some 4711" by code_simp
  moreover have "signalPid idleQemu 4711 ?w = (Err (OsErr ''os: process already finished''), ?w)" by code_simp
  moreover have "lget qemuMoreL (?w\<lparr>fs := v\<rparr>) = lget qemuMoreL ?w" for v by (simp add: qemuMoreL_def moreL_def)
  ultimately have "qemu_GetState idleQemu qemuMoreL ?w = (Ok (Stopped, None), delNode (pidfilePath (lget qemuMoreL ?w)) ?w)"
    using qemu_GetState_stale_pid [of ?w qemuMoreL 420 "''4711'' @ nl" 4711 idleQemu] by blast
  also have "delNode (pidfilePath (lget qemuMoreL ?w)) ?w = plainWorld [] (qemu_NewDriver ''m'' ''/s'')" by code_simp
  finally show ?thesis .
qed



text \<open>A raw image that cannot be written is reported as success, and no disk is made.\<close>

theorem generateDiskImage_swallows:
  assumes "readFile (qemu_publicSSHKeyPath d) w = (Ok key, w1)"
    and "\<And>image. writeFile (qemu_diskPath d @ ''.raw'') image 420 w1 = (Err e, w2)"
  shows "generateDiskImage Q d mb w = (Ok (), w2)"
  using assms by (simp add: generateDiskImage_def bindP_def tryP_def ret_def Let_def del: append.simps)

text \<open>\<open>Kill\<close> asks for the same orderly shutdown as \<open>Stop\<close>.\<close>

theorem qemu_Kill_not_forced: "qemu_Kill Q L = qemu_Stop Q L"
  by (simp add: qemu_Kill_def qemu_Stop_def)

end
