(* ===== verification/Cert_Tls.thy ===== *)
theory Cert_Tls
  imports Cert
begin

text \<open>
  The part of \<open>libmachine/cert/cert.go\<close> that checks the certificate of a running machine: the configuration of TLS that is read
  from the files of the client, and the connection that is made with it.  The package \<open>crypto/tls\<close> is a parameter: reading PEM
  text, pairing a certificate with its key, and the handshake.  The result of the handshake is a connection of a type that the
  model does not fix.
\<close>

section \<open>The configuration\<close>

text \<open>The fields of \<open>tls.Config\<close> that the program sets; a nil pool stands for the authorities of the system.\<close>

record 'k tlsConfig =
  InsecureSkipVerify :: bool
  RootCAs :: "string list option"
  Certificates :: "'k list"

record ('w, 'k, 'c) tls_env =
  certsInPEM :: "string \<Rightarrow> string list"
  x509KeyPair :: "string \<Rightarrow> string \<Rightarrow> gerror + 'k"
  dialTLS :: "nat \<Rightarrow> string \<Rightarrow> string \<Rightarrow> 'k tlsConfig \<Rightarrow> ('w, 'c) io"

definition zeroTLSConfig :: "'k tlsConfig" where
  "zeroTLSConfig = \<lparr>InsecureSkipVerify = False, RootCAs = None, Certificates = []\<rparr>"

text \<open>\<open>AppendCertsFromPEM\<close> is true when it has added a certificate.  The errors of Go come with the half-made configuration, which no
  caller looks at.\<close>

definition getTLSConfig :: "('w, 'k, 'c) tls_env \<Rightarrow> string \<Rightarrow> string \<Rightarrow> string \<Rightarrow> bool \<Rightarrow> gerror + 'k tlsConfig" where
  "getTLSConfig T caCert cert key allowInsecure =
     (let tlsConfig = zeroTLSConfig\<lparr>InsecureSkipVerify := allowInsecure\<rparr>; certPool = certsInPEM T caCert
      in if certPool = [] then Inl (ErrorString ''There was an error reading certificate'')
         else let tlsConfig = tlsConfig\<lparr>RootCAs := Some certPool\<rparr>
              in case x509KeyPair T cert key of
                   Inl err \<Rightarrow> Inl err
                 | Inr keypair \<Rightarrow> Inr (tlsConfig\<lparr>Certificates := [keypair]\<rparr>))"

definition ReadTLSConfig ::
  "('v os_world_scheme, 'k, 'c) tls_env \<Rightarrow> string \<Rightarrow> authOptions \<Rightarrow> ('v os_world_scheme, 'k tlsConfig) io" where
  "ReadTLSConfig T addr auth =
     bindP (readFile (CaCertPath auth)) (\<lambda>caCert.
     bindP (readFile (ClientCertPath auth)) (\<lambda>clientCert.
     bindP (readFile (ClientKeyPath auth)) (\<lambda>clientKey.
       case getTLSConfig T caCert clientCert clientKey False of
         Inl err \<Rightarrow> throw err
       | Inr tlsConfig \<Rightarrow> ret tlsConfig)))"

text \<open>The connection is dropped without being closed.\<close>

definition ValidateCertificate ::
  "('v os_world_scheme, 'k, 'c) tls_env \<Rightarrow> string \<Rightarrow> authOptions \<Rightarrow> ('v os_world_scheme, bool) io" where
  "ValidateCertificate T addr auth =
     bindP (ReadTLSConfig T addr auth) (\<lambda>tlsConfig.
     bindP (dialTLS T 20 ''tcp'' addr tlsConfig) (\<lambda>_. ret True))"

section \<open>Lemmas\<close>

lemma getTLSConfig_Inr:
  "getTLSConfig T ca cert key ins = Inr cfg \<longleftrightarrow>
     (\<exists>kp. certsInPEM T ca \<noteq> [] \<and> x509KeyPair T cert key = Inr kp \<and>
           cfg = \<lparr>InsecureSkipVerify = ins, RootCAs = Some (certsInPEM T ca), Certificates = [kp]\<rparr>)"
  by (auto simp: getTLSConfig_def zeroTLSConfig_def Let_def split: sum.splits)

lemma ReadTLSConfig_Ok:
  assumes "ReadTLSConfig T addr auth w = (Ok cfg, w')"
  shows "lookupFs w' = lookupFs w \<and> (\<exists>m1 m2 m3 ca cert key kp. lookupFs w (CaCertPath auth) = Some (File m1 ca) \<and>
    lookupFs w (ClientCertPath auth) = Some (File m2 cert) \<and> lookupFs w (ClientKeyPath auth) = Some (File m3 key) \<and>
    certsInPEM T ca \<noteq> [] \<and> x509KeyPair T cert key = Inr kp \<and>
    cfg = \<lparr>InsecureSkipVerify = False, RootCAs = Some (certsInPEM T ca), Certificates = [kp]\<rparr>)"
proof -
  from assms obtain ca w1 cert w2 key w3 where 1: "readFile (CaCertPath auth) w = (Ok ca, w1)"
    and 2: "readFile (ClientCertPath auth) w1 = (Ok cert, w2)" and 3: "readFile (ClientKeyPath auth) w2 = (Ok key, w3)"
    and c: "(case getTLSConfig T ca cert key False of Inl err \<Rightarrow> throw err | Inr tlsConfig \<Rightarrow> ret tlsConfig) w3 = (Ok cfg, w')"
    unfolding ReadTLSConfig_def by (auto elim!: bindP_OkE)
  from c have "getTLSConfig T ca cert key False = Inr cfg" and "w' = w3"
    by (auto simp: throw_def ret_def split: sum.splits)
  then show ?thesis
    using readFile_Ok [OF 1] readFile_Ok [OF 2] readFile_Ok [OF 3] by (auto simp: getTLSConfig_Inr)
qed

text \<open>C34: the certificate of a machine is reported as valid only after a handshake with the address of the machine that was
  verified against the authority in \<open>CaCertPath\<close> and made with the key pair of the client.  The answer is never \<open>false\<close> without an
  error, and what the call leaves behind is exactly what the handshake left: the connection stays open.\<close>

theorem ValidateCertificate_verifies:
  assumes "ValidateCertificate T addr auth w = (Ok b, w')"
  shows "b \<and> (\<exists>m1 m2 m3 ca cert key kp w1 conn. lookupFs w (CaCertPath auth) = Some (File m1 ca) \<and>
    lookupFs w (ClientCertPath auth) = Some (File m2 cert) \<and> lookupFs w (ClientKeyPath auth) = Some (File m3 key) \<and>
    certsInPEM T ca \<noteq> [] \<and> x509KeyPair T cert key = Inr kp \<and> lookupFs w1 = lookupFs w \<and>
    dialTLS T 20 ''tcp'' addr \<lparr>InsecureSkipVerify = False, RootCAs = Some (certsInPEM T ca), Certificates = [kp]\<rparr> w1 = (Ok conn, w'))"
proof -
  from assms obtain cfg w1 conn where r: "ReadTLSConfig T addr auth w = (Ok cfg, w1)"
    and d: "dialTLS T 20 ''tcp'' addr cfg w1 = (Ok conn, w')" and b: "b"
    unfolding ValidateCertificate_def by (auto simp: ret_def elim!: bindP_OkE)
  show ?thesis using ReadTLSConfig_Ok [OF r] d b by blast
qed

text \<open>A server that accepts the pair of one client and counts its open connections.\<close>

definition demoTLS :: "(nat os_world_scheme, string, nat) tls_env" where
  "demoTLS = \<lparr>certsInPEM = (\<lambda>s. [s]), x509KeyPair = (\<lambda>c k. Inr (c @ k)),
     dialTLS = (\<lambda>t n a cfg w. if \<not> InsecureSkipVerify cfg \<and> RootCAs cfg = Some [''CA''] then (Ok (os_world.more w), os_world.more_update Suc w)
                else (Err (ErrorString ''x509: certificate signed by unknown authority''), w))\<rparr>"

definition demoTLSAuth :: authOptions where
  "demoTLSAuth = zeroAuthOptions\<lparr>CaCertPath := ''/c/ca.pem'', ClientCertPath := ''/c/cert.pem'', ClientKeyPath := ''/c/key.pem''\<rparr>"

definition demoTLSWorld :: "nat os_world_scheme" where
  "demoTLSWorld = \<lparr>fs = [(''/c/ca.pem'', File 420 ''CA''), (''/c/cert.pem'', File 420 ''C''), (''/c/key.pem'', File 384 ''K'')], faults = [],
     environ = [], stdout = [], randoms = [], \<dots> = 0\<rparr>"

theorem ValidateCertificate_verifies_witness:
  "\<exists>w'. ValidateCertificate demoTLS ''10.0.0.1:2376'' demoTLSAuth demoTLSWorld = (Ok True, w') \<and> os_world.more w' = 1 \<and>
     (\<exists>m ca. lookupFs demoTLSWorld ''/c/ca.pem'' = Some (File m ca) \<and> certsInPEM demoTLS ca \<noteq> [])"
proof -
  have "\<exists>w'. ValidateCertificate demoTLS ''10.0.0.1:2376'' demoTLSAuth demoTLSWorld = (Ok True, w') \<and> os_world.more w' = 1"
    by (simp add: ValidateCertificate_def ReadTLSConfig_def getTLSConfig_def zeroTLSConfig_def demoTLS_def demoTLSAuth_def demoTLSWorld_def
        readFile_def lookupFs_def bindP_def ret_def)
  then obtain w' where v: "ValidateCertificate demoTLS ''10.0.0.1:2376'' demoTLSAuth demoTLSWorld = (Ok True, w')" and o: "os_world.more w' = 1"
    by blast
  from ValidateCertificate_verifies [OF v] show ?thesis using v o by (auto simp: demoTLSAuth_def)
qed

end
