(* ===== verification/Ssh_Keys.thy ===== *)
theory Ssh_Keys
  imports Ssh_Client
begin

text \<open>
  The generation of a key pair and its fingerprint (\<open>libmachine/ssh/keys.go\<close>), with the decoder of \<open>encoding/base64\<close> that the
  fingerprint uses.  The RSA generator, the encodings of the keys and MD5 are parameters.
\<close>

section \<open>Generating\<close>

definition ErrKeyGeneration :: gerror where
  "ErrKeyGeneration = ErrorString ''Unable to generate key''"

definition ErrValidation :: gerror where
  "ErrValidation = ErrorString ''Unable to validate key''"

definition ErrPublicKey :: gerror where
  "ErrPublicKey = ErrorString ''Unable to convert public key''"

text \<open>\<open>generateKey\<close> is \<open>rsa.GenerateKey\<close> with a number of bits, \<open>newPublicKey\<close> and \<open>marshalAuthorizedKey\<close> are those of
  \<open>golang.org/x/crypto/ssh\<close>.\<close>

record ('w, 'k, 'p) keygen_env =
  generateKey :: "nat \<Rightarrow> ('w, 'k) io"
  validateKey :: "'k \<Rightarrow> gerror option"
  marshalPKCS1 :: "'k \<Rightarrow> string"
  newPublicKey :: "'k \<Rightarrow> gerror + 'p"
  marshalAuthorizedKey :: "'p \<Rightarrow> string"

definition NewKeyPair :: "('w, 'k, 'p) keygen_env \<Rightarrow> ('w, keyPair) io" where
  "NewKeyPair K =
     bindP (wrapErr (\<lambda>_. ErrKeyGeneration) (generateKey K 2048)) (\<lambda>priv.
       if validateKey K priv \<noteq> None then throw ErrValidation
       else let privDer = marshalPKCS1 K priv
            in case newPublicKey K priv of
                 Inl _ \<Rightarrow> throw ErrPublicKey
               | Inr pubSSH \<Rightarrow> ret \<lparr>PrivateKey = privDer, PublicKey = marshalAuthorizedKey K pubSSH\<rparr>)"

section \<open>The decoder of base64\<close>

text \<open>The values of the standard alphabet.\<close>

definition b64Val :: "char \<Rightarrow> int option" where
  "b64Val c = (let n = of_char c :: int in
     if 65 \<le> n \<and> n \<le> 90 then Some (n - 65)
     else if 97 \<le> n \<and> n \<le> 122 then Some (n - 71)
     else if isDigit c then Some (n + 4)
     else if c = CHR ''+'' then Some 62
     else if c = CHR ''/'' then Some 63 else None)"

definition isLineEnd :: "char \<Rightarrow> bool" where
  "isLineEnd c \<longleftrightarrow> c = CHR 0x0A \<or> c = CHR 0x0D"

text \<open>
  \<open>decodeQuantum\<close> reads up to four characters of the alphabet and skips line ends.  The padding stands for the last one or two of
  them, and nothing but line ends may follow it.
\<close>

datatype quantum = FullQuantum "int list" string | PaddedQuantum "int list" bool | EndOfInput | CorruptInput

fun decodeQuantum :: "int list \<Rightarrow> string \<Rightarrow> quantum" where
  "decodeQuantum q [] = (if q = [] then EndOfInput else CorruptInput)"
| "decodeQuantum q (c # cs) =
     (case b64Val c of
        Some v \<Rightarrow> if length q = 3 then FullQuantum (q @ [v]) cs else decodeQuantum (q @ [v]) cs
      | None \<Rightarrow>
          if isLineEnd c then decodeQuantum q cs
          else if c \<noteq> CHR ''='' then CorruptInput
          else if length q = 3 then PaddedQuantum q (dropWhile isLineEnd cs = [])
          else if length q = 2
          then (case dropWhile isLineEnd cs of
                  [] \<Rightarrow> CorruptInput
                | d # ds \<Rightarrow> if d = CHR ''='' then PaddedQuantum q (dropWhile isLineEnd ds = []) else CorruptInput)
          else CorruptInput)"

definition quantumBytes :: "int list \<Rightarrow> string" where
  "quantumBytes q =
     (let v = foldl (\<lambda>a x. 64 * a + x) 0 (q @ replicate (4 - length q) 0)
      in map char_of (take (length q - 1) [v div 65536, v div 256 mod 256, v mod 256]))"

lemma decodeQuantum_shorter: "decodeQuantum q s = FullQuantum q' r \<Longrightarrow> length r < length s"
  by (induction q s arbitrary: q' r rule: decodeQuantum.induct) (auto split: option.splits if_splits list.splits intro: less_SucI)

text \<open>\<open>DecodeString\<close>: the bytes that were decoded before an error are returned with it.\<close>

function DecodeString :: "string \<Rightarrow> string \<times> bool" where
  "DecodeString s =
     (case decodeQuantum [] s of
        EndOfInput \<Rightarrow> ([], True)
      | CorruptInput \<Rightarrow> ([], False)
      | PaddedQuantum q ok \<Rightarrow> (quantumBytes q, ok)
      | FullQuantum q r \<Rightarrow> (case DecodeString r of (bs, ok) \<Rightarrow> (quantumBytes q @ bs, ok)))"
  by pat_completeness auto
termination
  by (relation "measure length") (auto dest: decodeQuantum_shorter)

declare DecodeString.simps [simp del]

section \<open>The fingerprint\<close>

text \<open>The whole line of the public key is decoded, and the error of the decoder is dropped.  \<open>md5\<close> is the digest of \<open>crypto/md5\<close>.\<close>

definition Fingerprint :: "(string \<Rightarrow> string) \<Rightarrow> keyPair \<Rightarrow> string" where
  "Fingerprint md5 kp = (let b = fst (DecodeString (PublicKey kp)) in hexEncode (map of_char (md5 b)))"

section \<open>Lemmas\<close>

lemma NewKeyPair_Ok:
  assumes "NewKeyPair K w = (Ok kp, w')"
  shows "\<exists>priv pub. generateKey K 2048 w = (Ok priv, w') \<and> validateKey K priv = None \<and> newPublicKey K priv = Inr pub \<and>
    PrivateKey kp = marshalPKCS1 K priv \<and> PublicKey kp = marshalAuthorizedKey K pub"
proof -
  from assms obtain priv w1 where g: "wrapErr (\<lambda>_. ErrKeyGeneration) (generateKey K 2048) w = (Ok priv, w1)"
    and r: "(if validateKey K priv \<noteq> None then throw ErrValidation
       else let privDer = marshalPKCS1 K priv
            in case newPublicKey K priv of
                 Inl _ \<Rightarrow> throw ErrPublicKey
               | Inr pubSSH \<Rightarrow> ret \<lparr>PrivateKey = privDer, PublicKey = marshalAuthorizedKey K pubSSH\<rparr>) w1 = (Ok kp, w')"
    unfolding NewKeyPair_def by (auto elim!: bindP_OkE)
  from g have "generateKey K 2048 w = (Ok priv, w1)"
    by (auto simp: wrapErr_def split: prod.splits result.splits)
  with r show ?thesis by (auto simp: throw_def ret_def Let_def split: if_splits sum.splits)
qed

text \<open>The decoder stops at the hyphen of the type of a key, before it has a whole quantum.\<close>

lemma DecodeString_ssh_rsa: "DecodeString (''ssh-rsa '' @ s) = ([], False)"
proof -
  have v: "b64Val (CHR ''s'') = Some 44" "b64Val (CHR ''h'') = Some 33" "b64Val (CHR ''-'') = None" "\<not> isLineEnd (CHR ''-'')" by code_simp+
  show ?thesis by (subst DecodeString.simps) (simp add: v)
qed

text \<open>It does decode text of its own alphabet.\<close>

lemma DecodeString_sample: "DecodeString (''c3No'' @ nl @ ''LQ=='' @ nl) = (''ssh-'', True)"
  by code_simp

text \<open>C40: the fingerprint of a key pair does not depend on the key: for every pair that is generated it is the digest of the
  empty text, since the line of the public key starts with the type of the key and is decoded as a whole.\<close>

theorem Fingerprint_constant:
  assumes "NewKeyPair K w = (Ok kp, w')" and "\<And>p. \<exists>s. marshalAuthorizedKey K p = ''ssh-rsa '' @ s"
  shows "Fingerprint md5 kp = hexEncode (map of_char (md5 []))"
proof -
  from NewKeyPair_Ok [OF assms(1)] obtain pub where "PublicKey kp = marshalAuthorizedKey K pub" by blast
  moreover from assms(2) obtain s where "marshalAuthorizedKey K pub = ''ssh-rsa '' @ s" by blast
  ultimately have "PublicKey kp = ''ssh-rsa '' @ s" by simp
  then show ?thesis using DecodeString_ssh_rsa [of s] by (simp add: Fingerprint_def)
qed

definition demoKeygen :: "(unit, string, string) keygen_env" where
  "demoKeygen = \<lparr>generateKey = (\<lambda>bits. ret ''k''), validateKey = (\<lambda>k. None), marshalPKCS1 = (\<lambda>k. k),
     newPublicKey = (\<lambda>k. Inr (''AAAAB3Nz'' @ k)), marshalAuthorizedKey = (\<lambda>p. ''ssh-rsa '' @ p)\<rparr>"

theorem Fingerprint_constant_witness:
  "\<exists>kp. NewKeyPair demoKeygen () = (Ok kp, ()) \<and> PublicKey kp = ''ssh-rsa AAAAB3Nzk'' \<and> Fingerprint (\<lambda>s. s @ ''x'') kp = ''78''"
proof -
  have k: "\<exists>kp. NewKeyPair demoKeygen () = (Ok kp, ()) \<and> PublicKey kp = ''ssh-rsa AAAAB3Nzk''"
    by (simp add: NewKeyPair_def demoKeygen_def wrapErr_def bindP_def ret_def)
  then obtain kp where n: "NewKeyPair demoKeygen () = (Ok kp, ())" and p: "PublicKey kp = ''ssh-rsa AAAAB3Nzk''" by blast
  have "\<exists>s. marshalAuthorizedKey demoKeygen q = ''ssh-rsa '' @ s" for q by (simp add: demoKeygen_def)
  from Fingerprint_constant [OF n this, of "\<lambda>s. s @ ''x''"] have "Fingerprint (\<lambda>s. s @ ''x'') kp = hexEncode [of_char (CHR ''x'')]" by simp
  moreover have "hexEncode [of_char (CHR ''x'')] = ''78''" by code_simp
  ultimately show ?thesis using n p by auto
qed

end
