(* ===== verification/Examples.thy ===== *)
theory Examples
  imports Virtualbox Libmachine
begin

text \<open>
  The program \<open>libmachine/examples/main.go\<close>, which uses the library without the commands: it creates a VirtualBox machine, runs a
  command in it, in one case with its output as a stream, and stops the machine.  An error is logged and ends the example; the
  log is not part of this world.
\<close>

text \<open>The client with its \<open>Close\<close>, the JSON form of a driver, and the stream of a command: its two pipes, the lines of the first
  with the error of the scanner, and the wait.\<close>

record ('w, 'c) example_env =
  ex_client :: "('w, 'c) client"
  ex_close :: "('w, unit) io"
  marshalDriver :: "vboxDriver \<Rightarrow> ('w, string) io"
  streamStart :: "sshClient \<Rightarrow> string \<Rightarrow> ('w, nat \<times> nat) io"
  streamLines :: "nat \<Rightarrow> ('w, string list \<times> gerror option) io"
  closePipe :: "nat \<Rightarrow> 'w \<Rightarrow> 'w"
  streamWait :: "sshClient \<Rightarrow> ('w, unit) io"

text \<open>\<open>defer client.Close()\<close>: the deferred call runs on every way out and may itself not return.\<close>

definition withClose :: "('w, unit) io \<Rightarrow> ('w, unit) io \<Rightarrow> ('w, unit) io" where
  "withClose close m = (\<lambda>w. case m w of
       (Blocked, w1) \<Rightarrow> (Blocked, w1)
     | (r, w1) \<Rightarrow> (case close w1 of
         (Blocked, w2) \<Rightarrow> (Blocked, w2)
       | (Panic s, w2) \<Rightarrow> (Panic s, w2)
       | (_, w2) \<Rightarrow> (r, w2)))"

text \<open>\<open>if err != nil { log.Error(err); return }\<close> up to the end of the function.\<close>

definition reported :: "('w, unit) io \<Rightarrow> ('w, unit) io" where
  "reported m = bindP (tryP m) (\<lambda>_. ret ())"

definition exampleHostName :: string where
  "exampleHostName = ''myfunhost''"

definition exampleHost ::
  "('v os_world_scheme, 'c) example_env \<Rightarrow> vboxDriver \<Rightarrow> ('v os_world_scheme, 'v os_world_scheme host) io" where
  "exampleHost X driver = bindP (marshalDriver X driver) (\<lambda>data. Client_NewHost (ex_client X) ''virtualbox'' data)"

definition setStorageDriver :: "string \<Rightarrow> 'w host \<Rightarrow> ('w, 'w host) io" where
  "setStorageDriver s h = (case h_HostOptions h of
       None \<Rightarrow> panic nilDeref
     | Some ho \<Rightarrow> (case ho_EngineOptions ho of
         None \<Rightarrow> panic nilDeref
       | Some e \<Rightarrow> ret (h\<lparr>h_HostOptions := Some (ho\<lparr>ho_EngineOptions := Some (e\<lparr>StorageDriver := s\<rparr>)\<rparr>)\<rparr>)))"

definition example_create :: "('v os_world_scheme, 'c) example_env \<Rightarrow> ('v os_world_scheme, unit) io" where
  "example_create X =
     withClose (ex_close X) (reported (
       let driver = (vbox_NewDriver exampleHostName ''/tmp/automatic'')\<lparr>vx_CPU := 2, vx_Memory := 2048\<rparr>;
           H = cl_host (ex_client X)
       in bindP (exampleHost X driver) (\<lambda>h0.
          bindP (setStorageDriver ''overlay'' h0) (\<lambda>h.
          bindP (Client_Create (ex_client X) h) (\<lambda>_.
          bindP (host_RunSSHCommand H h ''df -h'') (\<lambda>out.
          bindP (Println (''Results of your disk space query:'' @ nl @ out @ nl)) (\<lambda>_.
          bindP (Println (''Powering down machine now...'')) (\<lambda>_.
          host_Stop H h))))))))"

text \<open>The storage driver is set after the machine has been created.  Errors of the scanner and of the wait are only logged.\<close>

definition example_streaming :: "('v os_world_scheme, 'c) example_env \<Rightarrow> ('v os_world_scheme, unit) io" where
  "example_streaming X =
     withClose (ex_close X) (reported (
       let driver = vbox_NewDriver exampleHostName ''/tmp/automatic''; H = cl_host (ex_client X)
       in bindP (exampleHost X driver) (\<lambda>h0.
          bindP (Client_Create (ex_client X) h0) (\<lambda>_.
          bindP (setStorageDriver ''overlay'' h0) (\<lambda>h.
          bindP (host_CreateSSHClient H h) (\<lambda>client.
          bindP (streamStart X client ''yes | head -n 10000'') (\<lambda>(out, err).
          deferP (\<lambda>w. closePipe X err (closePipe X out w)) (
          bindP (streamLines X out) (\<lambda>(lines, scanErr).
          bindP (forEach lines Println) (\<lambda>_.
          bindP (tryP (streamWait X client)) (\<lambda>_.
          bindP (Println (''Powering down machine now...'')) (\<lambda>_.
          host_Stop H h))))))))))))"

text \<open>The exit code of the process.\<close>

definition example_usage :: "('v os_world_scheme, nat) io" where
  "example_usage =
     bindP (Println (''Usage: go run main.go <example>'' @ nl @ ''Available examples: create streaming.'')) (\<lambda>_. ret 1)"

definition example_main :: "('v os_world_scheme, 'c) example_env \<Rightarrow> string list \<Rightarrow> ('v os_world_scheme, nat) io" where
  "example_main X args =
     (if length args \<noteq> 2 then example_usage
      else if args ! 1 = ''create'' then bindP (example_create X) (\<lambda>_. ret 0)
      else if args ! 1 = ''streaming'' then bindP (example_streaming X) (\<lambda>_. ret 0)
      else example_usage)"

section \<open>Lemmas\<close>

lemma withClose_closes:
  "fst (withClose close m w) \<noteq> Blocked \<Longrightarrow> \<exists>w1 r. close w1 = (r, snd (withClose close m w))"
  by (auto simp: withClose_def split: prod.splits result.splits)

text \<open>However an example ends, the last thing it does is to close the client.\<close>

lemma examples_close_client:
  "fst (example_create X w) \<noteq> Blocked \<Longrightarrow> \<exists>w1 r. ex_close X w1 = (r, snd (example_create X w))"
  "fst (example_streaming X w) \<noteq> Blocked \<Longrightarrow> \<exists>w1 r. ex_close X w1 = (r, snd (example_streaming X w))"
  unfolding example_create_def example_streaming_def by (rule withClose_closes, assumption)+

end
