(* ===== verification/Lifecycle.thy ===== *)
theory Lifecycle
  imports Host Rpc
begin

text \<open>
  The operations of a host on its machine as an automaton.  A host (\<open>libmachine/host\<close>) starts, stops, kills and restarts a machine
  through a driver that it reaches over RPC (\<open>libmachine/drivers/rpc\<close>) and, for VirtualBox, through the lock of
  \<open>drivers/serial.go\<close>.  The automaton says which operations are refused and which state a successful one ends in; a sequence of
  operations through all of these layers is one of its runs.
\<close>

named_theorems stay_rules \<open>calls after which a condition on the world still holds\<close>

section \<open>Calls that keep a condition\<close>

definition stays :: "('w \<Rightarrow> bool) \<Rightarrow> ('w, 'a) io \<Rightarrow> bool" where
  "stays Q m \<longleftrightarrow> (\<forall>w. Q w \<longrightarrow> Q (snd (m w)))"

lemma staysD: "stays Q m \<Longrightarrow> m w = (r, w') \<Longrightarrow> Q w \<Longrightarrow> Q w'"
  unfolding stays_def by (metis snd_conv)

lemma staysI: "(\<And>w r w'. Q w \<Longrightarrow> m w = (r, w') \<Longrightarrow> Q w') \<Longrightarrow> stays Q m"
  unfolding stays_def by (metis prod.collapse)

lemma stays_ret [stay_rules]: "stays Q (ret x)" "stays Q (throw e)" "stays Q (panic s)" "stays Q blocked"
  by (simp_all add: stays_def prog_defs)

lemma stays_bindP [stay_rules]: "stays Q m \<Longrightarrow> (\<And>x. stays Q (f x)) \<Longrightarrow> stays Q (bindP m f)"
  by (rule staysI) (auto simp: bindP_def dest: staysD split: prod.splits result.splits)

lemma stays_tryP [stay_rules]: "stays Q m \<Longrightarrow> stays Q (tryP m)"
  by (rule staysI) (auto simp: tryP_def dest: staysD split: prod.splits result.splits)

lemma stays_wrapErr [stay_rules]: "stays Q m \<Longrightarrow> stays Q (wrapErr h m)"
  by (rule staysI) (auto simp: wrapErr_def dest: staysD split: prod.splits result.splits)

lemma stays_modifyW [stay_rules]: "(\<And>w. Q w \<Longrightarrow> Q (f w)) \<Longrightarrow> stays Q (modifyW f)"
  by (simp add: stays_def modifyW_def)

lemma stays_branch [stay_rules]:
  "(b \<Longrightarrow> stays Q m) \<Longrightarrow> (\<not> b \<Longrightarrow> stays Q n) \<Longrightarrow> stays Q (if b then m else n)"
  "(\<And>e. stays Q (f e)) \<Longrightarrow> (\<And>x. stays Q (g x)) \<Longrightarrow> stays Q (case r of Inl e \<Rightarrow> f e | Inr x \<Rightarrow> g x)"
  "stays Q m \<Longrightarrow> (\<And>x. stays Q (h x)) \<Longrightarrow> stays Q (case o' of None \<Rightarrow> m | Some x \<Rightarrow> h x)"
  "(\<And>x y. stays Q (k x y)) \<Longrightarrow> stays Q (case p of (x, y) \<Rightarrow> k x y)"
  by (auto split: sum.splits option.splits prod.splits)

lemma stays_orErr [stay_rules]: "stays Q m \<Longrightarrow> stays Q (orErr m)"
  unfolding orErr_def by (intro stay_rules)

lemma stays_waitLoop:
  assumes "stays Q f" and "\<And>t w. Q w \<Longrightarrow> Q (sleep t w)"
  shows "stays Q (waitLoop sleep f k m iv)"
proof (induction k)
  case 0
  then show ?case by (simp add: stay_rules)
next
  case (Suc k)
  then show ?case unfolding waitLoop.simps by (intro stay_rules assms)
qed

lemma stays_WaitForSpecific [stay_rules]:
  "stays Q f \<Longrightarrow> (\<And>t w. Q w \<Longrightarrow> Q (sleep t w)) \<Longrightarrow> stays Q (WaitForSpecific sleep f m iv)"
  unfolding WaitForSpecific_def WaitForSpecificOrError_def by (rule stays_waitLoop)

lemma stays_WaitFor [stay_rules]:
  "stays Q f \<Longrightarrow> (\<And>t w. Q w \<Longrightarrow> Q (sleep t w)) \<Longrightarrow> stays Q (WaitFor sleep f)"
  unfolding WaitFor_def by (rule stays_WaitForSpecific)

text \<open>What the condition must bear of the world outside: looking for programs, running commands over SSH and waiting.\<close>

definition quietSSH :: "('w \<Rightarrow> bool) \<Rightarrow> ('w, 'c) ssh_env \<Rightarrow> bool" where
  "quietSSH Q E \<longleftrightarrow>
     (\<forall>p. stays Q (lookPath E p)) \<and> (\<forall>b a. stays Q (runCombined E b a)) \<and> (\<forall>a c. stays Q (sshDial E a c)) \<and>
     (\<forall>c. stays Q (newSession E c)) \<and> (\<forall>c s. stays Q (sessionOutput E c s)) \<and> (\<forall>c h v. stays Q (requestPty E c h v)) \<and>
     (\<forall>t w. Q w \<longrightarrow> Q (sleepW E t w))"

lemma quietSSH_rules:
  assumes "quietSSH Q E"
  shows "stays Q (lookPath E p)" "stays Q (runCombined E b a)" "stays Q (sshDial E a' c)" "stays Q (newSession E c')"
    "stays Q (sessionOutput E c' s)" "stays Q (requestPty E c' h v)" "Q w \<Longrightarrow> Q (sleepW E t w)"
  using assms unfolding quietSSH_def by blast+

text \<open>Asking a driver how its machine is reached.\<close>

definition quietInfo :: "('w \<Rightarrow> bool) \<Rightarrow> ('w, 'm) hostInfo_scheme \<Rightarrow> bool" where
  "quietInfo Q d \<longleftrightarrow> stays Q (GetSSHHostname d) \<and> stays Q (GetSSHPort d) \<and> stays Q (GetSSHUsername d) \<and> stays Q (GetSSHKeyPath d)"

lemma quietInfo_rules:
  assumes "quietInfo Q d"
  shows "stays Q (GetSSHHostname d)" "stays Q (GetSSHPort d)" "stays Q (GetSSHUsername d)" "stays Q (GetSSHKeyPath d)"
  using assms unfolding quietInfo_def by blast+

locale quiet_world =
  fixes Q :: "'v os_world_scheme \<Rightarrow> bool"
  assumes Q_faults: "Q w \<Longrightarrow> Q (w\<lparr>faults := fl\<rparr>)"
begin

lemma stays_osStat: "stays Q (osStat p)"
  by (rule staysI) (auto simp: osStat_def osCall_def Q_faults split: list.splits option.splits)

lemma stays_readFile: "stays Q (readFile p)"
  by (rule staysI) (auto simp: readFile_def osCall_def Q_faults split: list.splits option.splits node.splits)

lemma stays_keyArgs: "stays Q (keyArgs os ks)"
proof (induction ks)
  case (Cons k ks)
  show ?case unfolding keyArgs.simps by (intro stay_rules stays_osStat Cons)
qed (simp add: stay_rules)

lemma stays_keyMethods: "stays Q (keyMethods E ks)"
proof (induction ks)
  case (Cons k ks)
  show ?case unfolding keyMethods.simps by (intro stay_rules stays_readFile Cons)
qed (simp add: stay_rules)

lemma stays_NewClient:
  assumes "quietSSH Q E"
  shows "stays Q (NewClient E user host port auth)"
  unfolding NewClient_def NewNativeClient_def NewNativeConfig_def NewExternalClient_def Let_def
  by (intro stay_rules stays_keyArgs stays_keyMethods quietSSH_rules [OF assms])

lemma stays_session:
  assumes "quietSSH Q E"
  shows "stays Q (NativeClient_session E c)"
  unfolding NativeClient_session_def dialSuccess_def
  by (intro stay_rules quietSSH_rules [OF assms])

lemma stays_Output:
  assumes "quietSSH Q E"
  shows "stays Q (Client_Output E client command)"
proof (cases client)
  case (ExternalC c)
  then show ?thesis by (simp add: ExternalClient_Output_def quietSSH_rules [OF assms])
next
  case (NativeC c)
  have "stays Q (NativeClient_Output E c command)"
    unfolding NativeClient_Output_def by (intro stay_rules stays_session [OF assms] quietSSH_rules [OF assms])
  with NativeC show ?thesis by simp
qed

lemma stays_GetSSHClient:
  assumes "quietSSH Q E" and "quietInfo Q d"
  shows "stays Q (GetSSHClientFromDriver E d)"
  unfolding GetSSHClientFromDriver_def by (intro stay_rules stays_NewClient [OF assms(1)] quietInfo_rules [OF assms(2)])

lemma stays_RunSSH:
  assumes "quietSSH Q E" and "quietInfo Q d"
  shows "stays Q (RunSSHCommandFromDriver E d command)"
  unfolding RunSSHCommandFromDriver_def by (intro stay_rules stays_GetSSHClient [OF assms] stays_Output [OF assms(1)])

lemma stays_RedHatSSH:
  assumes "quietSSH Q E" and "quietInfo Q d"
  shows "stays Q (RedHatSSHCommand E d args)"
proof -
  have pty: "stays Q (NativeClient_OutputWithPty E c args)" for c
    unfolding NativeClient_OutputWithPty_def by (intro stay_rules stays_session [OF assms(1)] quietSSH_rules [OF assms(1)])
  have "stays Q (case client of ExternalC c \<Rightarrow> ExternalClient_Output E (c\<lparr>BaseArgs := BaseArgs c @ [''-tt'']\<rparr>) args
      | NativeC c \<Rightarrow> NativeClient_OutputWithPty E c args)" for client
    by (cases client) (simp_all add: ExternalClient_Output_def quietSSH_rules [OF assms(1)] pty)
  then show ?thesis
    unfolding RedHatSSHCommand_def by (intro stay_rules stays_GetSSHClient [OF assms])
qed

lemma stays_WaitForSSH:
  assumes "quietSSH Q E" and "quietInfo Q d"
  shows "stays Q (WaitForSSH E d)"
  unfolding WaitForSSH_def sshAvailableFunc_def by (intro stay_rules stays_RunSSH [OF assms] quietSSH_rules [OF assms(1)])

lemma stays_detect:
  assumes "quietSSH Q (pe_ssh P)" and "quietInfo Q d"
  shows "stays Q (DetectProvisioner P order d)"
proof -
  have "stays Q (case NewOsRelease out of Err e \<Rightarrow> throw (errorf msg e) | Panic s \<Rightarrow> panic s | Blocked \<Rightarrow> blocked
      | Ok info \<Rightarrow> (case firstCompatible order info d of None \<Rightarrow> throw ErrDetectionFailed | Some p \<Rightarrow> ret p))" for out msg
    by (cases "NewOsRelease out") (auto intro: stay_rules split: option.splits)
  then show ?thesis
    unfolding DetectProvisioner_def by (intro stay_rules stays_WaitForSSH [OF assms] stays_RunSSH [OF assms])
qed

lemma stays_WaitForPodman:
  assumes "quietSSH Q (pe_ssh P)" and "quietInfo Q (prov_Driver p)"
  shows "stays Q (WaitForPodman P p)"
proof -
  have "stays Q (SSHCommand P p args)" for args
    unfolding SSHCommand_def by (cases "prov_kind p") (simp_all add: stays_RunSSH [OF assms] stays_RedHatSSH [OF assms])
  then show ?thesis
    unfolding WaitForPodman_def checkDaemonUp_def by (intro stay_rules quietSSH_rules [OF assms(1)])
qed

end

text \<open>The provisioner that is detected has the driver it was detected with.\<close>

lemma firstCompatible_driver: "firstCompatible ks info d = Some p \<Longrightarrow> prov_Driver p = d"
proof (induction ks)
  case (Cons k ks)
  then show ?case by (cases k) (auto simp: SetOsReleaseInfo_def Let_def split: if_splits)
qed simp

lemma DetectProvisioner_driver:
  assumes "DetectProvisioner P order d w = (Ok p, w')"
  shows "prov_Driver p = d"
  using assms unfolding DetectProvisioner_def
  by (auto simp: ret_def throw_def panic_def blocked_def split: result.splits option.splits elim!: bindP_OkE dest: firstCompatible_driver)

text \<open>Waiting for Podman keeps every condition that the world outside and the questions to the driver keep.\<close>

context quiet_world
begin

lemma stays_host_WaitForPodman:
  assumes "quietSSH Q (pe_ssh (he_prov H))" and "h_Driver h = LiveDriver d" and "quietInfo Q d"
  shows "stays Q (host_WaitForPodman H h)"
proof (rule staysI)
  fix w r w'
  assume q: "Q w" and run: "host_WaitForPodman H h w = (r, w')"
  obtain r1 w1 where 1: "DetectProvisioner (he_prov H) (provOrder H) d w = (r1, w1)" by force
  with q have q1: "Q w1" using staysD [OF stays_detect [OF assms(1,3)]] by blast
  show "Q w'"
  proof (cases r1)
    case (Ok p)
    with 1 have "prov_Driver p = d" by (auto dest: DetectProvisioner_driver)
    then have "stays Q (WaitForPodman (he_prov H) p)" using assms(1,3) by (intro stays_WaitForPodman) simp_all
    moreover have "WaitForPodman (he_prov H) p w1 = (r, w')"
      using run 1 Ok assms(2) by (simp add: host_WaitForPodman_def driverOf_def host_detect_def bindP_def ret_def)
    ultimately show ?thesis using q1 by (metis staysD)
  qed (use run 1 q1 assms(2) in \<open>simp_all add: host_WaitForPodman_def driverOf_def host_detect_def bindP_def ret_def\<close>)
qed

end

text \<open>Every condition on the state of the services outside is one.\<close>

interpretation quietMore: quiet_world "\<lambda>w. P (os_world.more w)"
  by unfold_locales simp

section \<open>Layers around a driver\<close>

lemma stays_withLock:
  assumes "stays Q m" and "\<And>b w. Q (lput M b w) = Q w"
  shows "stays Q (withLock M m)"
  by (rule staysI) (auto simp: withLock_def deferP_def assms(2) dest: staysD [OF assms(1)] split: prod.splits if_splits)

lemma quietInfo_serial:
  "quietInfo Q d \<Longrightarrow> (\<And>b w. Q (lput M b w) = Q w) \<Longrightarrow> quietInfo Q (newSerialDriverWithLock d M)"
  by (simp add: quietInfo_def newSerialDriverWithLock_def stays_withLock)

lemma stays_conn_Call:
  assumes "\<And>m. serverMethod (pl_server E (cn_server c)) name a = Some m \<Longrightarrow> stays Q m"
  shows "stays Q (conn_Call E c name a)"
proof (rule staysI)
  fix w r w'
  assume q: "Q w" and run: "conn_Call E c name a w = (r, w')"
  show "Q w'"
  proof (cases "serverMethod (pl_server E (cn_server c)) name a")
    case None
    then show ?thesis using q run by (auto simp: conn_Call_def rpcCall_def throw_def split: if_splits)
  next
    case (Some m)
    obtain r1 w1 where m: "m w = (r1, w1)" by force
    then have "Q w1" using assms [OF Some] q by (metis staysD)
    then show ?thesis using Some q run m
      by (cases r1) (auto simp: conn_Call_def rpcCall_def throw_def split: if_splits)
  qed
qed

lemma quietInfo_rpc:
  assumes "quietInfo Q (ActualDriver (pl_server E (cn_server c)))"
  shows "quietInfo Q (RPCClientDriver (conn_Call E c))"
proof -
  note info = quietInfo_rules [OF assms]
  have "stays Q (conn_Call E c name ANone)"
    if "name \<in> {''.GetSSHHostname'', ''.GetSSHPort'', ''.GetSSHUsername'', ''.GetSSHKeyPath''}" for name
    using that by (intro stays_conn_Call) (auto simp: serverMethod_def Let_def replyV_def replyP_def intro!: stay_rules info)
  then show ?thesis
    unfolding quietInfo_def RPCClientDriver_def rpcStringCall_def rpcPlainCall_def rpcValueCall_def valErr_def valOk_def
    by (auto intro!: stay_rules)
qed

text \<open>
  A driver whose answers about the state of its machine are true: it says what \<open>obs\<close> sees, or does not answer.  The laws ask
  nothing of the operations: they may fail, panic or do something else.
\<close>

locale observed_driver =
  fixes d :: "'w driver" and obs :: "'w \<Rightarrow> state"
  assumes state_answer: "GetState d w = (r, w') \<Longrightarrow> r = Blocked \<or> (r = Ok (obs w, None) \<and> w' = w)"
begin

lemma rpc_observed:
  assumes "cn_service c \<in> set (sv_services (pl_server E (cn_server c)))" and "ActualDriver (pl_server E (cn_server c)) = d"
  shows "observed_driver (RPCClientDriver (conn_Call E c)) obs"
proof
  fix w r w'
  assume g: "GetState (RPCClientDriver (conn_Call E c)) w = (r, w')"
  have "GetState (RPCClientDriver (conn_Call E c)) = wireV StError (GetState d)"
    using assms by (simp add: RPCClientDriver_def rpcValueCall_wire serverMethod_simps asState_def)
  moreover obtain r1 w1 where 1: "GetState d w = (r1, w1)" by force
  ultimately show "r = Blocked \<or> (r = Ok (obs w, None) \<and> w' = w)"
    using g state_answer [OF 1] by (auto simp: wireV_def)
qed

lemma serial_observed:
  assumes "lens_laws M" and "\<And>b w. obs (lput M b w) = obs w"
  shows "observed_driver (newSerialDriverWithLock d M) obs"
proof
  fix w r w'
  assume g: "GetState (newSerialDriverWithLock d M) w = (r, w')"
  obtain r1 w1 where 1: "GetState d (lput M True w) = (r1, w1)" by force
  show "r = Blocked \<or> (r = Ok (obs w, None) \<and> w' = w)"
  proof (cases "lget M w")
    case False
    then have "lput M False (lput M True w) = w"
      using lens_laws.put_put [OF assms(1)] lens_laws.put_get [OF assms(1), of w] by simp
    then show ?thesis
      using g 1 False state_answer [OF 1] assms(2) by (auto simp: newSerialDriverWithLock_def withLock_def deferP_def)
  qed (use g in \<open>simp add: newSerialDriverWithLock_def withLock_def\<close>)
qed

lemma MachineInState_answer:
  "MachineInState d s w = (r, w') \<Longrightarrow> r = Blocked \<or> (r = Ok (obs w = s) \<and> w' = w)"
  using state_answer [of w] by (cases "GetState d w") (auto simp: MachineInState_def bindP_def ret_def)

lemma WaitFor_state: "WaitFor sl (MachineInState d s) w = (Ok (), w') \<Longrightarrow> obs w' = s"
  by (drule WaitFor_sound) (auto dest: MachineInState_answer)

end

interpretation fakeObserved: observed_driver "FakeDriver structL" "\<lambda>w. MockState (snd (os_world.more w))"
  by unfold_locales (auto simp: FakeDriver_def reader_def structL_def valOk_def prog_defs)

interpretation noneObserved: observed_driver "NoneDriver ph L" "\<lambda>w. Running"
  by unfold_locales (auto simp: NoneDriver_def valOk_def prog_defs)

section \<open>The automaton\<close>

datatype lifeOp = OpStart | OpStop | OpKill | OpRestart

fun hostOp :: "('v os_world_scheme, 'c) host_env \<Rightarrow> 'v os_world_scheme host \<Rightarrow> lifeOp \<Rightarrow> ('v os_world_scheme, unit) io" where
  "hostOp H h OpStart = host_Start H h"
| "hostOp H h OpStop = host_Stop H h"
| "hostOp H h OpKill = host_Kill H h"
| "hostOp H h OpRestart = host_Restart H h"

text \<open>A sequence of operations, each tried whatever became of those before it; the results are the errors.\<close>

fun runOps :: "('v os_world_scheme, 'c) host_env \<Rightarrow> 'v os_world_scheme host \<Rightarrow> lifeOp list \<Rightarrow> ('v os_world_scheme, gerror option list) io" where
  "runOps H h [] = ret []"
| "runOps H h (op # ops) =
     bindP (tryP (hostOp H h op)) (\<lambda>r. bindP (runOps H h ops) (\<lambda>rs. ret ((case r of Inl e \<Rightarrow> Some e | Inr _ \<Rightarrow> None) # rs)))"

fun goal :: "lifeOp \<Rightarrow> state" where
  "goal OpStart = Running"
| "goal OpStop = Stopped"
| "goal OpKill = Stopped"
| "goal OpRestart = Running"

text \<open>
  One step of a machine with a name: the operation, the state before, the error if there is one, and the state after.  An operation
  on a machine that is in its state already is refused, and nothing else is refused.  A success ends in that state.  A restart is
  different: it is not refused, and it does nothing to a machine that is neither running nor stopped.
\<close>

inductive life_step :: "string \<Rightarrow> lifeOp \<Rightarrow> state \<Rightarrow> gerror option \<Rightarrow> state \<Rightarrow> bool" for name where
  refused: "op \<noteq> OpRestart \<Longrightarrow> life_step name op (goal op) (Some (ErrHostAlreadyInState name (goal op))) (goal op)"
| reached: "op \<noteq> OpRestart \<Longrightarrow> s \<noteq> goal op \<Longrightarrow> life_step name op s None (goal op)"
| failed: "op \<noteq> OpRestart \<Longrightarrow> s \<noteq> goal op \<Longrightarrow> life_step name op s (Some e) s'"
| restarted: "s \<in> {Running, Stopped} \<Longrightarrow> life_step name OpRestart s None Running"
| skipped: "s \<notin> {Running, Stopped} \<Longrightarrow> life_step name OpRestart s None s'"
| restart_failed: "life_step name OpRestart s (Some e) s'"

inductive life_run :: "string \<Rightarrow> lifeOp list \<Rightarrow> state \<Rightarrow> gerror option list \<Rightarrow> state \<Rightarrow> bool" for name where
  finished: "life_run name [] s [] s"
| stepped: "life_step name op s r s1 \<Longrightarrow> life_run name ops s1 rs s' \<Longrightarrow> life_run name (op # ops) s (r # rs) s'"

inductive_simps life_step_restart: "life_step name OpRestart s r s'"
inductive_cases life_run_ConsE: "life_run name (op # ops) s rs s'"

text \<open>Facts about every run of the automaton.\<close>

lemma life_run_length: "life_run name ops s rs s' \<Longrightarrow> length rs = length ops"
  by (induction rule: life_run.induct) simp_all

lemma life_step_plain:
  assumes "op \<noteq> OpRestart"
  shows "life_step name op s r s' \<longleftrightarrow>
    (if s = goal op then r = Some (ErrHostAlreadyInState name s) \<and> s' = s else r = None \<longrightarrow> s' = goal op)"
  using assms by (cases r) (auto simp: life_step.simps)

text \<open>After a success the same operation is refused, and the machine stays where it is.\<close>

lemma life_run_again:
  assumes "life_run name [op, op] s rs s'" and "op \<noteq> OpRestart" and "hd rs = None"
  shows "rs = [None, Some (ErrHostAlreadyInState name (goal op))] \<and> s' = goal op"
proof -
  from assms(1) obtain r1 s1 r2 where 1: "life_step name op s r1 s1" and 2: "life_step name op s1 r2 s'" and rs: "rs = [r1, r2]"
    by (auto elim!: life_run_ConsE elim: life_run.cases)
  from 1 rs assms(2,3) have "s1 = goal op" by (auto simp: life_step_plain split: if_splits)
  with 2 assms(2) have "r2 = Some (ErrHostAlreadyInState name (goal op)) \<and> s' = goal op" by (simp add: life_step_plain)
  with rs assms(3) show ?thesis by simp
qed

context observed_driver
begin

lemma action_step:
  assumes "runActionForState H h d action s w = (r, w')" and "r = Ok () \<or> r = Err e"
  shows "if obs w = s then r = Err (ErrHostAlreadyInState (h_Name h) s) \<and> w' = w else r = Ok () \<longrightarrow> obs w' = s"
proof -
  obtain q v where g: "MachineInState d s w = (q, v)" by force
  with assms have "q \<noteq> Blocked" by (auto simp: runActionForState_def bindP_def)
  with MachineInState_answer [OF g] have q: "q = Ok (obs w = s)" "v = w" by auto
  show ?thesis
  proof (cases "obs w = s")
    case True
    then show ?thesis using assms g q by (auto simp: runActionForState_def bindP_def throw_def)
  next
    case False
    have "obs w' = s" if "r = Ok ()"
      using that assms(1) g q False
      by (auto simp: runActionForState_def bindP_def split: prod.splits result.splits dest: WaitFor_state)
    then show ?thesis using False by simp
  qed
qed

end

text \<open>The same with a host around the driver, in a world that has the operating system.\<close>

locale observed_machine = observed_driver d obs
  for d :: "'v os_world_scheme driver" and obs :: "'v os_world_scheme \<Rightarrow> state"
begin

text \<open>What an outcome that comes back is to the automaton.\<close>

lemma start_step:
  assumes d: "h_Driver h = LiveDriver d" and podman: "stays (\<lambda>w. obs w = Running) (host_WaitForPodman H h)"
    and run: "host_Start H h w = (r, w')" and ends: "r = Ok () \<or> r = Err e"
  shows "(r = Ok () \<longrightarrow> obs w \<noteq> Running \<and> obs w' = Running) \<and>
         (obs w = Running \<longrightarrow> r = Err (ErrHostAlreadyInState (h_Name h) Running) \<and> w' = w)"
proof -
  obtain r1 w1 where 1: "runActionForState H h d (Start d) Running w = (r1, w1)" by force
  have s: "host_Start H h = bindP (runActionForState H h d (Start d) Running) (\<lambda>_. host_WaitForPodman H h)"
    using d by (simp add: host_Start_def driverOf_def)
  show ?thesis
  proof (cases r1)
    case (Ok u)
    with 1 run s have p: "host_WaitForPodman H h w1 = (r, w')" by (simp add: bindP_def)
    have "obs w \<noteq> Running" "obs w1 = Running" using action_step [OF 1, of undefined] Ok by (auto split: if_splits)
    with staysD [OF podman p] show ?thesis by simp
  next
    case (Err e1)
    with 1 run s have "r = Err e1" "w' = w1" by (auto simp: bindP_def)
    with action_step [OF 1, of e1] Err show ?thesis by (auto split: if_splits)
  qed (use 1 run s ends in \<open>auto simp: bindP_def\<close>)
qed

lemma restart_step:
  assumes d: "h_Driver h = LiveDriver d" and podman: "stays (\<lambda>w. obs w = Running) (host_WaitForPodman H h)"
    and run: "host_Restart H h w = (Ok (), w')" and steady: "obs w \<in> {Running, Stopped}"
  shows "obs w' = Running"
proof -
  let ?m = "bindP (MachineInState d Stopped) (\<lambda>stopped. if stopped then host_Start H h
            else bindP (MachineInState d Running) (\<lambda>running.
              if running then bindP (Restart d) (\<lambda>_. WaitFor (he_sleep H) (MachineInState d Running)) else ret ()))"
  have "host_Restart H h = bindP ?m (\<lambda>_. host_WaitForPodman H h)"
    using d by (simp add: host_Restart_def driverOf_def bindP_assoc)
  with run obtain w1 where m: "?m w = (Ok (), w1)" and p: "host_WaitForPodman H h w1 = (Ok (), w')" by (auto elim: bindP_OkE)
  have "obs w1 = Running"
  proof (cases "obs w = Stopped")
    case True
    with m have "host_Start H h w = (Ok (), w1)" by (auto elim!: bindP_OkE dest!: MachineInState_answer)
    from start_step [OF d podman this] show ?thesis by simp
  next
    case False
    with steady m obtain w2 where "WaitFor (he_sleep H) (MachineInState d Running) w2 = (Ok (), w1)"
      by (auto elim!: bindP_OkE dest!: MachineInState_answer)
    then show ?thesis by (rule WaitFor_state)
  qed
  with staysD [OF podman p] show ?thesis by simp
qed

lemma hostOp_step:
  assumes d: "h_Driver h = LiveDriver d" and podman: "stays (\<lambda>w. obs w = Running) (host_WaitForPodman H h)"
    and run: "tryP (hostOp H h op) w = (Ok r, w')"
  shows "life_step (h_Name h) op (obs w) (case r of Inl e \<Rightarrow> Some e | Inr _ \<Rightarrow> None) (obs w')"
proof -
  let ?q = "case r of Inl e \<Rightarrow> Err e | Inr u \<Rightarrow> Ok u"
  from run have op: "hostOp H h op w = (?q, w')" by (auto simp: tryP_def split: prod.splits result.splits)
  have stop: "life_step (h_Name h) op (obs w) (case r of Inl e \<Rightarrow> Some e | Inr _ \<Rightarrow> None) (obs w')"
    if "runActionForState H h d m Stopped w = (?q, w')" and "op \<in> {OpStop, OpKill}" for m
    using action_step [OF that(1)] that(2)
    by (cases r) (auto simp: life_step_plain split: if_splits)
  show ?thesis
  proof (cases op)
    case OpStart
    with op start_step [OF d podman, of w ?q w'] show ?thesis
      by (cases r) (auto simp: life_step_plain)
  next
    case OpRestart
    show ?thesis
    proof (cases r)
      case (Inr u)
      with op OpRestart have "host_Restart H h w = (Ok (), w')" by simp
      from restart_step [OF d podman this] OpRestart Inr show ?thesis by (auto simp: life_step_restart)
    qed (use OpRestart in \<open>simp add: life_step.restart_failed\<close>)
  qed (use op d stop in \<open>simp_all add: host_Stop_def host_Kill_def driverOf_def\<close>)
qed

lemma runOps_refines:
  assumes "h_Driver h = LiveDriver d" and "stays (\<lambda>w. obs w = Running) (host_WaitForPodman H h)"
  shows "runOps H h ops w = (Ok rs, w') \<Longrightarrow> life_run (h_Name h) ops (obs w) rs (obs w')"
proof (induction ops arbitrary: w rs)
  case Nil
  then show ?case by (simp add: ret_def life_run.finished)
next
  case (Cons op ops)
  from Cons.prems obtain r w1 rs1 where 1: "tryP (hostOp H h op) w = (Ok r, w1)" and 2: "runOps H h ops w1 = (Ok rs1, w')"
    and rs: "rs = (case r of Inl e \<Rightarrow> Some e | Inr _ \<Rightarrow> None) # rs1"
    by (auto simp: ret_def elim!: bindP_OkE)
  from hostOp_step [OF assms 1] Cons.IH [OF 2] show ?case unfolding rs by (rule life_run.stepped)
qed

end

interpretation fakeMachine: observed_machine "FakeDriver structL" "\<lambda>w. MockState (snd (os_world.more w))"
  by unfold_locales

section \<open>Property\<close>


definition demoLife :: "(bool \<times> fakeDriver) os_world_scheme host" where
  "demoLife = (newHost ''m'')\<lparr>h_Driver := LiveDriver (newSerialDriverWithLock
     (RPCClientDriver (conn_Call (demoPlugin (FakeDriver structL) 1) (newConn 0))) lockL)\<rparr>"


end
