(* ===== verification/Provision_Run.thy ===== *)
theory Provision_Run
  imports Lifecycle Libmachine Provision_Generic
begin

text \<open>
  What provisioning does to a machine: the commands that reach it, in their order, when SSH runs through the \<open>ssh\<close> program.  The
  extension of the world keeps a log of the commands; the local files are those of the operating system.
\<close>

section \<open>Commands that reach the machine\<close>

definition sent :: "('v \<Rightarrow> string list) \<Rightarrow> 'v os_world_scheme \<Rightarrow> string list" where
  "sent lg w = lg (os_world.more w)"

text \<open>The program \<open>ssh\<close> is found and used, every run of it sends its last argument to the machine, and it leaves the local files
  alone.\<close>

definition records :: "('v \<Rightarrow> string list) \<Rightarrow> ('v os_world_scheme, 'c) ssh_env \<Rightarrow> bool" where
  "records lg E \<longleftrightarrow> defaultClientType E = External \<and> (\<forall>p w. \<exists>b. lookPath E p w = (Ok b, w)) \<and>
     (\<forall>b a w. sent lg (snd (runCombined E b a w)) = sent lg w @ [last a] \<and> fs (snd (runCombined E b a w)) = fs w)"

text \<open>A program that sends nothing and changes no local file, whatever its outcome.\<close>

definition idle :: "('v \<Rightarrow> string list) \<Rightarrow> ('v os_world_scheme, 'a) io \<Rightarrow> bool" where
  "idle lg m \<longleftrightarrow> (\<forall>l f. stays (\<lambda>w. sent lg w = l \<and> fs w = f) m)"

text \<open>A program that, when it succeeds, has sent exactly these commands and changed no local file.\<close>

definition sends :: "('v \<Rightarrow> string list) \<Rightarrow> ('v os_world_scheme, 'a) io \<Rightarrow> string list \<Rightarrow> bool" where
  "sends lg m cs \<longleftrightarrow> (\<forall>w x w'. m w = (Ok x, w') \<longrightarrow> sent lg w' = sent lg w @ cs \<and> fs w' = fs w)"

lemma idleD: "idle lg m \<Longrightarrow> m w = (r, w') \<Longrightarrow> sent lg w' = sent lg w \<and> fs w' = fs w"
  unfolding idle_def using staysD [of "\<lambda>v. sent lg v = sent lg w \<and> fs v = fs w" m w r w'] by simp

lemma sendsD: "sends lg m cs \<Longrightarrow> m w = (Ok x, w') \<Longrightarrow> sent lg w' = sent lg w @ cs \<and> fs w' = fs w"
  unfolding sends_def by blast

lemma sends_idle: "idle lg m \<Longrightarrow> sends lg m []"
  unfolding sends_def by (auto dest: idleD)

lemma sends_bindP:
  assumes "sends lg m cs" and "\<And>x. sends lg (f x) ds"
  shows "sends lg (bindP m f) (cs @ ds)"
  unfolding sends_def
proof (intro allI impI)
  fix w y w'
  assume "bindP m f w = (Ok y, w')"
  then obtain x w1 where "m w = (Ok x, w1)" "f x w1 = (Ok y, w')" by (rule bindP_OkE)
  with sendsD [OF assms(1)] sendsD [OF assms(2)] show "sent lg w' = sent lg w @ cs @ ds \<and> fs w' = fs w" by simp
qed

lemma sends_ret: "sends lg (ret x) []" "sends lg (throw e) cs"
  by (simp_all add: sends_def ret_def throw_def)

lemma sends_forEach: "(\<And>x. sends lg (f x) [g x]) \<Longrightarrow> sends lg (forEach xs f) (map g xs)"
  using sends_bindP [where cs = "[g x]" for x] by (induction xs) (force simp: sends_ret)+

lemma idle_rules:
  "idle lg (ret x)" "idle lg (throw e)" "idle lg m \<Longrightarrow> (\<And>x. idle lg (f x)) \<Longrightarrow> idle lg (bindP m f)"
  "idle lg n \<Longrightarrow> idle lg (orErr n)"
  unfolding idle_def by (blast intro: stay_rules)+

interpretation quietSent: quiet_world "\<lambda>w. sent lg w = l \<and> fs w = f"
  by unfold_locales (simp add: sent_def)

lemma idle_keyArgs: "idle lg (keyArgs os ks)"
  by (simp add: idle_def quietSent.stays_keyArgs)

lemma idle_readFile: "idle lg (readFile p)"
  by (simp add: idle_def quietSent.stays_readFile)

text \<open>How a driver is asked about its machine.\<close>

definition idleInfo :: "('v \<Rightarrow> string list) \<Rightarrow> 'v os_world_scheme driver \<Rightarrow> bool" where
  "idleInfo lg d \<longleftrightarrow> idle lg (GetSSHHostname d) \<and> idle lg (GetSSHPort d) \<and> idle lg (GetSSHUsername d) \<and> idle lg (GetSSHKeyPath d) \<and>
     idle lg (GetMachineName d) \<and> idle lg (GetIP d)"

lemma idleInfo_rules:
  assumes "idleInfo lg d"
  shows "idle lg (GetSSHHostname d)" "idle lg (GetSSHPort d)" "idle lg (GetSSHUsername d)" "idle lg (GetSSHKeyPath d)"
    "idle lg (GetMachineName d)" "idle lg (GetIP d)"
  using assms unfolding idleInfo_def by blast+

lemma NewClient_external:
  assumes "records lg E" and "NewClient E user host port auth w = (Ok client, w')"
  shows "(\<exists>c. client = ExternalC c) \<and> sent lg w' = sent lg w \<and> fs w' = fs w"
proof -
  from assms(1) obtain b where b: "lookPath E ''ssh'' w = (Ok b, w)" unfolding records_def by blast
  have t: "defaultClientType E = External" using assms(1) by (simp add: records_def)
  from assms(2) b t obtain c where n: "NewExternalClient (goos E) b user host port auth w = (Ok c, w')" and "client = ExternalC c"
    by (auto simp: NewClient_def bindP_def tryP_def ret_def split: prod.splits result.splits)
  from n obtain ks where "keyArgs (goos E) (Keys auth) w = (Ok ks, w')"
    unfolding NewExternalClient_def Let_def by (auto simp: ret_def elim!: bindP_OkE)
  from idleD [OF idle_keyArgs this, of lg] \<open>client = ExternalC c\<close> show ?thesis by blast
qed

lemma GetSSHClient_external:
  assumes E: "records lg E" and d: "idleInfo lg d" and run: "GetSSHClientFromDriver E d w = (Ok client, w')"
  shows "(\<exists>c. client = ExternalC c) \<and> sent lg w' = sent lg w \<and> fs w' = fs w"
proof -
  note i = idleInfo_rules [OF d]
  have k: "idle lg (if k = [] then ret \<lparr>Passwords = [], Keys = []\<rparr> else bindP (GetSSHKeyPath d) (\<lambda>key. ret \<lparr>Passwords = [], Keys = [key]\<rparr>))" for k
    by (auto intro: idle_rules i(4))
  from run obtain address w1 port w2 k w3 auth w4 user w5 where
    1: "orErr (GetSSHHostname d) w = (Ok address, w1)" "orErr (GetSSHPort d) w1 = (Ok port, w2)" "GetSSHKeyPath d w2 = (Ok k, w3)"
      "(if k = [] then ret \<lparr>Passwords = [], Keys = []\<rparr> else bindP (GetSSHKeyPath d) (\<lambda>key. ret \<lparr>Passwords = [], Keys = [key]\<rparr>)) w3 = (Ok auth, w4)"
      "GetSSHUsername d w4 = (Ok user, w5)" and n: "NewClient E user address port auth w5 = (Ok client, w')"
    unfolding GetSSHClientFromDriver_def by (elim bindP_OkE)
  have "sent lg w5 = sent lg w \<and> fs w5 = fs w"
    using idleD [OF idle_rules(4) [OF i(1)] 1(1)] idleD [OF idle_rules(4) [OF i(2)] 1(2)] idleD [OF i(4) 1(3)] idleD [OF k 1(4)]
      idleD [OF i(3) 1(5)] by simp
  with NewClient_external [OF E n] show ?thesis by simp
qed

text \<open>A command of either kind of provisioner sends itself.\<close>

lemma sends_client:
  assumes E: "records lg E" and d: "idleInfo lg d" and "\<And>c. \<exists>b a. f (ExternalC c) = runCombined E b (a @ [args])"
  shows "sends lg (bindP (GetSSHClientFromDriver E d) (\<lambda>client. bindP (f client) (\<lambda>(output, err). case err of None \<Rightarrow> ret output | Some e \<Rightarrow> throw (g e output)))) [args]"
  unfolding sends_def
proof (intro allI impI)
  fix w x w'
  assume "bindP (GetSSHClientFromDriver E d) (\<lambda>client. bindP (f client) (\<lambda>(output, err). case err of None \<Rightarrow> ret output | Some e \<Rightarrow> throw (g e output))) w = (Ok x, w')"
  then obtain client w1 out w2 where 1: "GetSSHClientFromDriver E d w = (Ok client, w1)" and 2: "f client w1 = (Ok out, w2)" and "w' = w2"
    by (auto simp: ret_def throw_def split: option.splits elim!: bindP_OkE)
  from GetSSHClient_external [OF E d 1] obtain c where c: "client = ExternalC c" and s: "sent lg w1 = sent lg w" "fs w1 = fs w" by blast
  from assms(3) [of c] obtain b a where "f client = runCombined E b (a @ [args])" unfolding c by blast
  with 2 E have "sent lg w2 = sent lg w1 @ [args] \<and> fs w2 = fs w1" unfolding records_def by (metis last_snoc snd_conv)
  with s \<open>w' = w2\<close> show "sent lg w' = sent lg w @ [args] \<and> fs w' = fs w" by simp
qed

lemma sends_SSHCommand:
  assumes "records lg (pe_ssh P)" and "idleInfo lg (prov_Driver p)"
  shows "sends lg (SSHCommand P p args) [args]"
proof -
  have "sends lg (RunSSHCommandFromDriver (pe_ssh P) (prov_Driver p) args) [args]"
    unfolding RunSSHCommandFromDriver_def by (rule sends_client [OF assms]) (auto simp: ExternalClient_Output_def)
  moreover have "\<exists>b a. ExternalClient_Output (pe_ssh P) (c\<lparr>BaseArgs := BaseArgs c @ [''-tt'']\<rparr>) args = runCombined (pe_ssh P) b (a @ [args])" for c
    by (intro exI [of _ "BinaryPath c"] exI [of _ "BaseArgs c @ [''-tt'']"]) (simp add: ExternalClient_Output_def)
  then have "sends lg (RedHatSSHCommand (pe_ssh P) (prov_Driver p) args) [args]"
    unfolding RedHatSSHCommand_def by (intro sends_client [OF assms]) simp
  ultimately show ?thesis unfolding SSHCommand_def by (cases "prov_kind p") simp_all
qed

lemma sends_runSSH:
  "records lg (pe_ssh P) \<Longrightarrow> idleInfo lg (prov_Driver p) \<Longrightarrow> sends lg (runSSH P p args) [args]"
  using sends_bindP [OF sends_SSHCommand sends_ret(1)] by (force simp: runSSH_def)

section \<open>The steps of provisioning\<close>

text \<open>The texts of the commands, by kind of provisioner.\<close>

definition hostnameCmds :: "provKind \<Rightarrow> string \<Rightarrow> string list" where
  "hostnameCmds k hostname =
     (case k of
        Boot2PodmanP \<Rightarrow> [''sudo /usr/bin/sethostname '' @ hostname @ '' && sudo mkdir -p /var/lib/boot2podman/etc && echo '' @ Quote hostname @
          '' | sudo tee /var/lib/boot2podman/etc/hostname'']
      | _ \<Rightarrow> [''sudo hostname '' @ hostname @ '' && echo '' @ Quote hostname @ '' | sudo tee /etc/hostname'',
          ''if grep -xq 127.0.1.1.* /etc/hosts; then sudo sed -i '' @ [CHR 0x27] @ ''s/^127.0.1.1.*/127.0.1.1 '' @
          hostname @ ''/g'' @ [CHR 0x27] @ '' /etc/hosts; else echo '' @ [CHR 0x27] @ ''127.0.1.1 '' @ hostname @ [CHR 0x27] @
          '' | sudo tee -a /etc/hosts; fi''])"

definition setupCmds :: "provKind \<Rightarrow> string list \<Rightarrow> string \<Rightarrow> string list" where
  "setupCmds k packages hostname =
     hostnameCmds k hostname @
     (case k of Boot2PodmanP \<Rightarrow> [''sudo mkdir -p /var/lib/boot2podman''] | _ \<Rightarrow> map (\<lambda>pkg. ''sudo -E yum install -y '' @ pkg) packages)"

definition uploadCmds :: "authOptions \<Rightarrow> string \<Rightarrow> string \<Rightarrow> string \<Rightarrow> string list" where
  "uploadCmds a ca cert key =
     [certTransferCmd ca (CaCertRemotePath a), certTransferCmd cert (ServerCertRemotePath a), certTransferCmd key (ServerKeyRemotePath a)]"

text \<open>Writing local files sends nothing.\<close>

interpretation quietLog: quiet_world "\<lambda>w. sent lg w = l"
  by unfold_locales (simp add: sent_def)

lemma CopyFile_sends_nothing: "stays (\<lambda>w. sent lg w = l) (CopyFile src dst)"
proof -
  have "stays (\<lambda>w. sent lg w = l) (osOpen p)" "stays (\<lambda>w. sent lg w = l) (openTrunc p m)" "stays (\<lambda>w. sent lg w = l) (writeData p s)"
    "stays (\<lambda>w. sent lg w = l) (osChmod p m)" for p m s
    by (rule staysI, auto simp: osOpen_def openTrunc_def writeData_def osChmod_def osCall_def sent_def
        split: list.splits option.splits node.splits if_splits)+
  then show ?thesis unfolding CopyFile_def by (intro stay_rules quietLog.stays_readFile quietLog.stays_osStat)
qed

lemma readFile_here: "readFile p w = (Ok s, w') \<Longrightarrow> sent lg w' = sent lg w \<and> fs w' = fs w \<and> (\<exists>m. lookupFs w p = Some (File m s))"
  using idleD [OF idle_readFile] readFile_Ok by metis

text \<open>The end of \<open>ConfigureAuth\<close>: what the three files hold is what is sent.\<close>

definition uploadCerts ::
  "('v os_world_scheme, 'c) prov_env \<Rightarrow> 'v os_world_scheme provisioner \<Rightarrow> authOptions \<Rightarrow> ('v os_world_scheme, unit) io" where
  "uploadCerts P p a =
     bindP (readFile (CaCertPath a)) (\<lambda>ca. bindP (readFile (ServerCertPath a)) (\<lambda>cert. bindP (readFile (ServerKeyPath a)) (\<lambda>key.
     bindP (runSSH P p (certTransferCmd ca (CaCertRemotePath a))) (\<lambda>_.
     bindP (runSSH P p (certTransferCmd cert (ServerCertRemotePath a))) (\<lambda>_.
     runSSH P p (certTransferCmd key (ServerKeyRemotePath a)))))))"

lemma readFiles:
  assumes "bindP (readFile a) (\<lambda>x. bindP (readFile b) (\<lambda>y. bindP (readFile c) (f x y))) w = (Ok u, w')"
  shows "\<exists>x y z m1 m2 m3 w3. f x y z w3 = (Ok u, w') \<and> sent lg w3 = sent lg w \<and> fs w3 = fs w \<and>
    lookupFs w a = Some (File m1 x) \<and> lookupFs w b = Some (File m2 y) \<and> lookupFs w c = Some (File m3 z)"
proof -
  from assms obtain x w1 y w2 z w3 where r: "readFile a w = (Ok x, w1)" "readFile b w1 = (Ok y, w2)" "readFile c w2 = (Ok z, w3)"
    and f: "f x y z w3 = (Ok u, w')" by (elim bindP_OkE)
  from readFile_here [OF r(1), of lg] readFile_here [OF r(2), of lg] readFile_here [OF r(3), of lg] f
  show ?thesis by (auto simp: lookupFs_def)
qed

lemma uploadCerts_sends:
  assumes P: "records lg (pe_ssh P)" "idleInfo lg (prov_Driver p)" and run: "uploadCerts P p a w = (Ok (), w')"
  shows "\<exists>m1 m2 m3 ca cert key. sent lg w' = sent lg w @ uploadCmds a ca cert key \<and> fs w' = fs w \<and>
    lookupFs w (CaCertPath a) = Some (File m1 ca) \<and> lookupFs w (ServerCertPath a) = Some (File m2 cert) \<and>
    lookupFs w (ServerKeyPath a) = Some (File m3 key)"
proof -
  from readFiles [OF run [unfolded uploadCerts_def], of lg] obtain ca cert key m1 m2 m3 w3 where
    s: "bindP (runSSH P p (certTransferCmd ca (CaCertRemotePath a))) (\<lambda>_. bindP (runSSH P p (certTransferCmd cert (ServerCertRemotePath a))) (\<lambda>_.
      runSSH P p (certTransferCmd key (ServerKeyRemotePath a)))) w3 = (Ok (), w')"
    and f: "sent lg w3 = sent lg w" "fs w3 = fs w" "lookupFs w (CaCertPath a) = Some (File m1 ca)"
      "lookupFs w (ServerCertPath a) = Some (File m2 cert)" "lookupFs w (ServerKeyPath a) = Some (File m3 key)" by blast
  have "sends lg (bindP (runSSH P p (certTransferCmd ca (CaCertRemotePath a))) (\<lambda>_. bindP (runSSH P p (certTransferCmd cert (ServerCertRemotePath a))) (\<lambda>_.
      runSSH P p (certTransferCmd key (ServerKeyRemotePath a)))))
    ([certTransferCmd ca (CaCertRemotePath a)] @ [certTransferCmd cert (ServerCertRemotePath a)] @ [certTransferCmd key (ServerKeyRemotePath a)])"
    by (intro sends_bindP sends_runSSH P)
  from sendsD [OF this s] f show ?thesis by (auto simp: uploadCmds_def)
qed

text \<open>The certificate of the server that is asked for.\<close>

definition serverCertOptions :: "authOptions \<Rightarrow> string \<Rightarrow> string \<Rightarrow> certOptions" where
  "serverCertOptions a ip org =
     \<lparr>Hosts = ServerCertSANs a @ [ip, ''localhost''], CertFile = ServerCertPath a, KeyFile = ServerKeyPath a,
      CAFile = CaCertPath a, CAKeyFile = CaPrivateKeyPath a, Org = org, Bits = 2048\<rparr>"

lemma ConfigureAuth_generates:
  assumes d: "idleInfo lg (prov_Driver p)" and gen: "\<And>opts l. stays (\<lambda>w. sent lg w = l) (gen_Cert (pe_gen P) opts)"
    and run: "ConfigureAuth P p w = (Ok (), w')"
  shows "\<exists>ip org v v'. gen_Cert (pe_gen P) (serverCertOptions (AuthOptions p) ip org) v = (Ok (), v') \<and> sent lg v' = sent lg w \<and>
    uploadCerts P p (AuthOptions p) v' = (Ok (), w')"
proof -
  let ?a = "AuthOptions p"
  have split: "ConfigureAuth P p =
     bindP (GetMachineName (prov_Driver p)) (\<lambda>name. bindP getW (\<lambda>w0. bindP (orErr (GetIP (prov_Driver p))) (\<lambda>ip.
     bindP (wrapErr (errorf ''Copying ca.pem to machine dir failed: '') (CopyFile (CaCertPath ?a) (pathJoin [auth_StorePath ?a, ''ca.pem'']))) (\<lambda>_.
     bindP (wrapErr (errorf ''Copying cert.pem to machine dir failed: '') (CopyFile (ClientCertPath ?a) (pathJoin [auth_StorePath ?a, ''cert.pem'']))) (\<lambda>_.
     bindP (wrapErr (errorf ''Copying key.pem to machine dir failed: '') (CopyFile (ClientKeyPath ?a) (pathJoin [auth_StorePath ?a, ''key.pem'']))) (\<lambda>_.
     bindP (wrapErr (errorf ''error generating server cert: '')
       (gen_Cert (pe_gen P) (serverCertOptions ?a ip (GetUsername (goos (pe_ssh P)) w0 @ ''.'' @ name)))) (\<lambda>_. uploadCerts P p ?a)))))))"
    by (simp only: ConfigureAuth_def uploadCerts_def serverCertOptions_def Let_def append.assoc)
  note i = idleInfo_rules [OF d]
  show ?thesis
    using run unfolding split
    apply (elim bindP_OkE)
    apply (simp only: wrapErr_Ok)
    subgoal premises prems for name w1 w0 w1' ip w2 c1 w3 c2 w4 c3 w5 c4 w6
    proof -
      have "sent lg w6 = sent lg w"
        using idleD [OF i(5) prems(1)] idleD [OF idle_rules(4) [OF i(6)] prems(3)] prems(2) staysD [OF CopyFile_sends_nothing prems(4)]
          staysD [OF CopyFile_sends_nothing prems(5)] staysD [OF CopyFile_sends_nothing prems(6)] staysD [OF gen prems(7)]
        by (auto simp: getW_def)
      then show ?thesis using prems(7,8) by auto
    qed
    done
qed

lemma sends_SetHostname:
  assumes "records lg (pe_ssh P)" and "idleInfo lg (prov_Driver p)"
  shows "sends lg (SetHostname P p n) (hostnameCmds (prov_kind p) n)"
proof -
  have two: "sends lg (bindP (runSSH P p x) (\<lambda>_. runSSH P p y)) [x, y]" for x y
    using sends_bindP [OF sends_runSSH [OF assms, of x] sends_runSSH [OF assms, of y]] by simp
  have "sends lg (redhat_SetHostname P p n) (hostnameCmds RedHatP n)"
    using two unfolding redhat_SetHostname_def hostnameCmds_def provKind.case by blast
  moreover have "hostnameCmds CentosP n = hostnameCmds RedHatP n" "hostnameCmds FedoraP n = hostnameCmds RedHatP n"
    by (simp_all add: hostnameCmds_def)
  moreover have "sends lg (boot2podman_SetHostname P p n) (hostnameCmds Boot2PodmanP n)"
    unfolding boot2podman_SetHostname_def hostnameCmds_def provKind.case by (rule sends_runSSH [OF assms])
  ultimately show ?thesis unfolding SetHostname_def by (cases "prov_kind p") simp_all
qed

text \<open>The steps before the certificates.\<close>

lemma Provision_setup:
  assumes P: "records lg (pe_ssh P)" "idleInfo lg (prov_Driver p)" and run: "Provision P p auth eng w = (Ok (), w')"
  shows "\<exists>name w1 v. GetMachineName (prov_Driver p) w = (Ok name, w1) \<and> sent lg v = sent lg w @ setupCmds (prov_kind p) (Packages p) name \<and>
    ConfigureAuth P (p\<lparr>EngineOptions := eng, AuthOptions := setRemoteAuthOptions (p\<lparr>AuthOptions := auth, EngineOptions := eng\<rparr>)\<rparr>) v = (Ok (), w')"
proof -
  let ?p = "p\<lparr>AuthOptions := auth, EngineOptions := eng\<rparr>"
  let ?q = "p\<lparr>EngineOptions := eng, AuthOptions := setRemoteAuthOptions ?p\<rparr>"
  let ?m = "if prov_kind p = Boot2PodmanP then makeEngineOptionsDir P ?p else forEach (Packages p) (\<lambda>pkg. Package P ?p pkg PkgInstall)"
  have P': "records lg (pe_ssh P)" "idleInfo lg (prov_Driver ?p)" using P by simp_all
  have split: "Provision P p auth eng =
    bindP (GetMachineName (prov_Driver p)) (\<lambda>name. bindP (SetHostname P ?p name) (\<lambda>_. bindP ?m (\<lambda>_. ConfigureAuth P ?q)))"
    by (cases "prov_kind p") (simp_all add: Provision_def boot2podman_Provision_def redhat_Provision_def Let_def)
  have m: "sends lg ?m (case prov_kind p of Boot2PodmanP \<Rightarrow> [''sudo mkdir -p /var/lib/boot2podman''] | _ \<Rightarrow> map (\<lambda>pkg. ''sudo -E yum install -y '' @ pkg) (Packages p))"
  proof (cases "prov_kind p = Boot2PodmanP")
    case True
    then show ?thesis using sends_runSSH [OF P', of "''sudo mkdir -p '' @ boot2podman_GetEngineOptionsDir"]
      by (simp add: makeEngineOptionsDir_def GetEngineOptionsDir_def boot2podman_GetEngineOptionsDir_def)
  next
    case False
    then have "Package P ?p pkg PkgInstall = runSSH P ?p (''sudo -E yum install -y '' @ pkg)" for pkg
      by (cases "prov_kind p") (simp_all add: Package_def redhat_Package_def Let_def)
    then have "?m = forEach (Packages p) (\<lambda>pkg. runSSH P ?p (''sudo -E yum install -y '' @ pkg))"
      by (simp only: False if_False)
    moreover have "sends lg (forEach (Packages p) (\<lambda>pkg. runSSH P ?p (''sudo -E yum install -y '' @ pkg)))
        (map (\<lambda>pkg. ''sudo -E yum install -y '' @ pkg) (Packages p))" by (rule sends_forEach [OF sends_runSSH [OF P']])
    ultimately show ?thesis using False by (cases "prov_kind p") (simp_all only: provKind.case simp_thms)
  qed
  from run [unfolded split] obtain name w1 w2 v where 1: "GetMachineName (prov_Driver p) w = (Ok name, w1)"
    and 2: "SetHostname P ?p name w1 = (Ok (), w2)" and 3: "?m w2 = (Ok (), v)" and 4: "ConfigureAuth P ?q v = (Ok (), w')"
    by (elim bindP_OkE) auto
  have "sent lg v = sent lg w @ setupCmds (prov_kind p) (Packages p) name"
    using idleD [OF idleInfo_rules(5) [OF P(2)] 1] sendsD [OF sends_SetHostname [OF P'] 2] sendsD [OF m 3] by (simp add: setupCmds_def)
  with 1 4 show ?thesis by blast
qed

text \<open>When provisioning succeeds, the commands that reached the machine are those that set its name and prepare it, and then,
  after a server certificate for the addresses of the machine was made, exactly three that write the authority, the server certificate and
  its key, with the contents that the local files have at the end, to their remote paths.\<close>

lemma Provision_sends:
  assumes ssh: "records lg (pe_ssh P)" and d: "idleInfo lg (prov_Driver p)"
    and gen: "\<And>opts l. stays (\<lambda>w. sent lg w = l) (gen_Cert (pe_gen P) opts)"
    and run: "Provision P p auth eng w = (Ok (), w')"
  shows "\<exists>name ip org v v' m1 m2 m3 ca cert key.
    sent lg w' = sent lg w @ setupCmds (prov_kind p) (Packages p) name @
      uploadCmds (setRemoteAuthOptions (p\<lparr>AuthOptions := auth\<rparr>)) ca cert key \<and>
    gen_Cert (pe_gen P) (serverCertOptions auth ip org) v = (Ok (), v') \<and>
    sent lg v' = sent lg w @ setupCmds (prov_kind p) (Packages p) name \<and> fs w' = fs v' \<and>
    lookupFs w' (CaCertPath auth) = Some (File m1 ca) \<and> lookupFs w' (ServerCertPath auth) = Some (File m2 cert) \<and>
    lookupFs w' (ServerKeyPath auth) = Some (File m3 key)"
proof -
  let ?p = "p\<lparr>AuthOptions := auth, EngineOptions := eng\<rparr>"
  let ?a = "setRemoteAuthOptions ?p" let ?q = "p\<lparr>EngineOptions := eng, AuthOptions := ?a\<rparr>"
  have "generic_GetEngineOptionsDir ?p = generic_GetEngineOptionsDir (p\<lparr>AuthOptions := auth\<rparr>)"
    by (simp add: generic_GetEngineOptionsDir_def)
  then have a: "?a = setRemoteAuthOptions (p\<lparr>AuthOptions := auth\<rparr>)"
    by (cases "prov_kind p") (simp_all add: setRemoteAuthOptions_def GetEngineOptionsDir_def)
  have a': "CaCertPath ?a = CaCertPath auth" "ServerCertPath ?a = ServerCertPath auth" "ServerKeyPath ?a = ServerKeyPath auth"
    "serverCertOptions ?a = serverCertOptions auth"
    by (simp_all add: setRemoteAuthOptions_def serverCertOptions_def fun_eq_iff)
  from Provision_setup [OF ssh d run] obtain name v0 where 0: "sent lg v0 = sent lg w @ setupCmds (prov_kind p) (Packages p) name"
    and c: "ConfigureAuth P ?q v0 = (Ok (), w')" by (elim exE conjE) (rule that)
  have d': "idleInfo lg (prov_Driver ?q)" using d by simp
  have q: "AuthOptions ?q = ?a" by simp
  from ConfigureAuth_generates [OF d' gen c, unfolded q a'] obtain ip org v v' where
    g: "gen_Cert (pe_gen P) (serverCertOptions auth ip org) v = (Ok (), v')" "sent lg v' = sent lg v0"
    and u: "uploadCerts P ?q ?a v' = (Ok (), w')" by (elim exE conjE) (rule that)
  from uploadCerts_sends [OF ssh d' u, unfolded q a', unfolded a] obtain m1 m2 m3 ca cert key where
    s: "sent lg w' = sent lg v' @ uploadCmds (setRemoteAuthOptions (p\<lparr>AuthOptions := auth\<rparr>)) ca cert key" "fs w' = fs v'"
    and l: "lookupFs v' (CaCertPath auth) = Some (File m1 ca)" "lookupFs v' (ServerCertPath auth) = Some (File m2 cert)"
      "lookupFs v' (ServerKeyPath auth) = Some (File m3 key)" unfolding a' a by blast
  have "lookupFs w' = lookupFs v'" by (simp add: lookupFs_def s(2) fun_eq_iff)
  note l' = l [folded this]
  have t: "sent lg v' = sent lg w @ setupCmds (prov_kind p) (Packages p) name" by (simp only: g(2) 0)
  have "sent lg w' = sent lg w @ setupCmds (prov_kind p) (Packages p) name @
      uploadCmds (setRemoteAuthOptions (p\<lparr>AuthOptions := auth\<rparr>)) ca cert key" by (simp only: s(1) t append_assoc)
  then show ?thesis by (intro exI conjI) (assumption | rule g(1) t s(2) l')+
qed

text \<open>The provisioners of the Red Hat family have no options directory: the remote paths are relative to the login directory.\<close>

lemma redhat_remote_relative:
  assumes "k \<noteq> Boot2PodmanP"
  shows "ServerKeyRemotePath (setRemoteAuthOptions ((SetOsReleaseInfo info (newProvisioner k d))\<lparr>AuthOptions := auth\<rparr>)) = ''server-key.pem''"
proof -
  have "pathJoin [[], ''server-key.pem''] = ''server-key.pem''" by code_simp
  with assms show ?thesis
    by (cases k) (simp_all add: setRemoteAuthOptions_def GetEngineOptionsDir_def generic_GetEngineOptionsDir_def SetOsReleaseInfo_def)
qed

section \<open>The creation of a machine\<close>

lemma StdCreateSSHClient_external:
  assumes E: "records lg E" and d: "idleInfo lg d" and run: "StdCreateSSHClient E d w = (Ok client, w')"
  shows "(\<exists>c. client = ExternalC c) \<and> sent lg w' = sent lg w \<and> fs w' = fs w"
proof -
  note i = idleInfo_rules [OF d]
  have t: "idle lg (sshTarget d)" unfolding sshTarget_def by (auto intro!: idle_rules i)
  from run obtain addr port auth w1 user w2 where 1: "sshTarget d w = (Ok (addr, port, auth), w1)" "GetSSHUsername d w1 = (Ok user, w2)"
    and n: "NewClient E user addr port auth w2 = (Ok client, w')"
    unfolding StdCreateSSHClient_def by (auto elim!: bindP_OkE)
  from NewClient_external [OF E n] idleD [OF t 1(1)] idleD [OF i(3) 1(2)] show ?thesis by simp
qed

text \<open>The last contact: the version of Podman.\<close>

lemma sends_version:
  assumes E: "records lg (pe_ssh (he_prov H))" and d: "idleInfo lg d" "driverOf H h = ret d"
  shows "sends lg (bindP (wrapErr f (host_CreateSSHClient H h)) (\<lambda>client.
    bindP (wrapErr g (orErr (Client_Output (pe_ssh (he_prov H)) client cmd))) (\<lambda>_. ret ()))) [cmd]"
  unfolding sends_def
proof (intro allI impI, elim bindP_OkE)
  fix w x w' client w1 out w2
  assume 1: "wrapErr f (host_CreateSSHClient H h) w = (Ok client, w1)"
    and 2: "wrapErr g (orErr (Client_Output (pe_ssh (he_prov H)) client cmd)) w1 = (Ok out, w2)" and 3: "ret () w2 = (Ok x, w')"
  from 1 d(2) have "StdCreateSSHClient (pe_ssh (he_prov H)) d w = (Ok client, w1)"
    by (simp add: host_CreateSSHClient_def bindP_def ret_def)
  from StdCreateSSHClient_external [OF E d(1) this] obtain c where c: "client = ExternalC c" and s: "sent lg w1 = sent lg w" "fs w1 = fs w" by blast
  from 2 obtain o' where "runCombined (pe_ssh (he_prov H)) (BinaryPath c) (BaseArgs c @ [cmd]) w1 = (Ok o', w2)"
    unfolding c by (auto simp: orErr_def ExternalClient_Output_def ret_def throw_def split: option.splits elim!: bindP_OkE)
  with E have "sent lg w2 = sent lg w1 @ [cmd] \<and> fs w2 = fs w1" unfolding records_def by (metis last_snoc snd_conv)
  with s 3 show "sent lg w' = sent lg w @ [cmd] \<and> fs w' = fs w" by (simp add: ret_def)
qed

lemma newProvisioner_Packages: "Packages (SetOsReleaseInfo info (newProvisioner k d)) = []"
  by (cases k) (simp_all add: SetOsReleaseInfo_def)

text \<open>A detected provisioner installs no packages.\<close>

lemma DetectProvisioner_packages:
  assumes "DetectProvisioner P order d w = (Ok p, w')"
  shows "Packages p = []"
proof -
  have "Packages p = []" if "firstCompatible order info d = Some p" for info
    using that unfolding firstCompatible_Some_iff by (metis newProvisioner_Packages)
  then show ?thesis using assms unfolding DetectProvisioner_def
    by (auto simp: ret_def throw_def panic_def blocked_def split: result.splits option.splits elim!: bindP_OkE)
qed

text \<open>The parts of a successful creation of a machine that is provisioned.\<close>

lemma performCreate_provisions:
  assumes d: "h_Driver h = LiveDriver d" "DriverName d = ret n" "n \<notin> {''none'', ''ci-test''}"
    and run: "performCreate c h w = (Ok (), w')"
  shows "\<exists>w1 wr w2 p w3 auth eng w4 w5. Create d w = (Ok (), w1) \<and> MachineInState d Running wr = (Ok True, w2) \<and>
    host_detect (cl_host c) d w2 = (Ok p, w3) \<and> derefOptions h w3 = (Ok (auth, eng), w4) \<and>
    Provision (he_prov (cl_host c)) p auth eng w4 = (Ok (), w5) \<and>
    bindP (wrapErr (errorf ''Error creating SSH client: '') (host_CreateSSHClient (cl_host c) h)) (\<lambda>client.
      bindP (wrapErr (errorf ''Error getting podman version: '')
        (orErr (Client_Output (pe_ssh (he_prov (cl_host c))) client ''podman --version''))) (\<lambda>_. ret ())) w5 = (Ok (), w')"
proof -
  let ?H = "cl_host c"
  define tl where "tl = bindP (wrapErr (errorf ''Error creating SSH client: '') (host_CreateSSHClient ?H h)) (\<lambda>client.
      bindP (wrapErr (errorf ''Error getting podman version: '')
        (orErr (Client_Output (pe_ssh (he_prov ?H)) client ''podman --version''))) (\<lambda>_. ret ()))"
  have dr: "driverOf ?H h = ret d" using d(1) by (simp add: driverOf_def)
  have skip: "bindP (DriverName d) (\<lambda>n1. bindP (if n1 = ''none'' then ret True else bindP (DriverName d) (\<lambda>n2. ret (n2 = ''ci-test'')))
      (\<lambda>bare. if bare then ret () else m)) = m" for m
    using d(2,3) by (auto simp: bindP_def ret_def fun_eq_iff)
  from run obtain w1 wb w2 p w3 auth eng w4 w5 where "Create d w = (Ok (), w1)"
    and r: "WaitFor (he_sleep ?H) (MachineInState d Running) wb = (Ok (), w2)"
    and "host_detect ?H d w2 = (Ok p, w3)" "derefOptions h w3 = (Ok (auth, eng), w4)"
      "Provision (he_prov ?H) p auth eng w4 = (Ok (), w5)" "tl w5 = (Ok (), w')"
    unfolding performCreate_def Let_def dr bindP_ret unfolding tl_def [symmetric] skip by (auto simp: ret_def elim!: bindP_OkE)
  moreover from WaitFor_sound [OF r] obtain wr where "MachineInState d Running wr = (Ok True, w2)" by blast
  ultimately show ?thesis unfolding tl_def by blast
qed

section \<open>Property\<close>


text \<open>A machine that accepts every command, over a log.\<close>

definition logEnv :: "(string list os_world_scheme, unit) prov_env" where
  "logEnv = \<lparr>pe_ssh = demoSSH\<lparr>runCombined := (\<lambda>b a w. (Ok (''ID=boot2podman'', None), w\<lparr>os_world.more := os_world.more w @ [last a]\<rparr>))\<rparr>,
     pe_b2p = demoB2p, pe_gen = demoGenerator\<lparr>gen_Cert := (\<lambda>opts. ret ())\<rparr>, baseDir = ''/s'', driverISOURL = (\<lambda>d. ret [])\<rparr>"

definition logDriver :: "string list os_world_scheme driver" where
  "logDriver = FakeDriver \<lparr>lget = (\<lambda>w. demoFake Running), lput = (\<lambda>s w. w)\<rparr>"

definition logAuth :: authOptions where
  "logAuth = zeroAuthOptions\<lparr>CertDir := ''/c'', CaCertPath := ''/c/ca.pem'', ClientCertPath := ''/c/cert.pem'', ClientKeyPath := ''/c/key.pem'',
     ServerCertPath := ''/s/server.pem'', ServerKeyPath := ''/s/server-key.pem'', auth_StorePath := ''/s''\<rparr>"

definition logWorld :: "string list os_world_scheme" where
  "logWorld = plainWorld [(''/s'', Dir), (''/c'', Dir), (''/c/ca.pem'', File 420 ''CA''), (''/c/cert.pem'', File 420 ''C''), (''/c/key.pem'', File 384 ''K''),
     (''/s/server.pem'', File 420 ''SC''), (''/s/server-key.pem'', File 384 ''SK'')] []"

definition logClient :: "(string list os_world_scheme, unit) client" where
  "logClient = (demoClient logDriver)\<lparr>cl_host := \<lparr>he_prov = logEnv, provOrder = registered, urlHost = Inr\<rparr>\<rparr>"

definition logHost :: "string list os_world_scheme host" where
  "logHost = (newHost ''m'')\<lparr>h_Driver := LiveDriver logDriver, h_HostOptions := Some \<lparr>ho_Driver = [], ho_Memory = 0, ho_Disk = 0,
     ho_EngineOptions = Some zeroEngineOptions, ho_AuthOptions = Some logAuth\<rparr>\<rparr>"


end
