(* ===== verification/Stdout_Capture.thy ===== *)
theory Stdout_Capture
  imports Go_Prelude
begin

text \<open>
  \<open>commands/commandstest/stdout_capture.go\<close>: the standard output is replaced by the write end of a pipe, a goroutine copies the pipe
  into a buffer until it is closed, and \<open>Output\<close> closes it and receives the buffer over a channel.  The caller is a list of the
  operations it performs; the pipe holds at most \<open>cap\<close> bytes, and a write waits for room.
\<close>

section \<open>The steps\<close>

datatype stdoutFile = Terminal | PipeEnd

datatype captureOp = Print string | Output | StopCapture

datatype copier = Copying | Sending string | CopierDone

text \<open>\<open>cp_todo\<close> is what the caller has left to do, \<open>cp_waiting\<close> tells that its \<open>Output\<close> has closed the pipe and waits on the channel,
  \<open>cp_outputs\<close> are the texts it has got.\<close>

record capture =
  cp_stdout :: stdoutFile
  cp_terminal :: string
  cp_pipe :: string
  cp_pipeClosed :: bool
  cp_buffer :: string
  cp_copier :: copier
  cp_chanClosed :: bool
  cp_todo :: "captureOp list"
  cp_waiting :: bool
  cp_outputs :: "string list"
  cp_panicked :: bool

definition NewStdoutGetter :: "captureOp list \<Rightarrow> capture" where
  "NewStdoutGetter ops = \<lparr>cp_stdout = PipeEnd, cp_terminal = [], cp_pipe = [], cp_pipeClosed = False, cp_buffer = [], cp_copier = Copying,
     cp_chanClosed = False, cp_todo = ops, cp_waiting = False, cp_outputs = [], cp_panicked = False\<rparr>"

text \<open>The error of a write to a closed file is ignored by those who print, and that of closing it again by \<open>Output\<close>.  A receive from a
  closed channel returns at once, and closing the channel a second time panics.\<close>

inductive capture_step :: "nat \<Rightarrow> capture \<Rightarrow> capture \<Rightarrow> bool" for cap where
  printTerminal: "\<not> cp_panicked s \<Longrightarrow> cp_todo s = Print t # ops \<Longrightarrow> cp_stdout s = Terminal \<Longrightarrow>
    capture_step cap s (s\<lparr>cp_terminal := cp_terminal s @ t, cp_todo := ops\<rparr>)"
| printByte: "\<not> cp_panicked s \<Longrightarrow> cp_todo s = Print (c # t) # ops \<Longrightarrow> cp_stdout s = PipeEnd \<Longrightarrow> \<not> cp_pipeClosed s \<Longrightarrow>
    length (cp_pipe s) < cap \<Longrightarrow> capture_step cap s (s\<lparr>cp_pipe := cp_pipe s @ [c], cp_todo := Print t # ops\<rparr>)"
| printEnd: "\<not> cp_panicked s \<Longrightarrow> cp_todo s = Print t # ops \<Longrightarrow> cp_stdout s = PipeEnd \<Longrightarrow> t = [] \<or> cp_pipeClosed s \<Longrightarrow>
    capture_step cap s (s\<lparr>cp_todo := ops\<rparr>)"
| outputClose: "\<not> cp_panicked s \<Longrightarrow> cp_todo s = Output # ops \<Longrightarrow> \<not> cp_waiting s \<Longrightarrow>
    capture_step cap s (s\<lparr>cp_pipeClosed := True, cp_waiting := True\<rparr>)"
| outputReceive: "\<not> cp_panicked s \<Longrightarrow> cp_todo s = Output # ops \<Longrightarrow> cp_waiting s \<Longrightarrow> cp_copier s = Sending t \<Longrightarrow>
    capture_step cap s (s\<lparr>cp_copier := CopierDone, cp_chanClosed := True, cp_outputs := cp_outputs s @ [t], cp_waiting := False, cp_todo := ops\<rparr>)"
| outputAgain: "\<not> cp_panicked s \<Longrightarrow> cp_todo s = Output # ops \<Longrightarrow> cp_waiting s \<Longrightarrow> cp_chanClosed s \<Longrightarrow>
    capture_step cap s (s\<lparr>cp_panicked := True\<rparr>)"
| stop: "\<not> cp_panicked s \<Longrightarrow> cp_todo s = StopCapture # ops \<Longrightarrow> capture_step cap s (s\<lparr>cp_stdout := Terminal, cp_todo := ops\<rparr>)"
| copyByte: "cp_copier s = Copying \<Longrightarrow> cp_pipe s = c # t \<Longrightarrow> capture_step cap s (s\<lparr>cp_pipe := t, cp_buffer := cp_buffer s @ [c]\<rparr>)"
| copyEnd: "cp_copier s = Copying \<Longrightarrow> cp_pipe s = [] \<Longrightarrow> cp_pipeClosed s \<Longrightarrow> capture_step cap s (s\<lparr>cp_copier := Sending (cp_buffer s)\<rparr>)"

section \<open>What is captured\<close>

text \<open>What a caller prints before it takes the output or stops the capture.\<close>

fun captured :: "captureOp list \<Rightarrow> string" where
  "captured (Print t # ops) = t @ captured ops"
| "captured ops = []"

fun outputs :: "captureOp list \<Rightarrow> nat" where
  "outputs [] = 0"
| "outputs (Output # ops) = Suc (outputs ops)"
| "outputs (_ # ops) = outputs ops"

text \<open>\<open>t\<close> is the text to capture, \<open>n\<close> the number of the calls of \<open>Output\<close>.\<close>

definition capture_inv :: "string \<Rightarrow> nat \<Rightarrow> capture \<Rightarrow> bool" where
  "capture_inv t n s \<longleftrightarrow>
     (case cp_copier s of
        Copying \<Rightarrow> cp_buffer s @ cp_pipe s @ (if cp_stdout s = PipeEnd \<and> \<not> cp_pipeClosed s then captured (cp_todo s) else []) = t \<and> cp_outputs s = []
      | Sending u \<Rightarrow> u = t \<and> cp_pipeClosed s \<and> cp_outputs s = []
      | CopierDone \<Rightarrow> cp_outputs s = [t] \<and> cp_pipeClosed s) \<and>
     (cp_chanClosed s \<longleftrightarrow> cp_copier s = CopierDone) \<and>
     (cp_waiting s \<longrightarrow> cp_pipeClosed s \<and> (\<exists>ops. cp_todo s = Output # ops)) \<and>
     (cp_pipeClosed s \<longrightarrow> cp_waiting s \<or> cp_chanClosed s) \<and>
     outputs (cp_todo s) + length (cp_outputs s) = n \<and> (cp_panicked s \<longrightarrow> n \<ge> 2)"

lemma capture_inv_init: "capture_inv (captured ops) (outputs ops) (NewStdoutGetter ops)"
  by (simp add: capture_inv_def NewStdoutGetter_def)

lemma capture_inv_step: "capture_step cap s s' \<Longrightarrow> capture_inv t n s \<Longrightarrow> capture_inv t n s'"
  by (induction rule: capture_step.induct) (auto simp: capture_inv_def split: copier.splits if_splits)

lemma capture_inv_reach: "(capture_step cap)\<^sup>*\<^sup>* (NewStdoutGetter ops) s \<Longrightarrow> capture_inv (captured ops) (outputs ops) s"
  by (induction rule: rtranclp_induct) (auto intro: capture_inv_init capture_inv_step)

text \<open>A pipe with room lets somebody move until the caller is done.\<close>

lemma capture_progress:
  assumes "capture_inv t n s" and "0 < cap" and "cp_todo s \<noteq> []" and "\<not> cp_panicked s"
  shows "\<exists>s'. capture_step cap s s'"
proof (cases "cp_copier s = Copying \<and> (cp_pipe s \<noteq> [] \<or> cp_pipeClosed s)")
  case True
  then show ?thesis by (cases "cp_pipe s") (blast intro: capture_step.copyByte capture_step.copyEnd)+
next
  case False
  obtain p ops where todo: "cp_todo s = p # ops" using assms(3) by (cases "cp_todo s") auto
  show ?thesis
  proof (cases p)
    case (Print u)
    with False assms todo show ?thesis
      by (cases "cp_stdout s"; cases u; cases "cp_pipeClosed s")
        (fastforce simp: capture_inv_def split: copier.splits intro: capture_step.printTerminal capture_step.printByte capture_step.printEnd)+
  next
    case Output
    with False assms todo show ?thesis
      by (cases "cp_waiting s"; cases "cp_copier s")
        (fastforce simp: capture_inv_def intro: capture_step.outputClose capture_step.outputReceive capture_step.outputAgain)+
  next
    case StopCapture
    with assms(4) todo show ?thesis by (blast intro: capture_step.stop)
  qed
qed

text \<open>Every run comes to an end.\<close>

fun opWeight :: "captureOp \<Rightarrow> nat" where
  "opWeight (Print t) = Suc (2 * length t)"
| "opWeight Output = 2"
| "opWeight StopCapture = 1"

definition captureWeight :: "capture \<Rightarrow> nat" where
  "captureWeight s = 2 * sum_list (map opWeight (cp_todo s)) + length (cp_pipe s) + (if cp_waiting s then 0 else 1) + (if cp_panicked s then 0 else 1) +
     (if cp_copier s = Copying then 1 else 0)"

lemma capture_step_weight: "capture_step cap s s' \<Longrightarrow> captureWeight s' < captureWeight s"
  by (induction rule: capture_step.induct) (auto simp: captureWeight_def)

lemma capture_terminates: "wfP (\<lambda>s' s. capture_step cap s s')"
  by (rule wfp_if_convertible_to_nat [of _ captureWeight]) (rule capture_step_weight)

text \<open>A caller that takes the output once gets everything that it printed before, in the order of printing, for every size of the
  pipe and every order of the steps, and it never waits for ever.\<close>

lemma captured_once:
  assumes run: "(capture_step cap)\<^sup>*\<^sup>* (NewStdoutGetter ops) s" and stuck: "\<nexists>s'. capture_step cap s s'" and "0 < cap" and "outputs ops \<le> 1"
  shows "cp_todo s = [] \<and> \<not> cp_panicked s \<and> cp_outputs s = (if outputs ops = 0 then [] else [captured ops])"
proof -
  note i = capture_inv_reach [OF run]
  then have "\<not> cp_panicked s" using assms(4) by (auto simp: capture_inv_def)
  moreover from this have t: "cp_todo s = []" using capture_progress [OF i assms(3)] stuck by blast
  ultimately show ?thesis using i assms(4) by (auto simp: capture_inv_def split: copier.splits)
qed

text \<open>One that takes it twice never gets past the second time: it panics.\<close>

lemma captured_twice_panics:
  assumes run: "(capture_step cap)\<^sup>*\<^sup>* (NewStdoutGetter ops) s" and stuck: "\<nexists>s'. capture_step cap s s'" and "0 < cap" and "outputs ops \<ge> 2"
  shows "cp_panicked s"
proof (rule ccontr)
  assume "\<not> cp_panicked s"
  note i = capture_inv_reach [OF run]
  have "cp_todo s = []" using capture_progress [OF i assms(3)] stuck \<open>\<not> cp_panicked s\<close> by blast
  with i assms(4) show False by (auto simp: capture_inv_def split: copier.splits)
qed

end
