(* ===== verification/Heartbeat.thy ===== *)
theory Heartbeat
  imports Rpc
begin

text \<open>
  \<open>drivers/rpc/client_driver.go\<close>: the goroutine that a connected driver keeps, and the closing of the driver by the factory.  The goroutine
  waits for a token on \<open>heartbeatDoneCh\<close> or for the interval, and calls the server; when the call fails it closes the driver itself.  The
  channel has no buffer, so a token passes only from somebody who sends to somebody who receives at the same time.
\<close>

section \<open>The steps\<close>

text \<open>The goroutine: in the \<open>select\<close>, in the call of the server, in the send of \<open>close\<close>, ended.\<close>

datatype hbLoop = HbSelect | HbCalling | HbSending | HbEnded

text \<open>The closing of the driver by the factory: not begun, in the send, after it in the call of the server, returned.\<close>

datatype hbCloser = CloserIdle | CloserSending | CloserCalling | CloserDone

record hb_sys =
  hb_loop :: hbLoop
  hb_closer :: hbCloser
  hb_chanClosed :: bool
  hb_alive :: bool
  hb_beats :: nat

definition hb_init :: hb_sys where
  "hb_init = \<lparr>hb_loop = HbSelect, hb_closer = CloserIdle, hb_chanClosed = False, hb_alive = True, hb_beats = 0\<rparr>"

text \<open>The server may end at any time.  \<open>handover\<close> is the only step that passes the token: the one place that receives it is the \<open>select\<close>.
  The error of the last call of the server is only logged.\<close>

inductive hb_step :: "hb_sys \<Rightarrow> hb_sys \<Rightarrow> bool" where
  serverEnds: "hb_alive s \<Longrightarrow> hb_step s (s\<lparr>hb_alive := False\<rparr>)"
| interval: "hb_loop s = HbSelect \<Longrightarrow> hb_step s (s\<lparr>hb_loop := HbCalling\<rparr>)"
| beat: "hb_loop s = HbCalling \<Longrightarrow> hb_alive s \<Longrightarrow> hb_step s (s\<lparr>hb_loop := HbSelect, hb_beats := Suc (hb_beats s)\<rparr>)"
| beatFails: "hb_loop s = HbCalling \<Longrightarrow> \<not> hb_alive s \<Longrightarrow> hb_step s (s\<lparr>hb_loop := HbSending\<rparr>)"
| closeBegins: "hb_closer s = CloserIdle \<Longrightarrow> hb_step s (s\<lparr>hb_closer := CloserSending\<rparr>)"
| handover: "hb_closer s = CloserSending \<Longrightarrow> hb_loop s = HbSelect \<Longrightarrow> \<not> hb_chanClosed s \<Longrightarrow>
    hb_step s (s\<lparr>hb_loop := HbEnded, hb_closer := CloserCalling, hb_chanClosed := True\<rparr>)"
| closeCalls: "hb_closer s = CloserCalling \<Longrightarrow> hb_step s (s\<lparr>hb_closer := CloserDone, hb_alive := False\<rparr>)"

section \<open>The life of a connection\<close>

text \<open>The channel is closed once, by the factory, after the goroutine has ended; a heartbeat has failed only when the server had ended.\<close>

definition hb_inv :: "hb_sys \<Rightarrow> bool" where
  "hb_inv s \<longleftrightarrow> (hb_loop s = HbEnded \<longleftrightarrow> hb_closer s \<in> {CloserCalling, CloserDone}) \<and> (hb_chanClosed s \<longleftrightarrow> hb_loop s = HbEnded) \<and>
     (hb_loop s = HbSending \<longrightarrow> \<not> hb_alive s)"

lemma hb_inv_reach: "hb_step\<^sup>*\<^sup>* hb_init s \<Longrightarrow> hb_inv s"
proof (induction rule: rtranclp_induct)
  case base
  show ?case by (simp add: hb_inv_def hb_init_def)
next
  case (step s s')
  from step(2,3) show ?case by (induction rule: hb_step.induct) (auto simp: hb_inv_def)
qed

text \<open>A failed heartbeat is the end: the goroutine never leaves its send, and the factory never gets past its own.\<close>

lemma sending_stuck:
  assumes "hb_step\<^sup>*\<^sup>* s s'" and "hb_loop s = HbSending" and "hb_closer s \<in> {CloserIdle, CloserSending}"
  shows "hb_loop s' = HbSending \<and> hb_closer s' \<in> {CloserIdle, CloserSending}"
  using assms by (induction rule: rtranclp_induct) (auto elim: hb_step.cases)

text \<open>While the goroutine is in its loop with a live server, the factory can close the driver.\<close>

lemma close_in_select:
  assumes "hb_inv s" and "hb_loop s = HbSelect"
  shows "\<exists>s'. hb_step\<^sup>*\<^sup>* s s' \<and> hb_closer s' = CloserDone"
proof -
  have end': "\<exists>s'. hb_step\<^sup>*\<^sup>* s s' \<and> hb_closer s' = CloserDone"
    if c: "hb_closer s = CloserSending" and l: "hb_loop s = HbSelect" and i: "\<not> hb_chanClosed s" for s
  proof -
    let ?t = "s\<lparr>hb_loop := HbEnded, hb_closer := CloserCalling, hb_chanClosed := True\<rparr>"
    have "hb_step s ?t" "hb_step ?t (?t\<lparr>hb_closer := CloserDone, hb_alive := False\<rparr>)"
      by (rule handover [OF c l i], rule closeCalls, simp)
    then have "hb_step\<^sup>*\<^sup>* s (?t\<lparr>hb_closer := CloserDone, hb_alive := False\<rparr>)" by (meson converse_rtranclp_into_rtranclp r_into_rtranclp)
    then show ?thesis by (rule exI [where x = "?t\<lparr>hb_closer := CloserDone, hb_alive := False\<rparr>", OF conjI]) simp
  qed
  have c: "hb_closer s \<in> {CloserIdle, CloserSending}" and n: "\<not> hb_chanClosed s"
    using assms by (cases "hb_closer s"; auto simp: hb_inv_def)+
  show ?thesis
  proof (cases "hb_closer s = CloserIdle")
    case True
    from end' [of "s\<lparr>hb_closer := CloserSending\<rparr>"] assms(2) n closeBegins [OF True] show ?thesis
      by (auto intro: converse_rtranclp_into_rtranclp)
  next
    case False
    with c end' [OF _ assms(2) n] show ?thesis by simp
  qed
qed

section \<open>Property\<close>

text \<open>C13: as long as the server lives, the factory can close a connected driver from every state of the connection; once a heartbeat has
  failed it never can: the goroutine closes the driver itself and waits to send a token that only it could receive, and whoever closes the
  driver afterwards waits behind it.  Such a state is reachable.\<close>

theorem lost_plugin_hangs_Close:
  assumes run: "hb_step\<^sup>*\<^sup>* hb_init s"
  shows "(hb_alive s \<longrightarrow> (\<exists>s'. hb_step\<^sup>*\<^sup>* s s' \<and> hb_closer s' = CloserDone)) \<and>
         (hb_loop s = HbSending \<longrightarrow> (\<forall>s'. hb_step\<^sup>*\<^sup>* s s' \<longrightarrow> hb_loop s' = HbSending \<and> hb_closer s' \<noteq> CloserDone)) \<and>
         (\<exists>s'. hb_step\<^sup>*\<^sup>* hb_init s' \<and> hb_loop s' = HbSending \<and> hb_closer s' = CloserSending)"
proof (intro conjI impI allI)
  note i = hb_inv_reach [OF run]
  show "\<exists>s'. hb_step\<^sup>*\<^sup>* s s' \<and> hb_closer s' = CloserDone" if a: "hb_alive s"
  proof (cases "hb_loop s")
    case HbSelect
    with close_in_select [OF i] show ?thesis by simp
  next
    case HbCalling
    let ?t = "s\<lparr>hb_loop := HbSelect, hb_beats := Suc (hb_beats s)\<rparr>"
    have "hb_step s ?t" by (rule beat [OF HbCalling a])
    moreover have "hb_inv ?t" using i HbCalling by (auto simp: hb_inv_def)
    ultimately show ?thesis using close_in_select [of ?t] by (auto intro: converse_rtranclp_into_rtranclp)
  next
    case HbSending
    with i a show ?thesis by (simp add: hb_inv_def)
  next
    case HbEnded
    with i have "hb_closer s = CloserCalling \<or> hb_closer s = CloserDone" by (simp add: hb_inv_def)
    then show ?thesis using closeCalls [of s] by (auto intro!: r_into_rtranclp)
  qed
  show "hb_loop s' = HbSending" "hb_closer s' \<noteq> CloserDone" if "hb_loop s = HbSending" "hb_step\<^sup>*\<^sup>* s s'" for s'
    using sending_stuck [OF that(2,1)] i that(1) by (cases "hb_closer s"; force simp: hb_inv_def)+
  let ?s1 = "hb_init\<lparr>hb_alive := False\<rparr>" let ?s2 = "?s1\<lparr>hb_loop := HbCalling\<rparr>" let ?s3 = "?s2\<lparr>hb_loop := HbSending\<rparr>"
  let ?s4 = "?s3\<lparr>hb_closer := CloserSending\<rparr>"
  have "hb_step hb_init ?s1" "hb_step ?s1 ?s2" "hb_step ?s2 ?s3" "hb_step ?s3 ?s4"
    by (rule hb_step.intros; simp add: hb_init_def)+
  then have "hb_step\<^sup>*\<^sup>* hb_init ?s4" by (meson converse_rtranclp_into_rtranclp r_into_rtranclp)
  then show "\<exists>s'. hb_step\<^sup>*\<^sup>* hb_init s' \<and> hb_loop s' = HbSending \<and> hb_closer s' = CloserSending"
    by (rule exI [where x = ?s4, OF conjI]) simp
qed

theorem lost_plugin_hangs_Close_witness:
  "\<exists>s'. hb_step\<^sup>*\<^sup>* hb_init s' \<and> hb_closer s' = CloserDone"
  using lost_plugin_hangs_Close [of hb_init] by (simp add: hb_init_def)

end
