(* ===== verification/Spec2Isabelle.thy ===== *)
theory Spec2Isabelle
  imports Serial_Lock Generic_Driver Podman_Machine Test_Doubles Ssh_Stream Vbox_Hosts Qemu Cert_Tls Ssh_Keys Examples Provision_Run Stdout_Capture Heartbeat
begin

text \<open>
  A verification library for \<open>p2box\<close>, a program that creates and manages virtual machines that run Podman.

  \<^bold>\<open>The program.\<close>  A command (\<open>commands/\<close>) loads machines through a client (\<open>libmachine/libmachine.go\<close>) from a store of
  JSON files (\<open>libmachine/persist\<close>).  A loaded machine is a host (\<open>libmachine/host\<close>) with a driver (\<open>libmachine/drivers\<close>,
  \<open>drivers/\<close>).  The driver lives in a process of its own and is reached over RPC (\<open>libmachine/drivers/rpc\<close>); for VirtualBox the
  client puts a lock around it.  Creating a machine makes certificates (\<open>libmachine/cert\<close>), downloads a boot image
  (\<open>libmachine/mcnutils/b2p.go\<close>), lets the driver make and start the machine and then sets the engine up over SSH
  (\<open>libmachine/ssh\<close>, \<open>libmachine/provision\<close>).

  \<^bold>\<open>The model.\<close>  A function of the source is a program \<open>'w \<Rightarrow> (error, value) result \<times> 'w\<close> over a world \<open>'w\<close>
  (\<open>Go_Prelude\<close>): its result is a value, an error, a panic, or \<open>Blocked\<close> when the call never returns.  \<open>Os_Model\<close> has the world of
  the operating system: files with permissions, the environment, the output, and a list that says which of the next file calls
  fail, so that a theorem about all worlds covers every pattern of failures.  Structs that methods change are reached through a
  lens into the world.  Loops with a counter are recursive functions; loops without a bound are \<open>while_option\<close>, and their result
  is \<open>Blocked\<close> when the loop does not end.

  \<^bold>\<open>The theories.\<close>
  \<^item> \<open>Go_Prelude\<close>, \<open>Core_Types\<close>, \<open>Os_Model\<close>: results, the packages \<open>strings\<close>, \<open>strconv\<close> and \<open>path/filepath\<close>, the errors, states and flags
    of the program, and the operating system.
  \<^item> \<open>Paths\<close>, \<open>Mcn_Utils\<close>, \<open>B2p\<close> (\<open>libmachine/mcnutils\<close>): cleaned paths, waiting, copying, identifiers, the cache of boot images
    and the disk archive.  A download is all or nothing; waiting ends after its 60 polls.
  \<^item> \<open>Ssh_Client\<close>, \<open>Ssh_Stream\<close>, \<open>Ssh_Keys\<close> (\<open>libmachine/ssh\<close>): the two SSH clients and their arguments, streamed commands with the
    handles they hold, key files, the generation of keys and their fingerprints.
  \<^item> \<open>Cert\<close>, \<open>Cert_Tls\<close> (\<open>libmachine/cert\<close>): certificates, their bootstrap, and the check of the certificate of a machine.
  \<^item> \<open>Provision\<close>, \<open>Provision_Generic\<close> (\<open>libmachine/provision\<close>): the reading of \<open>os-release\<close>, the provisioners and the ones they embed.
    \<open>Provision_Run\<close>: the commands that reach a machine that is provisioned or created, in their order, over a log of what is sent.
  \<^item> \<open>Drivers\<close>, \<open>Generic_Driver\<close> (\<open>libmachine/drivers\<close>, \<open>drivers/none\<close>, \<open>errdriver\<close>, \<open>fakedriver\<close>, \<open>generic\<close>): the driver interface as a record of
    programs, the base driver, the lock wrapper, the small drivers.  \<open>Serial_Lock\<close> (\<open>drivers/serial.go\<close>): concurrent callers of
    the wrapper as a step relation; their calls do not overlap.
  \<^item> \<open>Host\<close>, \<open>Persist\<close>, \<open>Libmachine\<close>: the life cycle of a host and its migration, the store as a refinement of a map from names to
    configurations (locale \<open>machine_store\<close>), the client and the creation of a machine.
  \<^item> \<open>Rpc\<close> (\<open>drivers/rpc\<close>, \<open>drivers/plugin\<close>): both ends of the plugin boundary, the negotiation, the list of opened drivers.
    \<open>Heartbeat\<close>: the goroutine of a connection and the closing of the driver, as a step relation over a channel without a buffer.
  \<^item> \<open>Local_Plugin\<close> (\<open>drivers/plugin/localbinary\<close>): the process of a plugin, its address, and the goroutines that copy its output to the log, as
    a step relation.
  \<^item> \<open>Fan_Out\<close>, \<open>Commands\<close> (\<open>commands/commands.go\<close> and a file per command): goroutines as resumptions that interleave their steps,
    and the commands; a run of the goroutines ends, and is the same as running the machines one after the other in some order.
  \<^item> \<open>Lifecycle\<close>: sequences of host operations, through the lock and the plugin boundary, as runs of an automaton.
  \<^item> \<open>Log\<close> (\<open>libmachine/log\<close>): the logger with its levels, streams and history, and the removal of secrets from the history.
  \<^item> \<open>Cli\<close> (\<open>commands/commands.go\<close>, \<open>create.go\<close>), \<open>Podman_Machine\<close> (\<open>cmd/podman-machine\<close>, \<open>drivers/plugin/register_driver.go\<close>): the table of
    commands and flags, the two passes of \<open>create\<close>, the process of a command and that of a plugin.
  \<^item> \<open>Test_Doubles\<close>, \<open>Stdout_Capture\<close>, \<open>Examples\<close>: the doubles that the packages offer to tests, the capture of the standard output through a
    pipe as a step relation, and the example program of the library.
  \<^item> \<open>Ls\<close>, \<open>Env\<close>, \<open>Scp\<close>: the commands \<open>ls\<close>, \<open>active\<close>, \<open>env\<close>, \<open>scp\<close> and \<open>mount\<close> and the detection of the shell.
  \<^item> \<open>Net\<close>: the package \<open>net\<close> as far as it is used (addresses, masks and hardware addresses as bytes).  \<open>Vbox_Manage\<close>, \<open>Vbox_Net\<close>,
    \<open>Virtualbox\<close>, \<open>Vbox_Hosts\<close> (\<open>drivers/virtualbox\<close>): running \<open>VBoxManage\<close> and reading its output, host-only networks and DHCP servers,
    the driver, and where each operating system finds the program.
  \<^item> \<open>Qemu\<close> (\<open>drivers/qemu\<close>): the driver, its ports, its command line and the monitor protocol.
  \<^item> This theory: properties that span components.

  \<^bold>\<open>Interfaces.\<close>  The locale \<open>lens_laws\<close> states what a struct field in the world obeys, \<open>lock_in_world\<close> extends it for a mutex,
  \<open>driver_lifecycle\<close> what \<open>host.go\<close> relies on of a driver, \<open>observed_driver\<close> that a driver tells the truth about the state, kept by the
  RPC client and by the lock, \<open>observed_machine\<close> the same under a host, \<open>machine_store\<close> what the client relies on of a store,
  \<open>machine_logger\<close> what the program relies on of its logger, and \<open>quiet_world\<close> which conditions on the world reading a file keeps.
  Each is interpreted on the definitions of the model, and the properties use the facts of the interpretations.

  \<^bold>\<open>Bounds.\<close>  They are those of the code: 60 polls with 3 seconds between (\<open>WaitFor\<close>), 5 runs of \<open>VBoxManage\<close>, 10 polls for a new
  adapter, 5 draws for an address, 11 tries for a port, 5 polls for the address of a machine, 10 for a plugin address.  There is
  no fuel of the model's own.

  \<^bold>\<open>Parameters.\<close>  What lies outside the repository or is the work of another program is an argument: running programs, sockets,
  the SSH transport, HTTP, cryptography, the encoding of JSON and of tar archives, text templates, random numbers, the text of
  IPv6 addresses, the orders in which maps are ranged over and goroutines deliver.

  \<^bold>\<open>Not modelled.\<close>  The log lines inside the operations, which nothing reads back (the logger itself is modelled); the templates of the
  help texts; the raw mode of the interactive terminal; interfaces and structs without code of their own.  In \<open>Rpc\<close> the heartbeats of a
  connection always succeed; \<open>Heartbeat\<close> has the ones that fail.
\<close>

section \<open>Options of the drivers\<close>

text \<open>Two readers of options that agree on a flag at the type of its declaration.\<close>

fun sameOption :: "driverOptions \<Rightarrow> driverOptions \<Rightarrow> mcnflag \<Rightarrow> bool" where
  "sameOption a b (StringFlag n u e v) \<longleftrightarrow> optString a n = optString b n"
| "sameOption a b (StringSliceFlag n u e vs) \<longleftrightarrow> optStringSlice a n = optStringSlice b n"
| "sameOption a b (IntFlag n u e i) \<longleftrightarrow> optInt a n = optInt b n"
| "sameOption a b (BoolFlag n u e) \<longleftrightarrow> optBool a n = optBool b n"


definition demoOptions :: "string \<Rightarrow> driverOptions" where
  "demoOptions other = \<lparr>optString = (\<lambda>n. if n = ''engine-install-url'' then other else ''x''), optStringSlice = (\<lambda>n. []),
     optInt = (\<lambda>n. 1), optBool = (\<lambda>n. False)\<rparr>"


section \<open>Plugins and the end of a command\<close>


definition oldPlugin :: "(conn list) os_world_scheme plugin_env" where
  "oldPlugin = demoPlugin (errDriver ''x'') 2"

definition oldPluginClient :: "((conn list) os_world_scheme, unit) client" where
  "oldPluginClient = (demoClient (errDriver ''x''))\<lparr>newRPCClientDriver := NewRPCClientDriver oldPlugin moreL,
     cl_codec := demoCodec\<lparr>unmarshalHost := (\<lambda>s h. Inr (h\<lparr>h_DriverName := ''qemu''\<rparr>, s))\<rparr>\<rparr>"

definition oldPluginWorld :: "(conn list) os_world_scheme" where
  "oldPluginWorld = plainWorld [(''/s'', Dir), (''/s/machines'', Dir), (''/s/machines/m'', Dir), (''/s/machines/m/config.json'', File 384 ''{}'')] []"


end
